(* ===== verification/Prelude.thy ===== *)
theory Prelude
  imports Main "HOL-Library.Sublist" "HOL-Library.Char_ord" "HOL-Library.List_Lexorder"
    "HOL-Library.AList"
begin

text \<open>
  What every component shares: the collections of rewrite rules the component proofs use, the
  parts of Go's standard library the sources call (\<open>strings\<close>, \<open>strconv\<close>, maps, \<open>int64\<close>
  arithmetic) and the interface of an idempotent operation.

  A Go \<open>string\<close> is a sequence of bytes and is modelled as a list of \<open>char\<close>.
  \<open>strings.TrimSpace\<close> is modelled on bytes with every UTF-8 encoded white-space rune that
  \<open>unicode.IsSpace\<close> knows. \<open>strings.ToLower\<close> and \<open>strings.EqualFold\<close> fold the ASCII letters
  and leave every other byte as it is: they are exact on ASCII text.

  A Go map is an association list; its order is one order in which \<open>range\<close> may visit the
  entries, so a lemma about all lists holds for every iteration order. A nil map is \<open>[]\<close>, as
  is an empty one.
\<close>

named_theorems trim_simps \<open>facts about trimmed and case-folded strings\<close>
named_theorems gomap_simps \<open>facts about Go maps as association lists\<close>
named_theorems valid_simps \<open>a validator reports nothing iff every check passes\<close>

section \<open>Early returns\<close>

text \<open>
  A Go function that returns \<open>error\<close> is a function into \<open>'e option\<close>: \<open>None\<close> is \<open>nil\<close>. A chain
  of \<open>if cond { return err }\<close> is the first error of a list of checks, and a loop whose body
  may return an error is the first error of the bodies.
\<close>

definition check :: "bool \<Rightarrow> 'e \<Rightarrow> 'e option" where
  "check b e = (if b then Some e else None)"

fun first_error :: "'e option list \<Rightarrow> 'e option" where
  "first_error [] = None"
| "first_error (None # es) = first_error es"
| "first_error (Some e # es) = Some e"

lemma check_None [valid_simps]: "check b e = None \<longleftrightarrow> \<not> b"
  by (simp add: check_def)

lemma first_error_None [valid_simps]: "first_error es = None \<longleftrightarrow> (\<forall>e \<in> set es. e = None)"
  by (induction es rule: first_error.induct) auto

lemma first_error_Cons_None [valid_simps]:
  "first_error (e # es) = None \<longleftrightarrow> e = None \<and> first_error es = None"
  by (cases e) auto

lemma first_error_append_None:
  "first_error (xs @ ys) = None \<longleftrightarrow> first_error xs = None \<and> first_error ys = None"
  by (auto simp: first_error_None)

lemma first_error_map_None:
  "first_error (map f xs) = None \<longleftrightarrow> (\<forall>x \<in> set xs. f x = None)"
  by (simp add: first_error_None)

lemma first_error_Some: "first_error es = Some e \<Longrightarrow> Some e \<in> set es"
  by (induction es rule: first_error.induct) auto

lemma error_case_Inr: "(case x of None \<Rightarrow> Inr v | Some e \<Rightarrow> Inl (f e)) = Inr w \<longleftrightarrow> x = None \<and> w = v"
  by (auto split: option.split)

text \<open>A validation loop that also looks at the items it has accepted so far.\<close>

fun check_all :: "('a list \<Rightarrow> 'a \<Rightarrow> 'e option) \<Rightarrow> 'a list \<Rightarrow> 'a list \<Rightarrow> 'e option" where
  "check_all f seen [] = None"
| "check_all f seen (x # xs) =
     (case f seen x of Some e \<Rightarrow> Some e | None \<Rightarrow> check_all f (seen @ [x]) xs)"

lemma check_all_None:
  "check_all f seen xs = None \<longleftrightarrow> (\<forall>pre x post. xs = pre @ x # post \<longrightarrow> f (seen @ pre) x = None)"
proof (induction xs arbitrary: seen)
  case (Cons y ys)
  show ?case
    by (simp add: Cons.IH split: option.split) (force simp: Cons_eq_append_conv)
qed simp

lemma check_all_distinct:
  assumes "check_all f seen xs = None"
    and "\<And>s x. f s x = None \<Longrightarrow> key x \<notin> key ` set s"
    and "distinct (map key seen)"
  shows "distinct (map key (seen @ xs))"
  using assms(1,3)
proof (induction xs arbitrary: seen)
  case (Cons x xs)
  then have "f seen x = None" "check_all f (seen @ [x]) xs = None"
    by (auto split: option.splits)
  then show ?case
    using assms(2) [of seen x] Cons.IH [of "seen @ [x]"] Cons.prems by simp
qed simp

lemma check_all_iff:
  assumes "\<And>s x. f s x = None \<longleftrightarrow> P x \<and> k x \<notin> k ` set s \<and> l x \<notin> l ` set s"
  shows "check_all f [] xs = None \<longleftrightarrow> (\<forall>x \<in> set xs. P x) \<and> distinct (map k xs) \<and> distinct (map l xs)"
proof -
  have "check_all f seen xs = None \<longleftrightarrow> (\<forall>x \<in> set xs. P x \<and> k x \<notin> k ` set seen \<and> l x \<notin> l ` set seen)
      \<and> distinct (map k xs) \<and> distinct (map l xs)" for seen
  proof (induction xs arbitrary: seen)
    case (Cons a xs)
    have step: "check_all f seen (a # xs) = None \<longleftrightarrow> f seen a = None \<and> check_all f (seen @ [a]) xs = None"
      by (simp split: option.split)
    have image: "k ` set (seen @ [a]) = insert (k a) (k ` set seen)"
      "l ` set (seen @ [a]) = insert (l a) (l ` set seen)" by auto
    have fresh: "distinct (map k (a # xs)) \<longleftrightarrow> (\<forall>x \<in> set xs. k x \<noteq> k a) \<and> distinct (map k xs)"
      "distinct (map l (a # xs)) \<longleftrightarrow> (\<forall>x \<in> set xs. l x \<noteq> l a) \<and> distinct (map l xs)"
      by (auto simp: image_iff)
    show ?case
      unfolding step fresh Cons.IH image assms by auto
  qed simp
  then show ?thesis by simp
qed

lemma check_all_each:
  "check_all f seen xs = None \<Longrightarrow> x \<in> set xs \<Longrightarrow> \<exists>s. f s x = None"
  by (induction xs arbitrary: seen) (auto split: option.splits)

section \<open>Idempotent operations\<close>

text \<open>
  Normalisation is built from operations that change nothing when applied again. Their laws
  are stated once; each operation of the model that has them is an interpretation.
\<close>

locale idempotent_op =
  fixes norm :: "'a \<Rightarrow> 'a"
  assumes idem: "norm (norm x) = norm x"
begin

lemma fixed_iff_range: "norm x = x \<longleftrightarrow> x \<in> range norm"
  by (metis idem rangeE rangeI)

lemma map_idem: "map norm (map norm xs) = map norm xs"
  by (simp add: idem)

lemma fixed_imp: "x = norm y \<Longrightarrow> norm x = x"
  by (simp add: idem)

end

section \<open>White space\<close>

text \<open>The UTF-8 encodings of the runes for which \<open>unicode.IsSpace\<close> holds.\<close>

definition go_whitespace :: "string list" where
  "go_whitespace =
     [[CHR 0x20], [CHR 0x09], [CHR 0x0A], [CHR 0x0B], [CHR 0x0C], [CHR 0x0D],
      [CHR 0xC2, CHR 0x85], [CHR 0xC2, CHR 0xA0], [CHR 0xE1, CHR 0x9A, CHR 0x80],
      [CHR 0xE2, CHR 0x80, CHR 0x80], [CHR 0xE2, CHR 0x80, CHR 0x81],
      [CHR 0xE2, CHR 0x80, CHR 0x82], [CHR 0xE2, CHR 0x80, CHR 0x83],
      [CHR 0xE2, CHR 0x80, CHR 0x84], [CHR 0xE2, CHR 0x80, CHR 0x85],
      [CHR 0xE2, CHR 0x80, CHR 0x86], [CHR 0xE2, CHR 0x80, CHR 0x87],
      [CHR 0xE2, CHR 0x80, CHR 0x88], [CHR 0xE2, CHR 0x80, CHR 0x89],
      [CHR 0xE2, CHR 0x80, CHR 0x8A], [CHR 0xE2, CHR 0x80, CHR 0xA8],
      [CHR 0xE2, CHR 0x80, CHR 0xA9], [CHR 0xE2, CHR 0x80, CHR 0xAF],
      [CHR 0xE2, CHR 0x81, CHR 0x9F], [CHR 0xE3, CHR 0x80, CHR 0x80]]"

function strip_runes :: "string list \<Rightarrow> string \<Rightarrow> string" where
  "strip_runes ws s =
     (case find (\<lambda>w. w \<noteq> [] \<and> prefix w s) ws of
        None \<Rightarrow> s
      | Some w \<Rightarrow> strip_runes ws (drop (length w) s))"
  by pat_completeness auto
termination
  by (relation "measure (\<lambda>(ws, s). length s)") (auto simp: find_Some_iff prefix_def)

declare strip_runes.simps [simp del]

definition trim_left :: "string \<Rightarrow> string" where
  "trim_left s = strip_runes go_whitespace s"

definition trim_right :: "string \<Rightarrow> string" where
  "trim_right s = rev (strip_runes (map rev go_whitespace) (rev s))"

definition trim_space :: "string \<Rightarrow> string" where
  "trim_space s = trim_right (trim_left s)"

definition is_blank :: "string \<Rightarrow> bool" where
  "is_blank s \<longleftrightarrow> trim_space s = []"

lemma strip_runes_fix: "(\<And>w. w \<in> set ws \<Longrightarrow> w \<noteq> [] \<Longrightarrow> \<not> prefix w s) \<Longrightarrow> strip_runes ws s = s"
  by (subst strip_runes.simps) (auto simp: find_Some_iff split: option.split)

lemma strip_runes_no_prefix:
  "w \<in> set ws \<Longrightarrow> w \<noteq> [] \<Longrightarrow> \<not> prefix w (strip_runes ws s)"
proof (induction ws s rule: strip_runes.induct)
  case (1 ws s)
  show ?case
  proof (cases "find (\<lambda>w. w \<noteq> [] \<and> prefix w s) ws")
    case None
    then have "strip_runes ws s = s" by (subst strip_runes.simps) simp
    with None "1.prems" show ?thesis by (auto simp: find_None_iff)
  next
    case (Some v)
    with "1.IH" "1.prems" show ?thesis
      by (subst strip_runes.simps) simp
  qed
qed

lemma strip_runes_suffix: "suffix (strip_runes ws s) s"
proof (induction ws s rule: strip_runes.induct)
  case (1 ws s)
  show ?case
  proof (cases "find (\<lambda>w. w \<noteq> [] \<and> prefix w s) ws")
    case None
    then show ?thesis by (subst strip_runes.simps) simp
  next
    case (Some v)
    with "1.IH" have "suffix (strip_runes ws (drop (length v) s)) (drop (length v) s)" by simp
    then have "suffix (strip_runes ws (drop (length v) s)) s"
      using suffix_drop suffix_order.trans by blast
    with Some show ?thesis by (subst strip_runes.simps) simp
  qed
qed

lemma strip_runes_idem: "strip_runes ws (strip_runes ws s) = strip_runes ws s"
  by (rule strip_runes_fix) (rule strip_runes_no_prefix)

lemma trim_right_prefix: "prefix (trim_right s) s"
  unfolding trim_right_def using strip_runes_suffix [of _ "rev s"]
  by (metis rev_rev_ident suffix_to_prefix)

lemma trim_left_right: "trim_left (trim_right (trim_left s)) = trim_right (trim_left s)"
  unfolding trim_left_def
proof (rule strip_runes_fix)
  fix w assume w: "w \<in> set go_whitespace" "w \<noteq> []"
  show "\<not> prefix w (trim_right (strip_runes go_whitespace s))"
    using strip_runes_no_prefix [OF w] trim_right_prefix prefix_order.trans by blast
qed

lemma trim_right_idem: "trim_right (trim_right s) = trim_right s"
  by (simp add: trim_right_def strip_runes_idem)

lemma trim_right_space [simp]: "trim_right (trim_space s) = trim_space s"
  by (simp add: trim_space_def trim_right_idem)

lemma trim_space_idem [simp, trim_simps]: "trim_space (trim_space s) = trim_space s"
  by (simp add: trim_space_def trim_left_right trim_right_idem)

interpretation trim: idempotent_op trim_space
  by unfold_locales (rule trim_space_idem)

lemma trim_space_Nil [simp, trim_simps]: "trim_space [] = []"
proof -
  have "strip_runes ws [] = []" for ws
    by (rule strip_runes_fix) auto
  then show ?thesis by (simp add: trim_space_def trim_left_def trim_right_def)
qed

text \<open>Bytes that occur in no white-space rune stop the trimming at either end.\<close>

definition space_byte :: "char \<Rightarrow> bool" where
  "space_byte c \<longleftrightarrow> c \<in> set (concat go_whitespace)"

lemma strip_runes_stop:
  "(\<And>w. w \<in> set ws \<Longrightarrow> c \<notin> set w) \<Longrightarrow> strip_runes ws (c # s) = c # s"
  by (rule strip_runes_fix) (metis Cons_prefix_Cons list.set_intros(1) neq_Nil_conv)

lemma strip_runes_snoc_stop:
  assumes "\<And>w. w \<in> set ws \<Longrightarrow> c \<notin> set w"
  shows "strip_runes ws (s @ [c]) = strip_runes ws s @ [c]"
proof (induction "length s" arbitrary: s rule: less_induct)
  case less
  have pre: "prefix w (s @ [c]) = prefix w s" if "w \<in> set ws" for w
    using assms [OF that] by (auto simp: prefix_snoc)
  then have eq: "find (\<lambda>w. w \<noteq> [] \<and> prefix w (s @ [c])) ws = find (\<lambda>w. w \<noteq> [] \<and> prefix w s) ws"
    by (intro find_cong) auto
  show ?case
  proof (cases "find (\<lambda>w. w \<noteq> [] \<and> prefix w s) ws")
    case None
    then show ?thesis
      by (simp add: strip_runes.simps [of ws "s @ [c]"] strip_runes.simps [of ws s] eq del: prefix_snoc)
  next
    case (Some v)
    then have v: "v \<noteq> []" "prefix v s" by (auto simp: find_Some_iff)
    then have len: "length (drop (length v) s) < length s" "length v \<le> length s"
      by (auto simp: prefix_def)
    from less [OF len(1)] Some len(2) show ?thesis
      by (simp add: strip_runes.simps [of ws "s @ [c]"] strip_runes.simps [of ws s] eq del: prefix_snoc)
  qed
qed

lemma space_byte_rev: "\<not> space_byte c \<Longrightarrow> w \<in> set (map rev go_whitespace) \<Longrightarrow> c \<notin> set w"
  by (auto simp: space_byte_def)

lemma trim_left_stop: "\<not> space_byte c \<Longrightarrow> trim_left (c # s) = c # s"
  unfolding trim_left_def by (rule strip_runes_stop) (auto simp: space_byte_def)

lemma trim_right_Cons: "\<not> space_byte c \<Longrightarrow> trim_right (c # s) = c # trim_right s"
  unfolding trim_right_def
  using strip_runes_snoc_stop [of "map rev go_whitespace" c "rev s"] space_byte_rev by fastforce

lemma trim_right_stop: "\<not> space_byte c \<Longrightarrow> trim_right (s @ [c]) = s @ [c]"
  unfolding trim_right_def
  using strip_runes_stop [of "map rev go_whitespace" c "rev s"] space_byte_rev by fastforce

lemma trim_space_Cons: "\<not> space_byte c \<Longrightarrow> trim_space (c # s) = c # trim_right s"
  by (simp add: trim_space_def trim_left_stop trim_right_Cons)

lemma trim_space_ends:
  assumes "s \<noteq> []" "\<not> space_byte (hd s)" "\<not> space_byte (last s)"
  shows "trim_space s = s"
proof -
  from assms obtain c t where s: "s = c # t" "\<not> space_byte c" by (cases s) auto
  then have "trim_left s = s" by (simp add: trim_left_stop)
  moreover have "trim_right s = s"
    using trim_right_stop [OF assms(3), of "butlast s"] assms(1) by simp
  ultimately show ?thesis by (simp add: trim_space_def)
qed

text \<open>An executable test that spares most characters the search through the runes.\<close>

fun plain_char :: "char \<Rightarrow> bool" where
  "plain_char (Char b0 b1 b2 b3 b4 b5 b6 b7) = (\<not> b7 \<and> (b6 \<or> (b5 \<and> (b0 \<or> b1 \<or> b2 \<or> b3 \<or> b4))))"

lemma plain_char_not_space: "plain_char c \<Longrightarrow> \<not> space_byte c"
  by (cases c) (auto simp: space_byte_def go_whitespace_def)

lemma trim_space_code [code]:
  "trim_space s = (case s of [] \<Rightarrow> [] | c # _ \<Rightarrow>
     if plain_char c \<and> plain_char (last s) then s else trim_right (trim_left s))"
  using trim_space_ends [of s] plain_char_not_space
  by (auto split: list.split simp: trim_space_def [symmetric])

section \<open>Case folding\<close>

definition lower_char :: "char \<Rightarrow> char" where
  "lower_char c = (let n = of_char c :: nat in if 65 \<le> n \<and> n \<le> 90 then char_of (n + 32) else c)"

definition to_lower :: "string \<Rightarrow> string" where
  "to_lower s = map lower_char s"

definition equal_fold :: "string \<Rightarrow> string \<Rightarrow> bool" where
  "equal_fold a b \<longleftrightarrow> to_lower a = to_lower b"

lemma lower_char_idem [simp]: "lower_char (lower_char c) = lower_char c"
  by (auto simp: lower_char_def Let_def)

lemma to_lower_idem [simp, trim_simps]: "to_lower (to_lower s) = to_lower s"
  by (simp add: to_lower_def)

lemma to_lower_Nil [simp]: "to_lower s = [] \<longleftrightarrow> s = []" "to_lower [] = []"
  by (simp_all add: to_lower_def)

interpretation lower: idempotent_op to_lower
  by unfold_locales (rule to_lower_idem)

text \<open>
  Upper-case letters and their images occur in no white-space rune, so folding commutes with
  trimming.
\<close>

lemma space_byte_range: "space_byte c \<Longrightarrow> (of_char c :: nat) < 65 \<or> 122 < (of_char c :: nat)"
  unfolding space_byte_def go_whitespace_def by (simp, elim disjE) simp_all

lemma space_byte_outer: "space_byte c \<Longrightarrow> (of_char c :: nat) \<le> 32 \<or> 128 \<le> (of_char c :: nat)"
  unfolding space_byte_def go_whitespace_def by (simp, elim disjE) simp_all

lemma space_byte_lower: "space_byte (lower_char c) \<longleftrightarrow> space_byte c"
proof (cases "65 \<le> (of_char c :: nat) \<and> (of_char c :: nat) \<le> 90")
  case True
  then have "lower_char c = char_of (of_char c + 32 :: nat)" by (simp add: lower_char_def Let_def)
  then have "(of_char (lower_char c) :: nat) = of_char c + 32" using True by simp
  with True space_byte_range [of c] space_byte_range [of "lower_char c"] show ?thesis by auto
next
  case False
  then have "lower_char c = c" by (auto simp: lower_char_def Let_def)
  then show ?thesis by simp
qed

lemma lower_char_space_byte: "space_byte c \<Longrightarrow> lower_char c = c"
  using space_byte_range [of c] by (auto simp: lower_char_def Let_def)

lemma prefix_lower:
  assumes "\<And>c. c \<in> set w \<Longrightarrow> space_byte c"
  shows "prefix w (map lower_char s) = prefix w s"
  using assms
proof (induction w arbitrary: s)
  case (Cons c w)
  have c: "c = lower_char d \<longleftrightarrow> c = d" for d
    using Cons.prems [of c] lower_char_space_byte space_byte_lower by (metis list.set_intros(1))
  show ?case
    using Cons by (cases s) (auto simp: c)
qed simp

lemma strip_runes_lower:
  assumes "\<And>w c. w \<in> set ws \<Longrightarrow> c \<in> set w \<Longrightarrow> space_byte c"
  shows "strip_runes ws (map lower_char s) = map lower_char (strip_runes ws s)"
proof (induction "length s" arbitrary: s rule: less_induct)
  case less
  have eq: "find (\<lambda>w. w \<noteq> [] \<and> prefix w (map lower_char s)) ws
      = find (\<lambda>w. w \<noteq> [] \<and> prefix w s) ws"
    using prefix_lower assms by (intro find_cong) auto
  show ?case
  proof (cases "find (\<lambda>w. w \<noteq> [] \<and> prefix w s) ws")
    case None
    with eq show ?thesis by (subst (1 2) strip_runes.simps) simp
  next
    case (Some v)
    then have "length (drop (length v) s) < length s" by (auto simp: find_Some_iff prefix_def)
    from less [OF this] Some eq show ?thesis
      by (subst (1 2) strip_runes.simps) (simp add: drop_map)
  qed
qed

lemma trim_space_lower [trim_simps]: "trim_space (to_lower s) = to_lower (trim_space s)"
proof -
  have "strip_runes go_whitespace (map lower_char s) = map lower_char (strip_runes go_whitespace s)" for s
    by (rule strip_runes_lower) (auto simp: space_byte_def)
  moreover have "strip_runes (map rev go_whitespace) (map lower_char s)
      = map lower_char (strip_runes (map rev go_whitespace) s)" for s
    by (rule strip_runes_lower) (auto simp: space_byte_def)
  ultimately show ?thesis
    by (simp add: trim_space_def trim_left_def trim_right_def to_lower_def rev_map)
qed

lemma trim_lower_trim [simp, trim_simps]:
  "trim_space (to_lower (trim_space s)) = to_lower (trim_space s)"
  by (simp add: trim_space_lower)

text \<open>
  A loop over runes sees one byte of each rune of a UTF-8 text that is no continuation byte.
\<close>

definition utf8_continuation :: "char \<Rightarrow> bool" where
  "utf8_continuation c \<longleftrightarrow> 128 \<le> (of_char c :: nat) \<and> (of_char c :: nat) < 192"

section \<open>Prefixes, splitting, cutting\<close>

definition has_prefix :: "string \<Rightarrow> string \<Rightarrow> bool" where
  "has_prefix s p = prefix p s"

fun contains :: "string \<Rightarrow> string \<Rightarrow> bool" where
  "contains [] sub = (sub = [])"
| "contains (c # s) sub = (prefix sub (c # s) \<or> contains s sub)"

definition trim_set :: "char list \<Rightarrow> string \<Rightarrow> string" where
  "trim_set cs s = rev (dropWhile (\<lambda>c. c \<in> set cs) (rev (dropWhile (\<lambda>c. c \<in> set cs) s)))"

definition trim_right_set :: "char list \<Rightarrow> string \<Rightarrow> string" where
  "trim_right_set cs s = rev (dropWhile (\<lambda>c. c \<in> set cs) (rev s))"

text \<open>\<open>strings.Cut\<close> at a one-byte separator: before, after, found.\<close>

definition cut :: "char \<Rightarrow> string \<Rightarrow> string \<times> string \<times> bool" where
  "cut c s = (if c \<in> set s then (takeWhile (\<lambda>d. d \<noteq> c) s, tl (dropWhile (\<lambda>d. d \<noteq> c) s), True)
              else (s, [], False))"

fun split_on :: "char \<Rightarrow> string \<Rightarrow> string list" where
  "split_on c [] = [[]]"
| "split_on c (d # s) =
     (if d = c then [] # split_on c s
      else (case split_on c s of [] \<Rightarrow> [[d]] | w # ws \<Rightarrow> (d # w) # ws))"

text \<open>\<open>strings.SplitN\<close> with \<open>n > 0\<close>: at most \<open>n\<close> pieces, the last one unsplit.\<close>

fun split_n :: "nat \<Rightarrow> char \<Rightarrow> string \<Rightarrow> string list" where
  "split_n 0 c s = []"
| "split_n (Suc 0) c s = [s]"
| "split_n (Suc (Suc n)) c s =
     (case cut c s of (before, after, found) \<Rightarrow>
        if found then before # split_n (Suc n) c after else [s])"

lemma contains_sublist: "contains s sub \<longleftrightarrow> sublist sub s"
  by (induction s sub rule: contains.induct) (auto simp: sublist_Cons_right)

lemma trim_set_hd: "trim_set cs s \<noteq> [] \<Longrightarrow> hd (trim_set cs s) \<notin> set cs"
proof -
  let ?P = "\<lambda>c. c \<in> set cs" and ?d = "dropWhile (\<lambda>c. c \<in> set cs) s"
  assume ne: "trim_set cs s \<noteq> []"
  have "suffix (dropWhile ?P (rev ?d)) (rev ?d)" by (rule suffix_dropWhile)
  then have pre: "prefix (trim_set cs s) ?d"
    unfolding trim_set_def by (metis rev_rev_ident suffix_to_prefix)
  with ne have "?d \<noteq> []" by (auto simp del: dropWhile_eq_Nil_conv)
  moreover from pre ne have "hd (trim_set cs s) = hd ?d" by (auto simp: prefix_def)
  ultimately show ?thesis using hd_dropWhile [of ?P s] by simp
qed

lemma trim_set_last: "trim_set cs s \<noteq> [] \<Longrightarrow> last (trim_set cs s) \<notin> set cs"
  using hd_dropWhile [of "\<lambda>c. c \<in> set cs" "rev (dropWhile (\<lambda>c. c \<in> set cs) s)"]
  by (simp add: trim_set_def last_rev del: dropWhile_eq_Nil_conv)

lemma dropWhile_hd_fix: "(s \<noteq> [] \<Longrightarrow> \<not> P (hd s)) \<Longrightarrow> dropWhile P s = s"
  by (cases s) auto

lemma trim_set_fix:
  "(s \<noteq> [] \<Longrightarrow> hd s \<notin> set cs \<and> last s \<notin> set cs) \<Longrightarrow> trim_set cs s = s"
  by (cases "s = []") (simp_all add: trim_set_def dropWhile_hd_fix hd_rev)

lemma trim_set_idem [simp]: "trim_set cs (trim_set cs s) = trim_set cs s"
  by (rule trim_set_fix) (simp add: trim_set_hd trim_set_last)

lemma set_trim_set: "set (trim_set cs s) \<subseteq> set s"
  by (auto simp: trim_set_def dest!: set_dropWhileD)

section \<open>Decimal numbers\<close>

text \<open>
  Go's \<open>int\<close> and \<open>int64\<close> have 64 bits. Values that are only stored and compared are \<open>int\<close>;
  arithmetic that may leave the range is wrapped by \<open>wrap64\<close>.
\<close>

definition max_int64 :: int where
  "max_int64 = 9223372036854775807"

definition wrap64 :: "int \<Rightarrow> int" where
  "wrap64 x = (x + 9223372036854775808) mod 18446744073709551616 - 9223372036854775808"

definition in_int64 :: "int \<Rightarrow> bool" where
  "in_int64 x \<longleftrightarrow> - 9223372036854775808 \<le> x \<and> x \<le> max_int64"

definition is_digit :: "char \<Rightarrow> bool" where
  "is_digit c \<longleftrightarrow> 48 \<le> (of_char c :: nat) \<and> (of_char c :: nat) \<le> 57"

definition digit_val :: "char \<Rightarrow> int" where
  "digit_val c = int (of_char c) - 48"

definition digit_char :: "nat \<Rightarrow> char" where
  "digit_char d = char_of (48 + d)"

definition digits_val :: "string \<Rightarrow> int" where
  "digits_val s = foldl (\<lambda>a c. 10 * a + digit_val c) 0 s"

fun nat_digits :: "nat \<Rightarrow> string" where
  "nat_digits n = (if n < 10 then [digit_char n] else nat_digits (n div 10) @ [digit_char (n mod 10)])"

declare nat_digits.simps [simp del]

text \<open>\<open>strconv.Itoa\<close>, and \<open>strconv.Atoi\<close> or \<open>strconv.ParseInt(s, 10, 64)\<close>.\<close>

definition itoa :: "int \<Rightarrow> string" where
  "itoa n = (if n < 0 then CHR ''-'' # nat_digits (nat (- n)) else nat_digits (nat n))"

definition split_sign :: "string \<Rightarrow> bool \<times> string" where
  "split_sign s = (case s of [] \<Rightarrow> (False, [])
     | c # t \<Rightarrow> if c = CHR ''-'' then (True, t) else if c = CHR ''+'' then (False, t) else (False, s))"

definition atoi :: "string \<Rightarrow> int option" where
  "atoi s = (case split_sign s of (neg, ds) \<Rightarrow>
     if ds = [] \<or> \<not> list_all is_digit ds then None
     else let n = (if neg then - digits_val ds else digits_val ds)
          in if in_int64 n then Some n else None)"

lemma in_int64_0 [simp]: "in_int64 0"
  by (simp add: in_int64_def max_int64_def)

lemma wrap64_id: "in_int64 x \<Longrightarrow> wrap64 x = x"
  by (simp add: wrap64_def in_int64_def max_int64_def)

lemma in_int64_wrap64 [simp]: "in_int64 (wrap64 x)"
  by (simp add: wrap64_def in_int64_def max_int64_def)

lemma digits_val_snoc: "digits_val (s @ [c]) = 10 * digits_val s + digit_val c"
  by (simp add: digits_val_def)

lemma is_digit_char: "d < 10 \<Longrightarrow> is_digit (digit_char d)"
  by (simp add: is_digit_def digit_char_def)

lemma digit_val_char: "d < 10 \<Longrightarrow> digit_val (digit_char d) = int d"
  by (simp add: digit_val_def digit_char_def)

lemma nat_digits_ne [simp]: "nat_digits n \<noteq> []"
  by (subst nat_digits.simps) simp

lemma nat_digits_digits: "list_all is_digit (nat_digits n)"
  by (induction n rule: nat_digits.induct) (subst nat_digits.simps, simp add: is_digit_char)

lemma digits_val_nat_digits: "digits_val (nat_digits n) = int n"
proof (induction n rule: nat_digits.induct)
  case (1 n)
  show ?case
  proof (cases "n < 10")
    case True
    then show ?thesis by (subst nat_digits.simps) (simp add: digits_val_def digit_val_char)
  next
    case False
    have "10 * (n div 10) + n mod 10 = n" by simp
    then have "10 * int (n div 10) + int (n mod 10) = int n"
      by (metis of_nat_add of_nat_mult of_nat_numeral)
    then show ?thesis
      using False 1 by (subst nat_digits.simps) (simp add: digits_val_snoc digit_val_char)
  qed
qed

lemma is_digit_not_sign: "is_digit c \<Longrightarrow> c \<noteq> CHR ''-'' \<and> c \<noteq> CHR ''+''"
  by (auto simp: is_digit_def)

lemma split_sign_digits: "list_all is_digit s \<Longrightarrow> split_sign s = (False, s)"
  by (cases s) (auto simp: split_sign_def is_digit_not_sign)

lemma atoi_itoa: "in_int64 n \<Longrightarrow> atoi (itoa n) = Some n"
  by (simp add: atoi_def itoa_def nat_digits_digits split_sign_digits digits_val_nat_digits)
     (simp add: split_sign_def nat_digits_digits digits_val_nat_digits)

lemma atoi_range: "atoi s = Some n \<Longrightarrow> in_int64 n"
  by (auto simp: atoi_def Let_def split: prod.splits if_splits)

lemma atoi_Nil [simp]: "atoi [] = None"
  by (simp add: atoi_def split_sign_def)

lemma digit_val_nonneg: "is_digit c \<Longrightarrow> 0 \<le> digit_val c"
  by (auto simp: is_digit_def digit_val_def)

lemma digits_val_nonneg: "list_all is_digit s \<Longrightarrow> 0 \<le> digits_val s"
  by (induction s rule: rev_induct) (auto simp: digits_val_snoc digit_val_nonneg, simp add: digits_val_def)

lemma itoa_ne [simp]: "itoa n \<noteq> []"
  by (simp add: itoa_def)

lemma itoa_inj: "itoa a = itoa b \<Longrightarrow> a = b"
proof -
  have sgn: "nat_digits m \<noteq> CHR ''-'' # t" for m t
    using nat_digits_digits [of m] is_digit_not_sign by (metis list.pred_inject(2))
  assume eq: "itoa a = itoa b"
  show "a = b"
  proof (cases "a < 0 \<longleftrightarrow> b < 0")
    case True
    with eq have "(a < 0 \<and> nat_digits (nat (- a)) = nat_digits (nat (- b)))
        \<or> (\<not> a < 0 \<and> nat_digits (nat a) = nat_digits (nat b))"
      by (auto simp: itoa_def split: if_splits)
    with True show ?thesis
      using digits_val_nat_digits by (smt (verit) int_nat_eq)
  next
    case False
    with eq show ?thesis
      using sgn by (auto simp: itoa_def split: if_splits) metis+
  qed
qed

text \<open>Evaluation of \<open>itoa\<close> in binary integers.\<close>

function int_digits :: "int \<Rightarrow> string" where
  "int_digits n = (if n < 10 then [digit_char (nat n)] else int_digits (n div 10) @ [digit_char (nat (n mod 10))])"
  by pat_completeness auto
termination by (relation "measure nat") auto

declare int_digits.simps [simp del]

lemma int_digits: "0 \<le> n \<Longrightarrow> nat_digits (nat n) = int_digits n"
proof (induction n rule: int_digits.induct)
  case (1 n)
  then show ?case
    by (subst int_digits.simps, subst nat_digits.simps) (auto simp: nat_div_distrib nat_mod_distrib)
qed

lemma itoa_code [code]: "itoa n = (if n < 0 then CHR ''-'' # int_digits (- n) else int_digits n)"
  by (simp add: itoa_def int_digits)

section \<open>Go maps\<close>

type_synonym 'v gomap = "(string \<times> 'v) list"

text \<open>\<open>m[k]\<close> of a missing key is the zero value.\<close>

definition get_str :: "string gomap \<Rightarrow> string \<Rightarrow> string" where
  "get_str m k = (case map_of m k of None \<Rightarrow> [] | Some v \<Rightarrow> v)"

definition get_int :: "int gomap \<Rightarrow> string \<Rightarrow> int" where
  "get_int m k = (case map_of m k of None \<Rightarrow> 0 | Some v \<Rightarrow> v)"

definition get_list :: "'a list gomap \<Rightarrow> string \<Rightarrow> 'a list" where
  "get_list m k = (case map_of m k of None \<Rightarrow> [] | Some v \<Rightarrow> v)"

abbreviation map_set :: "'v gomap \<Rightarrow> string \<Rightarrow> 'v \<Rightarrow> 'v gomap" where
  "map_set m k v \<equiv> AList.update k v m"

abbreviation map_del :: "'v gomap \<Rightarrow> string \<Rightarrow> 'v gomap" where
  "map_del m k \<equiv> AList.delete k m"

definition map_keys :: "'v gomap \<Rightarrow> string list" where
  "map_keys m = map fst m"

lemma map_of_set [gomap_simps]: "map_of (map_set m k v) = (map_of m)(k \<mapsto> v)"
  by (rule update_conv')

lemma map_of_del [gomap_simps]: "map_of (map_del m k) = (map_of m)(k := None)"
  by (rule delete_conv')

lemma distinct_map_set [gomap_simps]: "distinct (map fst m) \<Longrightarrow> distinct (map fst (map_set m k v))"
  by (rule distinct_update)

lemma distinct_map_del [gomap_simps]: "distinct (map fst m) \<Longrightarrow> distinct (map fst (map_del m k))"
  by (rule distinct_delete)

lemma get_str_set [gomap_simps]: "get_str (map_set m k v) j = (if j = k then v else get_str m j)"
  by (simp add: get_str_def map_of_set)

lemma map_set_same: "map_of m k = Some v \<Longrightarrow> map_set m k v = m"
  by (induction m) (auto split: if_splits)

lemma map_set_ne [simp]: "map_set m k v \<noteq> []"
  by (cases m) auto

end
