(* ===== verification/RuntimeTypes.thy ===== *)
theory RuntimeTypes
  imports Prelude
begin

text \<open>
  The resource contract of \<open>internal/runtimeagent/spec.go\<close>: the structs of a Runtime resource
  and of its status as records (a pointer field is an option), the constants, the
  \<open>IntOrString\<close> type with its JSON and YAML codecs, and the runtime key. Field names carry a
  prefix for their struct because Isabelle's record selectors are global.
\<close>

section \<open>Constants\<close>

definition DefaultAPIVersion :: string where "DefaultAPIVersion = ''aifar.io/v1''"
definition DefaultKind :: string where "DefaultKind = ''Runtime''"
definition DefaultNamespace :: string where "DefaultNamespace = ''default''"
definition DefaultNetwork :: string where "DefaultNetwork = ''aifar-runtime''"
definition DefaultStateDir :: string where "DefaultStateDir = ''/var/lib/aifar-runtime''"
definition RuntimeVersion :: string where "RuntimeVersion = ''v0.1''"

text \<open>
  The phase and condition strings of lines 26 to 39. The code compares and stores them as
  strings; the datatype has one constructor per constant and one for the empty string.
\<close>

datatype phase = NoPhase | Pending | Pulling | Starting | Running | Degraded | Updating
  | Failed | Terminating

datatype condition_status = ConditionTrue | ConditionFalse | ConditionUnknown

section \<open>Int or string\<close>

record IntOrString =
  IntVal :: int
  StrVal :: string

definition FromInt :: "int \<Rightarrow> IntOrString" where
  "FromInt value = \<lparr>IntVal = value, StrVal = []\<rparr>"

definition FromString :: "string \<Rightarrow> IntOrString" where
  "FromString value = \<lparr>IntVal = 0, StrVal = trim_space value\<rparr>"

definition ios_IsZero :: "IntOrString \<Rightarrow> bool" where
  "ios_IsZero v \<longleftrightarrow> IntVal v = 0 \<and> is_blank (StrVal v)"

definition ios_String :: "IntOrString \<Rightarrow> string" where
  "ios_String v =
     (if StrVal v \<noteq> [] then StrVal v else if IntVal v \<noteq> 0 then itoa (IntVal v) else [])"

text \<open>
  The JSON values the codec tells apart: a number that fits \<open>int\<close>, a string, \<open>null\<close> (which
  \<open>json.Unmarshal\<close> accepts for an \<open>int\<close> and leaves it 0) and anything else.
\<close>

datatype json_value = JInt int | JStr string | JNull | JOther

definition ios_MarshalJSON :: "IntOrString \<Rightarrow> json_value" where
  "ios_MarshalJSON v = (if StrVal v \<noteq> [] then JStr (StrVal v) else JInt (IntVal v))"

fun ios_UnmarshalJSON :: "json_value \<Rightarrow> IntOrString option" where
  "ios_UnmarshalJSON (JInt number) = Some (FromInt number)"
| "ios_UnmarshalJSON JNull = Some (FromInt 0)"
| "ios_UnmarshalJSON (JStr text) =
     (case atoi (trim_space text) of
        Some parsed \<Rightarrow> Some (FromInt parsed)
      | None \<Rightarrow> Some (FromString text))"
| "ios_UnmarshalJSON JOther = None"

text \<open>A YAML node: a scalar with its tag and text, or another kind of node.\<close>

datatype yaml_node = YScalar string string | YOther

definition ios_MarshalYAML :: "IntOrString \<Rightarrow> yaml_node" where
  "ios_MarshalYAML v = (if StrVal v \<noteq> [] then YScalar ''!!str'' (StrVal v)
     else YScalar ''!!int'' (itoa (IntVal v)))"

fun ios_UnmarshalYAML :: "yaml_node \<Rightarrow> IntOrString option" where
  "ios_UnmarshalYAML (YScalar tag text) =
     (if tag = ''!!int'' then (case atoi text of None \<Rightarrow> None | Some parsed \<Rightarrow> Some (FromInt parsed))
      else (case atoi (trim_space text) of
              Some parsed \<Rightarrow> Some (FromInt parsed)
            | None \<Rightarrow> Some (FromString text)))"
| "ios_UnmarshalYAML YOther = None"

section \<open>The Runtime resource\<close>

record ObjectMeta =
  om_Name :: string
  om_Namespace :: string
  om_Generation :: int

record SecretSpec =
  sec_Name :: string
  sec_Type :: string
  sec_StringData :: "string gomap"
  sec_Data :: "string gomap"

record LocalObjectReference =
  lor_Name :: string

record RollingUpdateStrategy =
  ru_MaxUnavailable :: int
  ru_MaxSurge :: int

record DeploymentStrategy =
  st_Type :: string
  st_RollingUpdate :: "RollingUpdateStrategy option"

record ContainerPort =
  cp_Name :: string
  cp_ContainerPort :: int

record EnvFromSource =
  ef_Type :: string
  ef_Name :: string
  ef_Path :: string

record VolumeMount =
  vm_Source :: string
  vm_Target :: string
  vm_ReadOnly :: bool

record ResourceSpec =
  res_CPUs :: string
  res_Memory :: string
  res_MemorySwap :: string
  res_PIDsLimit :: int

record HTTPGetSpec =
  hg_Path :: string
  hg_Port :: IntOrString

record HealthCheckSpec =
  hc_Command :: string
  hc_HTTPGet :: "HTTPGetSpec option"
  hc_Interval :: string
  hc_Timeout :: string
  hc_Retries :: int
  hc_StartPeriod :: string

record DeploymentSpec =
  dep_Name :: string
  dep_ServiceName :: string
  dep_Image :: string
  dep_ImagePullSecrets :: "LocalObjectReference list"
  dep_Replicas :: "int option"
  dep_Strategy :: DeploymentStrategy
  dep_Selector :: "string gomap"
  dep_Ports :: "ContainerPort list"
  dep_Env :: "string gomap"
  dep_EnvFiles :: "string list"
  dep_EnvFrom :: "EnvFromSource list"
  dep_Volumes :: "VolumeMount list"
  dep_Resources :: ResourceSpec
  dep_HealthCheck :: HealthCheckSpec
  dep_Entrypoint :: "string list"
  dep_Command :: "string list"
  dep_Labels :: "string gomap"
  dep_Revision :: string
  dep_PodRevision :: string

record ServiceSpec =
  svc_Name :: string
  svc_Selector :: "string gomap"
  svc_Port :: int
  svc_TargetPort :: IntOrString
  svc_ListenPort :: int
  svc_Protocol :: string
  svc_AffinityPolicy :: string

record IngressTLS =
  tls_CertFile :: string
  tls_KeyFile :: string

record IngressRoute =
  rt_Path :: string
  rt_ServiceName :: string
  rt_ServicePort :: IntOrString

record IngressSpec =
  ing_Name :: string
  ing_Provider :: string
  ing_Host :: string
  ing_ListenPort :: int
  ing_TLS :: "IngressTLS option"
  ing_Routes :: "IngressRoute list"

record RuntimeSpec =
  rs_NodeName :: string
  rs_NodeSelector :: "string gomap"
  rs_Network :: string
  rs_Secrets :: "SecretSpec list"
  rs_Deployments :: "DeploymentSpec list"
  rs_Services :: "ServiceSpec list"
  rs_Ingress :: "IngressSpec list"

section \<open>The observed status\<close>

record Condition =
  co_Type :: string
  co_Status :: condition_status
  co_Reason :: string
  co_Message :: string
  co_LastTransitionTime :: string

record DeploymentStatus =
  ds_Name :: string
  ds_Ready :: int
  ds_Replicas :: int
  ds_Image :: string
  ds_Revision :: string
  ds_Restarts :: int
  ds_Phase :: phase
  ds_Message :: string

record Endpoint =
  ep_Container :: string
  ep_Address :: string

record ServiceStatus =
  ss_Name :: string
  ss_ListenPort :: int
  ss_Port :: int
  ss_TargetPort :: string
  ss_Endpoints :: "Endpoint list"
  ss_Phase :: phase

record IngressStatus =
  is_Name :: string
  is_Host :: string
  is_ListenPort :: int
  is_Phase :: phase

record RuntimeStatus =
  rst_ObservedGeneration :: int
  rst_Phase :: phase
  rst_NodeName :: string
  rst_Conditions :: "Condition list"
  rst_Deployments :: "DeploymentStatus list"
  rst_Services :: "ServiceStatus list"
  rst_Ingress :: "IngressStatus list"
  rst_LastTransitionTime :: string

record Runtime =
  rtm_APIVersion :: string
  rtm_Kind :: string
  rtm_Metadata :: ObjectMeta
  rtm_Spec :: RuntimeSpec
  rtm_Status :: "RuntimeStatus option"

record RuntimeEvent =
  ev_Time :: string
  ev_Type :: string
  ev_Reason :: string
  ev_Message :: string
  ev_Namespace :: string
  ev_Name :: string

section \<open>The runtime key\<close>

record RuntimeKey =
  key_Namespace :: string
  key_Name :: string

definition key_String :: "RuntimeKey \<Rightarrow> string" where
  "key_String k = key_Namespace k @ ''/'' @ key_Name k"

definition runtimeKey :: "string \<Rightarrow> string \<Rightarrow> RuntimeKey" where
  "runtimeKey namespace name =
     (let ns = trim_space namespace
      in \<lparr>key_Namespace = (if ns = [] then DefaultNamespace else ns), key_Name = trim_space name\<rparr>)"

text \<open>Keys of slash-free parts are told apart by their text.\<close>

definition slash_free :: "string \<Rightarrow> bool" where
  "slash_free s \<longleftrightarrow> CHR ''/'' \<notin> set s"

lemma append_sep_inject:
  "c \<notin> set a \<Longrightarrow> c \<notin> set b \<Longrightarrow> a @ c # x = b @ c # y \<longleftrightarrow> a = b \<and> x = y"
  by (auto simp: append_eq_append_conv2 Cons_eq_append_conv append_eq_Cons_conv)

lemma key_String_inject:
  assumes "slash_free (key_Namespace a)" "slash_free (key_Namespace b)"
  shows "key_String a = key_String b \<longleftrightarrow> a = b"
  using assms append_sep_inject [of "CHR ''/''"]
  by (auto simp: key_String_def slash_free_def intro: RuntimeKey.equality)

lemma runtimeKey_idem: "runtimeKey (key_Namespace (runtimeKey ns n)) (key_Name (runtimeKey ns n)) = runtimeKey ns n"
proof -
  have "trim_space DefaultNamespace = DefaultNamespace"
    by (rule trim_space_ends) (simp_all add: DefaultNamespace_def space_byte_def go_whitespace_def)
  then show ?thesis by (auto simp: runtimeKey_def Let_def DefaultNamespace_def)
qed

section \<open>Round trips of the codec\<close>

text \<open>
  The values \<open>FromInt\<close> and \<open>FromString\<close> of a text that is no number produce survive both
  codecs.
\<close>

definition ios_canonical :: "IntOrString \<Rightarrow> bool" where
  "ios_canonical v \<longleftrightarrow>
     (if StrVal v = [] then in_int64 (IntVal v)
      else IntVal v = 0 \<and> trim_space (StrVal v) = StrVal v \<and> atoi (StrVal v) = None)"

lemma ios_eqI: "IntVal v = i \<Longrightarrow> StrVal v = s \<Longrightarrow> v = \<lparr>IntVal = i, StrVal = s\<rparr>"
  by simp

lemma ios_canonical_FromInt: "in_int64 n \<Longrightarrow> ios_canonical (FromInt n)"
  by (simp add: ios_canonical_def FromInt_def)

lemma ios_json_roundtrip: "ios_canonical v \<Longrightarrow> ios_UnmarshalJSON (ios_MarshalJSON v) = Some v"
  by (cases "StrVal v = []")
     (auto simp: ios_canonical_def ios_MarshalJSON_def FromInt_def FromString_def intro!: ios_eqI [symmetric])

lemma ios_yaml_roundtrip: "ios_canonical v \<Longrightarrow> ios_UnmarshalYAML (ios_MarshalYAML v) = Some v"
  by (cases "StrVal v = []")
     (auto simp: ios_canonical_def ios_MarshalYAML_def FromInt_def FromString_def atoi_itoa
        intro!: ios_eqI [symmetric])

lemma ios_UnmarshalYAML_canonical: "ios_UnmarshalYAML n = Some v \<Longrightarrow> ios_canonical v"
  by (cases n) (auto simp: ios_canonical_def FromInt_def FromString_def atoi_range
      split: if_splits option.splits)

lemma ios_UnmarshalJSON_canonical:
  "(\<forall>i. n = JInt i \<longrightarrow> in_int64 i) \<Longrightarrow> ios_UnmarshalJSON n = Some v \<Longrightarrow> ios_canonical v"
  by (cases n) (auto simp: ios_canonical_def FromInt_def FromString_def atoi_range
      split: if_splits option.splits)

end
