(* ===== verification/Normalize.thy ===== *)
theory Normalize
  imports RuntimeTypes
begin

text \<open>
  Normalisation of a Runtime (\<open>NormalizeRuntime\<close>, \<open>trimStringMap\<close>, \<open>cleanIngressPath\<close> and the
  lookups of \<open>internal/runtimeagent/spec.go\<close>): every default the contract promises, applied in
  the code's order. The Go function writes through the slices and maps of its argument, so a
  second call, which nearly every other function makes, is visible to the caller; the lemmas
  of the last section say when that second pass changes nothing.
\<close>

section \<open>Maps of strings\<close>

text \<open>
  \<open>trimStringMap\<close> deletes and stores entries of the map it ranges over. An entry it adds holds a
  trimmed key and value, so visiting it again stores the same; the model visits the keys the
  map had at the start, in the order of the list.
\<close>

definition trim_entry :: "string gomap \<Rightarrow> string \<Rightarrow> string gomap" where
  "trim_entry m key =
     (let trimmedKey = trim_space key; trimmedValue = trim_space (get_str m key)
      in if trimmedKey = [] then map_del m key
         else map_set (if trimmedKey \<noteq> key then map_del m key else m) trimmedKey trimmedValue)"

definition trimStringMap :: "string gomap \<Rightarrow> string gomap" where
  "trimStringMap m = foldl trim_entry m (map_keys m)"

definition clean_entry :: "string \<Rightarrow> string \<Rightarrow> bool" where
  "clean_entry k v \<longleftrightarrow> trim_space k = k \<and> k \<noteq> [] \<and> trim_space v = v"

definition clean_map :: "string gomap \<Rightarrow> bool" where
  "clean_map m \<longleftrightarrow> (\<forall>k v. map_of m k = Some v \<longrightarrow> clean_entry k v)"

lemma trim_entry_of:
  "map_of (trim_entry m key) k =
     (if k = trim_space key \<and> k \<noteq> [] then Some (trim_space (get_str m key))
      else if k = key then None else map_of m k)"
  by (auto simp: trim_entry_def Let_def gomap_simps)

lemma foldl_trim_entry_clean:
  assumes "\<And>k v. map_of m k = Some v \<Longrightarrow> k \<in> set ks \<or> clean_entry k v"
  shows "clean_map (foldl trim_entry m ks)"
  using assms
proof (induction ks arbitrary: m)
  case Nil
  then show ?case by (auto simp: clean_map_def)
next
  case (Cons key ks)
  have "k \<in> set ks \<or> clean_entry k v" if "map_of (trim_entry m key) k = Some v" for k v
    using that Cons.prems [of k v]
    by (auto simp: trim_entry_of clean_entry_def split: if_splits)
  then show ?case using Cons.IH [of "trim_entry m key"] by simp
qed

lemma clean_trimStringMap [gomap_simps]: "clean_map (trimStringMap m)"
  unfolding trimStringMap_def map_keys_def
  by (rule foldl_trim_entry_clean) (metis fst_conv image_eqI list.set_map map_of_SomeD)

lemma trim_entry_clean: "clean_map m \<Longrightarrow> k \<in> fst ` set m \<Longrightarrow> trim_entry m k = m"
  using map_set_same [of m k] map_of_eq_None_iff [of m k]
  by (cases "map_of m k") (auto simp: clean_map_def clean_entry_def trim_entry_def Let_def get_str_def)

lemma trimStringMap_clean: "clean_map m \<Longrightarrow> trimStringMap m = m"
proof -
  assume "clean_map m"
  then have "set ks \<subseteq> fst ` set m \<Longrightarrow> foldl trim_entry m ks = m" for ks
    by (induction ks) (auto simp: trim_entry_clean)
  then show ?thesis by (simp add: trimStringMap_def map_keys_def)
qed

lemma trimStringMap_idem [simp]: "trimStringMap (trimStringMap m) = trimStringMap m"
  by (rule trimStringMap_clean) (rule clean_trimStringMap)

interpretation trim_map: idempotent_op trimStringMap
  by unfold_locales (rule trimStringMap_idem)

lemma trimStringMap_Nil [simp]: "trimStringMap [] = []"
  by (simp add: trimStringMap_def map_keys_def)

text \<open>Where no two keys trim to the same text the result does not depend on the order.\<close>

definition trimmed_pairs :: "string gomap \<Rightarrow> string gomap" where
  "trimmed_pairs m =
     map (\<lambda>(k, v). (trim_space k, trim_space v)) (filter (\<lambda>(k, v). trim_space k \<noteq> []) m)"

lemma foldl_trim_entry_of:
  assumes "distinct (map trim_space ks)"
  shows "map_of (foldl trim_entry m ks) k =
    (case find (\<lambda>key. trim_space key = k) ks of
       Some key \<Rightarrow> if k \<noteq> [] then Some (trim_space (get_str m key))
                   else if k \<in> set ks then None else map_of m k
     | None \<Rightarrow> if k \<in> set ks then None else map_of m k)"
  using assms
proof (induction ks arbitrary: m)
  case (Cons key ks)
  have get: "get_str (trim_entry m key) j = get_str m j" if "j \<in> set ks" for j
  proof -
    have "j \<noteq> trim_space key" "j \<noteq> key" using that Cons.prems by (force simp: image_iff)+
    then show ?thesis by (simp add: get_str_def trim_entry_of)
  qed
  have found: "j \<in> set ks \<and> trim_space j = k" if "find (\<lambda>key. trim_space key = k) ks = Some j" for j
    using that by (auto simp: find_Some_iff)
  have gone: "k \<notin> trim_space ` set ks" if "trim_space key = k"
    using that Cons.prems by auto
  have none: "find (\<lambda>key. trim_space key = k) ks = None \<longleftrightarrow> k \<notin> trim_space ` set ks"
    by (auto simp: find_None_iff)
  note IH = Cons.IH [of "trim_entry m key"]
  show ?case
  proof (cases "trim_space key = k")
    case True
    with gone none have "find (\<lambda>key. trim_space key = k) ks = None" by blast
    moreover have "k \<notin> set ks" using True gone by (metis image_eqI trim_space_idem)
    ultimately show ?thesis
      using IH Cons.prems True by (auto simp: trim_entry_of)
  next
    case False
    then show ?thesis
      using IH Cons.prems get found
      by (cases "find (\<lambda>key. trim_space key = k) ks") (auto simp: trim_entry_of)
  qed
qed simp

lemma map_of_trimmed_pairs:
  assumes "distinct (map fst m)"
  shows "map_of (trimmed_pairs m) k =
    (case find (\<lambda>key. trim_space key = k) (map fst m) of
       Some key \<Rightarrow> if k \<noteq> [] then Some (trim_space (get_str m key)) else None
     | None \<Rightarrow> None)"
  using assms
proof (induction m)
  case (Cons e m)
  obtain key v where e: "e = (key, v)" by (cases e)
  have get: "get_str (e # m) j = get_str m j" if "j \<in> set (map fst m)" for j
    using that Cons.prems e by (auto simp: get_str_def)
  have found: "j \<in> set (map fst m)" if "find (\<lambda>key. trim_space key = k) (map fst m) = Some j" for j
    using that by (auto simp: find_Some_iff)
  show ?case
    using Cons e get found
    by (auto simp: trimmed_pairs_def get_str_def split: option.splits if_splits)
qed (simp add: trimmed_pairs_def)

lemma trimStringMap_of:
  assumes "distinct (map trim_space (map fst m))"
  shows "map_of (trimStringMap m) = map_of (trimmed_pairs m)"
proof
  fix k
  have "distinct (map fst m)" using assms by (auto simp: distinct_map intro: inj_on_imageI2)
  moreover have "map_of m k = None" if "find (\<lambda>key. trim_space key = k) (map fst m) = None" "k \<notin> fst ` set m"
    using that by (simp add: map_of_eq_None_iff)
  moreover have "k \<notin> fst ` set m \<Longrightarrow> map_of m k = None" by (simp add: map_of_eq_None_iff)
  ultimately show "map_of (trimStringMap m) k = map_of (trimmed_pairs m) k"
    using assms
    by (auto simp: trimStringMap_def map_keys_def foldl_trim_entry_of map_of_trimmed_pairs
        split: option.splits)
qed

lemma get_str_clean: "clean_map m \<Longrightarrow> trim_space (get_str m k) = get_str m k"
  by (auto simp: get_str_def clean_map_def clean_entry_def split: option.splits)

section \<open>Small normalisers\<close>

definition defaultSecretType :: "string \<Rightarrow> string" where
  "defaultSecretType value = (let value = trim_space value in if value = [] then ''opaque'' else value)"

definition cleanIngressPath :: "string \<Rightarrow> string" where
  "cleanIngressPath path =
     (let path = trim_space path
      in if path = [] then ''/'' else if \<not> has_prefix path ''/'' then ''/'' @ path else path)"

definition deploymentReplicas :: "DeploymentSpec \<Rightarrow> int" where
  "deploymentReplicas deployment = (case dep_Replicas deployment of None \<Rightarrow> 1 | Some n \<Rightarrow> n)"

definition serviceByName :: "ServiceSpec list \<Rightarrow> string \<Rightarrow> ServiceSpec option" where
  "serviceByName services name = find (\<lambda>service. svc_Name service = trim_space name) services"

definition deploymentByName :: "DeploymentSpec list \<Rightarrow> string \<Rightarrow> DeploymentSpec option" where
  "deploymentByName deployments name = find (\<lambda>d. dep_Name d = trim_space name) deployments"

definition secretByName :: "SecretSpec list \<Rightarrow> string \<Rightarrow> SecretSpec option" where
  "secretByName secrets name = find (\<lambda>s. sec_Name s = trim_space name) secrets"

lemma slash_not_space: "\<not> space_byte (CHR ''/'')"
  by (simp add: space_byte_def go_whitespace_def)

lemma cleanIngressPath_slash [trim_simps]: "has_prefix (cleanIngressPath p) ''/''"
  by (auto simp: cleanIngressPath_def Let_def has_prefix_def)

lemma cleanIngressPath_trimmed [trim_simps]: "trim_space (cleanIngressPath p) = cleanIngressPath p"
proof -
  have "trim_space (''/'' @ trim_space p) = ''/'' @ trim_space p"
    using slash_not_space by (simp add: trim_space_Cons)
  moreover have "trim_space ''/'' = ''/''"
    using slash_not_space by (simp add: trim_space_ends)
  ultimately show ?thesis by (auto simp: cleanIngressPath_def Let_def)
qed

lemma cleanIngressPath_fix: "trim_space p = p \<Longrightarrow> has_prefix p ''/'' \<Longrightarrow> cleanIngressPath p = p"
  by (auto simp: cleanIngressPath_def has_prefix_def)

lemma cleanIngressPath_idem [simp]: "cleanIngressPath (cleanIngressPath p) = cleanIngressPath p"
  by (rule cleanIngressPath_fix) (rule cleanIngressPath_trimmed, rule cleanIngressPath_slash)

interpretation clean_path: idempotent_op cleanIngressPath
  by unfold_locales (rule cleanIngressPath_idem)

section \<open>NormalizeRuntime\<close>

definition default_blank :: "string \<Rightarrow> string \<Rightarrow> string" where
  "default_blank value fallback = (if is_blank value then fallback else value)"

definition normalize_secret :: "SecretSpec \<Rightarrow> SecretSpec" where
  "normalize_secret s =
     \<lparr>sec_Name = trim_space (sec_Name s),
      sec_Type = to_lower (defaultSecretType (sec_Type s)),
      sec_StringData = trimStringMap (sec_StringData s),
      sec_Data = trimStringMap (sec_Data s)\<rparr>"

definition normalize_strategy :: "DeploymentStrategy \<Rightarrow> DeploymentStrategy" where
  "normalize_strategy st =
     (let t = to_lower (trim_space (st_Type st));
          t = (if t = [] then ''rollingupdate'' else t)
      in \<lparr>st_Type = t,
          st_RollingUpdate =
            (if t = ''rollingupdate'' \<and> st_RollingUpdate st = None
             then Some \<lparr>ru_MaxUnavailable = 0, ru_MaxSurge = 1\<rparr> else st_RollingUpdate st)\<rparr>)"

definition normalize_dep_name :: "DeploymentSpec \<Rightarrow> string" where
  "normalize_dep_name d =
     (let n = trim_space (dep_Name d) in if n = [] then trim_space (dep_ServiceName d) else n)"

definition normalize_revision :: "DeploymentSpec \<Rightarrow> string" where
  "normalize_revision d =
     (let r = trim_space (dep_Revision d);
          r = (if r = [] then trim_space (dep_PodRevision d) else r)
      in if r = [] then ''current'' else r)"

definition normalize_dep_selector :: "string \<Rightarrow> string gomap \<Rightarrow> string gomap" where
  "normalize_dep_selector name selector =
     trimStringMap
       (if is_blank (get_str selector ''app'') \<and> name \<noteq> [] then map_set selector ''app'' name
        else selector)"

definition normalize_deployment :: "DeploymentSpec \<Rightarrow> DeploymentSpec" where
  "normalize_deployment d =
     (let name = normalize_dep_name d
      in d\<lparr>dep_Name := name,
           dep_ServiceName := trim_space (dep_ServiceName d),
           dep_Image := trim_space (dep_Image d),
           dep_Revision := normalize_revision d,
           dep_Replicas := Some (deploymentReplicas d),
           dep_Strategy := normalize_strategy (dep_Strategy d),
           dep_ImagePullSecrets :=
             map (\<lambda>ref. ref\<lparr>lor_Name := trim_space (lor_Name ref)\<rparr>) (dep_ImagePullSecrets d),
           dep_Selector := normalize_dep_selector name (dep_Selector d),
           dep_Env := trimStringMap (dep_Env d)\<rparr>)"

definition normalize_svc_selector :: "string \<Rightarrow> string gomap \<Rightarrow> string gomap" where
  "normalize_svc_selector name selector =
     trimStringMap (if selector = [] \<and> name \<noteq> [] then map_set selector ''app'' name else selector)"

definition normalize_service :: "ServiceSpec \<Rightarrow> ServiceSpec" where
  "normalize_service s =
     (let name = trim_space (svc_Name s)
      in s\<lparr>svc_Name := name,
           svc_Selector := normalize_svc_selector name (svc_Selector s),
           svc_ListenPort := (if svc_ListenPort s = 0 then svc_Port s else svc_ListenPort s),
           svc_TargetPort :=
             (if ios_IsZero (svc_TargetPort s) then FromInt (svc_Port s) else svc_TargetPort s),
           svc_Protocol := default_blank (svc_Protocol s) ''http'',
           svc_AffinityPolicy := default_blank (svc_AffinityPolicy s) ''none''\<rparr>)"

definition normalize_route :: "ServiceSpec list \<Rightarrow> IngressRoute \<Rightarrow> IngressRoute" where
  "normalize_route services route =
     (let name = trim_space (rt_ServiceName route)
      in \<lparr>rt_Path = cleanIngressPath (rt_Path route),
          rt_ServiceName = name,
          rt_ServicePort =
            (if ios_IsZero (rt_ServicePort route)
             then (case serviceByName services name of
                     Some service \<Rightarrow> FromInt (svc_Port service)
                   | None \<Rightarrow> rt_ServicePort route)
             else rt_ServicePort route)\<rparr>)"

definition normalize_ingress :: "ServiceSpec list \<Rightarrow> IngressSpec \<Rightarrow> IngressSpec" where
  "normalize_ingress services ingress =
     ingress\<lparr>ing_Name := trim_space (ing_Name ingress),
             ing_Provider := default_blank (ing_Provider ingress) ''builtin'',
             ing_Host := default_blank (ing_Host ingress) ''*'',
             ing_Routes := map (normalize_route services) (ing_Routes ingress)\<rparr>"

definition normalize_meta :: "ObjectMeta \<Rightarrow> ObjectMeta" where
  "normalize_meta meta =
     (let ns = trim_space (om_Namespace meta)
      in meta\<lparr>om_Name := trim_space (om_Name meta),
              om_Namespace := (if ns = [] then DefaultNamespace else ns)\<rparr>)"

definition normalize_spec :: "RuntimeSpec \<Rightarrow> RuntimeSpec" where
  "normalize_spec spec =
     (let services = map normalize_service (rs_Services spec)
      in \<lparr>rs_NodeName = trim_space (rs_NodeName spec),
          rs_NodeSelector = trimStringMap (rs_NodeSelector spec),
          rs_Network = default_blank (rs_Network spec) DefaultNetwork,
          rs_Secrets = map normalize_secret (rs_Secrets spec),
          rs_Deployments = map normalize_deployment (rs_Deployments spec),
          rs_Services = services,
          rs_Ingress = map (normalize_ingress services) (rs_Ingress spec)\<rparr>)"

definition NormalizeRuntime :: "Runtime \<Rightarrow> Runtime" where
  "NormalizeRuntime runtime =
     runtime\<lparr>rtm_APIVersion := default_blank (rtm_APIVersion runtime) DefaultAPIVersion,
             rtm_Kind := default_blank (rtm_Kind runtime) DefaultKind,
             rtm_Metadata := normalize_meta (rtm_Metadata runtime),
             rtm_Spec := normalize_spec (rtm_Spec runtime)\<rparr>"

text \<open>
  What a caller sees of its own value after a function it passed it to has normalised its copy:
  the slices and maps are shared, the scalar fields are not.
\<close>

definition NormalizeInPlace :: "Runtime \<Rightarrow> Runtime" where
  "NormalizeInPlace runtime =
     (let shared = rtm_Spec (NormalizeRuntime runtime)
      in runtime\<lparr>rtm_Spec := (rtm_Spec runtime)
           \<lparr>rs_NodeSelector := rs_NodeSelector shared,
            rs_Secrets := rs_Secrets shared,
            rs_Deployments := rs_Deployments shared,
            rs_Services := rs_Services shared,
            rs_Ingress := rs_Ingress shared\<rparr>\<rparr>)"

definition KeyForRuntime :: "Runtime \<Rightarrow> RuntimeKey" where
  "KeyForRuntime runtime =
     (let meta = rtm_Metadata (NormalizeRuntime runtime)
      in \<lparr>key_Namespace = om_Namespace meta, key_Name = om_Name meta\<rparr>)"

section \<open>What a second pass changes\<close>

text \<open>
  Only the two selector defaults can act again: a blank \<open>app\<close> entry that trimming has
  produced from a key such as \<open>"app "\<close>, and a service selector that trimming has emptied.
  After two passes nothing changes any more, and a selector whose keys are written without
  white space is final after the first.
\<close>

definition tidy_keys :: "string gomap \<Rightarrow> bool" where
  "tidy_keys m \<longleftrightarrow> (\<forall>k \<in> fst ` set m. trim_space k = k \<and> k \<noteq> [])"

definition tidy_selectors :: "Runtime \<Rightarrow> bool" where
  "tidy_selectors r \<longleftrightarrow>
     (\<forall>d \<in> set (rs_Deployments (rtm_Spec r)). tidy_keys (dep_Selector d)) \<and>
     (\<forall>s \<in> set (rs_Services (rtm_Spec r)). tidy_keys (svc_Selector s))"

lemma default_blank_idem [simp]: "default_blank (default_blank v f) f = default_blank v f"
  by (simp add: default_blank_def)

lemma trim_lit [simp]:
  "trim_space DefaultNamespace = DefaultNamespace" "trim_space ''app'' = ''app''"
  "trim_space ''opaque'' = ''opaque''" "trim_space ''rollingupdate'' = ''rollingupdate''"
  "trim_space ''current'' = ''current''" "trim_space ''current'' = ''current''"
  by (rule trim_space_ends; simp add: DefaultNamespace_def space_byte_def go_whitespace_def)+

lemma lower_lit [simp]: "to_lower ''rollingupdate'' = ''rollingupdate''"
  by (simp add: to_lower_def lower_char_def)

lemma normalize_secret_idem [simp]: "normalize_secret (normalize_secret s) = normalize_secret s"
  by (auto simp: normalize_secret_def defaultSecretType_def Let_def trim_simps)

lemma normalize_strategy_idem [simp]: "normalize_strategy (normalize_strategy s) = normalize_strategy s"
  by (auto simp: normalize_strategy_def Let_def trim_simps)

lemma normalize_meta_idem [simp]: "normalize_meta (normalize_meta m) = normalize_meta m"
  by (auto simp: normalize_meta_def Let_def)

lemma normalize_meta_ns_ne [simp]: "om_Namespace (normalize_meta m) \<noteq> []"
  by (auto simp: normalize_meta_def Let_def DefaultNamespace_def)

lemma clean_map_set:
  "clean_map m \<Longrightarrow> clean_entry k v \<Longrightarrow> clean_map (map_set m k v)"
  by (auto simp: clean_map_def gomap_simps)

lemma clean_map_Nil [simp]: "clean_map []"
  by (simp add: clean_map_def)

lemma clean_map_app [simp]: "trim_space n = n \<Longrightarrow> clean_map m \<Longrightarrow> clean_map (map_set m ''app'' n)"
  by (rule clean_map_set) (simp_all add: clean_entry_def)

lemma clean_map_app1 [simp]: "trim_space n = n \<Longrightarrow> clean_map [(''app'', n)]"
  using clean_map_app [of n "[]"] by simp

lemma normalize_dep_selector_clean [simp]: "clean_map (normalize_dep_selector n m)"
  by (simp add: normalize_dep_selector_def clean_trimStringMap)

lemma normalize_dep_selector_again:
  assumes "trim_space n = n" "clean_map m"
  shows "normalize_dep_selector n m =
    (if is_blank (get_str m ''app'') \<and> n \<noteq> [] then map_set m ''app'' n else m)"
  using assms by (simp add: normalize_dep_selector_def trimStringMap_clean)

lemma normalize_dep_selector_twice:
  "trim_space n = n \<Longrightarrow>
   normalize_dep_selector n (normalize_dep_selector n (normalize_dep_selector n m))
     = normalize_dep_selector n (normalize_dep_selector n m)"
  using normalize_dep_selector_again [of n "normalize_dep_selector n (normalize_dep_selector n m)"]
    normalize_dep_selector_again [of n "normalize_dep_selector n m"]
  by (auto simp: is_blank_def gomap_simps)

lemma normalize_svc_selector_clean [simp]: "clean_map (normalize_svc_selector n m)"
  by (simp add: normalize_svc_selector_def clean_trimStringMap)

lemma normalize_svc_selector_again:
  assumes "trim_space n = n" "clean_map m"
  shows "normalize_svc_selector n m = (if m = [] \<and> n \<noteq> [] then [(''app'', n)] else m)"
  using assms by (simp add: normalize_svc_selector_def trimStringMap_clean)

lemma normalize_svc_selector_twice:
  "trim_space n = n \<Longrightarrow>
   normalize_svc_selector n (normalize_svc_selector n (normalize_svc_selector n m))
     = normalize_svc_selector n (normalize_svc_selector n m)"
  using normalize_svc_selector_again [of n "normalize_svc_selector n (normalize_svc_selector n m)"]
    normalize_svc_selector_again [of n "normalize_svc_selector n m"]
  by auto

text \<open>With tidy keys one pass is enough.\<close>

lemma foldl_trim_entry_tidy:
  assumes "tidy_keys m" "set ks \<subseteq> fst ` set m"
  shows "fst ` set (foldl trim_entry m ks) = fst ` set m"
    "map_of (foldl trim_entry m ks) k =
       (if k \<in> set ks then map_option trim_space (map_of m k) else map_of m k)"
proof -
  have one: "fst ` set (trim_entry n j) = fst ` set n" "tidy_keys (trim_entry n j)"
    "map_of (trim_entry n j) i = (if i = j then map_option trim_space (map_of n i) else map_of n i)"
    if "tidy_keys n" "j \<in> fst ` set n" for n i j
  proof -
    from that have j: "trim_space j = j" "j \<noteq> []" by (auto simp: tidy_keys_def)
    then have "trim_entry n j = map_set n j (trim_space (get_str n j))"
      by (simp add: trim_entry_def)
    then show keys: "fst ` set (trim_entry n j) = fst ` set n"
      using that(2) by (simp add: dom_map_of_conv_image_fst [symmetric] map_of_set insert_absorb)
    from that(1) show "tidy_keys (trim_entry n j)" by (simp add: tidy_keys_def keys)
    from that(2) obtain v where "map_of n j = Some v" by (metis map_of_eq_None_iff not_None_eq)
    with j show "map_of (trim_entry n j) i = (if i = j then map_option trim_space (map_of n i) else map_of n i)"
      by (auto simp: trim_entry_of get_str_def)
  qed
  from assms show "fst ` set (foldl trim_entry m ks) = fst ` set m"
    by (induction ks arbitrary: m) (auto simp: one)
  from assms show "map_of (foldl trim_entry m ks) k =
       (if k \<in> set ks then map_option trim_space (map_of m k) else map_of m k)"
    by (induction ks arbitrary: m) (auto simp: one option.map_comp comp_def)
qed

lemma trimStringMap_tidy:
  assumes "tidy_keys m"
  shows "fst ` set (trimStringMap m) = fst ` set m"
    "get_str (trimStringMap m) k = trim_space (get_str m k)"
proof -
  show "fst ` set (trimStringMap m) = fst ` set m"
    using assms by (simp add: trimStringMap_def map_keys_def foldl_trim_entry_tidy)
  show "get_str (trimStringMap m) k = trim_space (get_str m k)"
    using foldl_trim_entry_tidy(2) [OF assms, of "map fst m" k] map_of_eq_None_iff [of m k]
    by (auto simp: trimStringMap_def map_keys_def get_str_def split: option.splits)
qed

lemma tidy_keys_set: "tidy_keys m \<Longrightarrow> trim_space k = k \<Longrightarrow> k \<noteq> [] \<Longrightarrow> tidy_keys (map_set m k v)"
  by (auto simp: tidy_keys_def dom_map_of_conv_image_fst [symmetric] map_of_set)

lemma normalize_dep_selector_tidy:
  assumes "trim_space n = n" "tidy_keys m"
  shows "normalize_dep_selector n (normalize_dep_selector n m) = normalize_dep_selector n m"
proof -
  let ?m = "if is_blank (get_str m ''app'') \<and> n \<noteq> [] then map_set m ''app'' n else m"
  have "tidy_keys ?m" using assms(2) by (simp add: tidy_keys_set)
  then have "get_str (normalize_dep_selector n m) ''app'' = trim_space (get_str ?m ''app'')"
    unfolding normalize_dep_selector_def by (rule trimStringMap_tidy)
  then show ?thesis
    using assms(1) by (auto simp: normalize_dep_selector_again is_blank_def gomap_simps split: if_splits)
qed

lemma normalize_svc_selector_tidy:
  assumes "trim_space n = n" "tidy_keys m"
  shows "normalize_svc_selector n (normalize_svc_selector n m) = normalize_svc_selector n m"
proof -
  let ?m = "if m = [] \<and> n \<noteq> [] then map_set m ''app'' n else m"
  have "tidy_keys ?m" using assms(2) by (simp add: tidy_keys_def)
  then have "fst ` set (normalize_svc_selector n m) = fst ` set ?m"
    unfolding normalize_svc_selector_def by (rule trimStringMap_tidy)
  then have "normalize_svc_selector n m = [] \<Longrightarrow> m = [] \<and> n = []" by (auto split: if_splits)
  then show ?thesis
    using assms(1) by (auto simp: normalize_svc_selector_again)
qed

lemma normalize_dep_name_trimmed [simp]: "trim_space (normalize_dep_name d) = normalize_dep_name d"
  by (simp add: normalize_dep_name_def Let_def)

lemma normalize_deployment_fields [simp]:
  "dep_Name (normalize_deployment d) = normalize_dep_name d"
  "dep_ServiceName (normalize_deployment d) = trim_space (dep_ServiceName d)"
  "dep_Image (normalize_deployment d) = trim_space (dep_Image d)"
  "dep_Revision (normalize_deployment d) = normalize_revision d"
  "dep_Replicas (normalize_deployment d) = Some (deploymentReplicas d)"
  "dep_Strategy (normalize_deployment d) = normalize_strategy (dep_Strategy d)"
  "dep_Selector (normalize_deployment d) = normalize_dep_selector (normalize_dep_name d) (dep_Selector d)"
  "dep_Env (normalize_deployment d) = trimStringMap (dep_Env d)"
  "dep_Resources (normalize_deployment d) = dep_Resources d"
  "dep_Ports (normalize_deployment d) = dep_Ports d"
  "deploymentReplicas (normalize_deployment d) = deploymentReplicas d"
  "normalize_dep_name (normalize_deployment d) = normalize_dep_name d"
  "normalize_revision (normalize_deployment d) = normalize_revision d"
  by (auto simp: normalize_deployment_def normalize_dep_name_def normalize_revision_def
      deploymentReplicas_def Let_def)

lemma normalize_deployment_again:
  "normalize_deployment (normalize_deployment d) = (normalize_deployment d)
     \<lparr>dep_Selector := normalize_dep_selector (normalize_dep_name d)
        (normalize_dep_selector (normalize_dep_name d) (dep_Selector d))\<rparr>"
proof -
  have "normalize_deployment e = e\<lparr>dep_Selector := normalize_dep_selector (dep_Name e) (dep_Selector e)\<rparr>"
    if "e = normalize_deployment d" for e
  proof -
    have refs: "map (\<lambda>r. r\<lparr>lor_Name := trim_space (lor_Name r)\<rparr>) (dep_ImagePullSecrets e)
        = dep_ImagePullSecrets e"
      by (simp add: that normalize_deployment_def Let_def)
    show ?thesis
      by (rule DeploymentSpec.equality)
         (simp_all add: that normalize_deployment_def [of "normalize_deployment d"] Let_def refs [unfolded that])
  qed
  from this [OF refl] show ?thesis by simp
qed

lemma normalize_deployment_twice [simp]:
  "normalize_deployment (normalize_deployment (normalize_deployment d))
     = normalize_deployment (normalize_deployment d)"
  using normalize_deployment_again [of d] normalize_deployment_again [of "normalize_deployment d"]
  by (simp add: normalize_dep_selector_twice)

lemma normalize_deployment_tidy:
  "tidy_keys (dep_Selector d) \<Longrightarrow> normalize_deployment (normalize_deployment d) = normalize_deployment d"
  by (subst normalize_deployment_again)
     (rule DeploymentSpec.equality, simp_all add: normalize_dep_selector_tidy)

lemma normalize_service_fields [simp]:
  "svc_Name (normalize_service s) = trim_space (svc_Name s)"
  "svc_Port (normalize_service s) = svc_Port s"
  "svc_Selector (normalize_service s) = normalize_svc_selector (trim_space (svc_Name s)) (svc_Selector s)"
  by (simp_all add: normalize_service_def Let_def)

lemma normalize_service_again:
  "normalize_service (normalize_service s) = (normalize_service s)
     \<lparr>svc_Selector := normalize_svc_selector (trim_space (svc_Name s))
        (normalize_svc_selector (trim_space (svc_Name s)) (svc_Selector s))\<rparr>"
  by (rule ServiceSpec.equality) (simp_all add: normalize_service_def Let_def)

lemma normalize_service_twice [simp]:
  "normalize_service (normalize_service (normalize_service s)) = normalize_service (normalize_service s)"
  using normalize_service_again [of s] normalize_service_again [of "normalize_service s"]
  by (simp add: normalize_svc_selector_twice)

lemma normalize_service_tidy:
  "tidy_keys (svc_Selector s) \<Longrightarrow> normalize_service (normalize_service s) = normalize_service s"
  by (subst normalize_service_again)
     (rule ServiceSpec.equality, simp_all add: normalize_svc_selector_tidy)

text \<open>Routes look services up by name, and a pass changes no name and no port after the first.\<close>

lemma serviceByName_trim [simp]: "serviceByName svcs (trim_space n) = serviceByName svcs n"
  by (simp add: serviceByName_def)

lemma serviceByName_normalize:
  "map_option svc_Port (serviceByName (map normalize_service (map normalize_service svcs)) n)
     = map_option svc_Port (serviceByName (map normalize_service svcs) n)"
  by (induction svcs) (auto simp: serviceByName_def)

lemma normalize_route_port:
  "normalize_route svcs r = normalize_route svcs' r"
  if "map_option svc_Port (serviceByName svcs (rt_ServiceName r))
    = map_option svc_Port (serviceByName svcs' (rt_ServiceName r))"
  using that by (auto simp: normalize_route_def Let_def split: option.splits)

lemma FromInt_zero [simp]: "ios_IsZero (FromInt n) \<longleftrightarrow> n = 0"
  by (simp add: ios_IsZero_def FromInt_def is_blank_def)

lemma ios_IsZero_FromInt_0: "ios_IsZero v \<Longrightarrow> IntVal v = 0"
  by (simp add: ios_IsZero_def)

lemma normalize_route_idem: "normalize_route svcs (normalize_route svcs r) = normalize_route svcs r"
  by (rule IngressRoute.equality)
     (auto simp: normalize_route_def Let_def split: option.splits)

lemma normalize_ingress_again:
  "normalize_ingress (map normalize_service (map normalize_service svcs))
      (normalize_ingress (map normalize_service svcs) i)
     = normalize_ingress (map normalize_service svcs) i"
proof -
  have "normalize_route (map normalize_service (map normalize_service svcs))
      (normalize_route (map normalize_service svcs) r) = normalize_route (map normalize_service svcs) r" for r
    using normalize_route_port [OF serviceByName_normalize, of svcs] normalize_route_idem by simp
  then show ?thesis by (simp add: normalize_ingress_def)
qed

definition normalize_lists :: "RuntimeSpec \<Rightarrow> RuntimeSpec" where
  "normalize_lists spec = spec\<lparr>rs_Deployments := map normalize_deployment (rs_Deployments spec),
                              rs_Services := map normalize_service (rs_Services spec)\<rparr>"

lemma normalize_spec_again:
  "normalize_spec (normalize_spec spec) = normalize_lists (normalize_spec spec)"
proof -
  have "map (normalize_ingress (map normalize_service (map normalize_service (rs_Services spec))))
     (map (normalize_ingress (map normalize_service (rs_Services spec))) is)
     = map (normalize_ingress (map normalize_service (rs_Services spec))) is" for "is"
    using normalize_ingress_again [of "rs_Services spec"] by simp
  then show ?thesis
    by (intro RuntimeSpec.equality) (simp_all add: normalize_spec_def normalize_lists_def Let_def)
qed

lemma NormalizeRuntime_fields [simp]:
  "rtm_Metadata (NormalizeRuntime r) = normalize_meta (rtm_Metadata r)"
  "rtm_Spec (NormalizeRuntime r) = normalize_spec (rtm_Spec r)"
  "rtm_Status (NormalizeRuntime r) = rtm_Status r"
  by (simp_all add: NormalizeRuntime_def)

lemma NormalizeRuntime_again:
  "NormalizeRuntime (NormalizeRuntime r) = (NormalizeRuntime r)
     \<lparr>rtm_Spec := normalize_lists (normalize_spec (rtm_Spec r))\<rparr>"
  by (rule Runtime.equality)
     (simp_all add: NormalizeRuntime_def normalize_spec_again)

lemma NormalizeRuntime_twice:
  "NormalizeRuntime (NormalizeRuntime (NormalizeRuntime r)) = NormalizeRuntime (NormalizeRuntime r)"
proof -
  have "normalize_spec (normalize_spec (normalize_spec s)) = normalize_spec (normalize_spec s)" for s
    using normalize_spec_again [of s] normalize_spec_again [of "normalize_spec s"]
    by (simp add: normalize_lists_def normalize_spec_def Let_def)
  then show ?thesis
    by (intro Runtime.equality) (simp_all add: NormalizeRuntime_def)
qed

lemma NormalizeRuntime_tidy:
  assumes "tidy_selectors r"
  shows "NormalizeRuntime (NormalizeRuntime r) = NormalizeRuntime r"
proof -
  have "normalize_lists (normalize_spec (rtm_Spec r)) = normalize_spec (rtm_Spec r)"
    using assms
    by (intro RuntimeSpec.equality)
       (auto simp: normalize_lists_def normalize_spec_def Let_def tidy_selectors_def
         normalize_deployment_tidy normalize_service_tidy)
  then show ?thesis
    by (simp add: NormalizeRuntime_again)
qed

text \<open>The key does not depend on how often a Runtime was normalised.\<close>

lemma KeyForRuntime_def': "KeyForRuntime r =
   \<lparr>key_Namespace = om_Namespace (normalize_meta (rtm_Metadata r)),
    key_Name = om_Name (normalize_meta (rtm_Metadata r))\<rparr>"
  by (simp add: KeyForRuntime_def Let_def)

lemma KeyForRuntime_normalize [simp]: "KeyForRuntime (NormalizeRuntime r) = KeyForRuntime r"
  by (simp add: KeyForRuntime_def')

lemma KeyForRuntime_runtimeKey:
  "KeyForRuntime r = runtimeKey (om_Namespace (rtm_Metadata r)) (om_Name (rtm_Metadata r))"
  by (simp add: KeyForRuntime_def' runtimeKey_def normalize_meta_def Let_def)

lemma NormalizeInPlace_normalized:
  "NormalizeInPlace (NormalizeRuntime r) = NormalizeRuntime (NormalizeRuntime r)"
  by (rule Runtime.equality)
     (simp_all add: NormalizeInPlace_def NormalizeRuntime_def Let_def normalize_spec_def)

lemma NormalizeInPlace_fields [simp]:
  "rtm_Metadata (NormalizeInPlace r) = rtm_Metadata r"
  "rtm_Status (NormalizeInPlace r) = rtm_Status r"
  by (simp_all add: NormalizeInPlace_def Let_def)

lemma KeyForRuntime_meta:
  "rtm_Metadata a = rtm_Metadata b \<Longrightarrow> KeyForRuntime a = KeyForRuntime b"
  by (simp add: KeyForRuntime_def')

end
