(* ===== verification/GoCodec.thy ===== *)
theory GoCodec
  imports Prelude
begin

text \<open>
  Two decoders of Go's standard library whose acceptance the validators depend on:
  \<open>base64.StdEncoding.DecodeString\<close> and \<open>time.ParseDuration\<close>. The fraction of a duration is
  computed exactly, where Go uses floating point; the two differ by at most one nanosecond.
\<close>

section \<open>Base64\<close>

definition b64_val :: "char \<Rightarrow> nat option" where
  "b64_val c = (let n = of_char c :: nat in
     if 65 \<le> n \<and> n \<le> 90 then Some (n - 65)
     else if 97 \<le> n \<and> n \<le> 122 then Some (n - 71)
     else if 48 \<le> n \<and> n \<le> 57 then Some (n + 4)
     else if n = 43 then Some 62
     else if n = 47 then Some 63
     else None)"

definition b64_pack :: "nat \<Rightarrow> nat \<Rightarrow> nat \<Rightarrow> nat \<Rightarrow> string" where
  "b64_pack x y z w = [char_of (x * 4 + y div 16), char_of (y mod 16 * 16 + z div 4), char_of (z mod 4 * 64 + w)]"

fun b64_quads :: "string \<Rightarrow> string option" where
  "b64_quads [] = Some []"
| "b64_quads (a # b # c # d # rest) =
     (case (b64_val a, b64_val b) of
        (Some x, Some y) \<Rightarrow>
          (if c = CHR ''='' then (if d = CHR ''='' \<and> rest = [] then Some (take 1 (b64_pack x y 0 0)) else None)
           else (case b64_val c of
                   None \<Rightarrow> None
                 | Some z \<Rightarrow>
                     if d = CHR ''='' then (if rest = [] then Some (take 2 (b64_pack x y z 0)) else None)
                     else (case b64_val d of
                             None \<Rightarrow> None
                           | Some w \<Rightarrow> map_option (\<lambda>t. b64_pack x y z w @ t) (b64_quads rest))))
      | _ \<Rightarrow> None)"
| "b64_quads _ = None"

text \<open>Line breaks anywhere in the input are skipped.\<close>

definition base64_decode :: "string \<Rightarrow> string option" where
  "base64_decode s = b64_quads (filter (\<lambda>c. c \<noteq> CHR 0x0A \<and> c \<noteq> CHR 0x0D) s)"

lemma b64_quads_length: "b64_quads s = Some t \<Longrightarrow> length s mod 4 = 0"
  by (induction s arbitrary: t rule: b64_quads.induct) (auto split: option.splits if_splits)

section \<open>Durations\<close>

definition span_digits :: "string \<Rightarrow> string \<times> string" where
  "span_digits s = (takeWhile is_digit s, dropWhile is_digit s)"

definition dur_units :: "int gomap" where
  "dur_units =
     [(''ns'', 1), (''us'', 1000), ([CHR 0xC2, CHR 0xB5, CHR ''s''], 1000),
      ([CHR 0xCE, CHR 0xBC, CHR ''s''], 1000), (''ms'', 1000000), (''s'', 1000000000),
      (''m'', 60000000000), (''h'', 3600000000000)]"

text \<open>
  \<open>leadingInt\<close> fails above \<open>2^63\<close>. \<open>leadingFraction\<close> ignores the digits from the first one on
  that would overflow: it returns the value read and its number of digits.
\<close>

definition leading_int :: "string \<Rightarrow> int option" where
  "leading_int ds = (if digits_val ds > 9223372036854775808 then None else Some (digits_val ds))"

fun leading_fraction :: "int \<Rightarrow> nat \<Rightarrow> string \<Rightarrow> int \<times> nat" where
  "leading_fraction x n [] = (x, n)"
| "leading_fraction x n (c # cs) =
     (if x > max_int64 div 10 \<or> 10 * x + digit_val c > 9223372036854775808 then (x, n)
      else leading_fraction (10 * x + digit_val c) (Suc n) cs)"

lemma length_dropWhile_lt: "takeWhile P s \<noteq> [] \<Longrightarrow> length (dropWhile P s) < length s"
  by (cases s) (auto simp: length_dropWhile_le le_imp_less_Suc split: if_splits)

lemma length_span: "span_digits s = (a, b) \<Longrightarrow> length b \<le> length s"
  by (auto simp: span_digits_def length_dropWhile_le)

lemma dur_rest_shorter:
  assumes "(ds, s1) = span_digits s"
    and "(fs, s2) = (if s1 \<noteq> [] \<and> hd s1 = CHR ''.'' then span_digits (tl s1) else ([], s1))"
    and "takeWhile P s2 \<noteq> []"
  shows "length (dropWhile P s2) < length s"
proof -
  have "length s1 \<le> length s" using assms(1) by (metis length_span)
  moreover have "length s2 \<le> length s1"
    using assms(2) length_span [of "tl s1" fs s2] by (cases s1) (auto split: if_splits)
  moreover have "length (dropWhile P s2) < length s2" using assms(3) by (rule length_dropWhile_lt)
  ultimately show ?thesis by simp
qed

function dur_loop :: "string \<Rightarrow> int \<Rightarrow> int option" where
  "dur_loop s d =
     (if s = [] then Some d
      else if \<not> (hd s = CHR ''.'' \<or> is_digit (hd s)) then None
      else
        (case span_digits s of (ds, s1) \<Rightarrow>
         case leading_int ds of
           None \<Rightarrow> None
         | Some v \<Rightarrow>
           (case (if s1 \<noteq> [] \<and> hd s1 = CHR ''.'' then span_digits (tl s1) else ([], s1)) of (fs, s2) \<Rightarrow>
            let u = takeWhile (\<lambda>c. c \<noteq> CHR ''.'' \<and> \<not> is_digit c) s2;
                s3 = dropWhile (\<lambda>c. c \<noteq> CHR ''.'' \<and> \<not> is_digit c) s2
            in if ds = [] \<and> fs = [] then None
               else if u = [] then None
               else
                 (case map_of dur_units u of
                    None \<Rightarrow> None
                  | Some unit \<Rightarrow>
                      if v > 9223372036854775808 div unit then None
                      else
                        (case leading_fraction 0 0 fs of (f, n) \<Rightarrow>
                         let v = v * unit + f * unit div 10 ^ n; d' = (d + v) mod 18446744073709551616
                         in if v > 9223372036854775808 \<or> d' > 9223372036854775808 then None
                            else dur_loop s3 d')))))"
  by pat_completeness auto

termination
  by (relation "measure (\<lambda>(s, d). length s)") (auto dest: dur_rest_shorter)

declare dur_loop.simps [simp del]

definition parse_duration :: "string \<Rightarrow> int option" where
  "parse_duration s =
     (case split_sign s of (neg, t) \<Rightarrow>
        if t = ''0'' then Some 0
        else if t = [] then None
        else (case dur_loop t 0 of
                None \<Rightarrow> None
              | Some d \<Rightarrow> if neg then Some (- d) else if d > max_int64 then None else Some d))"

end
