(* ===== verification/Validate.thy ===== *)
theory Validate
  imports Normalize GoCodec
begin

text \<open>
  \<open>ValidateRuntime\<close> and its helpers (\<open>internal/runtimeagent/spec.go\<close>, lines 489 to 838). An
  error is a value of \<open>spec_error\<close>: the resource its message names and one constructor per error
  the code returns. The lists of checks follow the code's order of early returns.
\<close>

datatype secret_error =
    BadSecretName
  | DuplicateSecret
  | BadSecretType string
  | SecretDataRequired
  | SecretNotBase64 string

datatype resource_error = BadCPUs string | BadMemory string | BadMemorySwap string | NegativePIDs

datatype health_error = BadDuration string string | NegativeRetries

datatype deployment_error =
    BadDeploymentName
  | DuplicateDeployment
  | ImageRequired
  | NegativeReplicas
  | BadStrategy string
  | NegativeRollingUpdate
  | EmptyRollingUpdate
  | PullSecretNameRequired
  | PullSecretUndefined string
  | PullSecretBadType string
  | EnvFromSecretUndefined string
  | BadResources resource_error
  | BadHealthCheck health_error
  | VolumeRequired
  | VolumeNotAbsolute string
  | BadPortName string
  | BadContainerPort

datatype service_error =
    BadServiceName
  | DuplicateService
  | SelectorRequired
  | BadServicePort
  | TargetPortRequired
  | ListenPortTwice int string
  | BadProtocol string
  | SelectorMatchesNothing
  | TargetPortUnmatched string

datatype ingress_error =
    BadIngressName
  | BadProvider string
  | BadIngressPort
  | ListenPortOfService int string
  | RoutesRequired
  | BadRoutePath string
  | RouteServiceMissing string
  | RoutePortMismatch string string int

text \<open>The first argument of the last four constructors is the resource the message names.\<close>

datatype spec_error =
    UnsupportedAPIVersion string
  | UnsupportedKind string
  | BadRuntimeName string
  | BadNamespace string
  | NetworkRequired
  | BadNodeName string
  | EmptyNodeSelector
  | DeploymentsRequired
  | ServicesRequired
  | SecretError string secret_error
  | DeploymentError string deployment_error
  | ServiceError string service_error
  | IngressError string ingress_error

section \<open>Text classes\<close>

definition dns_char :: "char \<Rightarrow> bool" where
  "dns_char c \<longleftrightarrow> (let n = of_char c :: nat in (97 \<le> n \<and> n \<le> 122) \<or> (48 \<le> n \<and> n \<le> 57))"

text \<open>\<open>dnsLabelRE\<close>: \<open>^[a-z0-9]([-a-z0-9]*[a-z0-9])?$\<close>.\<close>

definition dnsLabelRE :: "string \<Rightarrow> bool" where
  "dnsLabelRE s \<longleftrightarrow> s \<noteq> [] \<and> dns_char (hd s) \<and> dns_char (last s) \<and>
     list_all (\<lambda>c. dns_char c \<or> c = CHR ''-'') s"

definition validDNSLabel :: "string \<Rightarrow> bool" where
  "validDNSLabel value \<longleftrightarrow> \<not> (value = [] \<or> length value > 63) \<and> dnsLabelRE value"

definition validPortName :: "string \<Rightarrow> bool" where
  "validPortName value \<longleftrightarrow> \<not> (value = [] \<or> length value > 63) \<and> dnsLabelRE value"

lemma label_chars:
  assumes "validDNSLabel s"
  shows "s \<noteq> []" "CHR ''/'' \<notin> set s" "CHR '':'' \<notin> set s" "CHR ''.'' \<notin> set s" "hd s \<noteq> CHR ''/''" "last s \<noteq> CHR ''/''"
proof -
  have "\<not> dns_char (CHR ''/'')" "\<not> dns_char (CHR '':'')" "\<not> dns_char (CHR ''.'')" by (simp_all add: dns_char_def)
  then show "s \<noteq> []" and slash: "CHR ''/'' \<notin> set s" and "CHR '':'' \<notin> set s" "CHR ''.'' \<notin> set s"
    using assms by (auto simp: validDNSLabel_def dnsLabelRE_def list_all_iff)
  then show "hd s \<noteq> CHR ''/''" "last s \<noteq> CHR ''/''" using hd_in_set last_in_set by metis+
qed

definition memory_suffixes :: "string list" where
  "memory_suffixes = [''b'', ''k'', ''m'', ''g'', ''t'', ''kb'', ''mb'', ''gb'', ''tb'', ''ki'', ''mi'',
     ''gi'', ''ti'', ''kib'', ''mib'', ''gib'', ''tib'']"

text \<open>\<open>memoryLimitRE\<close>: a positive number without leading zero and an optional suffix.\<close>

definition memoryLimitRE :: "string \<Rightarrow> bool" where
  "memoryLimitRE s =
     (let ds = takeWhile is_digit s; suffix = dropWhile is_digit s
      in ds \<noteq> [] \<and> hd ds \<noteq> CHR ''0'' \<and> (suffix = [] \<or> suffix \<in> set memory_suffixes))"

definition positive_int :: "string \<Rightarrow> bool" where
  "positive_int s \<longleftrightarrow> s \<noteq> [] \<and> list_all is_digit s \<and> hd s \<noteq> CHR ''0''"

text \<open>
  \<open>cpuLimitRE\<close>: \<open>^([1-9][0-9]*|0\.[0-9]*[1-9][0-9]*|[1-9][0-9]*\.[0-9]+)$\<close>.
\<close>

definition cpuLimitRE :: "string \<Rightarrow> bool" where
  "cpuLimitRE s \<longleftrightarrow>
     (case cut (CHR ''.'') s of (whole, frac, found) \<Rightarrow>
        if \<not> found then positive_int whole
        else list_all is_digit frac \<and>
          ((whole = ''0'' \<and> (\<exists>c \<in> set frac. c \<noteq> CHR ''0'')) \<or> (positive_int whole \<and> frac \<noteq> [])))"

section \<open>Selectors and ports\<close>

definition labelsMatch :: "string gomap \<Rightarrow> string gomap \<Rightarrow> bool" where
  "labelsMatch labels selector \<longleftrightarrow>
     selector \<noteq> [] \<and>
     list_all (\<lambda>key. trim_space (get_str labels key) = trim_space (get_str selector key)) (map_keys selector)"

definition matchingDeployments :: "DeploymentSpec list \<Rightarrow> string gomap \<Rightarrow> DeploymentSpec list" where
  "matchingDeployments deployments selector =
     sort_key dep_Name (filter (\<lambda>d. labelsMatch (dep_Selector d) selector) deployments)"

definition resolveServiceTargetPort :: "ServiceSpec \<Rightarrow> DeploymentSpec list \<Rightarrow> service_error + int" where
  "resolveServiceTargetPort service deployments =
     (if IntVal (svc_TargetPort service) > 0 then Inr (IntVal (svc_TargetPort service))
      else
        let name = trim_space (StrVal (svc_TargetPort service))
        in if name = [] then Inl TargetPortRequired
           else (case find (\<lambda>port. cp_Name port = name \<and> cp_ContainerPort port > 0)
                        (concat (map dep_Ports deployments)) of
                   Some port \<Rightarrow> Inr (cp_ContainerPort port)
                 | None \<Rightarrow> Inl (TargetPortUnmatched name)))"

definition inl_error :: "'e + 'a \<Rightarrow> 'e option" where
  "inl_error r = (case r of Inl e \<Rightarrow> Some e | Inr _ \<Rightarrow> None)"

lemma inl_error_None [valid_simps]: "inl_error r = None \<longleftrightarrow> (\<exists>x. r = Inr x)"
  by (cases r) (auto simp: inl_error_def)

section \<open>Resources and health checks\<close>

definition validateResourceSpec :: "ResourceSpec \<Rightarrow> resource_error option" where
  "validateResourceSpec resources =
     first_error
       [check (res_CPUs resources \<noteq> [] \<and> \<not> cpuLimitRE (to_lower (trim_space (res_CPUs resources))))
          (BadCPUs (res_CPUs resources)),
        check (res_Memory resources \<noteq> [] \<and> \<not> memoryLimitRE (to_lower (trim_space (res_Memory resources))))
          (BadMemory (res_Memory resources)),
        check (res_MemorySwap resources \<noteq> [] \<and> \<not> memoryLimitRE (to_lower (trim_space (res_MemorySwap resources))))
          (BadMemorySwap (res_MemorySwap resources)),
        check (res_PIDsLimit resources < 0) NegativePIDs]"

text \<open>The loop ranges over a map literal; which of two bad fields is reported is up to the runtime.\<close>

definition validateHealthCheckSpec :: "HealthCheckSpec \<Rightarrow> health_error option" where
  "validateHealthCheckSpec health =
     first_error
       (map (\<lambda>(field, value).
               check (\<not> is_blank value \<and> parse_duration value = None) (BadDuration field value))
          [(''interval'', hc_Interval health), (''timeout'', hc_Timeout health),
           (''startPeriod'', hc_StartPeriod health)] @
        [check (hc_Retries health < 0) NegativeRetries])"

section \<open>ValidateRuntime\<close>

definition validate_secret :: "SecretSpec list \<Rightarrow> SecretSpec \<Rightarrow> secret_error option" where
  "validate_secret seen s =
     first_error
       [check (\<not> validDNSLabel (sec_Name s)) BadSecretName,
        check (sec_Name s \<in> sec_Name ` set seen) DuplicateSecret,
        check (sec_Type s \<notin> set [''opaque'', ''registry-auth'', ''dockerconfigjson''])
          (BadSecretType (sec_Type s)),
        check (sec_StringData s = [] \<and> sec_Data s = []) SecretDataRequired,
        first_error
          (map (\<lambda>(key, value). check (base64_decode value = None) (SecretNotBase64 key))
             (sec_Data s))]"

definition validate_strategy :: "DeploymentStrategy \<Rightarrow> deployment_error option" where
  "validate_strategy st =
     first_error
       (check (st_Type st \<notin> set [''rollingupdate'', ''recreate'']) (BadStrategy (st_Type st)) #
        (case st_RollingUpdate st of
           None \<Rightarrow> []
         | Some ru \<Rightarrow>
             [check (ru_MaxUnavailable ru < 0 \<or> ru_MaxSurge ru < 0) NegativeRollingUpdate,
              check (st_Type st = ''rollingupdate'' \<and> ru_MaxUnavailable ru = 0 \<and> ru_MaxSurge ru = 0)
                EmptyRollingUpdate]))"

definition validate_pull_secret ::
    "SecretSpec list \<Rightarrow> LocalObjectReference \<Rightarrow> deployment_error option" where
  "validate_pull_secret secrets ref =
     (if lor_Name ref = [] then Some PullSecretNameRequired
      else (case find (\<lambda>s. sec_Name s = lor_Name ref) secrets of
              None \<Rightarrow> Some (PullSecretUndefined (lor_Name ref))
            | Some secret \<Rightarrow>
                check (sec_Type secret \<notin> set [''registry-auth'', ''dockerconfigjson''])
                  (PullSecretBadType (lor_Name ref))))"

definition validate_env_from :: "SecretSpec list \<Rightarrow> EnvFromSource \<Rightarrow> deployment_error option" where
  "validate_env_from secrets source =
     check (equal_fold (ef_Type source) ''secret'' \<and> ef_Name source \<notin> sec_Name ` set secrets)
       (EnvFromSecretUndefined (ef_Name source))"

definition validate_volume :: "VolumeMount \<Rightarrow> deployment_error option" where
  "validate_volume v =
     first_error
       [check (is_blank (vm_Source v) \<or> is_blank (vm_Target v)) VolumeRequired,
        check (\<not> has_prefix (vm_Target v) ''/'') (VolumeNotAbsolute (vm_Target v))]"

definition validate_port :: "ContainerPort \<Rightarrow> deployment_error option" where
  "validate_port p =
     first_error
       [check (\<not> is_blank (cp_Name p) \<and> \<not> validPortName (cp_Name p)) (BadPortName (cp_Name p)),
        check (cp_ContainerPort p \<le> 0) BadContainerPort]"

definition validate_deployment ::
    "SecretSpec list \<Rightarrow> DeploymentSpec list \<Rightarrow> DeploymentSpec \<Rightarrow> deployment_error option" where
  "validate_deployment secrets seen d =
     first_error
       [check (\<not> validDNSLabel (dep_Name d)) BadDeploymentName,
        check (dep_Name d \<in> dep_Name ` set seen) DuplicateDeployment,
        check (is_blank (dep_Image d)) ImageRequired,
        check (deploymentReplicas d < 0) NegativeReplicas,
        validate_strategy (dep_Strategy d),
        first_error (map (validate_pull_secret secrets) (dep_ImagePullSecrets d)),
        first_error (map (validate_env_from secrets) (dep_EnvFrom d)),
        map_option BadResources (validateResourceSpec (dep_Resources d)),
        map_option BadHealthCheck (validateHealthCheckSpec (dep_HealthCheck d)),
        first_error (map validate_volume (dep_Volumes d)),
        first_error (map validate_port (dep_Ports d))]"

definition port_owner :: "ServiceSpec list \<Rightarrow> int \<Rightarrow> string option" where
  "port_owner services port = map_option svc_Name (find (\<lambda>s. svc_ListenPort s = port) services)"

definition validate_service ::
    "DeploymentSpec list \<Rightarrow> ServiceSpec list \<Rightarrow> ServiceSpec \<Rightarrow> service_error option" where
  "validate_service deployments seen s =
     (let matches = matchingDeployments deployments (svc_Selector s)
      in first_error
       [check (\<not> validDNSLabel (svc_Name s)) BadServiceName,
        check (svc_Name s \<in> svc_Name ` set seen) DuplicateService,
        check (svc_Selector s = []) SelectorRequired,
        check (svc_Port s \<le> 0 \<or> svc_ListenPort s \<le> 0) BadServicePort,
        check (ios_IsZero (svc_TargetPort s)) TargetPortRequired,
        (case port_owner seen (svc_ListenPort s) of
           None \<Rightarrow> None
         | Some previous \<Rightarrow> Some (ListenPortTwice (svc_ListenPort s) previous)),
        check (to_lower (trim_space (svc_Protocol s)) \<noteq> ''http'')
          (BadProtocol (svc_Protocol s)),
        check (matches = []) SelectorMatchesNothing,
        inl_error (resolveServiceTargetPort s matches)])"

definition validate_route :: "ServiceSpec list \<Rightarrow> IngressRoute \<Rightarrow> ingress_error option" where
  "validate_route services r =
     (if \<not> has_prefix (rt_Path r) ''/'' then Some (BadRoutePath (rt_Path r))
      else (case find (\<lambda>s. svc_Name s = rt_ServiceName r) services of
              None \<Rightarrow> Some (RouteServiceMissing (rt_ServiceName r))
            | Some service \<Rightarrow>
                check (\<not> ios_IsZero (rt_ServicePort r) \<and>
                       ios_String (rt_ServicePort r) \<noteq> itoa (svc_Port service) \<and>
                       ios_String (rt_ServicePort r) \<noteq> svc_Name service)
                  (RoutePortMismatch (ios_String (rt_ServicePort r)) (svc_Name service)
                     (svc_Port service))))"

definition validate_ingress :: "ServiceSpec list \<Rightarrow> IngressSpec \<Rightarrow> ingress_error option" where
  "validate_ingress services i =
     first_error
       [check (\<not> validDNSLabel (ing_Name i)) BadIngressName,
        check (to_lower (trim_space (ing_Provider i)) \<noteq> ''builtin'')
          (BadProvider (ing_Provider i)),
        check (ing_ListenPort i \<le> 0) BadIngressPort,
        (case port_owner services (ing_ListenPort i) of
           None \<Rightarrow> None
         | Some conflict \<Rightarrow> Some (ListenPortOfService (ing_ListenPort i) conflict)),
        check (ing_Routes i = []) RoutesRequired,
        first_error (map (validate_route services) (ing_Routes i))]"

definition validate_normalized :: "Runtime \<Rightarrow> spec_error option" where
  "validate_normalized r =
     (let meta = rtm_Metadata r; spec = rtm_Spec r
      in first_error
       [check (rtm_APIVersion r \<noteq> DefaultAPIVersion) (UnsupportedAPIVersion (rtm_APIVersion r)),
        check (rtm_Kind r \<noteq> DefaultKind) (UnsupportedKind (rtm_Kind r)),
        check (\<not> validDNSLabel (om_Name meta)) (BadRuntimeName (om_Name meta)),
        check (\<not> validDNSLabel (om_Namespace meta)) (BadNamespace (om_Namespace meta)),
        check (is_blank (rs_Network spec)) NetworkRequired,
        check (rs_NodeName spec \<noteq> [] \<and> \<not> validDNSLabel (rs_NodeName spec)) (BadNodeName (rs_NodeName spec)),
        first_error
          (map (\<lambda>(key, value). check (is_blank key \<or> is_blank value) EmptyNodeSelector)
             (rs_NodeSelector spec)),
        check (rs_Deployments spec = []) DeploymentsRequired,
        check (rs_Services spec = []) ServicesRequired,
        check_all (\<lambda>seen s. map_option (SecretError (sec_Name s)) (validate_secret seen s)) [] (rs_Secrets spec),
        check_all (\<lambda>seen d. map_option (DeploymentError (dep_Name d))
             (validate_deployment (rs_Secrets spec) seen d)) [] (rs_Deployments spec),
        check_all (\<lambda>seen s. map_option (ServiceError (svc_Name s))
             (validate_service (rs_Deployments spec) seen s)) [] (rs_Services spec),
        first_error (map (\<lambda>i. map_option (IngressError (ing_Name i))
             (validate_ingress (rs_Services spec) i)) (rs_Ingress spec))])"

definition ValidateRuntime :: "Runtime \<Rightarrow> spec_error option" where
  "ValidateRuntime runtime = validate_normalized (NormalizeRuntime runtime)"

section \<open>What a valid Runtime is\<close>

text \<open>
  The contract in declarative form: the conditions on each resource, the uniqueness of names and
  of service ports, and the references that must resolve.
\<close>

definition secret_ok :: "SecretSpec \<Rightarrow> bool" where
  "secret_ok s \<longleftrightarrow> validDNSLabel (sec_Name s) \<and>
     sec_Type s \<in> {''opaque'', ''registry-auth'', ''dockerconfigjson''} \<and>
     (sec_StringData s \<noteq> [] \<or> sec_Data s \<noteq> []) \<and>
     (\<forall>(k, v) \<in> set (sec_Data s). base64_decode v \<noteq> None)"

definition strategy_ok :: "DeploymentStrategy \<Rightarrow> bool" where
  "strategy_ok st \<longleftrightarrow> st_Type st \<in> {''rollingupdate'', ''recreate''} \<and>
     (\<forall>ru. st_RollingUpdate st = Some ru \<longrightarrow>
        0 \<le> ru_MaxUnavailable ru \<and> 0 \<le> ru_MaxSurge ru \<and>
        (st_Type st = ''rollingupdate'' \<longrightarrow> 0 < ru_MaxUnavailable ru + ru_MaxSurge ru))"

definition pull_secret_ok :: "SecretSpec list \<Rightarrow> LocalObjectReference \<Rightarrow> bool" where
  "pull_secret_ok secrets ref \<longleftrightarrow> lor_Name ref \<noteq> [] \<and>
     (\<exists>s. find (\<lambda>s. sec_Name s = lor_Name ref) secrets = Some s \<and>
          sec_Type s \<in> {''registry-auth'', ''dockerconfigjson''})"

definition deployment_ok :: "SecretSpec list \<Rightarrow> DeploymentSpec \<Rightarrow> bool" where
  "deployment_ok secrets d \<longleftrightarrow> validDNSLabel (dep_Name d) \<and> \<not> is_blank (dep_Image d) \<and>
     0 \<le> deploymentReplicas d \<and> strategy_ok (dep_Strategy d) \<and>
     (\<forall>ref \<in> set (dep_ImagePullSecrets d). pull_secret_ok secrets ref) \<and>
     (\<forall>src \<in> set (dep_EnvFrom d). equal_fold (ef_Type src) ''secret'' \<longrightarrow>
        ef_Name src \<in> sec_Name ` set secrets) \<and>
     validateResourceSpec (dep_Resources d) = None \<and>
     validateHealthCheckSpec (dep_HealthCheck d) = None \<and>
     (\<forall>v \<in> set (dep_Volumes d). \<not> is_blank (vm_Source v) \<and> \<not> is_blank (vm_Target v) \<and>
        has_prefix (vm_Target v) ''/'') \<and>
     (\<forall>p \<in> set (dep_Ports d). (is_blank (cp_Name p) \<or> validPortName (cp_Name p)) \<and> 0 < cp_ContainerPort p)"

definition service_ok :: "DeploymentSpec list \<Rightarrow> ServiceSpec \<Rightarrow> bool" where
  "service_ok deployments s \<longleftrightarrow> validDNSLabel (svc_Name s) \<and> svc_Selector s \<noteq> [] \<and>
     0 < svc_Port s \<and> 0 < svc_ListenPort s \<and> \<not> ios_IsZero (svc_TargetPort s) \<and>
     to_lower (trim_space (svc_Protocol s)) = ''http'' \<and>
     matchingDeployments deployments (svc_Selector s) \<noteq> [] \<and>
     (\<exists>port. resolveServiceTargetPort s (matchingDeployments deployments (svc_Selector s)) = Inr port)"

definition route_ok :: "ServiceSpec list \<Rightarrow> IngressRoute \<Rightarrow> bool" where
  "route_ok services r \<longleftrightarrow> has_prefix (rt_Path r) ''/'' \<and>
     (\<exists>s. find (\<lambda>s. svc_Name s = rt_ServiceName r) services = Some s \<and>
        (ios_IsZero (rt_ServicePort r) \<or> ios_String (rt_ServicePort r) = itoa (svc_Port s) \<or>
         ios_String (rt_ServicePort r) = svc_Name s))"

definition ingress_ok :: "ServiceSpec list \<Rightarrow> IngressSpec \<Rightarrow> bool" where
  "ingress_ok services i \<longleftrightarrow> validDNSLabel (ing_Name i) \<and>
     to_lower (trim_space (ing_Provider i)) = ''builtin'' \<and> 0 < ing_ListenPort i \<and>
     ing_ListenPort i \<notin> svc_ListenPort ` set services \<and> ing_Routes i \<noteq> [] \<and>
     (\<forall>r \<in> set (ing_Routes i). route_ok services r)"

definition spec_ok :: "RuntimeSpec \<Rightarrow> bool" where
  "spec_ok spec \<longleftrightarrow>
     \<not> is_blank (rs_Network spec) \<and> (rs_NodeName spec = [] \<or> validDNSLabel (rs_NodeName spec)) \<and>
     (\<forall>(k, v) \<in> set (rs_NodeSelector spec). \<not> is_blank k \<and> \<not> is_blank v) \<and>
     rs_Deployments spec \<noteq> [] \<and> rs_Services spec \<noteq> [] \<and>
     (\<forall>s \<in> set (rs_Secrets spec). secret_ok s) \<and> distinct (map sec_Name (rs_Secrets spec)) \<and>
     (\<forall>d \<in> set (rs_Deployments spec). deployment_ok (rs_Secrets spec) d) \<and>
     distinct (map dep_Name (rs_Deployments spec)) \<and>
     (\<forall>s \<in> set (rs_Services spec). service_ok (rs_Deployments spec) s) \<and>
     distinct (map svc_Name (rs_Services spec)) \<and> distinct (map svc_ListenPort (rs_Services spec)) \<and>
     (\<forall>i \<in> set (rs_Ingress spec). ingress_ok (rs_Services spec) i)"

definition runtime_ok :: "Runtime \<Rightarrow> bool" where
  "runtime_ok r \<longleftrightarrow> rtm_APIVersion r = DefaultAPIVersion \<and> rtm_Kind r = DefaultKind \<and>
     validDNSLabel (om_Name (rtm_Metadata r)) \<and> validDNSLabel (om_Namespace (rtm_Metadata r)) \<and>
     spec_ok (rtm_Spec r)"

lemma validate_secret_None:
  "validate_secret seen s = None \<longleftrightarrow> secret_ok s \<and> sec_Name s \<notin> sec_Name ` set seen"
  by (auto simp: validate_secret_def secret_ok_def valid_simps simp del: first_error.simps)

lemma validate_strategy_None: "validate_strategy st = None \<longleftrightarrow> strategy_ok st"
  by (cases "st_RollingUpdate st") (auto simp: validate_strategy_def strategy_ok_def valid_simps)

lemma validate_pull_secret_None: "validate_pull_secret secrets ref = None \<longleftrightarrow> pull_secret_ok secrets ref"
  by (auto simp: validate_pull_secret_def pull_secret_ok_def valid_simps split: option.split)

lemma validate_deployment_None:
  "validate_deployment secrets seen d = None
     \<longleftrightarrow> deployment_ok secrets d \<and> dep_Name d \<notin> dep_Name ` set seen"
  by (auto simp: validate_deployment_def deployment_ok_def valid_simps validate_strategy_None
      validate_pull_secret_None validate_env_from_def validate_volume_def validate_port_def)

lemma port_owner_None: "port_owner services port = None \<longleftrightarrow> port \<notin> svc_ListenPort ` set services"
  by (auto simp: port_owner_def find_None_iff)

lemma validate_service_None:
  "validate_service deployments seen s = None
     \<longleftrightarrow> service_ok deployments s \<and> svc_Name s \<notin> svc_Name ` set seen \<and>
         svc_ListenPort s \<notin> svc_ListenPort ` set seen"
  by (auto simp: validate_service_def service_ok_def valid_simps Let_def port_owner_None [symmetric]
      split: option.split)

lemma validate_route_None: "validate_route services r = None \<longleftrightarrow> route_ok services r"
  by (auto simp: validate_route_def route_ok_def valid_simps split: option.split)

lemma validate_ingress_None: "validate_ingress services i = None \<longleftrightarrow> ingress_ok services i"
  by (auto simp: validate_ingress_def ingress_ok_def valid_simps validate_route_None
      port_owner_None [symmetric] split: option.split)

lemma validate_normalized_None: "validate_normalized r = None \<longleftrightarrow> runtime_ok r"
proof -
  have secrets: "check_all (\<lambda>seen s. map_option (SecretError (sec_Name s)) (validate_secret seen s)) [] xs = None
      \<longleftrightarrow> (\<forall>s \<in> set xs. secret_ok s) \<and> distinct (map sec_Name xs)" for xs
    by (subst check_all_iff [of _ secret_ok sec_Name sec_Name]) (auto simp: validate_secret_None)
  have deps: "check_all (\<lambda>seen d. map_option (DeploymentError (dep_Name d)) (validate_deployment ys seen d)) [] xs = None
      \<longleftrightarrow> (\<forall>d \<in> set xs. deployment_ok ys d) \<and> distinct (map dep_Name xs)" for xs ys
    by (subst check_all_iff [of _ "deployment_ok ys" dep_Name dep_Name]) (auto simp: validate_deployment_None)
  have svcs: "check_all (\<lambda>seen s. map_option (ServiceError (svc_Name s)) (validate_service ys seen s)) [] xs = None
      \<longleftrightarrow> (\<forall>s \<in> set xs. service_ok ys s) \<and> distinct (map svc_Name xs) \<and> distinct (map svc_ListenPort xs)"
    for xs ys
    by (subst check_all_iff [of _ "service_ok ys" svc_Name svc_ListenPort]) (auto simp: validate_service_None)
  have sel: "first_error (map (\<lambda>(k, v). check (is_blank k \<or> is_blank v) e) m) = None
      \<longleftrightarrow> (\<forall>(k, v) \<in> set m. \<not> is_blank k \<and> \<not> is_blank v)" for m and e :: spec_error
    by (auto simp: first_error_map_None check_None)
  have ing: "first_error (map (\<lambda>i. map_option (IngressError (ing_Name i)) (validate_ingress ys i)) xs) = None
      \<longleftrightarrow> (\<forall>i \<in> set xs. ingress_ok ys i)" for xs ys
    by (auto simp: first_error_map_None validate_ingress_None)
  show ?thesis
    by (simp only: validate_normalized_def Let_def first_error_Cons_None secrets deps svcs sel ing
        check_None runtime_ok_def spec_ok_def first_error.simps) blast
qed

end
