(* ===== verification/Samples.thy ===== *)
theory Samples
  imports Validate
begin

text \<open>
  Concrete resources that the witnesses evaluate: a Runtime with one deployment, one service and
  one ingress, and variations of it.
\<close>

definition sample_deployment :: "string \<Rightarrow> DeploymentSpec" where
  "sample_deployment name =
     \<lparr>dep_Name = name, dep_ServiceName = [], dep_Image = ''nginx'', dep_ImagePullSecrets = [],
      dep_Replicas = Some 2, dep_Strategy = \<lparr>st_Type = [], st_RollingUpdate = None\<rparr>,
      dep_Selector = [], dep_Ports = [\<lparr>cp_Name = ''http'', cp_ContainerPort = 8080\<rparr>], dep_Env = [],
      dep_EnvFiles = [], dep_EnvFrom = [], dep_Volumes = [],
      dep_Resources = \<lparr>res_CPUs = ''0.5'', res_Memory = ''64m'', res_MemorySwap = [], res_PIDsLimit = 10\<rparr>,
      dep_HealthCheck = \<lparr>hc_Command = [], hc_HTTPGet = None, hc_Interval = [], hc_Timeout = [],
        hc_Retries = 0, hc_StartPeriod = []\<rparr>,
      dep_Entrypoint = [], dep_Command = [], dep_Labels = [], dep_Revision = [], dep_PodRevision = []\<rparr>"

definition sample_service :: "string \<Rightarrow> int \<Rightarrow> ServiceSpec" where
  "sample_service name port =
     \<lparr>svc_Name = name, svc_Selector = [], svc_Port = port, svc_TargetPort = FromString ''http'',
      svc_ListenPort = 0, svc_Protocol = [], svc_AffinityPolicy = []\<rparr>"

definition sample_ingress :: "string \<Rightarrow> int \<Rightarrow> string \<Rightarrow> IngressSpec" where
  "sample_ingress service port path =
     \<lparr>ing_Name = ''edge'', ing_Provider = [], ing_Host = [], ing_ListenPort = port, ing_TLS = None,
      ing_Routes = [\<lparr>rt_Path = path, rt_ServiceName = service, rt_ServicePort = FromInt 0\<rparr>]\<rparr>"

definition sample_runtime :: "string \<Rightarrow> int \<Rightarrow> Runtime" where
  "sample_runtime name port =
     \<lparr>rtm_APIVersion = [], rtm_Kind = [],
      rtm_Metadata = \<lparr>om_Name = name, om_Namespace = [], om_Generation = 0\<rparr>,
      rtm_Spec = \<lparr>rs_NodeName = [], rs_NodeSelector = [], rs_Network = [], rs_Secrets = [],
        rs_Deployments = [sample_deployment ''web''], rs_Services = [sample_service ''web'' port],
        rs_Ingress = [sample_ingress ''web'' 80 (''/'' @ name)]\<rparr>,
      rtm_Status = None\<rparr>"

lemma sample_valid: "ValidateRuntime (sample_runtime ''shop'' 9000) = None"
  by code_simp

end
