(* ===== verification/Contract.thy ===== *)
theory Contract
  imports Samples
begin

text \<open>
  The properties of the resource contract (\<open>internal/runtimeagent/spec.go\<close>): its codec, its
  normalisation and its validation, over the lemmas of RuntimeTypes, Normalize and Validate.
\<close>

section \<open>Codec and keys\<close>

text \<open>A port or name that was read from JSON or YAML, or that \<open>FromInt\<close> made of an \<open>int\<close>, survives
  being written and read back, in either format.\<close>

theorem int_or_string_roundtrip:
  assumes "ios_UnmarshalYAML n = Some v \<or> (\<exists>i. in_int64 i \<and> v = FromInt i)"
  shows "ios_UnmarshalJSON (ios_MarshalJSON v) = Some v \<and> ios_UnmarshalYAML (ios_MarshalYAML v) = Some v"
  using assms ios_UnmarshalYAML_canonical ios_canonical_FromInt ios_json_roundtrip ios_yaml_roundtrip by blast

theorem int_or_string_roundtrip_witness:
  "ios_UnmarshalJSON (ios_MarshalJSON (FromString ''http'')) = Some (FromString ''http'')"
proof -
  have "ios_UnmarshalYAML (YScalar ''!!str'' '' http'') = Some (FromString ''http'')" by code_simp
  then show ?thesis using int_or_string_roundtrip by blast
qed

text \<open>The text of a key identifies it: two Runtimes whose namespaces hold no slash, as those of
  valid Runtimes, share the text of their key only if they have the same name and namespace.\<close>

theorem key_text_identifies:
  assumes "runtime_ok (NormalizeRuntime a)" "runtime_ok (NormalizeRuntime b)"
  shows "key_String (KeyForRuntime a) = key_String (KeyForRuntime b) \<longleftrightarrow> KeyForRuntime a = KeyForRuntime b"
proof -
  have slash: "slash_free s" if "validDNSLabel s" for s
  proof -
    have "\<not> dns_char (CHR ''/'')" by (simp add: dns_char_def)
    with that show ?thesis by (auto simp: validDNSLabel_def dnsLabelRE_def slash_free_def list_all_iff)
  qed
  have "slash_free (key_Namespace (KeyForRuntime r))" if "runtime_ok (NormalizeRuntime r)" for r
    using that slash by (auto simp: runtime_ok_def KeyForRuntime_def Let_def)
  with assms show ?thesis by (intro key_String_inject) auto
qed

theorem key_text_identifies_witness:
  "key_String (KeyForRuntime (sample_runtime ''shop'' 9000)) = key_String (KeyForRuntime (sample_runtime '' shop'' 9000))"
proof -
  have "ValidateRuntime (sample_runtime '' shop'' 9000) = None" by code_simp
  then have "runtime_ok (NormalizeRuntime (sample_runtime ''shop'' 9000))"
    "runtime_ok (NormalizeRuntime (sample_runtime '' shop'' 9000))"
    using sample_valid by (simp_all add: ValidateRuntime_def validate_normalized_None)
  moreover have "KeyForRuntime (sample_runtime ''shop'' 9000) = KeyForRuntime (sample_runtime '' shop'' 9000)"
    by code_simp
  ultimately show ?thesis using key_text_identifies by blast
qed

section \<open>Normalisation\<close>

text \<open>C40: Normalisation settles after the second pass: a third one changes nothing, and when selector
  keys are written without white space already the second one changes nothing.\<close>

theorem normalization_settles:
  "NormalizeRuntime (NormalizeRuntime (NormalizeRuntime r)) = NormalizeRuntime (NormalizeRuntime r) \<and>
   (tidy_selectors r \<longrightarrow> NormalizeRuntime (NormalizeRuntime r) = NormalizeRuntime r)"
  using NormalizeRuntime_twice NormalizeRuntime_tidy by blast

theorem normalization_settles_witness:
  "NormalizeRuntime (NormalizeRuntime (sample_runtime ''shop'' 9000)) = NormalizeRuntime (sample_runtime ''shop'' 9000)"
proof -
  have "tidy_selectors (sample_runtime ''shop'' 9000)"
    by (simp add: tidy_selectors_def tidy_keys_def sample_runtime_def sample_deployment_def sample_service_def)
  with normalization_settles [of "sample_runtime ''shop'' 9000"] show ?thesis by blast
qed

definition untidy_runtime :: Runtime where
  "untidy_runtime =
     (let r = sample_runtime ''shop'' 9000; s = rtm_Spec r
      in r\<lparr>rtm_Spec := s\<lparr>rs_Deployments := [(sample_deployment ''web'')\<lparr>dep_Selector := [(''app '', [])]\<rparr>]\<rparr>\<rparr>)"

text \<open>One pass is not always enough: from a selector with the blank entry \<open>"app "\<close> the first pass
  trims the default away that it has just set, and the second pass sets it again.\<close>

theorem normalization_not_idempotent:
  "map dep_Selector (rs_Deployments (rtm_Spec (NormalizeRuntime untidy_runtime))) = [[(''app'', [])]] \<and>
   map dep_Selector (rs_Deployments (rtm_Spec (NormalizeRuntime (NormalizeRuntime untidy_runtime)))) = [[(''app'', ''web'')]]"
  by (intro conjI) code_simp+

text \<open>\<open>trimStringMap\<close> computes the trimmed entries with non-empty keys when no two keys trim to the
  same text; when two do, the order in which the map is visited decides which value stays.\<close>

theorem trim_map_exact:
  "(distinct (map trim_space (map fst m)) \<longrightarrow> map_of (trimStringMap m) = map_of (trimmed_pairs m)) \<and>
   get_str (trimStringMap [('' a'', ''1''), (''a '', ''2'')]) ''a'' \<noteq> get_str (trimStringMap [(''a '', ''2''), ('' a'', ''1'')]) ''a''"
proof
  show "get_str (trimStringMap [('' a'', ''1''), (''a '', ''2'')]) ''a'' \<noteq> get_str (trimStringMap [(''a '', ''2''), ('' a'', ''1'')]) ''a''"
    by code_simp
qed (use trimStringMap_of in blast)

theorem trim_map_exact_witness: "map_of (trimStringMap [('' a'', ''1 ''), ('' '', ''2'')]) ''a'' = Some ''1''"
proof -
  have "distinct (map trim_space (map fst [('' a'', ''1 ''), ('' '', ''2'')]))" by code_simp
  with trim_map_exact [of "[('' a'', ''1 ''), ('' '', ''2'')]"]
  have "map_of (trimStringMap [('' a'', ''1 ''), ('' '', ''2'')]) ''a'' = map_of (trimmed_pairs [('' a'', ''1 ''), ('' '', ''2'')]) ''a''"
    by metis
  also have "\<dots> = Some ''1''" by code_simp
  finally show ?thesis .
qed

section \<open>Validation\<close>

text \<open>C38: \<open>ValidateRuntime\<close> accepts exactly the resources whose normal form meets the declarative
  contract \<open>runtime_ok\<close>: well-formed and unique names, known types, positive and unique ports,
  and references that resolve.\<close>

theorem validation_exact: "ValidateRuntime r = None \<longleftrightarrow> runtime_ok (NormalizeRuntime r)"
  by (simp add: ValidateRuntime_def validate_normalized_None)

text \<open>C39: In a valid Runtime every ingress route leads to a service, every service selects a deployment
  and resolves to a positive container port, and no port is listened on twice.\<close>

theorem valid_routes_lead_to_containers:
  assumes "ValidateRuntime r = None"
    and "i \<in> set (rs_Ingress (rtm_Spec (NormalizeRuntime r)))" "route \<in> set (ing_Routes i)"
  shows "\<exists>s \<in> set (rs_Services (rtm_Spec (NormalizeRuntime r))). svc_Name s = rt_ServiceName route \<and>
    svc_ListenPort s \<noteq> ing_ListenPort i \<and>
    (\<exists>d \<in> set (rs_Deployments (rtm_Spec (NormalizeRuntime r))). labelsMatch (dep_Selector d) (svc_Selector s)) \<and>
    (\<exists>port > 0. resolveServiceTargetPort s
       (matchingDeployments (rs_Deployments (rtm_Spec (NormalizeRuntime r))) (svc_Selector s)) = Inr port)"
proof -
  let ?spec = "rtm_Spec (NormalizeRuntime r)"
  from assms(1) have ok: "spec_ok ?spec"
    by (simp add: ValidateRuntime_def validate_normalized_None runtime_ok_def)
  with assms(2) have ing: "ingress_ok (rs_Services ?spec) i" by (simp add: spec_ok_def)
  with assms(3) obtain s where s: "find (\<lambda>s. svc_Name s = rt_ServiceName route) (rs_Services ?spec) = Some s"
    by (auto simp: ingress_ok_def route_ok_def)
  then have mem: "s \<in> set (rs_Services ?spec)" "svc_Name s = rt_ServiceName route" by (auto simp: find_Some_iff)
  with ok have svc: "service_ok (rs_Deployments ?spec) s" by (simp add: spec_ok_def)
  let ?m = "matchingDeployments (rs_Deployments ?spec) (svc_Selector s)"
  from svc have ne: "?m \<noteq> []" and "\<exists>port. resolveServiceTargetPort s ?m = Inr port" by (auto simp: service_ok_def)
  moreover have "0 < port" if "resolveServiceTargetPort s ?m = Inr port" for port
    using that by (auto simp: resolveServiceTargetPort_def Let_def find_Some_iff split: if_splits option.splits)
  ultimately have "\<exists>port > 0. resolveServiceTargetPort s ?m = Inr port" by blast
  moreover from ne obtain d where "d \<in> set ?m" by (cases ?m) auto
  then have "d \<in> set (rs_Deployments ?spec) \<and> labelsMatch (dep_Selector d) (svc_Selector s)"
    by (auto simp: matchingDeployments_def)
  moreover have "svc_ListenPort s \<noteq> ing_ListenPort i" using ing mem unfolding ingress_ok_def by (metis imageI)
  ultimately show ?thesis using mem by blast
qed

theorem valid_routes_lead_to_containers_witness:
  "\<exists>s \<in> set (rs_Services (rtm_Spec (NormalizeRuntime (sample_runtime ''shop'' 9000)))). svc_ListenPort s \<noteq> 80"
proof -
  let ?n = "NormalizeRuntime (sample_runtime ''shop'' 9000)"
  define i where "i = rs_Ingress (rtm_Spec ?n) ! 0"
  define route where "route = ing_Routes i ! 0"
  have "length (rs_Ingress (rtm_Spec ?n)) = 1" by code_simp
  then have i: "i \<in> set (rs_Ingress (rtm_Spec ?n))" unfolding i_def by (intro nth_mem) simp
  have "length (ing_Routes i) = 1" unfolding i_def by code_simp
  then have route: "route \<in> set (ing_Routes i)" unfolding route_def by (intro nth_mem) simp
  have "ing_ListenPort i = 80" unfolding i_def by code_simp
  with valid_routes_lead_to_containers [OF sample_valid i route] show ?thesis by metis
qed

end
