(* ===== verification/Config.thy ===== *)
theory Config
  imports Validate
begin

text \<open>
  \<open>internal/runtimeagent/config.go\<close>: the configuration structs, the defaults,
  \<open>NormalizeRuntimeConfig\<close>, \<open>ValidateRuntimeConfig\<close>, the resolution of secrets kept in files
  and \<open>LoadRuntimeConfig\<close>. A duration is its number of nanoseconds. The YAML decoder and the
  file system are parameters of the loading functions.
\<close>

section \<open>Data\<close>

record APIConfig =
  api_Listen :: string
  api_ReadHeaderTimeout :: int
  api_ShutdownTimeout :: int
  api_MaxRequestBytes :: int

record NodeConfig =
  nc_Name :: string
  nc_Labels :: "string gomap"
  nc_Capacity :: ResourceSpec
  nc_Allocatable :: ResourceSpec

record EtcdConfig =
  et_Endpoints :: "string list"
  et_Prefix :: string
  et_DialTimeout :: int

record StateConfig =
  stc_Backend :: string
  stc_Dir :: string
  stc_Etcd :: EtcdConfig

record DockerConfig =
  dc_Command :: string
  dc_RestartPolicy :: string
  dc_AddHost :: string
  dc_EventDebounce :: int
  dc_EventBackoff :: int

record ContainerConfig =
  cc_ReadyTimeout :: int
  cc_ReadyPollInterval :: int
  cc_DiagnosticsLogTail :: int
  cc_HTTPHealthCheckTemplate :: string

record SelfHealConfig =
  sh_Enabled :: "bool option"
  sh_MaxRestarts :: int
  sh_Backoff :: int

record AccessTokenConfig =
  at_Name :: string
  at_Role :: string
  at_Token :: string
  at_TokenFile :: string

record RBACConfig =
  rb_Enabled :: bool
  rb_Tokens :: "AccessTokenConfig list"

record SecurityConfig =
  sc_BearerToken :: string
  sc_BearerTokenFile :: string
  sc_TLSCertFile :: string
  sc_TLSKeyFile :: string
  sc_RBAC :: RBACConfig

record AuditConfig =
  ac_Enabled :: "bool option"
  ac_Path :: string
  ac_MaxFileSize :: int
  ac_MaxBackups :: int
  ac_IncludeReadOnly :: bool

record LogConfig =
  lc_Format :: string
  lc_Level :: string

text \<open>The one-field structs \<open>ProxyConfig\<close>, \<open>ReconcileConfig\<close>, \<open>HealthConfig\<close> and
  \<open>ObservabilityConfig\<close> are the fields they hold.\<close>

record RuntimeConfig =
  cfg_API :: APIConfig
  cfg_Node :: NodeConfig
  cfg_State :: StateConfig
  cfg_Docker :: DockerConfig
  cfg_Container :: ContainerConfig
  cfg_SelfHeal :: SelfHealConfig
  cfg_ProxyReadHeaderTimeout :: int
  cfg_ReconcileInterval :: int
  cfg_HealthDockerTimeout :: int
  cfg_Security :: SecurityConfig
  cfg_MetricsEnabled :: bool
  cfg_Audit :: AuditConfig
  cfg_Log :: LogConfig

section \<open>Defaults\<close>

definition second :: int where "second = 1000000000"
definition minute :: int where "minute = 60000000000"

definition no_resources :: ResourceSpec where
  "no_resources = \<lparr>res_CPUs = [], res_Memory = [], res_MemorySwap = [], res_PIDsLimit = 0\<rparr>"

definition DefaultAuditPath :: string where "DefaultAuditPath = ''/var/log/aifar-runtime/audit.jsonl''"
definition DefaultAuditMaxFileSize :: int where "DefaultAuditMaxFileSize = 10 * 1024 * 1024"
definition DefaultAuditMaxBackups :: int where "DefaultAuditMaxBackups = 5"

definition DefaultRuntimeConfig :: RuntimeConfig where
  "DefaultRuntimeConfig =
     \<lparr>cfg_API = \<lparr>api_Listen = ''127.0.0.1:18081'', api_ReadHeaderTimeout = 10 * second,
        api_ShutdownTimeout = 30 * second, api_MaxRequestBytes = 4 * 1024 * 1024\<rparr>,
      cfg_Node = \<lparr>nc_Name = ''local'', nc_Labels = [], nc_Capacity = no_resources,
        nc_Allocatable = no_resources\<rparr>,
      cfg_State = \<lparr>stc_Backend = ''file'', stc_Dir = DefaultStateDir,
        stc_Etcd = \<lparr>et_Endpoints = [], et_Prefix = ''/aifar-runtime'', et_DialTimeout = 5 * second\<rparr>\<rparr>,
      cfg_Docker = \<lparr>dc_Command = ''docker'', dc_RestartPolicy = ''unless-stopped'',
        dc_AddHost = ''host.docker.internal:host-gateway'', dc_EventDebounce = 2 * second,
        dc_EventBackoff = 5 * second\<rparr>,
      cfg_Container = \<lparr>cc_ReadyTimeout = 5 * minute, cc_ReadyPollInterval = 3 * second,
        cc_DiagnosticsLogTail = 120,
        cc_HTTPHealthCheckTemplate = ''wget -qO- http://127.0.0.1:%d%s >/dev/null''\<rparr>,
      cfg_SelfHeal = \<lparr>sh_Enabled = Some True, sh_MaxRestarts = 3, sh_Backoff = 10 * second\<rparr>,
      cfg_ProxyReadHeaderTimeout = 10 * second,
      cfg_ReconcileInterval = 30 * second,
      cfg_HealthDockerTimeout = 5 * second,
      cfg_Security = \<lparr>sc_BearerToken = [], sc_BearerTokenFile = [], sc_TLSCertFile = [],
        sc_TLSKeyFile = [], sc_RBAC = \<lparr>rb_Enabled = False, rb_Tokens = []\<rparr>\<rparr>,
      cfg_MetricsEnabled = True,
      cfg_Audit = \<lparr>ac_Enabled = Some True, ac_Path = DefaultAuditPath,
        ac_MaxFileSize = DefaultAuditMaxFileSize, ac_MaxBackups = DefaultAuditMaxBackups,
        ac_IncludeReadOnly = False\<rparr>,
      cfg_Log = \<lparr>lc_Format = ''json'', lc_Level = ''info''\<rparr>\<rparr>"

definition defaultString :: "string \<Rightarrow> string \<Rightarrow> string" where
  "defaultString value fallback = (let value = trim_space value in if value = [] then fallback else value)"

definition defaultDuration :: "int \<Rightarrow> int \<Rightarrow> int" where
  "defaultDuration value fallback = (if value \<le> 0 then fallback else value)"

definition defaultBoolPtr :: "bool option \<Rightarrow> bool \<Rightarrow> bool option" where
  "defaultBoolPtr value fallback = (if value \<noteq> None then value else Some fallback)"

definition normalizeAuditConfig :: "AuditConfig \<Rightarrow> AuditConfig" where
  "normalizeAuditConfig c =
     c\<lparr>ac_Enabled := defaultBoolPtr (ac_Enabled c) True,
       ac_Path := defaultString (ac_Path c) DefaultAuditPath,
       ac_MaxFileSize := (if ac_MaxFileSize c \<le> 0 then DefaultAuditMaxFileSize else ac_MaxFileSize c),
       ac_MaxBackups := (if ac_MaxBackups c = 0 then DefaultAuditMaxBackups else ac_MaxBackups c)\<rparr>"

definition normalize_token :: "AccessTokenConfig \<Rightarrow> AccessTokenConfig" where
  "normalize_token t =
     t\<lparr>at_Name := trim_space (at_Name t),
       at_Role := to_lower (defaultString (at_Role t) ''admin''),
       at_Token := trim_space (at_Token t),
       at_TokenFile := trim_space (at_TokenFile t)\<rparr>"

definition normalize_api :: "APIConfig \<Rightarrow> APIConfig \<Rightarrow> APIConfig" where
  "normalize_api d c =
     \<lparr>api_Listen = defaultString (api_Listen c) (api_Listen d),
      api_ReadHeaderTimeout = defaultDuration (api_ReadHeaderTimeout c) (api_ReadHeaderTimeout d),
      api_ShutdownTimeout = defaultDuration (api_ShutdownTimeout c) (api_ShutdownTimeout d),
      api_MaxRequestBytes =
        (if api_MaxRequestBytes c \<le> 0 then api_MaxRequestBytes d else api_MaxRequestBytes c)\<rparr>"

definition normalize_state :: "StateConfig \<Rightarrow> StateConfig \<Rightarrow> StateConfig" where
  "normalize_state d c =
     \<lparr>stc_Backend = to_lower (defaultString (stc_Backend c) (stc_Backend d)),
      stc_Dir = defaultString (stc_Dir c) (stc_Dir d),
      stc_Etcd = (stc_Etcd c)
        \<lparr>et_Prefix := defaultString (et_Prefix (stc_Etcd c)) (et_Prefix (stc_Etcd d)),
         et_DialTimeout := defaultDuration (et_DialTimeout (stc_Etcd c)) (et_DialTimeout (stc_Etcd d))\<rparr>\<rparr>"

definition normalize_docker :: "DockerConfig \<Rightarrow> DockerConfig \<Rightarrow> DockerConfig" where
  "normalize_docker d c =
     \<lparr>dc_Command = defaultString (dc_Command c) (dc_Command d),
      dc_RestartPolicy = defaultString (dc_RestartPolicy c) (dc_RestartPolicy d),
      dc_AddHost = (let h = trim_space (dc_AddHost c) in if h = [] then dc_AddHost d else h),
      dc_EventDebounce = defaultDuration (dc_EventDebounce c) (dc_EventDebounce d),
      dc_EventBackoff = defaultDuration (dc_EventBackoff c) (dc_EventBackoff d)\<rparr>"

definition normalize_container :: "ContainerConfig \<Rightarrow> ContainerConfig \<Rightarrow> ContainerConfig" where
  "normalize_container d c =
     \<lparr>cc_ReadyTimeout = defaultDuration (cc_ReadyTimeout c) (cc_ReadyTimeout d),
      cc_ReadyPollInterval = defaultDuration (cc_ReadyPollInterval c) (cc_ReadyPollInterval d),
      cc_DiagnosticsLogTail =
        (if cc_DiagnosticsLogTail c \<le> 0 then cc_DiagnosticsLogTail d else cc_DiagnosticsLogTail c),
      cc_HTTPHealthCheckTemplate =
        defaultString (cc_HTTPHealthCheckTemplate c) (cc_HTTPHealthCheckTemplate d)\<rparr>"

definition normalize_self_heal :: "SelfHealConfig \<Rightarrow> SelfHealConfig \<Rightarrow> SelfHealConfig" where
  "normalize_self_heal d c =
     \<lparr>sh_Enabled = defaultBoolPtr (sh_Enabled c) True,
      sh_MaxRestarts = (if sh_MaxRestarts c \<le> 0 then sh_MaxRestarts d else sh_MaxRestarts c),
      sh_Backoff = defaultDuration (sh_Backoff c) (sh_Backoff d)\<rparr>"

definition normalize_security :: "SecurityConfig \<Rightarrow> SecurityConfig" where
  "normalize_security c =
     \<lparr>sc_BearerToken = trim_space (sc_BearerToken c),
      sc_BearerTokenFile = trim_space (sc_BearerTokenFile c),
      sc_TLSCertFile = trim_space (sc_TLSCertFile c),
      sc_TLSKeyFile = trim_space (sc_TLSKeyFile c),
      sc_RBAC = (sc_RBAC c)\<lparr>rb_Tokens := map normalize_token (rb_Tokens (sc_RBAC c))\<rparr>\<rparr>"

definition NormalizeRuntimeConfig :: "RuntimeConfig \<Rightarrow> RuntimeConfig" where
  "NormalizeRuntimeConfig c =
     (let d = DefaultRuntimeConfig
      in \<lparr>cfg_API = normalize_api (cfg_API d) (cfg_API c),
          cfg_Node = (cfg_Node c)
            \<lparr>nc_Name := defaultString (nc_Name (cfg_Node c)) (nc_Name (cfg_Node d)),
             nc_Labels := trimStringMap (nc_Labels (cfg_Node c))\<rparr>,
          cfg_State = normalize_state (cfg_State d) (cfg_State c),
          cfg_Docker = normalize_docker (cfg_Docker d) (cfg_Docker c),
          cfg_Container = normalize_container (cfg_Container d) (cfg_Container c),
          cfg_SelfHeal = normalize_self_heal (cfg_SelfHeal d) (cfg_SelfHeal c),
          cfg_ProxyReadHeaderTimeout =
            defaultDuration (cfg_ProxyReadHeaderTimeout c) (cfg_ProxyReadHeaderTimeout d),
          cfg_ReconcileInterval = defaultDuration (cfg_ReconcileInterval c) (cfg_ReconcileInterval d),
          cfg_HealthDockerTimeout = defaultDuration (cfg_HealthDockerTimeout c) (cfg_HealthDockerTimeout d),
          cfg_Security = normalize_security (cfg_Security c),
          cfg_MetricsEnabled = cfg_MetricsEnabled c,
          cfg_Audit = normalizeAuditConfig (cfg_Audit c),
          cfg_Log =
            \<lparr>lc_Format = to_lower (defaultString (lc_Format (cfg_Log c)) (lc_Format (cfg_Log d))),
             lc_Level = to_lower (defaultString (lc_Level (cfg_Log c)) (lc_Level (cfg_Log d)))\<rparr>\<rparr>)"

section \<open>ValidateRuntimeConfig\<close>

text \<open>An error names its field and the kind of complaint its message makes.\<close>

datatype config_fault =
    MustNotBeEmpty | MustBePositive | MustNotBeNegative | NotImplemented | NotOneOf | BadLabel
  | BadDecimal | BadMemoryValue | BadTemplate | MustBeSet | MustComeTogether | MustNotBeSet
  | NotHostPort | PortMissing | NotTCP

datatype config_error = FieldError string config_fault | ReadFailed string | DecodeFailed

text \<open>\<open>net.SplitHostPort\<close>: \<open>None\<close> for each of its errors.\<close>

definition before_last :: "char \<Rightarrow> string \<Rightarrow> string" where
  "before_last c s = rev (tl (dropWhile (\<lambda>d. d \<noteq> c) (rev s)))"

definition after_last :: "char \<Rightarrow> string \<Rightarrow> string" where
  "after_last c s = rev (takeWhile (\<lambda>d. d \<noteq> c) (rev s))"

definition SplitHostPort :: "string \<Rightarrow> (string \<times> string) option" where
  "SplitHostPort hostport =
     (if CHR '':'' \<notin> set hostport then None
      else
        let port = after_last (CHR '':'') hostport; before = before_last (CHR '':'') hostport
        in if hd hostport = CHR ''['' then
             (case cut (CHR '']'') hostport of (inside, rest, found) \<Rightarrow>
                if \<not> found \<or> before \<noteq> inside @ '']'' then None
                else if CHR ''['' \<in> set (tl hostport) \<or> CHR '']'' \<in> set rest then None
                else Some (tl inside, port))
           else if CHR '':'' \<in> set before \<or> CHR ''['' \<in> set hostport \<or> CHR '']'' \<in> set hostport then None
           else Some (before, port))"

definition validateListenAddress :: "string \<Rightarrow> string \<Rightarrow> config_error option" where
  "validateListenAddress field address =
     (case SplitHostPort address of
        None \<Rightarrow> Some (FieldError field NotHostPort)
      | Some (host, port) \<Rightarrow>
          first_error
            [check (is_blank port) (FieldError field PortMissing),
             check (contains host ''/'') (FieldError field NotTCP)])"

definition validateConfigResourceSpec :: "string \<Rightarrow> ResourceSpec \<Rightarrow> config_error option" where
  "validateConfigResourceSpec field resources =
     first_error
       [check (res_CPUs resources \<noteq> [] \<and> \<not> cpuLimitRE (to_lower (trim_space (res_CPUs resources))))
          (FieldError (field @ ''.cpus'') BadDecimal),
        check (res_Memory resources \<noteq> [] \<and> \<not> memoryLimitRE (to_lower (trim_space (res_Memory resources))))
          (FieldError (field @ ''.memory'') BadMemoryValue),
        check (res_MemorySwap resources \<noteq> [] \<and> \<not> memoryLimitRE (to_lower (trim_space (res_MemorySwap resources))))
          (FieldError (field @ ''.memorySwap'') BadMemoryValue),
        check (res_PIDsLimit resources < 0) (FieldError (field @ ''.pidsLimit'') MustNotBeNegative)]"

abbreviation positive_field :: "string \<Rightarrow> int \<Rightarrow> config_error option" where
  "positive_field field n \<equiv> check (n \<le> 0) (FieldError field MustBePositive)"

definition validate_token :: "AccessTokenConfig \<Rightarrow> config_error option" where
  "validate_token t =
     first_error
       [check (at_Name t = []) (FieldError ''security.rbac.tokens.name'' MustNotBeEmpty),
        check (at_Role t \<notin> set [''admin'', ''operator'', ''viewer''])
          (FieldError ''security.rbac.tokens.role'' NotOneOf),
        check (at_Token t = [] \<and> at_TokenFile t = []) (FieldError ''security.rbac.tokens.token'' MustBeSet),
        check (at_Token t \<noteq> [] \<and> at_TokenFile t \<noteq> [])
          (FieldError ''security.rbac.tokens.tokenFile'' MustNotBeSet)]"

definition validate_backend :: "string \<Rightarrow> config_error option" where
  "validate_backend backend =
     (if backend = ''file'' then None
      else if backend = ''etcd'' then Some (FieldError ''state.backend'' NotImplemented)
      else Some (FieldError ''state.backend'' NotOneOf))"

definition validate_security :: "SecurityConfig \<Rightarrow> config_error option" where
  "validate_security s =
     first_error
       [check ((sc_TLSCertFile s = []) \<noteq> (sc_TLSKeyFile s = []))
          (FieldError ''security.tlsCertFile/security.tlsKeyFile'' MustComeTogether),
        check (sc_BearerToken s \<noteq> [] \<and> rb_Enabled (sc_RBAC s))
          (FieldError ''security.bearerToken'' MustNotBeSet),
        check (sc_BearerTokenFile s \<noteq> [] \<and> rb_Enabled (sc_RBAC s))
          (FieldError ''security.bearerTokenFile'' MustNotBeSet),
        first_error (map validate_token (rb_Tokens (sc_RBAC s)))]"

definition validate_audit :: "AuditConfig \<Rightarrow> config_error option" where
  "validate_audit a =
     (case ac_Enabled a of
        None \<Rightarrow> Some (FieldError ''audit.enabled'' MustBeSet)
      | Some enabled \<Rightarrow>
          if enabled then
            first_error
              [check (is_blank (ac_Path a)) (FieldError ''audit.path'' MustNotBeEmpty),
               positive_field ''audit.maxFileSize'' (ac_MaxFileSize a),
               check (ac_MaxBackups a < 0) (FieldError ''audit.maxBackups'' MustNotBeNegative)]
          else None)"

definition ValidateRuntimeConfig :: "RuntimeConfig \<Rightarrow> config_error option" where
  "ValidateRuntimeConfig c =
     first_error
       [validateListenAddress ''api.listen'' (api_Listen (cfg_API c)),
        check (is_blank (stc_Dir (cfg_State c))) (FieldError ''state.dir'' MustNotBeEmpty),
        validate_backend (stc_Backend (cfg_State c)),
        check (is_blank (dc_Command (cfg_Docker c))) (FieldError ''docker.command'' MustNotBeEmpty),
        positive_field ''api.readHeaderTimeout'' (api_ReadHeaderTimeout (cfg_API c)),
        positive_field ''api.shutdownTimeout'' (api_ShutdownTimeout (cfg_API c)),
        positive_field ''api.maxRequestBytes'' (api_MaxRequestBytes (cfg_API c)),
        check (\<not> validDNSLabel (nc_Name (cfg_Node c))) (FieldError ''node.name'' BadLabel),
        validateConfigResourceSpec ''node.capacity'' (nc_Capacity (cfg_Node c)),
        validateConfigResourceSpec ''node.allocatable'' (nc_Allocatable (cfg_Node c)),
        positive_field ''docker.eventDebounce'' (dc_EventDebounce (cfg_Docker c)),
        positive_field ''docker.eventBackoff'' (dc_EventBackoff (cfg_Docker c)),
        positive_field ''container.readyTimeout'' (cc_ReadyTimeout (cfg_Container c)),
        positive_field ''container.readyPollInterval'' (cc_ReadyPollInterval (cfg_Container c)),
        positive_field ''container.diagnosticsLogTail'' (cc_DiagnosticsLogTail (cfg_Container c)),
        check (\<not> contains (cc_HTTPHealthCheckTemplate (cfg_Container c)) ''%d'' \<or>
               \<not> contains (cc_HTTPHealthCheckTemplate (cfg_Container c)) ''%s'')
          (FieldError ''container.httpHealthCheckTemplate'' BadTemplate),
        check (sh_Enabled (cfg_SelfHeal c) = None) (FieldError ''selfHeal.enabled'' MustBeSet),
        positive_field ''selfHeal.maxRestarts'' (sh_MaxRestarts (cfg_SelfHeal c)),
        positive_field ''selfHeal.backoff'' (sh_Backoff (cfg_SelfHeal c)),
        positive_field ''proxy.readHeaderTimeout'' (cfg_ProxyReadHeaderTimeout c),
        positive_field ''reconcile.interval'' (cfg_ReconcileInterval c),
        positive_field ''health.dockerTimeout'' (cfg_HealthDockerTimeout c),
        validate_security (cfg_Security c),
        validate_audit (cfg_Audit c),
        check (lc_Format (cfg_Log c) \<notin> set [''json'', ''text'']) (FieldError ''log.format'' NotOneOf),
        check (lc_Level (cfg_Log c) \<notin> set [''debug'', ''info'', ''warn'', ''error''])
          (FieldError ''log.level'' NotOneOf)]"

section \<open>Loading\<close>

text \<open>\<open>read\<close> stands for \<open>os.ReadFile\<close>: the text of a file, or \<open>None\<close> for an error.\<close>

fun resolve_tokens ::
    "(string \<Rightarrow> string option) \<Rightarrow> AccessTokenConfig list \<Rightarrow> config_error + AccessTokenConfig list" where
  "resolve_tokens read [] = Inr []"
| "resolve_tokens read (t # ts) =
     (if at_TokenFile t = [] then map_sum id ((#) t) (resolve_tokens read ts)
      else (case read (at_TokenFile t) of
              None \<Rightarrow> Inl (ReadFailed (at_TokenFile t))
            | Some data \<Rightarrow>
                map_sum id ((#) (t\<lparr>at_Token := trim_space data, at_TokenFile := []\<rparr>))
                  (resolve_tokens read ts)))"

definition resolveRuntimeConfigRBACTokens ::
    "(string \<Rightarrow> string option) \<Rightarrow> RuntimeConfig \<Rightarrow> config_error + RuntimeConfig" where
  "resolveRuntimeConfigRBACTokens read c =
     map_sum id
       (\<lambda>ts. c\<lparr>cfg_Security := (cfg_Security c)
                \<lparr>sc_RBAC := (sc_RBAC (cfg_Security c))\<lparr>rb_Tokens := ts\<rparr>\<rparr>\<rparr>)
       (resolve_tokens read (rb_Tokens (sc_RBAC (cfg_Security c))))"

definition resolveRuntimeConfigSecrets ::
    "(string \<Rightarrow> string option) \<Rightarrow> RuntimeConfig \<Rightarrow> config_error + RuntimeConfig" where
  "resolveRuntimeConfigSecrets read c =
     (let s = cfg_Security c
      in if sc_BearerToken s \<noteq> [] \<and> sc_BearerTokenFile s \<noteq> []
         then Inl (FieldError ''security.bearerTokenFile'' MustNotBeSet)
         else if sc_BearerTokenFile s = [] then resolveRuntimeConfigRBACTokens read c
         else (case read (sc_BearerTokenFile s) of
                 None \<Rightarrow> Inl (ReadFailed (sc_BearerTokenFile s))
               | Some data \<Rightarrow>
                   resolveRuntimeConfigRBACTokens read
                     (c\<lparr>cfg_Security := s\<lparr>sc_BearerToken := trim_space data\<rparr>\<rparr>)))"

text \<open>\<open>decode\<close> stands for \<open>yaml.Unmarshal\<close> into a configuration that holds the defaults.\<close>

definition LoadRuntimeConfig ::
    "(string \<Rightarrow> string option) \<Rightarrow> (string \<Rightarrow> RuntimeConfig \<Rightarrow> RuntimeConfig option) \<Rightarrow> string
     \<Rightarrow> config_error + RuntimeConfig" where
  "LoadRuntimeConfig read decode path =
     (let path = trim_space path
      in if path = [] then
           (case ValidateRuntimeConfig DefaultRuntimeConfig of
              Some e \<Rightarrow> Inl e | None \<Rightarrow> Inr DefaultRuntimeConfig)
         else
           (case read path of
              None \<Rightarrow> Inl (ReadFailed path)
            | Some data \<Rightarrow>
           (case decode data DefaultRuntimeConfig of
              None \<Rightarrow> Inl DecodeFailed
            | Some config \<Rightarrow>
           (case resolveRuntimeConfigSecrets read (NormalizeRuntimeConfig config) of
              Inl e \<Rightarrow> Inl e
            | Inr config \<Rightarrow>
                (case ValidateRuntimeConfig config of Some e \<Rightarrow> Inl e | None \<Rightarrow> Inr config)))))"

section \<open>Normalisation is final\<close>

lemma defaultString_idem [simp]:
  "trim_space fallback = fallback \<Longrightarrow> defaultString (defaultString v fallback) fallback = defaultString v fallback"
  by (auto simp: defaultString_def Let_def)

lemma defaultString_lower_idem [simp]:
  "trim_space fallback = fallback \<Longrightarrow> to_lower fallback = fallback \<Longrightarrow>
   to_lower (defaultString (to_lower (defaultString v fallback)) fallback) = to_lower (defaultString v fallback)"
  by (auto simp: defaultString_def Let_def trim_space_lower)

lemma defaultString_ne [simp]: "fallback \<noteq> [] \<Longrightarrow> defaultString v fallback \<noteq> []"
  by (simp add: defaultString_def Let_def)

lemma defaultString_not_blank [simp]: "\<not> is_blank fallback \<Longrightarrow> \<not> is_blank (defaultString v fallback)"
  by (auto simp: defaultString_def is_blank_def Let_def)

lemma defaultDuration_idem [simp]: "defaultDuration (defaultDuration v f) f = defaultDuration v f"
  by (simp add: defaultDuration_def)

lemma defaultDuration_pos [simp]: "0 < f \<Longrightarrow> 0 < defaultDuration v f"
  by (simp add: defaultDuration_def)

lemma defaultBoolPtr_idem [simp]: "defaultBoolPtr (defaultBoolPtr v f) f = defaultBoolPtr v f"
  by (simp add: defaultBoolPtr_def)

lemma defaultBoolPtr_set [simp]: "defaultBoolPtr v f \<noteq> None"
  by (simp add: defaultBoolPtr_def)

lemmas config_defaults = DefaultRuntimeConfig_def second_def minute_def no_resources_def DefaultStateDir_def
  DefaultAuditPath_def DefaultAuditMaxFileSize_def DefaultAuditMaxBackups_def

lemma trim_defaults [simp]:
  "trim_space ''127.0.0.1:18081'' = ''127.0.0.1:18081''" "trim_space ''local'' = ''local''"
  "trim_space ''file'' = ''file''" "trim_space ''/var/lib/aifar-runtime'' = ''/var/lib/aifar-runtime''"
  "trim_space ''/aifar-runtime'' = ''/aifar-runtime''" "trim_space ''docker'' = ''docker''"
  "trim_space ''unless-stopped'' = ''unless-stopped''"
  "trim_space ''host.docker.internal:host-gateway'' = ''host.docker.internal:host-gateway''"
  "trim_space ''wget -qO- http://127.0.0.1:%d%s >/dev/null'' = ''wget -qO- http://127.0.0.1:%d%s >/dev/null''"
  "trim_space ''admin'' = ''admin''" "trim_space ''json'' = ''json''" "trim_space ''info'' = ''info''"
  "trim_space ''/var/log/aifar-runtime/audit.jsonl'' = ''/var/log/aifar-runtime/audit.jsonl''"
  by (rule trim_space_ends; simp add: space_byte_def go_whitespace_def)+

lemma lower_defaults [simp]:
  "to_lower ''file'' = ''file''" "to_lower ''admin'' = ''admin''" "to_lower ''json'' = ''json''"
  "to_lower ''info'' = ''info''"
  by (simp_all add: to_lower_def lower_char_def)

lemma normalize_token_idem [simp]: "normalize_token (normalize_token t) = normalize_token t"
  by (simp add: normalize_token_def)

lemma normalizeAuditConfig_idem [simp]: "normalizeAuditConfig (normalizeAuditConfig c) = normalizeAuditConfig c"
  by (simp add: normalizeAuditConfig_def DefaultAuditPath_def DefaultAuditMaxFileSize_def DefaultAuditMaxBackups_def)

lemma normalize_security_idem [simp]: "normalize_security (normalize_security c) = normalize_security c"
  by (simp add: normalize_security_def)

lemma NormalizeRuntimeConfig_again:
  "NormalizeRuntimeConfig (NormalizeRuntimeConfig c) = NormalizeRuntimeConfig c"
  by (simp add: NormalizeRuntimeConfig_def Let_def)
     (simp add: normalize_api_def normalize_state_def normalize_docker_def normalize_container_def
        normalize_self_heal_def config_defaults Let_def)

interpretation config: idempotent_op NormalizeRuntimeConfig
  by unfold_locales (rule NormalizeRuntimeConfig_again)

section \<open>What a loaded configuration guarantees\<close>

definition token_ok :: "AccessTokenConfig \<Rightarrow> bool" where
  "token_ok t \<longleftrightarrow> at_Name t \<noteq> [] \<and> at_Role t \<in> {''admin'', ''operator'', ''viewer''} \<and>
     (at_Token t = []) = (at_TokenFile t \<noteq> [])"

lemma validate_token_None: "validate_token t = None \<longleftrightarrow> token_ok t"
  by (auto simp: validate_token_def token_ok_def valid_simps)

text \<open>The fields that normalisation cannot repair.\<close>

definition config_ok :: "RuntimeConfig \<Rightarrow> bool" where
  "config_ok c \<longleftrightarrow>
     validateListenAddress ''api.listen'' (api_Listen (cfg_API c)) = None \<and>
     stc_Backend (cfg_State c) = ''file'' \<and>
     validDNSLabel (nc_Name (cfg_Node c)) \<and>
     validateConfigResourceSpec ''node.capacity'' (nc_Capacity (cfg_Node c)) = None \<and>
     validateConfigResourceSpec ''node.allocatable'' (nc_Allocatable (cfg_Node c)) = None \<and>
     contains (cc_HTTPHealthCheckTemplate (cfg_Container c)) ''%d'' \<and>
     contains (cc_HTTPHealthCheckTemplate (cfg_Container c)) ''%s'' \<and>
     (sc_TLSCertFile (cfg_Security c) = []) = (sc_TLSKeyFile (cfg_Security c) = []) \<and>
     (rb_Enabled (sc_RBAC (cfg_Security c)) \<longrightarrow>
        sc_BearerToken (cfg_Security c) = [] \<and> sc_BearerTokenFile (cfg_Security c) = []) \<and>
     list_all token_ok (rb_Tokens (sc_RBAC (cfg_Security c))) \<and>
     (ac_Enabled (cfg_Audit c) = Some True \<longrightarrow> 0 \<le> ac_MaxBackups (cfg_Audit c)) \<and>
     lc_Format (cfg_Log c) \<in> {''json'', ''text''} \<and>
     lc_Level (cfg_Log c) \<in> {''debug'', ''info'', ''warn'', ''error''}"

text \<open>The fields normalisation always fills; \<open>settled\<close> is what validation repeats of them.\<close>

definition settled :: "RuntimeConfig \<Rightarrow> bool" where
  "settled c \<longleftrightarrow>
     \<not> is_blank (stc_Dir (cfg_State c)) \<and> \<not> is_blank (dc_Command (cfg_Docker c)) \<and>
     list_all ((<) 0)
       [api_ReadHeaderTimeout (cfg_API c), api_ShutdownTimeout (cfg_API c), api_MaxRequestBytes (cfg_API c),
        dc_EventDebounce (cfg_Docker c), dc_EventBackoff (cfg_Docker c), cc_ReadyTimeout (cfg_Container c),
        cc_ReadyPollInterval (cfg_Container c), cc_DiagnosticsLogTail (cfg_Container c),
        sh_MaxRestarts (cfg_SelfHeal c), sh_Backoff (cfg_SelfHeal c), cfg_ProxyReadHeaderTimeout c,
        cfg_ReconcileInterval c, cfg_HealthDockerTimeout c, ac_MaxFileSize (cfg_Audit c)] \<and>
     sh_Enabled (cfg_SelfHeal c) \<noteq> None \<and> ac_Enabled (cfg_Audit c) \<noteq> None \<and>
     \<not> is_blank (ac_Path (cfg_Audit c))"

lemma normalize_settled: "settled (NormalizeRuntimeConfig c)"
proof -
  have nb: "\<not> is_blank ''/var/lib/aifar-runtime''" "\<not> is_blank ''docker''"
    "\<not> is_blank ''/var/log/aifar-runtime/audit.jsonl''"
    by (simp_all add: is_blank_def)
  show ?thesis
    by (simp add: settled_def NormalizeRuntimeConfig_def Let_def normalize_api_def normalize_state_def
        normalize_docker_def normalize_container_def normalize_self_heal_def normalizeAuditConfig_def
        config_defaults nb)
qed

lemma validate_backend_None: "validate_backend b = None \<longleftrightarrow> b = ''file''"
  by (simp add: validate_backend_def)

lemma validate_security_None:
  "validate_security s = None \<longleftrightarrow>
     (sc_TLSCertFile s = []) = (sc_TLSKeyFile s = []) \<and>
     (rb_Enabled (sc_RBAC s) \<longrightarrow> sc_BearerToken s = [] \<and> sc_BearerTokenFile s = []) \<and>
     list_all token_ok (rb_Tokens (sc_RBAC s))"
  by (auto simp: validate_security_def valid_simps validate_token_None list_all_iff)

lemma validate_audit_None:
  "ac_Enabled a \<noteq> None \<Longrightarrow> 0 < ac_MaxFileSize a \<Longrightarrow> \<not> is_blank (ac_Path a) \<Longrightarrow>
   validate_audit a = None \<longleftrightarrow> (ac_Enabled a = Some True \<longrightarrow> 0 \<le> ac_MaxBackups a)"
  by (auto simp: validate_audit_def valid_simps)

lemma ValidateRuntimeConfig_settled:
  assumes "settled c" shows "ValidateRuntimeConfig c = None \<longleftrightarrow> config_ok c"
proof -
  from assms have audit: "validate_audit (cfg_Audit c) = None
      \<longleftrightarrow> (ac_Enabled (cfg_Audit c) = Some True \<longrightarrow> 0 \<le> ac_MaxBackups (cfg_Audit c))"
    by (intro validate_audit_None) (auto simp: settled_def)
  from assms show ?thesis
    unfolding ValidateRuntimeConfig_def config_ok_def
    by (simp add: first_error_Cons_None check_None validate_backend_None validate_security_None audit
        settled_def not_le)
qed

lemma resolve_tokens_files:
  "resolve_tokens read ts = Inr us \<Longrightarrow> list_all (\<lambda>t. at_TokenFile t = []) us"
  by (induction ts arbitrary: us)
     (auto simp: map_sum_def split: if_splits option.splits sum.splits)

lemma resolve_secrets_cases:
  assumes "resolveRuntimeConfigSecrets read c = Inr c'"
  obtains bearer ts where
    "resolve_tokens read (rb_Tokens (sc_RBAC (cfg_Security c))) = Inr ts"
    "c' = c\<lparr>cfg_Security := (cfg_Security c)\<lparr>sc_BearerToken := bearer,
        sc_RBAC := (sc_RBAC (cfg_Security c))\<lparr>rb_Tokens := ts\<rparr>\<rparr>\<rparr>"
    "sc_BearerTokenFile (cfg_Security c) = [] \<Longrightarrow> bearer = sc_BearerToken (cfg_Security c)"
proof -
  have "\<exists>bearer ts. resolve_tokens read (rb_Tokens (sc_RBAC (cfg_Security c))) = Inr ts \<and>
    c' = c\<lparr>cfg_Security := (cfg_Security c)\<lparr>sc_BearerToken := bearer,
        sc_RBAC := (sc_RBAC (cfg_Security c))\<lparr>rb_Tokens := ts\<rparr>\<rparr>\<rparr> \<and>
    (sc_BearerTokenFile (cfg_Security c) = [] \<longrightarrow> bearer = sc_BearerToken (cfg_Security c))"
    using assms
    by (cases "resolve_tokens read (rb_Tokens (sc_RBAC (cfg_Security c)))")
       (auto simp: resolveRuntimeConfigSecrets_def resolveRuntimeConfigRBACTokens_def Let_def
          split: if_splits option.splits)
  with that show thesis by blast
qed

lemma settled_security [simp]: "settled (c\<lparr>cfg_Security := s\<rparr>) = settled c"
  by (simp add: settled_def)

text \<open>The one way to a configuration from a file, in steps.\<close>

lemma LoadRuntimeConfig_file:
  assumes "LoadRuntimeConfig read decode path = Inr c" "\<not> is_blank path"
  obtains data config where "read (trim_space path) = Some data" "decode data DefaultRuntimeConfig = Some config"
    "resolveRuntimeConfigSecrets read (NormalizeRuntimeConfig config) = Inr c" "ValidateRuntimeConfig c = None"
  using assms
  by (auto simp: LoadRuntimeConfig_def Let_def is_blank_def split: option.splits sum.splits)

section \<open>Properties\<close>

text \<open>After normalisation only the fields listed in \<open>config_ok\<close> can make validation fail:
  every default is filled in, so the other checks of \<open>ValidateRuntimeConfig\<close> pass.\<close>

theorem config_validation_exact:
  "ValidateRuntimeConfig (NormalizeRuntimeConfig c) = None \<longleftrightarrow> config_ok (NormalizeRuntimeConfig c)"
  by (rule ValidateRuntimeConfig_settled [OF normalize_settled])

text \<open>C37: A configuration that \<open>LoadRuntimeConfig\<close> returns passes validation, and each of its access
  tokens has a name, one of the three roles and a secret that is not empty; no token file is
  left to read, and RBAC is never enabled beside a single bearer token.\<close>

theorem loaded_config_tokens:
  assumes "LoadRuntimeConfig read decode path = Inr c" "\<not> is_blank path"
  shows "ValidateRuntimeConfig c = None \<and>
    (\<forall>t \<in> set (rb_Tokens (sc_RBAC (cfg_Security c))).
       at_Name t \<noteq> [] \<and> at_Role t \<in> {''admin'', ''operator'', ''viewer''} \<and> at_Token t \<noteq> [] \<and> at_TokenFile t = []) \<and>
    (rb_Enabled (sc_RBAC (cfg_Security c)) \<longrightarrow>
       sc_BearerToken (cfg_Security c) = [] \<and> sc_BearerTokenFile (cfg_Security c) = [])"
proof -
  from assms obtain config where
    res: "resolveRuntimeConfigSecrets read (NormalizeRuntimeConfig config) = Inr c"
    and valid: "ValidateRuntimeConfig c = None" by (rule LoadRuntimeConfig_file)
  from res obtain bearer ts where
    ts: "resolve_tokens read (rb_Tokens (sc_RBAC (cfg_Security (NormalizeRuntimeConfig config)))) = Inr ts"
    and c: "c = (NormalizeRuntimeConfig config)\<lparr>cfg_Security := (cfg_Security (NormalizeRuntimeConfig config))
      \<lparr>sc_BearerToken := bearer, sc_RBAC := (sc_RBAC (cfg_Security (NormalizeRuntimeConfig config)))\<lparr>rb_Tokens := ts\<rparr>\<rparr>\<rparr>"
    by (rule resolve_secrets_cases)
  have "config_ok c"
    using valid ValidateRuntimeConfig_settled [of c] normalize_settled [of config] by (simp add: c)
  moreover have "list_all (\<lambda>t. at_TokenFile t = []) (rb_Tokens (sc_RBAC (cfg_Security c)))"
    using resolve_tokens_files [OF ts] by (simp add: c)
  ultimately show ?thesis
    using valid by (auto simp: config_ok_def token_ok_def list_all_iff)
qed

definition sample_read :: "string \<Rightarrow> string option" where
  "sample_read f = (if f = ''/etc/runtime.yaml'' then Some ''rbac'' else if f = ''/etc/token'' then Some '' t0 '' else None)"

definition sample_decode :: "string \<Rightarrow> RuntimeConfig \<Rightarrow> RuntimeConfig option" where
  "sample_decode data d =
     Some (d\<lparr>cfg_Security := (cfg_Security d)\<lparr>sc_RBAC := \<lparr>rb_Enabled = True,
       rb_Tokens = [\<lparr>at_Name = ''ops'', at_Role = '' Viewer'', at_Token = [], at_TokenFile = ''/etc/token''\<rparr>]\<rparr>\<rparr>\<rparr>)"

definition loaded_sample :: "config_error + RuntimeConfig" where
  "loaded_sample = LoadRuntimeConfig sample_read sample_decode ''/etc/runtime.yaml''"

lemma loaded_sample_ok: "isl loaded_sample = False"
  unfolding loaded_sample_def by code_simp

theorem loaded_config_tokens_witness:
  "\<exists>c t. loaded_sample = Inr c \<and> ValidateRuntimeConfig c = None \<and>
     t \<in> set (rb_Tokens (sc_RBAC (cfg_Security c))) \<and> at_Token t \<noteq> []"
proof -
  obtain c where c: "loaded_sample = Inr c" using loaded_sample_ok sum.collapse(2) by metis
  have "\<not> is_blank ''/etc/runtime.yaml''" by code_simp
  from loaded_config_tokens [OF c [unfolded loaded_sample_def] this]
  have valid: "ValidateRuntimeConfig c = None" "\<forall>t \<in> set (rb_Tokens (sc_RBAC (cfg_Security c))). at_Token t \<noteq> []"
    by auto
  have "rb_Tokens (sc_RBAC (cfg_Security (projr loaded_sample))) \<noteq> []"
    unfolding loaded_sample_def by code_simp
  then obtain t where "t \<in> set (rb_Tokens (sc_RBAC (cfg_Security c)))"
    unfolding c sum.sel by (cases "rb_Tokens (sc_RBAC (cfg_Security c))") auto
  with c valid show ?thesis by blast
qed

end
