(* ===== verification/Scheduler.thy ===== *)
theory Scheduler
  imports Config Samples
begin

text \<open>
  Admission on the single node (\<open>internal/runtimeagent/scheduler.go\<close>, and the node checks of
  \<open>node.go\<close>): resource arithmetic in wrapping 64-bit integers, the capacity check, and the
  conflicts of service and ingress ports between runtimes. The specs a manager holds are its
  map from the text of a key to a Runtime.
\<close>

section \<open>Quantities\<close>

definition parseCPUMilli :: "string \<Rightarrow> int option" where
  "parseCPUMilli value =
     (let value = trim_space value
      in if value = [] then Some 0
         else
           (case cut (CHR ''.'') value of (whole, frac, found) \<Rightarrow>
           (case atoi whole of
              None \<Rightarrow> None
            | Some wholeValue \<Rightarrow>
                if wholeValue > max_int64 div 1000 then None
                else
                  let milli = wrap64 (wholeValue * 1000)
                  in if \<not> found then Some milli
                     else
                       let roundUp = (length frac > 3 \<and> trim_set ''0'' (drop 3 frac) \<noteq> []);
                           milli = (if roundUp then wrap64 (milli + 1) else milli);
                           frac = take 3 frac;
                           frac = frac @ replicate (3 - length frac) (CHR ''0'')
                       in (case atoi frac of
                             None \<Rightarrow> None
                           | Some fraction \<Rightarrow> Some (wrap64 (milli + fraction))))))"

definition memoryMultiplier :: "string \<Rightarrow> int" where
  "memoryMultiplier suff =
     (if suff \<in> set [[], ''b''] then 1
      else if suff \<in> set [''k'', ''kb''] then 1000
      else if suff \<in> set [''m'', ''mb''] then 1000 * 1000
      else if suff \<in> set [''g'', ''gb''] then 1000 * 1000 * 1000
      else if suff \<in> set [''t'', ''tb''] then 1000 * 1000 * 1000 * 1000
      else if suff \<in> set [''ki'', ''kib''] then 1024
      else if suff \<in> set [''mi'', ''mib''] then 1024 * 1024
      else if suff \<in> set [''gi'', ''gib''] then 1024 * 1024 * 1024
      else if suff \<in> set [''ti'', ''tib''] then 1024 * 1024 * 1024 * 1024
      else 0)"

definition parseMemoryBytes :: "string \<Rightarrow> int option" where
  "parseMemoryBytes value =
     (let value = to_lower (trim_space value)
      in if value = [] then Some 0
         else
           let ds = takeWhile is_digit value; suff = dropWhile is_digit value
           in if ds = [] then None
              else (case atoi ds of
                      None \<Rightarrow> None
                    | Some number \<Rightarrow>
                        let multiplier = memoryMultiplier suff
                        in if multiplier \<le> 0 then None
                           else if number > max_int64 div multiplier then None
                           else Some (number * multiplier)))"

text \<open>\<open>value, _ := parse(...)\<close>: an error leaves 0.\<close>

definition or_zero :: "int option \<Rightarrow> int" where
  "or_zero r = (case r of None \<Rightarrow> 0 | Some n \<Rightarrow> n)"

section \<open>Resource requests\<close>

record ResourceRequest =
  rr_MilliCPUs :: int
  rr_MemoryBytes :: int
  rr_PIDs :: int

record ResourceSnapshot =
  rsn_NodeName :: string
  rsn_Runtimes :: nat
  rsn_Allocatable :: ResourceRequest
  rsn_Requested :: ResourceRequest
  rsn_Available :: ResourceRequest

definition rr_zero :: ResourceRequest where
  "rr_zero = \<lparr>rr_MilliCPUs = 0, rr_MemoryBytes = 0, rr_PIDs = 0\<rparr>"

definition rr_Add :: "ResourceRequest \<Rightarrow> ResourceRequest \<Rightarrow> ResourceRequest" where
  "rr_Add r other =
     \<lparr>rr_MilliCPUs = wrap64 (rr_MilliCPUs r + rr_MilliCPUs other),
      rr_MemoryBytes = wrap64 (rr_MemoryBytes r + rr_MemoryBytes other),
      rr_PIDs = wrap64 (rr_PIDs r + rr_PIDs other)\<rparr>"

definition maxInt64 :: "int \<Rightarrow> int \<Rightarrow> int" where
  "maxInt64 a b = (if a > b then a else b)"

definition rr_Sub :: "ResourceRequest \<Rightarrow> ResourceRequest \<Rightarrow> ResourceRequest" where
  "rr_Sub r other =
     \<lparr>rr_MilliCPUs = maxInt64 0 (wrap64 (rr_MilliCPUs r - rr_MilliCPUs other)),
      rr_MemoryBytes = maxInt64 0 (wrap64 (rr_MemoryBytes r - rr_MemoryBytes other)),
      rr_PIDs = maxInt64 0 (wrap64 (rr_PIDs r - rr_PIDs other))\<rparr>"

definition rr_Empty :: "ResourceRequest \<Rightarrow> bool" where
  "rr_Empty r \<longleftrightarrow> rr_MilliCPUs r = 0 \<and> rr_MemoryBytes r = 0 \<and> rr_PIDs r = 0"

definition nodeResourceRequest :: "ResourceSpec \<Rightarrow> ResourceRequest" where
  "nodeResourceRequest resources =
     \<lparr>rr_MilliCPUs = or_zero (parseCPUMilli (res_CPUs resources)),
      rr_MemoryBytes = or_zero (parseMemoryBytes (res_Memory resources)),
      rr_PIDs = res_PIDsLimit resources\<rparr>"

definition deployment_request :: "DeploymentSpec \<Rightarrow> ResourceRequest" where
  "deployment_request d =
     (let replicas = deploymentReplicas d;
          cpus = or_zero (parseCPUMilli (res_CPUs (dep_Resources d)));
          memory = or_zero (parseMemoryBytes (res_Memory (dep_Resources d)))
      in \<lparr>rr_MilliCPUs = wrap64 (cpus * replicas),
          rr_MemoryBytes = wrap64 (memory * replicas),
          rr_PIDs = wrap64 (res_PIDsLimit (dep_Resources d) * replicas)\<rparr>)"

definition runtimeResourceRequest :: "Runtime \<Rightarrow> ResourceRequest" where
  "runtimeResourceRequest runtime =
     foldl (\<lambda>request d. rr_Add request (deployment_request d)) rr_zero
       (rs_Deployments (rtm_Spec (NormalizeRuntime runtime)))"

definition resourceSnapshotFor :: "NodeConfig \<Rightarrow> Runtime list \<Rightarrow> ResourceSnapshot" where
  "resourceSnapshotFor node runtimes =
     (let allocatable = nodeResourceRequest (nc_Allocatable node);
          allocatable = (if rr_Empty allocatable then nodeResourceRequest (nc_Capacity node) else allocatable);
          requested = foldl (\<lambda>requested r. rr_Add requested (runtimeResourceRequest r)) rr_zero runtimes
      in \<lparr>rsn_NodeName = nc_Name node,
          rsn_Runtimes = length runtimes,
          rsn_Allocatable = allocatable,
          rsn_Requested = requested,
          rsn_Available = rr_Sub allocatable requested\<rparr>)"

section \<open>Admission\<close>

text \<open>The claims of existing runtimes on ports; \<open>Kind\<close> is always \<open>service\<close> and left out.\<close>

record portClaim =
  pc_Key :: RuntimeKey
  pc_Name :: string
  pc_Port :: int

record ingressPortClaim =
  ic_Key :: RuntimeKey
  ic_Ingress :: string
  ic_Port :: int
  ic_Host :: string
  ic_Path :: string
  ic_Service :: string

datatype admission_error =
    WrongNode string string
  | NodeSelectorMismatch string string
  | ServiceOnServicePort string portClaim
  | ServiceOnIngressPort string ingressPortClaim
  | IngressOnServicePort string portClaim
  | IngressRouteTaken string ingressPortClaim
  | IngressRouteTwice string ingressPortClaim
  | CPUExceeded int int
  | MemoryExceeded int int
  | PIDsExceeded int int

definition normalizeIngressHost :: "string \<Rightarrow> string" where
  "normalizeIngressHost host = (let host = to_lower (trim_space host) in if host = [] then ''*'' else host)"

definition ingressHostsOverlap :: "string \<Rightarrow> string \<Rightarrow> bool" where
  "ingressHostsOverlap a b \<longleftrightarrow>
     (let a = normalizeIngressHost a; b = normalizeIngressHost b
      in a = ''*'' \<or> b = ''*'' \<or> equal_fold a b)"

definition ingressRouteConflicts :: "ingressPortClaim \<Rightarrow> ingressPortClaim \<Rightarrow> bool" where
  "ingressRouteConflicts a b \<longleftrightarrow>
     ic_Port a = ic_Port b \<and> ingressHostsOverlap (ic_Host a) (ic_Host b) \<and>
     cleanIngressPath (ic_Path a) = cleanIngressPath (ic_Path b)"

definition service_claims :: "Runtime \<Rightarrow> portClaim list" where
  "service_claims runtime =
     map (\<lambda>s. \<lparr>pc_Key = KeyForRuntime runtime, pc_Name = svc_Name s, pc_Port = svc_ListenPort s\<rparr>)
       (rs_Services (rtm_Spec (NormalizeRuntime runtime)))"

definition ingress_claim :: "RuntimeKey \<Rightarrow> IngressSpec \<Rightarrow> IngressRoute \<Rightarrow> ingressPortClaim" where
  "ingress_claim key i r =
     \<lparr>ic_Key = key, ic_Ingress = ing_Name i, ic_Port = ing_ListenPort i, ic_Host = ing_Host i,
      ic_Path = rt_Path r, ic_Service = rt_ServiceName r\<rparr>"

definition ingress_claims :: "Runtime \<Rightarrow> ingressPortClaim list" where
  "ingress_claims runtime =
     concat (map (\<lambda>i. map (ingress_claim (KeyForRuntime runtime) i) (ing_Routes i))
       (rs_Ingress (rtm_Spec (NormalizeRuntime runtime))))"

text \<open>
  \<open>servicePorts\<close> maps a port to the last claim on it; \<open>ingressClaims\<close> maps it to all claims in
  order.
\<close>

definition servicePorts :: "Runtime list \<Rightarrow> (int \<times> portClaim) list" where
  "servicePorts existing =
     foldl (\<lambda>m c. AList.update (pc_Port c) c m) [] (concat (map service_claims existing))"

definition claims_on :: "Runtime list \<Rightarrow> int \<Rightarrow> ingressPortClaim list" where
  "claims_on existing port = filter (\<lambda>c. ic_Port c = port) (concat (map ingress_claims existing))"

definition admit_service :: "Runtime list \<Rightarrow> ServiceSpec \<Rightarrow> admission_error option" where
  "admit_service existing s =
     (case map_of (servicePorts existing) (svc_ListenPort s) of
        Some claim \<Rightarrow> Some (ServiceOnServicePort (svc_Name s) claim)
      | None \<Rightarrow>
          (case claims_on existing (svc_ListenPort s) of
             claim # _ \<Rightarrow> Some (ServiceOnIngressPort (svc_Name s) claim)
           | [] \<Rightarrow> None))"

fun admit_routes ::
    "Runtime list \<Rightarrow> IngressSpec \<Rightarrow> ingressPortClaim list \<Rightarrow> ingressPortClaim list
     \<Rightarrow> admission_error + ingressPortClaim list" where
  "admit_routes existing i candidateIngress [] = Inr candidateIngress"
| "admit_routes existing i candidateIngress (claim # claims) =
     (case find (ingressRouteConflicts claim) (claims_on existing (ing_ListenPort i)) of
        Some c \<Rightarrow> Inl (IngressRouteTaken (ing_Name i) c)
      | None \<Rightarrow>
          (case find (ingressRouteConflicts claim) candidateIngress of
             Some c \<Rightarrow> Inl (IngressRouteTwice (ing_Name i) c)
           | None \<Rightarrow> admit_routes existing i (candidateIngress @ [claim]) claims))"

fun admit_ingresses ::
    "Runtime list \<Rightarrow> RuntimeKey \<Rightarrow> ingressPortClaim list \<Rightarrow> IngressSpec list \<Rightarrow> admission_error option" where
  "admit_ingresses existing key candidateIngress [] = None"
| "admit_ingresses existing key candidateIngress (i # is) =
     (case map_of (servicePorts existing) (ing_ListenPort i) of
        Some claim \<Rightarrow> Some (IngressOnServicePort (ing_Name i) claim)
      | None \<Rightarrow>
          (case admit_routes existing i candidateIngress (map (ingress_claim key i) (ing_Routes i)) of
             Inl e \<Rightarrow> Some e
           | Inr claims \<Rightarrow> admit_ingresses existing key claims is))"

definition validateGlobalPortConflicts :: "Runtime \<Rightarrow> Runtime list \<Rightarrow> admission_error option" where
  "validateGlobalPortConflicts candidate existing =
     (let candidate = NormalizeRuntime candidate; spec = rtm_Spec candidate
      in first_error
           [first_error (map (admit_service existing) (rs_Services spec)),
            admit_ingresses existing (KeyForRuntime candidate) [] (rs_Ingress spec)])"

definition validateNodeCapacity :: "Runtime \<Rightarrow> Runtime list \<Rightarrow> NodeConfig \<Rightarrow> admission_error option" where
  "validateNodeCapacity candidate existing node =
     (let snapshot = resourceSnapshotFor node (existing @ [candidate]);
          a = rsn_Allocatable snapshot; q = rsn_Requested snapshot
      in first_error
           [check (rr_MilliCPUs a > 0 \<and> rr_MilliCPUs q > rr_MilliCPUs a)
              (CPUExceeded (rr_MilliCPUs q) (rr_MilliCPUs a)),
            check (rr_MemoryBytes a > 0 \<and> rr_MemoryBytes q > rr_MemoryBytes a)
              (MemoryExceeded (rr_MemoryBytes q) (rr_MemoryBytes a)),
            check (rr_PIDs a > 0 \<and> rr_PIDs q > rr_PIDs a)
              (PIDsExceeded (rr_PIDs q) (rr_PIDs a))])"

definition validateRuntimeNode :: "NodeConfig \<Rightarrow> Runtime \<Rightarrow> admission_error option" where
  "validateRuntimeNode node runtime =
     (let spec = rtm_Spec (NormalizeRuntime runtime)
      in first_error
           [check (rs_NodeName spec \<noteq> [] \<and> rs_NodeName spec \<noteq> nc_Name node)
              (WrongNode (rs_NodeName spec) (nc_Name node)),
            first_error
              (map (\<lambda>(key, want). check (trim_space (get_str (nc_Labels node) key) \<noteq> trim_space want)
                     (NodeSelectorMismatch key want))
                 (rs_NodeSelector spec))])"

definition resourceSpecEmpty :: "ResourceSpec \<Rightarrow> bool" where
  "resourceSpecEmpty value \<longleftrightarrow>
     res_CPUs value = [] \<and> res_Memory value = [] \<and> res_MemorySwap value = [] \<and> res_PIDsLimit value = 0"

text \<open>The allocatable resources that \<open>nodeStatus\<close> reports.\<close>

definition nodeStatus_allocatable :: "NodeConfig \<Rightarrow> ResourceSpec" where
  "nodeStatus_allocatable node =
     (if resourceSpecEmpty (nc_Allocatable node) then nc_Capacity node else nc_Allocatable node)"

definition sortedRuntimeKeys :: "'a gomap \<Rightarrow> string list" where
  "sortedRuntimeKeys specs = sort (map_keys specs)"

definition sorted_values :: "'a gomap \<Rightarrow> 'a list" where
  "sorted_values specs = List.map_filter (map_of specs) (sortedRuntimeKeys specs)"

definition runtimesForScheduling :: "Runtime gomap \<Rightarrow> RuntimeKey \<Rightarrow> Runtime list" where
  "runtimesForScheduling specs exclude =
     filter (\<lambda>runtime. \<not> (key_Name exclude \<noteq> [] \<and> KeyForRuntime runtime = exclude)) (sorted_values specs)"

definition AssignRuntime :: "NodeConfig \<Rightarrow> Runtime \<Rightarrow> Runtime" where
  "AssignRuntime node runtime =
     (let runtime = NormalizeRuntime runtime
      in if is_blank (rs_NodeName (rtm_Spec runtime))
         then runtime\<lparr>rtm_Spec := (rtm_Spec runtime)\<lparr>rs_NodeName := nc_Name node\<rparr>\<rparr>
         else runtime)"

text \<open>The checks normalise copies of the value that is returned.\<close>

definition AdmitRuntime :: "NodeConfig \<Rightarrow> Runtime gomap \<Rightarrow> Runtime \<Rightarrow> admission_error + Runtime" where
  "AdmitRuntime node specs runtime =
     (let runtime = AssignRuntime node runtime;
          error = first_error
            [validateRuntimeNode node runtime,
             validateGlobalPortConflicts (NormalizeInPlace runtime)
               (runtimesForScheduling specs (KeyForRuntime runtime)),
             validateNodeCapacity (NormalizeInPlace runtime)
               (runtimesForScheduling specs (KeyForRuntime runtime)) node]
      in case error of Some e \<Rightarrow> Inl e | None \<Rightarrow> Inr (NormalizeInPlace runtime))"

definition ResourceSnapshotOf :: "NodeConfig \<Rightarrow> Runtime gomap \<Rightarrow> ResourceSnapshot" where
  "ResourceSnapshotOf node specs =
     resourceSnapshotFor node (runtimesForScheduling specs \<lparr>key_Namespace = [], key_Name = []\<rparr>)"

section \<open>Wrapping sums\<close>

lemma wrap64_add_left: "wrap64 (wrap64 a + b) = wrap64 (a + b)"
proof -
  have "(wrap64 a + b + 9223372036854775808) mod 18446744073709551616
      = ((a + 9223372036854775808) mod 18446744073709551616 + b) mod 18446744073709551616"
    by (simp add: wrap64_def)
  also have "\<dots> = (a + 9223372036854775808 + b) mod 18446744073709551616"
    by (rule mod_add_left_eq)
  also have "a + 9223372036854775808 + b = a + b + 9223372036854775808" by simp
  finally show ?thesis by (simp add: wrap64_def)
qed

lemma wrap64_add_right: "wrap64 (a + wrap64 b) = wrap64 (a + b)"
  using wrap64_add_left [of b a] by (simp add: add.commute)

lemma wrap64_idem [simp]: "wrap64 (wrap64 a) = wrap64 a"
  using wrap64_add_left [of a 0] by simp

text \<open>The three fields of a request obey the same laws; what is proved of one holds of all.\<close>

locale request_field =
  fixes f :: "ResourceRequest \<Rightarrow> int"
  assumes zero: "f rr_zero = 0"
    and add: "f (rr_Add a b) = wrap64 (f a + f b)"
begin

lemma fold_add:
  "wrap64 (f (foldl (\<lambda>q x. rr_Add q (g x)) a xs)) = wrap64 (f a + (\<Sum>x\<leftarrow>xs. f (g x)))"
proof (induction xs arbitrary: a)
  case (Cons x xs)
  then show ?case
    by (simp add: add wrap64_add_left) (simp add: ac_simps)
qed simp

lemma fold_add_zero: "f (foldl (\<lambda>q x. rr_Add q (g x)) rr_zero xs) = wrap64 (\<Sum>x\<leftarrow>xs. f (g x))"
proof (cases xs rule: rev_cases)
  case Nil
  then show ?thesis using wrap64_id [of 0] by (simp add: zero)
next
  case (snoc ys y)
  then have "f (foldl (\<lambda>q x. rr_Add q (g x)) rr_zero xs)
      = wrap64 (wrap64 (f (foldl (\<lambda>q x. rr_Add q (g x)) rr_zero ys)) + f (g y))"
    by (simp add: add wrap64_add_left)
  then show ?thesis by (simp add: fold_add zero snoc wrap64_add_left)
qed

lemma wrap_sum: "wrap64 (\<Sum>x\<leftarrow>xs. wrap64 (g x)) = wrap64 (\<Sum>x\<leftarrow>xs. g x)"
proof (induction xs)
  case (Cons x xs)
  have "wrap64 (wrap64 (g x) + (\<Sum>x\<leftarrow>xs. wrap64 (g x))) = wrap64 (g x + wrap64 (\<Sum>x\<leftarrow>xs. wrap64 (g x)))"
    by (simp add: wrap64_add_left wrap64_add_right)
  then show ?case by (simp add: Cons.IH wrap64_add_right)
qed simp

lemma requested:
  assumes "\<And>d. f (deployment_request d) = wrap64 (demand d)"
  shows "f (rsn_Requested (resourceSnapshotFor node rs))
    = wrap64 (\<Sum>r\<leftarrow>rs. \<Sum>d\<leftarrow>rs_Deployments (rtm_Spec (NormalizeRuntime r)). demand d)"
  by (simp add: resourceSnapshotFor_def Let_def fold_add_zero runtimeResourceRequest_def assms wrap_sum)

end

interpretation cpu_field: request_field rr_MilliCPUs
  by unfold_locales (simp_all add: rr_zero_def rr_Add_def)

interpretation memory_field: request_field rr_MemoryBytes
  by unfold_locales (simp_all add: rr_zero_def rr_Add_def)

interpretation pids_field: request_field rr_PIDs
  by unfold_locales (simp_all add: rr_zero_def rr_Add_def)

text \<open>The demand of a list of runtimes in unbounded integers.\<close>

definition cpu_demand :: "Runtime list \<Rightarrow> int" where
  "cpu_demand rs = (\<Sum>r\<leftarrow>rs. \<Sum>d\<leftarrow>rs_Deployments (rtm_Spec (NormalizeRuntime r)).
     or_zero (parseCPUMilli (res_CPUs (dep_Resources d))) * deploymentReplicas d)"

definition memory_demand :: "Runtime list \<Rightarrow> int" where
  "memory_demand rs = (\<Sum>r\<leftarrow>rs. \<Sum>d\<leftarrow>rs_Deployments (rtm_Spec (NormalizeRuntime r)).
     or_zero (parseMemoryBytes (res_Memory (dep_Resources d))) * deploymentReplicas d)"

definition pids_demand :: "Runtime list \<Rightarrow> int" where
  "pids_demand rs = (\<Sum>r\<leftarrow>rs. \<Sum>d\<leftarrow>rs_Deployments (rtm_Spec (NormalizeRuntime r)).
     res_PIDsLimit (dep_Resources d) * deploymentReplicas d)"

lemma requested_demand:
  "rr_MilliCPUs (rsn_Requested (resourceSnapshotFor node rs)) = wrap64 (cpu_demand rs)"
  "rr_MemoryBytes (rsn_Requested (resourceSnapshotFor node rs)) = wrap64 (memory_demand rs)"
  "rr_PIDs (rsn_Requested (resourceSnapshotFor node rs)) = wrap64 (pids_demand rs)"
  unfolding cpu_demand_def memory_demand_def pids_demand_def
  by (rule cpu_field.requested memory_field.requested pids_field.requested,
      simp add: deployment_request_def Let_def)+

definition allocatable_of :: "NodeConfig \<Rightarrow> ResourceRequest" where
  "allocatable_of node = rsn_Allocatable (resourceSnapshotFor node [])"

lemma allocatable_of: "rsn_Allocatable (resourceSnapshotFor node rs) = allocatable_of node"
  by (simp add: allocatable_of_def resourceSnapshotFor_def Let_def)

text \<open>\<open>fits\<close>: a capacity of 0 means none is declared.\<close>

definition fits :: "int \<Rightarrow> int \<Rightarrow> bool" where
  "fits demand capacity \<longleftrightarrow> \<not> (capacity > 0 \<and> demand > capacity)"

lemma validateNodeCapacity_None:
  "validateNodeCapacity c rs node = None \<longleftrightarrow>
     fits (wrap64 (cpu_demand (rs @ [c]))) (rr_MilliCPUs (allocatable_of node)) \<and>
     fits (wrap64 (memory_demand (rs @ [c]))) (rr_MemoryBytes (allocatable_of node)) \<and>
     fits (wrap64 (pids_demand (rs @ [c]))) (rr_PIDs (allocatable_of node))"
  by (simp only: validateNodeCapacity_def Let_def first_error_Cons_None first_error.simps check_None
      requested_demand allocatable_of fits_def simp_thms)

section \<open>Ports\<close>

text \<open>Two runtimes share no port except two ingresses with routes that cannot both match.\<close>

definition ports_compatible :: "Runtime \<Rightarrow> Runtime \<Rightarrow> bool" where
  "ports_compatible a b \<longleftrightarrow>
     (\<forall>s \<in> set (service_claims a). \<forall>t \<in> set (service_claims b). pc_Port s \<noteq> pc_Port t) \<and>
     (\<forall>s \<in> set (service_claims a). \<forall>i \<in> set (ingress_claims b). pc_Port s \<noteq> ic_Port i) \<and>
     (\<forall>i \<in> set (ingress_claims a). \<forall>s \<in> set (service_claims b). pc_Port s \<noteq> ic_Port i) \<and>
     (\<forall>i \<in> set (ingress_claims a). \<forall>j \<in> set (ingress_claims b). \<not> ingressRouteConflicts i j)"

lemma ingressRouteConflicts_sym: "ingressRouteConflicts a b = ingressRouteConflicts b a"
  by (auto simp: ingressRouteConflicts_def ingressHostsOverlap_def equal_fold_def Let_def)

lemma ports_compatible_sym: "ports_compatible a b \<Longrightarrow> ports_compatible b a"
  unfolding ports_compatible_def by (elim conjE, intro conjI ballI) (metis ingressRouteConflicts_sym)+

lemma servicePorts_fold:
  "map_of (foldl (\<lambda>m c. AList.update (pc_Port c) c m) m cs) port = None
     \<longleftrightarrow> map_of m port = None \<and> (\<forall>c \<in> set cs. pc_Port c \<noteq> port)"
  by (induction cs arbitrary: m) (auto simp: update_conv')

lemma servicePorts_None:
  "map_of (servicePorts rs) port = None \<longleftrightarrow> (\<forall>r \<in> set rs. \<forall>c \<in> set (service_claims r). pc_Port c \<noteq> port)"
  by (auto simp: servicePorts_def servicePorts_fold)

lemma claims_on_set: "set (claims_on rs port) = {c. ic_Port c = port \<and> (\<exists>r \<in> set rs. c \<in> set (ingress_claims r))}"
  by (auto simp: claims_on_def)

lemma admit_service_None:
  "admit_service rs s = None \<longleftrightarrow>
     (\<forall>r \<in> set rs. (\<forall>c \<in> set (service_claims r). pc_Port c \<noteq> svc_ListenPort s) \<and>
        (\<forall>c \<in> set (ingress_claims r). ic_Port c \<noteq> svc_ListenPort s))"
proof -
  have "claims_on rs (svc_ListenPort s) = [] \<longleftrightarrow> (\<forall>r \<in> set rs. \<forall>c \<in> set (ingress_claims r). ic_Port c \<noteq> svc_ListenPort s)"
    by (auto simp: claims_on_set simp flip: set_empty)
  then show ?thesis
    using servicePorts_None [of rs "svc_ListenPort s"]
    by (auto simp: admit_service_def split: option.splits list.splits)
qed

text \<open>Routes are accepted one by one against the ones before.\<close>

fun no_conflicts :: "ingressPortClaim list \<Rightarrow> bool" where
  "no_conflicts [] = True"
| "no_conflicts (c # cs) = ((\<forall>d \<in> set cs. \<not> ingressRouteConflicts c d) \<and> no_conflicts cs)"

lemma no_conflicts_snoc:
  "no_conflicts (cs @ [d]) \<longleftrightarrow> no_conflicts cs \<and> (\<forall>c \<in> set cs. \<not> ingressRouteConflicts c d)"
  by (induction cs) auto

lemma no_conflicts_append:
  "no_conflicts (cs @ ds) \<longleftrightarrow> no_conflicts cs \<and> no_conflicts ds \<and>
     (\<forall>c \<in> set cs. \<forall>d \<in> set ds. \<not> ingressRouteConflicts c d)"
  by (induction cs) auto

lemma admit_routes_out: "admit_routes rs i seen claims = Inr out \<Longrightarrow> out = seen @ claims"
  by (induction rs i seen claims rule: admit_routes.induct) (auto split: option.splits)

lemma admit_routes_Inr:
  assumes "\<forall>c \<in> set claims. ic_Port c = ing_ListenPort i" "no_conflicts seen"
  shows "(\<exists>out. admit_routes rs i seen claims = Inr out) \<longleftrightarrow>
      no_conflicts (seen @ claims) \<and>
      (\<forall>c \<in> set claims. \<forall>r \<in> set rs. \<forall>d \<in> set (ingress_claims r). \<not> ingressRouteConflicts c d)"
  using assms
proof (induction claims arbitrary: seen)
  case (Cons c cs)
  have port: "ic_Port c = ing_ListenPort i" using Cons.prems by simp
  have other: "find (ingressRouteConflicts c) (claims_on rs (ing_ListenPort i)) = None \<longleftrightarrow>
      (\<forall>r \<in> set rs. \<forall>d \<in> set (ingress_claims r). \<not> ingressRouteConflicts c d)"
    using port by (auto simp: find_None_iff claims_on_set ingressRouteConflicts_def)
  have own: "find (ingressRouteConflicts c) seen = None \<longleftrightarrow> (\<forall>d \<in> set seen. \<not> ingressRouteConflicts d c)"
    using ingressRouteConflicts_sym by (auto simp: find_None_iff)
  show ?case
  proof (cases "(\<forall>d \<in> set seen. \<not> ingressRouteConflicts d c) \<and>
      (\<forall>r \<in> set rs. \<forall>d \<in> set (ingress_claims r). \<not> ingressRouteConflicts c d)")
    case True
    then have "no_conflicts (seen @ [c])" using Cons.prems by (simp add: no_conflicts_snoc)
    with Cons.IH [of "seen @ [c]"] True other own Cons.prems show ?thesis by simp
  next
    case False
    then have "\<not> no_conflicts (seen @ c # cs) \<or>
        \<not> (\<forall>r \<in> set rs. \<forall>d \<in> set (ingress_claims r). \<not> ingressRouteConflicts c d)"
      by (auto simp: no_conflicts_append)
    moreover from False other own have "\<nexists>out. admit_routes rs i seen (c # cs) = Inr out"
      by (auto split: option.splits)
    ultimately show ?thesis by auto
  qed
qed simp

definition claims_of :: "RuntimeKey \<Rightarrow> IngressSpec list \<Rightarrow> ingressPortClaim list" where
  "claims_of key is = concat (map (\<lambda>i. map (ingress_claim key i) (ing_Routes i)) is)"

lemma claims_of_simps [simp]:
  "claims_of key [] = []"
  "claims_of key (i # is) = map (ingress_claim key i) (ing_Routes i) @ claims_of key is"
  by (simp_all add: claims_of_def)

lemma ingress_claims_of: "ingress_claims r = claims_of (KeyForRuntime r) (rs_Ingress (rtm_Spec (NormalizeRuntime r)))"
  by (simp add: ingress_claims_def claims_of_def)

lemma admit_ingresses_None:
  assumes "no_conflicts seen"
  shows "admit_ingresses rs key seen is = None \<longleftrightarrow>
      no_conflicts (seen @ claims_of key is) \<and>
      (\<forall>i \<in> set is. \<forall>r \<in> set rs. \<forall>c \<in> set (service_claims r). pc_Port c \<noteq> ing_ListenPort i) \<and>
      (\<forall>c \<in> set (claims_of key is). \<forall>r \<in> set rs. \<forall>d \<in> set (ingress_claims r). \<not> ingressRouteConflicts c d)"
  using assms
proof (induction "is" arbitrary: seen)
  case (Cons i "is")
  let ?new = "map (ingress_claim key i) (ing_Routes i)"
  have ports: "\<forall>c \<in> set ?new. ic_Port c = ing_ListenPort i" by (simp add: ingress_claim_def)
  show ?case
  proof (cases "\<exists>out. admit_routes rs i seen ?new = Inr out")
    case True
    then have out: "admit_routes rs i seen ?new = Inr (seen @ ?new)"
      using admit_routes_out by fastforce
    from True admit_routes_Inr [OF ports Cons.prems] have nc: "no_conflicts (seen @ ?new)"
      and ex: "\<forall>c \<in> set ?new. \<forall>r \<in> set rs. \<forall>d \<in> set (ingress_claims r). \<not> ingressRouteConflicts c d"
      by simp_all
    show ?thesis
      using out ex Cons.IH [OF nc] servicePorts_None [of rs "ing_ListenPort i"]
      by (auto split: option.split simp del: ball_simps)
  next
    case False
    then have "\<not> (no_conflicts (seen @ ?new) \<and>
        (\<forall>c \<in> set ?new. \<forall>r \<in> set rs. \<forall>d \<in> set (ingress_claims r). \<not> ingressRouteConflicts c d))"
      using admit_routes_Inr [OF ports Cons.prems] by simp
    then have "\<not> (no_conflicts (seen @ claims_of key (i # is)) \<and>
        (\<forall>c \<in> set (claims_of key (i # is)). \<forall>r \<in> set rs. \<forall>d \<in> set (ingress_claims r). \<not> ingressRouteConflicts c d))"
      by (auto simp: no_conflicts_append)
    moreover have "admit_ingresses rs key seen (i # is) \<noteq> None"
      using False by (auto split: option.split sum.split)
    ultimately show ?thesis by blast
  qed
qed simp

lemma validateGlobalPortConflicts_exact:
  "validateGlobalPortConflicts c rs = None \<longleftrightarrow>
     (\<forall>r \<in> set rs. ports_compatible c r \<and>
        (\<forall>i \<in> set (rs_Ingress (rtm_Spec (NormalizeRuntime c))). \<forall>s \<in> set (service_claims r). pc_Port s \<noteq> ing_ListenPort i)) \<and>
     no_conflicts (ingress_claims c)"
proof -
  let ?spec = "rtm_Spec (NormalizeRuntime c)"
  have svc: "first_error (map (admit_service rs) (rs_Services ?spec)) = None \<longleftrightarrow>
      (\<forall>s \<in> set (service_claims c). \<forall>r \<in> set rs. (\<forall>t \<in> set (service_claims r). pc_Port s \<noteq> pc_Port t) \<and>
         (\<forall>i \<in> set (ingress_claims r). pc_Port s \<noteq> ic_Port i))"
    unfolding first_error_map_None admit_service_None service_claims_def [of c] by fastforce
  have port: "\<exists>j \<in> set (rs_Ingress ?spec). ic_Port i = ing_ListenPort j" if "i \<in> set (ingress_claims c)" for i
    using that by (auto simp: ingress_claims_def ingress_claim_def)
  have third: "(\<forall>i \<in> set (ingress_claims c). \<forall>s \<in> set (service_claims r). pc_Port s \<noteq> ic_Port i)"
    if "\<forall>i \<in> set (rs_Ingress ?spec). \<forall>s \<in> set (service_claims r). pc_Port s \<noteq> ing_ListenPort i" for r
    using that port by metis
  have ing: "admit_ingresses rs (KeyForRuntime c) [] (rs_Ingress ?spec) = None \<longleftrightarrow>
      no_conflicts (ingress_claims c) \<and>
      (\<forall>i \<in> set (rs_Ingress ?spec). \<forall>r \<in> set rs. \<forall>s \<in> set (service_claims r). pc_Port s \<noteq> ing_ListenPort i) \<and>
      (\<forall>i \<in> set (ingress_claims c). \<forall>r \<in> set rs. \<forall>d \<in> set (ingress_claims r). \<not> ingressRouteConflicts i d)"
    by (simp add: admit_ingresses_None ingress_claims_of)
  have exact: "validateGlobalPortConflicts c rs = None \<longleftrightarrow>
      first_error (map (admit_service rs) (rs_Services ?spec)) = None \<and>
      admit_ingresses rs (KeyForRuntime c) [] (rs_Ingress ?spec) = None"
    by (simp add: validateGlobalPortConflicts_def Let_def first_error_Cons_None)
  show ?thesis
    unfolding exact svc ing ports_compatible_def
    apply (rule iffI)
     apply (elim conjE, intro conjI ballI)
          apply (metis third)+
    apply (intro conjI ballI; metis)
    done
qed

section \<open>The scheduler contract\<close>

definition specs_keyed :: "Runtime gomap \<Rightarrow> bool" where
  "specs_keyed specs \<longleftrightarrow> distinct (map fst specs) \<and> (\<forall>(k, r) \<in> set specs. k = key_String (KeyForRuntime r))"

definition specs_compatible :: "Runtime gomap \<Rightarrow> bool" where
  "specs_compatible specs \<longleftrightarrow>
     (\<forall>(k, a) \<in> set specs. \<forall>(j, b) \<in> set specs. k \<noteq> j \<longrightarrow> ports_compatible a b)"

lemma set_map_set: "distinct (map fst m) \<Longrightarrow> set (map_set m k v) = {(j, w). (j, w) \<in> set m \<and> j \<noteq> k} \<union> {(k, v)}"
  by (induction m) force+

lemma set_map_del: "set (map_del m k) = {(j, w). (j, w) \<in> set m \<and> j \<noteq> k}"
  by (auto simp: AList.delete_eq)

lemma specs_keyed_set: "specs_keyed specs \<Longrightarrow> specs_keyed (map_set specs (key_String (KeyForRuntime r)) r)"
  by (auto simp: specs_keyed_def distinct_update set_map_set)

lemma specs_keyed_del: "specs_keyed specs \<Longrightarrow> specs_keyed (map_del specs k)"
  by (auto simp: specs_keyed_def distinct_delete set_map_del)

lemma specs_compatible_del: "specs_compatible specs \<Longrightarrow> specs_compatible (map_del specs k)"
  unfolding specs_compatible_def set_map_del by fast

lemma specs_compatible_set:
  assumes "specs_keyed specs" "specs_compatible specs"
    and "\<And>k other. (k, other) \<in> set specs \<Longrightarrow> k \<noteq> key \<Longrightarrow> ports_compatible r other"
  shows "specs_compatible (map_set specs key r)"
proof -
  have "distinct (map fst specs)" using assms(1) by (simp add: specs_keyed_def)
  then have set: "set (map_set specs key r) = {(j, w). (j, w) \<in> set specs \<and> j \<noteq> key} \<union> {(key, r)}"
    by (rule set_map_set)
  show ?thesis
    unfolding specs_compatible_def
  proof (clarify)
    fix k a j b
    assume "(k, a) \<in> set (map_set specs key r)" "(j, b) \<in> set (map_set specs key r)" "k \<noteq> j"
    then consider "(k, a) \<in> set specs" "(j, b) \<in> set specs" | "a = r" "(j, b) \<in> set specs" "j \<noteq> key"
      | "b = r" "(k, a) \<in> set specs" "k \<noteq> key"
      unfolding set by blast
    then show "ports_compatible a b"
    proof cases
      case 1
      with assms(2) \<open>k \<noteq> j\<close> show ?thesis unfolding specs_compatible_def by blast
    next
      case 2
      then show ?thesis using assms(3) by blast
    next
      case 3
      then show ?thesis using assms(3) ports_compatible_sym by blast
    qed
  qed
qed

text \<open>Admitting a list of runtimes one after the other, rejected ones skipped.\<close>

primrec admit_all :: "(Runtime gomap \<Rightarrow> Runtime \<Rightarrow> 'e + Runtime) \<Rightarrow> Runtime list \<Rightarrow> Runtime gomap \<Rightarrow> Runtime gomap" where
  "admit_all admit [] specs = specs"
| "admit_all admit (r # rs) specs =
     (case admit specs r of
        Inl _ \<Rightarrow> admit_all admit rs specs
      | Inr r' \<Rightarrow> admit_all admit rs (map_set specs (key_String (KeyForRuntime r')) r'))"

text \<open>
  What the manager relies on of a \<open>RuntimeScheduler\<close>: an admitted Runtime keeps its key and
  shares no port with another Runtime of the map it was admitted against.
\<close>

locale runtime_scheduler =
  fixes admit :: "Runtime gomap \<Rightarrow> Runtime \<Rightarrow> 'e + Runtime"
  assumes admit_key: "admit specs r = Inr r' \<Longrightarrow> KeyForRuntime r' = KeyForRuntime r"
    and admit_compatible: "admit specs r = Inr r' \<Longrightarrow> (k, other) \<in> set specs \<Longrightarrow> distinct (map fst specs) \<Longrightarrow>
      KeyForRuntime other \<noteq> KeyForRuntime r \<Longrightarrow> ports_compatible r' other"
begin

lemma store_admitted:
  assumes "specs_keyed specs" "specs_compatible specs" "admit specs r = Inr r'"
  shows "specs_keyed (map_set specs (key_String (KeyForRuntime r')) r')"
    and "specs_compatible (map_set specs (key_String (KeyForRuntime r')) r')"
proof -
  show "specs_keyed (map_set specs (key_String (KeyForRuntime r')) r')"
    using assms(1) by (rule specs_keyed_set)
  show "specs_compatible (map_set specs (key_String (KeyForRuntime r')) r')"
  proof (rule specs_compatible_set [OF assms(1,2)])
    fix k other assume m: "(k, other) \<in> set specs" and ne: "k \<noteq> key_String (KeyForRuntime r')"
    from m assms(1) have "k = key_String (KeyForRuntime other)" by (auto simp: specs_keyed_def)
    with ne have "KeyForRuntime other \<noteq> KeyForRuntime r" using admit_key [OF assms(3)] by auto
    moreover from assms(1) have "distinct (map fst specs)" by (simp add: specs_keyed_def)
    ultimately show "ports_compatible r' other" using admit_compatible [OF assms(3) m] by blast
  qed
qed

lemma admit_all_compatible:
  "specs_keyed specs \<Longrightarrow> specs_compatible specs \<Longrightarrow>
   specs_keyed (admit_all admit rs specs) \<and> specs_compatible (admit_all admit rs specs)"
  by (induction rs arbitrary: specs) (auto split: sum.split dest: store_admitted)

end

lemma set_sorted_values:
  "distinct (map fst specs) \<Longrightarrow> set (sorted_values specs) = snd ` set specs"
  by (force simp: sorted_values_def sortedRuntimeKeys_def map_keys_def List.map_filter_def map_of_eq_Some_iff)

lemma AdmitRuntime_Inr:
  "AdmitRuntime node specs r = Inr r' \<longleftrightarrow>
     r' = NormalizeInPlace (AssignRuntime node r) \<and> validateRuntimeNode node (AssignRuntime node r) = None \<and>
     validateGlobalPortConflicts r' (runtimesForScheduling specs (KeyForRuntime r)) = None \<and>
     validateNodeCapacity r' (runtimesForScheduling specs (KeyForRuntime r)) node = None"
proof -
  have key: "KeyForRuntime (AssignRuntime node r) = KeyForRuntime r"
    by (simp add: AssignRuntime_def KeyForRuntime_def' Let_def)
  show ?thesis
    by (simp add: AdmitRuntime_def Let_def key error_case_Inr first_error_Cons_None) blast
qed

lemma AdmitRuntime_key: "AdmitRuntime node specs r = Inr r' \<Longrightarrow> KeyForRuntime r' = KeyForRuntime r"
  by (auto simp: AdmitRuntime_Inr AssignRuntime_def KeyForRuntime_def' Let_def)

lemma AdmitRuntime_compatible:
  assumes "AdmitRuntime node specs r = Inr r'" "(k, other) \<in> set specs" "distinct (map fst specs)"
    "KeyForRuntime other \<noteq> KeyForRuntime r"
  shows "ports_compatible r' other"
proof -
  from assms(2-4) have "other \<in> set (runtimesForScheduling specs (KeyForRuntime r))"
    by (force simp: runtimesForScheduling_def set_sorted_values)
  with assms(1) show ?thesis by (auto simp: AdmitRuntime_Inr validateGlobalPortConflicts_exact)
qed

interpretation single_node: runtime_scheduler "AdmitRuntime node" for node
  by unfold_locales (rule AdmitRuntime_key, assumption, rule AdmitRuntime_compatible, assumption+)

section \<open>What the parsers compute\<close>

lemma digits_val_append: "digits_val (a @ b) = digits_val a * 10 ^ length b + digits_val b"
  by (induction b rule: rev_induct) (simp_all add: digits_val_snoc digits_val_def algebra_simps flip: append_assoc)

lemma digits_val_zeros: "digits_val (replicate n (CHR ''0'')) = 0"
  by (induction n) (simp_all add: digits_val_def digit_val_def)

lemma digits_val_bound: "list_all is_digit s \<Longrightarrow> digits_val s < 10 ^ length s"
  by (induction s rule: rev_induct) (auto simp: digits_val_snoc is_digit_def digit_val_def digits_val_def [of "[]"])

lemma digits_val_pos:
  assumes "list_all is_digit s"
  shows "0 < digits_val s \<longleftrightarrow> (\<exists>c \<in> set s. c \<noteq> CHR ''0'')"
  using assms
proof (induction s rule: rev_induct)
  case (snoc c s)
  have "0 < digit_val c \<longleftrightarrow> c \<noteq> CHR ''0''"
  proof -
    have "digit_val c = 0 \<longleftrightarrow> c = CHR ''0''"
    proof
      assume "digit_val c = 0"
      then have "(of_char c :: nat) = of_char (CHR ''0'')" by (simp add: digit_val_def)
      then show "c = CHR ''0''" by (simp only: of_char_eq_iff)
    qed (simp add: digit_val_def)
    then show ?thesis using digit_val_nonneg [of c] snoc.prems by auto
  qed
  moreover have "0 \<le> digits_val s" "0 \<le> digit_val c"
    using snoc.prems digits_val_nonneg digit_val_nonneg by simp_all
  then have "0 < digits_val (s @ [c]) \<longleftrightarrow> 0 < digits_val s \<or> 0 < digit_val c"
    unfolding digits_val_snoc by linarith
  ultimately show ?case using snoc.IH snoc.prems by auto
qed (simp add: digits_val_def)

lemma atoi_digits: "list_all is_digit s \<Longrightarrow> s \<noteq> [] \<Longrightarrow> digits_val s \<le> max_int64 \<Longrightarrow> atoi s = Some (digits_val s)"
  using digits_val_nonneg [of s] by (auto simp: atoi_def split_sign_digits in_int64_def)

lemma digit_not_space: "is_digit c \<Longrightarrow> \<not> space_byte c"
  unfolding space_byte_def go_whitespace_def is_digit_def by auto

lemma trim_set_Nil: "trim_set cs s = [] \<longleftrightarrow> set s \<subseteq> set cs"
proof -
  have "set s = set (takeWhile (\<lambda>c. c \<in> set cs) s) \<union> set (dropWhile (\<lambda>c. c \<in> set cs) s)"
    by (metis set_append takeWhile_dropWhile_id)
  then show ?thesis
    by (auto simp: trim_set_def dest: set_takeWhileD)
qed

lemma trim_set_zeros: "list_all is_digit s \<Longrightarrow> trim_set ''0'' s = [] \<longleftrightarrow> digits_val s = 0"
proof -
  assume s: "list_all is_digit s"
  have "trim_set ''0'' s = [] \<longleftrightarrow> \<not> (\<exists>c \<in> set s. c \<noteq> CHR ''0'')" by (auto simp: trim_set_Nil)
  also have "\<dots> \<longleftrightarrow> \<not> 0 < digits_val s" using digits_val_pos [OF s] by simp
  finally show ?thesis using digits_val_nonneg [OF s] by linarith
qed

lemma wrap_milli:
  assumes "0 \<le> w" "w \<le> 9223372036854774" "0 \<le> x" "x \<le> 1000"
  shows "wrap64 (wrap64 (w * 1000) + x) = w * 1000 + x" "wrap64 (w * 1000) = w * 1000"
  using assms by (simp_all add: wrap64_add_left wrap64_id in_int64_def max_int64_def)

text \<open>The third decimal and everything after it, rounded up.\<close>

definition milli_fraction :: "string \<Rightarrow> int" where
  "milli_fraction frac =
     (if length frac \<le> 3 then digits_val frac * 10 ^ (3 - length frac)
      else digits_val (take 3 frac) + (if digits_val (drop 3 frac) = 0 then 0 else 1))"

lemma milli_fraction_ceiling:
  assumes "list_all is_digit frac"
  shows "(milli_fraction frac - 1) * 10 ^ length frac < 1000 * digits_val frac"
    and "1000 * digits_val frac \<le> milli_fraction frac * 10 ^ length frac"
proof -
  have "(milli_fraction frac - 1) * 10 ^ length frac < 1000 * digits_val frac \<and>
    1000 * digits_val frac \<le> milli_fraction frac * 10 ^ length frac"
  proof (cases "length frac \<le> 3")
    case True
    then have "10 ^ (3 - length frac) * 10 ^ length frac = (1000 :: int)"
      by (simp flip: power_add)
    then have "milli_fraction frac * 10 ^ length frac = 1000 * digits_val frac"
      using True by (simp add: milli_fraction_def mult.assoc)
    then show ?thesis by (simp add: left_diff_distrib)
  next
    case False
    let ?n = "length (drop 3 frac)" and ?t = "digits_val (drop 3 frac)" and ?h = "digits_val (take 3 frac)"
    have split: "digits_val frac = ?h * 10 ^ ?n + ?t"
      using digits_val_append [of "take 3 frac" "drop 3 frac"] by simp
    have dig: "list_all is_digit (drop 3 frac)" using assms by (auto simp: list_all_iff dest: in_set_dropD)
    have t: "0 \<le> ?t" "?t < 10 ^ ?n" using digits_val_nonneg [OF dig] digits_val_bound [OF dig] by auto
    have "length frac = 3 + ?n" using False by simp
    then have pow: "(10 :: int) ^ length frac = 1000 * 10 ^ ?n" by (simp only: power_add) simp
    have "(milli_fraction frac - 1) * 10 ^ ?n < ?h * 10 ^ ?n + ?t \<and> ?h * 10 ^ ?n + ?t \<le> milli_fraction frac * 10 ^ ?n"
      using False t by (auto simp: milli_fraction_def algebra_simps)
    then show ?thesis unfolding pow split by (simp add: algebra_simps)
  qed
  then show "(milli_fraction frac - 1) * 10 ^ length frac < 1000 * digits_val frac"
    "1000 * digits_val frac \<le> milli_fraction frac * 10 ^ length frac" by auto
qed

lemma ceiling_unique: "0 < d \<Longrightarrow> (m - 1) * d < x \<Longrightarrow> x \<le> m * d \<Longrightarrow> m = - ((- x) div d)" for m d x :: int
proof -
  assume d: "0 < d" and lo: "(m - 1) * d < x" and hi: "x \<le> m * d"
  have "(- x) div d = - m"
  proof (rule int_div_pos_eq)
    show "- x = d * (- m) + (m * d - x)" by (simp add: algebra_simps)
    show "0 \<le> m * d - x" using hi by simp
    show "m * d - x < d" using lo by (simp add: algebra_simps)
  qed
  then show ?thesis by simp
qed

lemma positive_int_facts:
  "positive_int w \<Longrightarrow> list_all is_digit w \<and> w \<noteq> []"
  by (simp add: positive_int_def)

lemma cut_parts: "cut c s = (a, b, found) \<Longrightarrow> s = (if found then a @ c # b else a)"
proof (cases "c \<in> set s")
  case True
  assume cut: "cut c s = (a, b, found)"
  from True have ne: "dropWhile (\<lambda>d. d \<noteq> c) s \<noteq> []" by auto
  then have "hd (dropWhile (\<lambda>d. d \<noteq> c) s) = c" using hd_dropWhile [of "\<lambda>d. d \<noteq> c" s] by blast
  with ne have "dropWhile (\<lambda>d. d \<noteq> c) s = c # tl (dropWhile (\<lambda>d. d \<noteq> c) s)" by (metis list.collapse)
  then have "s = takeWhile (\<lambda>d. d \<noteq> c) s @ c # tl (dropWhile (\<lambda>d. d \<noteq> c) s)"
    by (metis takeWhile_dropWhile_id)
  with cut True show ?thesis by (simp add: cut_def)
qed (simp add: cut_def)

lemma cpuLimitRE_parts:
  assumes "cpuLimitRE s" "cut (CHR ''.'') s = (w, f, found)"
  shows "list_all is_digit w" "w \<noteq> []" "list_all is_digit f" "trim_space s = s" "s \<noteq> []"
proof -
  have re: "if \<not> found then positive_int w
      else list_all is_digit f \<and> ((w = ''0'' \<and> (\<exists>c \<in> set f. c \<noteq> CHR ''0'')) \<or> (positive_int w \<and> f \<noteq> []))"
    using assms by (simp add: cpuLimitRE_def)
  have "is_digit (CHR ''0'')" by (simp add: is_digit_def)
  then have w: "list_all is_digit w \<and> w \<noteq> []"
    using re positive_int_facts [of w] by (cases found) auto
  have f: "list_all is_digit f"
  proof (cases found)
    case False
    then have "f = []" using assms(2) by (auto simp: cut_def split: if_splits)
    then show ?thesis by simp
  qed (use re in simp)
  from w f show "list_all is_digit w" "w \<noteq> []" "list_all is_digit f" by auto
  have s: "s = (if found then w @ CHR ''.'' # f else w)" using assms(2) by (rule cut_parts)
  then show "s \<noteq> []" using w by auto
  have dot: "\<not> space_byte (CHR ''.'')" by (simp add: space_byte_def go_whitespace_def)
  have hd: "is_digit (hd s)" using s w by (cases w) auto
  have last: "\<not> space_byte (last s)"
    using s w f dot digit_not_space by (cases "f = []") (auto simp: list_all_iff)
  show "trim_space s = s"
    using \<open>s \<noteq> []\<close> digit_not_space [OF hd] last by (rule trim_space_ends)
qed

lemma parseCPUMilli_milli:
  assumes "cpuLimitRE s" "cut (CHR ''.'') s = (w, f, found)" "digits_val w \<le> 9223372036854774"
  shows "parseCPUMilli s = Some (1000 * digits_val w + milli_fraction f)"
proof -
  note p = cpuLimitRE_parts [OF assms(1,2)]
  have w0: "0 \<le> digits_val w" using p(1) by (rule digits_val_nonneg)
  have atoi_w: "atoi w = Some (digits_val w)"
    using p(1,2) assms(3) by (intro atoi_digits) (auto simp: max_int64_def)
  let ?pad = "take 3 f @ replicate (3 - length (take 3 f)) (CHR ''0'')"
  have pad_digits: "list_all is_digit ?pad"
    using p(3) by (auto simp: list_all_iff is_digit_def dest: in_set_takeD)
  have pad_len: "length ?pad = 3" by simp
  have pad_bound: "0 \<le> digits_val ?pad" "digits_val ?pad < 1000"
    using digits_val_nonneg [OF pad_digits] digits_val_bound [OF pad_digits] pad_len by simp_all
  have atoi_pad: "atoi ?pad = Some (digits_val ?pad)"
    using pad_digits pad_len pad_bound by (intro atoi_digits) (auto simp: max_int64_def)
  have pad_val: "digits_val ?pad = digits_val (take 3 f) * 10 ^ (3 - length (take 3 f))"
    by (simp add: digits_val_append digits_val_zeros)
  let ?up = "length f > 3 \<and> trim_set ''0'' (drop 3 f) \<noteq> []"
  have drop_digits: "list_all is_digit (drop 3 f)" using p(3) by (auto simp: list_all_iff dest: in_set_dropD)
  have frac: "(if ?up then 1 else 0) + digits_val ?pad = milli_fraction f"
    unfolding pad_val
    by (cases "length f \<le> 3") (simp_all add: milli_fraction_def trim_set_zeros [OF drop_digits])
  have up: "(if ?up then wrap64 (wrap64 (digits_val w * 1000) + 1) else wrap64 (digits_val w * 1000))
      = wrap64 (digits_val w * 1000) + (if ?up then 1 else 0)"
    using wrap_milli(1) [OF w0 assms(3), of 1] wrap_milli(2) [OF w0 assms(3), of 1] by simp
  have base: "wrap64 (digits_val w * 1000) = digits_val w * 1000"
    using wrap_milli(2) [OF w0 assms(3), of 0] by simp
  have sum: "wrap64 (digits_val w * 1000 + (if ?up then 1 else 0) + digits_val ?pad)
      = digits_val w * 1000 + (if ?up then 1 else 0) + digits_val ?pad"
    using w0 assms(3) pad_bound by (intro wrap64_id) (auto simp: in_int64_def max_int64_def)
  show ?thesis
  proof (cases found)
    case False
    then have "f = []" using assms(2) by (auto simp: cut_def split: if_splits)
    then show ?thesis
      using False p(4,5) assms(2,3) atoi_w base by (simp add: parseCPUMilli_def max_int64_def milli_fraction_def digits_val_def)
  next
    case True
    have "parseCPUMilli s = Some (wrap64 (digits_val w * 1000 + (if ?up then 1 else 0) + digits_val ?pad))"
      using True p(4,5) assms(2,3) atoi_w atoi_pad
      by (simp add: parseCPUMilli_def max_int64_def Let_def wrap64_add_left del: take_append length_append length_take append_take_drop_id)
    then show ?thesis using sum frac by simp
  qed
qed

lemma memoryMultiplier_pos: "suff = [] \<or> suff \<in> set memory_suffixes \<Longrightarrow> 0 < memoryMultiplier suff"
  unfolding memory_suffixes_def by (elim disjE) (auto simp: memoryMultiplier_def)

lemma le_div_iff: "0 < m \<Longrightarrow> x \<le> a div m \<longleftrightarrow> x * m \<le> a" for x a m :: int
proof
  assume m: "0 < m"
  { assume "x \<le> a div m"
    then have "x * m \<le> a div m * m" using m by simp
    also have "\<dots> \<le> a" using m by (metis minus_mod_eq_div_mult pos_mod_sign diff_ge_0_iff_ge diff_le_eq le_add_same_cancel1)
    finally show "x * m \<le> a" . }
  { assume "x * m \<le> a"
    then have "x * m div m \<le> a div m" using m by (rule zdiv_mono1)
    then show "x \<le> a div m" using m by simp }
qed

lemma parseMemoryBytes_value:
  assumes "memoryLimitRE (to_lower (trim_space s))"
  defines "v \<equiv> to_lower (trim_space s)"
  defines "n \<equiv> digits_val (takeWhile is_digit v) * memoryMultiplier (dropWhile is_digit v)"
  shows "parseMemoryBytes s = (if n \<le> max_int64 then Some n else None)"
proof -
  let ?ds = "takeWhile is_digit v" and ?m = "memoryMultiplier (dropWhile is_digit v)"
  have re: "?ds \<noteq> []" "0 < ?m"
    using assms(1) memoryMultiplier_pos by (auto simp: memoryLimitRE_def v_def Let_def)
  then have ne: "v \<noteq> []" by auto
  have dig: "list_all is_digit ?ds" by (auto simp: list_all_iff dest: set_takeWhileD)
  have nn: "0 \<le> digits_val ?ds" using dig by (rule digits_val_nonneg)
  have le: "digits_val ?ds \<le> n" using nn re(2) mult_left_mono [of 1 ?m "digits_val ?ds"] by (simp add: n_def)
  have atoi: "atoi ?ds = (if digits_val ?ds \<le> max_int64 then Some (digits_val ?ds) else None)"
    using dig re(1) nn by (simp add: atoi_def split_sign_digits in_int64_def)
  have "digits_val ?ds > max_int64 div ?m \<longleftrightarrow> n > max_int64"
    using le_div_iff [OF re(2), of "digits_val ?ds" max_int64] by (simp add: n_def not_le [symmetric])
  then show ?thesis
    using atoi re ne le nn by (auto simp: parseMemoryBytes_def Let_def v_def [symmetric] n_def)
qed

section \<open>Properties\<close>

text \<open>C30: A CPU quantity that validation accepts is converted to thousandths rounded up, so a request
  is never counted as less than it is, for whole parts whose product by 1000 leaves room in an
  \<open>int64\<close>.\<close>

theorem cpu_milli_ceiling:
  assumes "cpuLimitRE s" "cut (CHR ''.'') s = (w, f, found)" "digits_val w \<le> 9223372036854774"
  shows "parseCPUMilli s =
    Some (- ((- (1000 * (digits_val w * 10 ^ length f + digits_val f))) div 10 ^ length f))"
proof -
  note p = cpuLimitRE_parts [OF assms(1,2)]
  have "1000 * digits_val w + milli_fraction f
      = - ((- (1000 * (digits_val w * 10 ^ length f + digits_val f))) div 10 ^ length f)"
    using milli_fraction_ceiling [OF p(3)] by (intro ceiling_unique) (auto simp: algebra_simps)
  then show ?thesis using parseCPUMilli_milli [OF assms] by simp
qed

theorem cpu_milli_ceiling_witness: "parseCPUMilli ''2.0001'' = Some 2001"
proof -
  have "cpuLimitRE ''2.0001''" "cut (CHR ''.'') ''2.0001'' = (''2'', ''0001'', True)"
    "digits_val ''2'' \<le> 9223372036854774"
    "- ((- (1000 * (digits_val ''2'' * 10 ^ length ''0001'' + digits_val ''0001''))) div 10 ^ length ''0001'') = 2001"
    by code_simp+
  then show ?thesis using cpu_milli_ceiling [of "''2.0001''" "''2''" "''0001''" True] by simp
qed

text \<open>C31: A memory quantity that validation accepts is its number times the multiplier of its suffix,
  and an error exactly when that product does not fit an \<open>int64\<close>.\<close>

theorem memory_bytes_exact:
  assumes "memoryLimitRE (to_lower (trim_space s))"
  shows "parseMemoryBytes s =
    (let v = to_lower (trim_space s);
         n = digits_val (takeWhile is_digit v) * memoryMultiplier (dropWhile is_digit v)
     in if n \<le> max_int64 then Some n else None)"
  using parseMemoryBytes_value [OF assms] by (simp add: Let_def)

theorem memory_bytes_exact_witness: "parseMemoryBytes '' 3Mi '' = Some 3145728"
proof -
  have "memoryLimitRE (to_lower (trim_space '' 3Mi ''))" by code_simp
  moreover have "(let v = to_lower (trim_space '' 3Mi '');
         n = digits_val (takeWhile is_digit v) * memoryMultiplier (dropWhile is_digit v)
     in if n \<le> max_int64 then Some n else None) = Some 3145728" by code_simp
  ultimately show ?thesis using memory_bytes_exact [of "'' 3Mi ''"] by simp
qed

text \<open>C28: For a valid candidate the port check succeeds exactly when the candidate is compatible with
  every other runtime (no shared port but ingress routes that differ in host or path) and none
  of its own ingress routes conflict.\<close>

theorem port_conflicts_exact:
  assumes "runtime_ok (NormalizeRuntime c)"
  shows "validateGlobalPortConflicts c rs = None \<longleftrightarrow>
    (\<forall>r \<in> set rs. ports_compatible c r) \<and> no_conflicts (ingress_claims c)"
proof -
  have "\<exists>claim \<in> set (ingress_claims c). ic_Port claim = ing_ListenPort i"
    if "i \<in> set (rs_Ingress (rtm_Spec (NormalizeRuntime c)))" for i
  proof -
    from that assms have "ing_Routes i \<noteq> []" by (auto simp: runtime_ok_def spec_ok_def ingress_ok_def)
    then have "ingress_claim (KeyForRuntime c) i (hd (ing_Routes i)) \<in> set (ingress_claims c)"
      using that hd_in_set unfolding ingress_claims_def by fastforce
    then show ?thesis by (rule bexI [rotated]) (simp add: ingress_claim_def)
  qed
  then have "(\<forall>i \<in> set (rs_Ingress (rtm_Spec (NormalizeRuntime c))). \<forall>s \<in> set (service_claims r). pc_Port s \<noteq> ing_ListenPort i)"
    if "ports_compatible c r" for r
    using that unfolding ports_compatible_def by metis
  then show ?thesis unfolding validateGlobalPortConflicts_exact by blast
qed

theorem port_conflicts_exact_witness:
  "ports_compatible (sample_runtime ''shop'' 9000) (sample_runtime ''blog'' 9001) \<and>
   \<not> ports_compatible (sample_runtime ''shop'' 9000) (sample_runtime ''blog'' 9000)"
proof -
  let ?c = "sample_runtime ''shop'' 9000"
  have ok: "runtime_ok (NormalizeRuntime ?c)"
    using sample_valid by (simp add: ValidateRuntime_def validate_normalized_None)
  have "validateGlobalPortConflicts ?c [sample_runtime ''blog'' 9001] = None"
    "validateGlobalPortConflicts ?c [sample_runtime ''blog'' 9000] \<noteq> None"
    "no_conflicts (ingress_claims ?c)" by code_simp+
  then show ?thesis
    using port_conflicts_exact [OF ok, of "[sample_runtime ''blog'' 9001]"]
      port_conflicts_exact [OF ok, of "[sample_runtime ''blog'' 9000]"] by simp
qed

text \<open>Whatever sequence of resources is applied, the runtimes the single-node scheduler lets in
  have pairwise compatible ports.\<close>

theorem admitted_runtimes_compatible:
  "specs_compatible (admit_all (AdmitRuntime node) rs [])"
  using single_node.admit_all_compatible [of "[]" node rs]
  by (simp add: specs_keyed_def specs_compatible_def)

text \<open>C29: When the total demand fits an \<open>int64\<close>, an admitted Runtime together with the others stays
  within each capacity the node declares.\<close>

theorem admission_within_capacity:
  assumes "AdmitRuntime node specs r = Inr r'"
  defines "everyone \<equiv> runtimesForScheduling specs (KeyForRuntime r) @ [r']"
  assumes "in_int64 (cpu_demand everyone)" "in_int64 (memory_demand everyone)" "in_int64 (pids_demand everyone)"
  shows "fits (cpu_demand everyone) (rr_MilliCPUs (allocatable_of node)) \<and>
    fits (memory_demand everyone) (rr_MemoryBytes (allocatable_of node)) \<and>
    fits (pids_demand everyone) (rr_PIDs (allocatable_of node))"
proof -
  from assms(1) have "validateNodeCapacity r' (runtimesForScheduling specs (KeyForRuntime r)) node = None"
    unfolding AdmitRuntime_Inr by blast
  then show ?thesis
    unfolding validateNodeCapacity_None using assms(3-5) by (simp add: everyone_def [symmetric] wrap64_id)
qed

definition sample_node :: NodeConfig where
  "sample_node = \<lparr>nc_Name = ''local'', nc_Labels = [],
     nc_Capacity = no_resources\<lparr>res_CPUs := ''1''\<rparr>, nc_Allocatable = no_resources\<rparr>"

theorem admission_within_capacity_witness:
  "\<exists>r'. AdmitRuntime sample_node [] (sample_runtime ''shop'' 9000) = Inr r' \<and>
     fits (cpu_demand [r']) (rr_MilliCPUs (allocatable_of sample_node))"
proof -
  let ?r = "sample_runtime ''shop'' 9000" and ?r' = "NormalizeInPlace (AssignRuntime sample_node (sample_runtime ''shop'' 9000))"
  have adm: "AdmitRuntime sample_node [] ?r = Inr ?r'"
    unfolding AdmitRuntime_Inr by (intro conjI refl) code_simp+
  have none: "runtimesForScheduling [] (KeyForRuntime ?r) = []"
    by (simp add: runtimesForScheduling_def sorted_values_def sortedRuntimeKeys_def map_keys_def List.map_filter_def)
  have "in_int64 (cpu_demand [?r'])" "in_int64 (memory_demand [?r'])" "in_int64 (pids_demand [?r'])"
    by code_simp+
  then show ?thesis using admission_within_capacity [OF adm] adm none by auto
qed

definition overflow_runtime :: Runtime where
  "overflow_runtime =
     (let r = sample_runtime ''shop'' 9000; s = rtm_Spec r; d = sample_deployment ''web''
      in r\<lparr>rtm_Spec := s\<lparr>rs_Deployments :=
           [d\<lparr>dep_Resources := no_resources\<lparr>res_CPUs := ''9223372036854775''\<rparr>\<rparr>]\<rparr>\<rparr>)"

text \<open>Without that bound the check can be passed by wrapping: a valid Runtime that asks for twice
  9223372036854775 CPUs is admitted on a node of one CPU.\<close>

theorem capacity_check_wraps:
  "ValidateRuntime overflow_runtime = None \<and> isl (AdmitRuntime sample_node [] overflow_runtime) = False \<and>
   rr_MilliCPUs (allocatable_of sample_node) = 1000 \<and> cpu_demand [overflow_runtime] = 18446744073709550000"
  by (intro conjI) code_simp+

end
