(* ===== verification/Status.thy ===== *)
theory Status
  imports Samples Scheduler
begin

text \<open>
  The observed status (\<open>internal/runtimeagent/status.go\<close>) and the names of containers
  (\<open>container.go\<close>, lines 332 to 364). The clock reading \<open>now\<close> and the text of an error are
  arguments; a \<open>nil\<close> error is \<open>None\<close>.
\<close>

section \<open>Container names\<close>

definition docker_char :: "char \<Rightarrow> bool" where
  "docker_char c \<longleftrightarrow> dns_char c \<or> c \<in> set ''-_.''"

definition sanitizeDockerName :: "string \<Rightarrow> string" where
  "sanitizeDockerName value =
     (let value = to_lower (trim_space value)
      in if value = [] then ''aifar-pod''
         else
           let out = trim_set ''-_.''
             (map (\<lambda>r. if docker_char r then r else CHR ''-'') (filter (\<lambda>c. \<not> utf8_continuation c) value))
           in if out = [] then ''aifar-pod'' else out)"

definition containerNameForDeployment :: "Runtime \<Rightarrow> DeploymentSpec \<Rightarrow> int \<Rightarrow> string" where
  "containerNameForDeployment runtime deployment replica =
     (let key = KeyForRuntime runtime;
          revision = trim_space (dep_Revision deployment);
          revision = (if revision = [] then ''current'' else revision)
      in sanitizeDockerName
           (''aifar-pod-'' @ key_Namespace key @ ''-'' @ key_Name key @ ''-'' @ dep_Name deployment @ ''-''
             @ revision @ ''-r'' @ itoa replica))"

section \<open>Readiness\<close>

record StatusOptions =
  so_NodeName :: string
  so_DeploymentRestarts :: "int gomap"
  so_DeploymentMessages :: "string gomap"

text \<open>The Go function of this name takes the Runtime; this one is \<open>matchingDeployments\<close> of its list.\<close>

abbreviation matching :: "Runtime \<Rightarrow> ServiceSpec \<Rightarrow> DeploymentSpec list" where
  "matching runtime service \<equiv> matchingDeployments (rs_Deployments (rtm_Spec runtime)) (svc_Selector service)"

definition ready_replica ::
    "Runtime \<Rightarrow> Endpoint \<Rightarrow> DeploymentSpec \<Rightarrow> int gomap \<times> string list \<Rightarrow> int \<Rightarrow> int gomap \<times> string list" where
  "ready_replica runtime endpoint deployment state replica =
     (case state of (ready, seen) \<Rightarrow>
        let name = containerNameForDeployment runtime deployment replica
        in if ep_Container endpoint \<noteq> name \<or> name \<in> set seen then (ready, seen)
           else (map_set ready (dep_Name deployment) (get_int ready (dep_Name deployment) + 1), name # seen))"

definition ready_visits :: "Runtime \<Rightarrow> Endpoint list gomap \<Rightarrow> (Endpoint \<times> DeploymentSpec \<times> int) list" where
  "ready_visits runtime endpoints =
     [(endpoint, deployment, replica).
        service \<leftarrow> rs_Services (rtm_Spec runtime),
        endpoint \<leftarrow> get_list endpoints (svc_Name service),
        deployment \<leftarrow> matching runtime service,
        replica \<leftarrow> [1..deploymentReplicas deployment]]"

text \<open>The four nested loops visit these triples in this order.\<close>

definition readyReplicasByDeployment :: "Runtime \<Rightarrow> Endpoint list gomap \<Rightarrow> int gomap" where
  "readyReplicasByDeployment runtime endpoints =
     fst (foldl (\<lambda>state (endpoint, deployment, replica). ready_replica runtime endpoint deployment state replica)
            ([], []) (ready_visits runtime endpoints))"

definition allDeploymentsReady :: "Runtime \<Rightarrow> int gomap \<Rightarrow> bool" where
  "allDeploymentsReady runtime ready =
     list_all (\<lambda>d. \<not> get_int ready (dep_Name d) < deploymentReplicas d) (rs_Deployments (rtm_Spec runtime))"

definition serviceReady :: "Runtime \<Rightarrow> ServiceSpec \<Rightarrow> Endpoint list gomap \<Rightarrow> bool" where
  "serviceReady runtime service endpoints =
     (let desired = foldl (\<lambda>desired d. desired + deploymentReplicas d) 0 (matching runtime service)
      in if desired = 0 then True else int (length (get_list endpoints (svc_Name service))) \<ge> desired)"

definition allServicesReady :: "Runtime \<Rightarrow> Endpoint list gomap \<Rightarrow> bool" where
  "allServicesReady runtime endpoints =
     list_all (\<lambda>service. serviceReady runtime service endpoints) (rs_Services (rtm_Spec runtime))"

definition route_ready :: "Runtime \<Rightarrow> Endpoint list gomap \<Rightarrow> IngressRoute \<Rightarrow> bool" where
  "route_ready runtime endpoints route =
     (case serviceByName (rs_Services (rtm_Spec runtime)) (rt_ServiceName route) of
        None \<Rightarrow> False
      | Some service \<Rightarrow> serviceReady runtime service endpoints)"

definition allIngressReady :: "Runtime \<Rightarrow> Endpoint list gomap \<Rightarrow> bool" where
  "allIngressReady runtime endpoints =
     list_all (\<lambda>ingress. list_all (route_ready runtime endpoints) (ing_Routes ingress))
       (rs_Ingress (rtm_Spec runtime))"

section \<open>Phases and conditions\<close>

definition in_progress :: "phase \<Rightarrow> bool" where
  "in_progress p \<longleftrightarrow> p \<in> set [Pending, Pulling, Starting, Updating, Terminating]"

definition resourcePhaseForDeployment :: "phase \<Rightarrow> DeploymentSpec \<Rightarrow> int \<Rightarrow> string option \<Rightarrow> phase" where
  "resourcePhaseForDeployment runtimePhase deployment ready err =
     (if err \<noteq> None then Failed
      else if in_progress runtimePhase then runtimePhase
      else if ready \<ge> deploymentReplicas deployment then Running
      else Degraded)"

definition resourcePhaseForService ::
    "Runtime \<Rightarrow> ServiceSpec \<Rightarrow> phase \<Rightarrow> Endpoint list gomap \<Rightarrow> string option \<Rightarrow> phase" where
  "resourcePhaseForService runtime service runtimePhase endpoints err =
     (if err \<noteq> None then Failed
      else if in_progress runtimePhase then runtimePhase
      else if serviceReady runtime service endpoints then Running
      else Degraded)"

definition ingress_phase :: "Runtime \<Rightarrow> phase \<Rightarrow> Endpoint list gomap \<Rightarrow> string option \<Rightarrow> IngressSpec \<Rightarrow> phase" where
  "ingress_phase runtime runtimePhase endpoints err ingress =
     (if err \<noteq> None then Failed
      else if in_progress runtimePhase then runtimePhase
      else if list_all (route_ready runtime endpoints) (ing_Routes ingress) then Running
      else Degraded)"

definition fixIngressStatus ::
    "RuntimeStatus \<Rightarrow> Runtime \<Rightarrow> Endpoint list gomap \<Rightarrow> string option \<Rightarrow> RuntimeStatus" where
  "fixIngressStatus status runtime endpoints err =
     status\<lparr>rst_Ingress := rst_Ingress status @
       map (\<lambda>i. \<lparr>is_Name = ing_Name i, is_Host = ing_Host i, is_ListenPort = ing_ListenPort i,
                  is_Phase = ingress_phase runtime (rst_Phase status) endpoints err i\<rparr>)
         (rs_Ingress (rtm_Spec runtime))\<rparr>"

definition newCondition :: "string \<Rightarrow> condition_status \<Rightarrow> string \<Rightarrow> string \<Rightarrow> string \<Rightarrow> Condition" where
  "newCondition conditionType status reason message now =
     \<lparr>co_Type = conditionType, co_Status = status, co_Reason = reason, co_Message = message,
      co_LastTransitionTime = now\<rparr>"

definition node_condition :: "string \<Rightarrow> string \<Rightarrow> Condition" where
  "node_condition now nodeName =
     (if nodeName = []
      then newCondition ''NodeAssigned'' ConditionUnknown ''PendingAssignment''
             ''runtime has not been assigned to a node'' now
      else newCondition ''NodeAssigned'' ConditionTrue ''Assigned'' (''runtime assigned to node '' @ nodeName) now)"

definition phase_conditions :: "Runtime \<Rightarrow> phase \<Rightarrow> int gomap \<Rightarrow> string \<Rightarrow> Condition list" where
  "phase_conditions runtime phase ready now =
     (if phase = Pending then
        [newCondition ''ImagePulled'' ConditionUnknown ''Pending''
           ''runtime reconciliation has not started image pulls'' now,
         newCondition ''ContainerReady'' ConditionUnknown ''Pending'' ''containers have not started yet'' now]
      else if phase = Pulling then
        [newCondition ''ImagePulled'' ConditionUnknown ''Pulling'' ''runtime is pulling deployment images'' now,
         newCondition ''ContainerReady'' ConditionUnknown ''Pending'' ''containers are waiting for images'' now]
      else if phase \<in> set [Starting, Updating] then
        [newCondition ''ImagePulled'' ConditionTrue ''Pulled'' [] now,
         newCondition ''ContainerReady'' ConditionUnknown (if phase = Starting then ''Starting'' else ''Updating'')
           ''containers are converging to desired state'' now]
      else if allDeploymentsReady runtime ready then
        [newCondition ''ImagePulled'' ConditionTrue ''Pulled'' [] now,
         newCondition ''ContainerReady'' ConditionTrue ''Ready'' [] now]
      else
        [newCondition ''ImagePulled'' ConditionTrue ''Pulled'' [] now,
         newCondition ''ContainerReady'' ConditionFalse ''WaitingForReadyReplicas''
           ''one or more deployment replicas are not ready'' now])"

definition runtimeConditions ::
    "Runtime \<Rightarrow> phase \<Rightarrow> int gomap \<Rightarrow> Endpoint list gomap \<Rightarrow> string option \<Rightarrow> string \<Rightarrow> string
     \<Rightarrow> Condition list" where
  "runtimeConditions runtime phase ready endpoints err now nodeName =
     (let conditions = [newCondition ''SpecAccepted'' ConditionTrue ''Validated'' [] now, node_condition now nodeName]
      in case err of
           Some message \<Rightarrow>
             conditions @
             map (\<lambda>t. newCondition t ConditionFalse ''ReconcileFailed'' message now)
               [''ImagePulled'', ''ContainerReady'', ''ServicesReady'', ''IngressReady'']
         | None \<Rightarrow>
             conditions @ phase_conditions runtime phase ready now @
             [if allServicesReady runtime endpoints
              then newCondition ''ServicesReady'' ConditionTrue ''ProxyConfigured'' [] now
              else newCondition ''ServicesReady'' ConditionFalse ''NoReadyEndpoints''
                     ''one or more services have no ready endpoints'' now,
              if allIngressReady runtime endpoints
              then newCondition ''IngressReady'' ConditionTrue ''ProxyConfigured'' [] now
              else newCondition ''IngressReady'' ConditionFalse ''ServiceNotReady''
                     ''one or more ingress routes target services without ready endpoints'' now])"

definition deployment_status ::
    "RuntimeStatus \<Rightarrow> int gomap \<Rightarrow> string option \<Rightarrow> StatusOptions \<Rightarrow> DeploymentSpec \<Rightarrow> DeploymentStatus" where
  "deployment_status status ready err options d =
     (let message = (case err of None \<Rightarrow> [] | Some m \<Rightarrow> m);
          message = (if message = [] then get_str (so_DeploymentMessages options) (dep_Name d) else message)
      in \<lparr>ds_Name = dep_Name d, ds_Ready = get_int ready (dep_Name d), ds_Replicas = deploymentReplicas d,
          ds_Image = dep_Image d, ds_Revision = dep_Revision d,
          ds_Restarts = get_int (so_DeploymentRestarts options) (dep_Name d),
          ds_Phase = resourcePhaseForDeployment (rst_Phase status) d (get_int ready (dep_Name d)) err,
          ds_Message = message\<rparr>)"

definition service_status ::
    "Runtime \<Rightarrow> RuntimeStatus \<Rightarrow> Endpoint list gomap \<Rightarrow> string option \<Rightarrow> ServiceSpec \<Rightarrow> ServiceStatus" where
  "service_status runtime status endpoints err s =
     \<lparr>ss_Name = svc_Name s, ss_ListenPort = svc_ListenPort s, ss_Port = svc_Port s,
      ss_TargetPort =
        (case resolveServiceTargetPort s (matching runtime s) of
           Inr port \<Rightarrow> itoa port | Inl _ \<Rightarrow> ios_String (svc_TargetPort s)),
      ss_Endpoints = get_list endpoints (svc_Name s),
      ss_Phase = resourcePhaseForService runtime s (rst_Phase status) endpoints err\<rparr>"

definition NewStatusWithOptions ::
    "string \<Rightarrow> Runtime \<Rightarrow> phase \<Rightarrow> Endpoint list gomap \<Rightarrow> string option \<Rightarrow> StatusOptions \<Rightarrow> RuntimeStatus" where
  "NewStatusWithOptions now runtime phase endpoints err options =
     (let runtime = NormalizeRuntime runtime;
          ready = readyReplicasByDeployment runtime endpoints;
          phase = (if phase = NoPhase then Running else phase);
          phase = (if err \<noteq> None then Failed
                   else if phase = Running \<and> \<not> allDeploymentsReady runtime ready then Degraded
                   else phase);
          nodeName = trim_space (so_NodeName options);
          nodeName = (if nodeName = [] then trim_space (rs_NodeName (rtm_Spec runtime)) else nodeName);
          status =
            \<lparr>rst_ObservedGeneration = om_Generation (rtm_Metadata runtime), rst_Phase = phase,
             rst_NodeName = nodeName,
             rst_Conditions = runtimeConditions runtime phase ready endpoints err now nodeName,
             rst_Deployments = [], rst_Services = [], rst_Ingress = [], rst_LastTransitionTime = now\<rparr>;
          status = status
            \<lparr>rst_Deployments := map (deployment_status status ready err options) (rs_Deployments (rtm_Spec runtime)),
             rst_Services := map (service_status runtime status endpoints err) (rs_Services (rtm_Spec runtime))\<rparr>
      in fixIngressStatus status runtime endpoints err)"

definition NewStatus ::
    "string \<Rightarrow> Runtime \<Rightarrow> phase \<Rightarrow> Endpoint list gomap \<Rightarrow> string option \<Rightarrow> RuntimeStatus" where
  "NewStatus now runtime phase endpoints err =
     NewStatusWithOptions now runtime phase endpoints err
       \<lparr>so_NodeName = [], so_DeploymentRestarts = [], so_DeploymentMessages = []\<rparr>"

section \<open>Replica names\<close>

definition docker_map :: "string \<Rightarrow> string" where
  "docker_map s = map (\<lambda>r. if docker_char r then r else CHR ''-'') (filter (\<lambda>c. \<not> utf8_continuation c) (to_lower s))"

lemma docker_map_append: "docker_map (a @ b) = docker_map a @ docker_map b"
  by (simp add: docker_map_def to_lower_def)

lemma digit_plain:
  assumes "is_digit c"
  shows "lower_char c = c" "docker_char c" "\<not> utf8_continuation c" "c \<notin> set ''-_.''" "\<not> space_byte c"
  using assms space_byte_outer [of c]
  by (auto simp: is_digit_def lower_char_def docker_char_def dns_char_def utf8_continuation_def Let_def)

lemma docker_map_digits: "list_all is_digit s \<Longrightarrow> docker_map s = s"
  by (induction s) (auto simp: docker_map_def to_lower_def digit_plain)

lemma sanitizeDockerName_digits:
  assumes ds: "list_all is_digit ds" "ds \<noteq> []"
  shows "sanitizeDockerName (''aifar-pod-'' @ x @ ds) = docker_map (''aifar-pod-'' @ x) @ ds"
proof -
  let ?s = "''aifar-pod-'' @ x @ ds"
  have last: "last ?s = last ds" using ds by simp
  have lds: "is_digit (last ds)" using ds by (auto simp: list_all_iff)
  have "trim_space ?s = ?s"
  proof (rule trim_space_ends)
    have "plain_char (hd ?s)" by simp
    then show "\<not> space_byte (hd ?s)" by (rule plain_char_not_space)
    show "\<not> space_byte (last ?s)" unfolding last using lds by (rule digit_plain(5))
  qed simp
  moreover have m: "docker_map ?s = docker_map (''aifar-pod-'' @ x) @ ds"
    using docker_map_append [of "''aifar-pod-'' @ x" ds] docker_map_digits [OF ds(1)] by simp
  moreover have "trim_set ''-_.'' (docker_map ?s) = docker_map ?s"
  proof (rule trim_set_fix)
    have "hd (docker_map ?s) = CHR ''a''"
      by (simp add: docker_map_def to_lower_def lower_char_def utf8_continuation_def docker_char_def dns_char_def)
    moreover have "last (docker_map ?s) = last ds" using m ds by simp
    ultimately show "hd (docker_map ?s) \<notin> set ''-_.'' \<and> last (docker_map ?s) \<notin> set ''-_.''"
      using digit_plain(4) [OF lds] by simp
  qed
  moreover have "docker_map ?s \<noteq> []" using m ds by simp
  ultimately show ?thesis
    by (simp add: sanitizeDockerName_def docker_map_def Let_def)
qed

definition container_base :: "Runtime \<Rightarrow> DeploymentSpec \<Rightarrow> string" where
  "container_base runtime d = docker_map (''aifar-pod-'' @ key_Namespace (KeyForRuntime runtime) @ ''-'' @
     key_Name (KeyForRuntime runtime) @ ''-'' @ dep_Name d @ ''-'' @
     (if trim_space (dep_Revision d) = [] then ''current'' else trim_space (dep_Revision d)) @ ''-r'')"

lemma containerName_form:
  assumes "0 \<le> n" shows "containerNameForDeployment r d n = container_base r d @ itoa n"
proof -
  have "list_all is_digit (itoa n)" using assms by (simp add: itoa_def nat_digits_digits)
  note digits = sanitizeDockerName_digits [OF this itoa_ne]
  define rev where "rev = (if trim_space (dep_Revision d) = [] then ''current'' else trim_space (dep_Revision d))"
  have "containerNameForDeployment r d n = sanitizeDockerName (''aifar-pod-'' @ (key_Namespace (KeyForRuntime r) @ ''-''
      @ key_Name (KeyForRuntime r) @ ''-'' @ dep_Name d @ ''-'' @ rev @ ''-r'') @ itoa n)"
    unfolding containerNameForDeployment_def Let_def rev_def by (simp only: append_assoc)
  also have "\<dots> = container_base r d @ itoa n"
    unfolding digits container_base_def rev_def by (simp only: append_assoc)
  finally show ?thesis .
qed

lemma containerName_inject:
  "0 \<le> m \<Longrightarrow> 0 \<le> n \<Longrightarrow> containerNameForDeployment r d m = containerNameForDeployment r d n \<Longrightarrow> m = n"
  by (simp add: containerName_form itoa_inj)

definition replica_names :: "Runtime \<Rightarrow> DeploymentSpec \<Rightarrow> string set" where
  "replica_names r d = containerNameForDeployment r d ` {1..deploymentReplicas d}"

lemma card_replica_names: "card (replica_names r d) = nat (deploymentReplicas d)"
proof -
  have "inj_on (containerNameForDeployment r d) {1..deploymentReplicas d}"
    by (intro inj_onI) (auto dest: containerName_inject [rotated 2])
  then show ?thesis by (simp add: replica_names_def card_image)
qed

section \<open>Counting ready replicas\<close>

lemma set_matchingDeployments: "set (matchingDeployments ds sel) = {d \<in> set ds. labelsMatch (dep_Selector d) sel}"
  by (auto simp: matchingDeployments_def)

lemma set_ready_visits:
  "(e, d, i) \<in> set (ready_visits r eps) \<longleftrightarrow>
     (\<exists>s \<in> set (rs_Services (rtm_Spec r)). e \<in> set (get_list eps (svc_Name s)) \<and> d \<in> set (matching r s)) \<and>
     1 \<le> i \<and> i \<le> deploymentReplicas d"
  by (auto simp: ready_visits_def image_iff)

text \<open>The names a deployment has been credited with: those of its own replicas that an endpoint carries.\<close>

definition credited :: "Runtime \<Rightarrow> (Endpoint \<times> DeploymentSpec \<times> int) set \<Rightarrow> string \<Rightarrow> string set" where
  "credited r visits name =
     {n. \<exists>e d i. (e, d, i) \<in> visits \<and> dep_Name d = name \<and> n = containerNameForDeployment r d i \<and> ep_Container e = n}"

definition counted :: "Runtime \<Rightarrow> (Endpoint \<times> DeploymentSpec \<times> int) set \<Rightarrow> int gomap \<times> string list \<Rightarrow> bool" where
  "counted r visits state \<longleftrightarrow>
     (\<forall>name. \<exists>c. get_int (fst state) name = int (card c) \<and> c \<subseteq> set (snd state) \<and> c \<subseteq> credited r visits name)"

lemma counted_step:
  assumes "counted r visits state" "(e, d, i) \<in> visits"
  shows "counted r visits (ready_replica r e d state i)"
proof -
  obtain ready seen where state: "state = (ready, seen)" by (cases state)
  let ?n = "containerNameForDeployment r d i"
  show ?thesis
  proof (cases "ep_Container e \<noteq> ?n \<or> ?n \<in> set seen")
    case True
    then show ?thesis using assms(1) by (auto simp: ready_replica_def state Let_def)
  next
    case False
    show ?thesis
      unfolding counted_def
    proof (intro allI)
      fix name
      from assms(1) obtain c where c: "get_int ready name = int (card c)" "c \<subseteq> set seen" "c \<subseteq> credited r visits name"
        unfolding counted_def state fst_conv snd_conv by metis
      have fin: "finite c" using c(2) finite_subset by blast
      let ?out = "ready_replica r e d state i"
      have out: "?out = (map_set ready (dep_Name d) (get_int ready (dep_Name d) + 1), ?n # seen)"
        using False by (auto simp: ready_replica_def state Let_def)
      show "\<exists>c. get_int (fst ?out) name = int (card c) \<and> c \<subseteq> set (snd ?out) \<and> c \<subseteq> credited r visits name"
      proof (cases "name = dep_Name d")
        case True
        have "?n \<in> credited r visits name" using False assms(2) True by (auto simp: credited_def)
        moreover have "?n \<notin> c" using False c(2) by auto
        ultimately show ?thesis
          using c fin True by (intro exI [of _ "insert ?n c"]) (auto simp: out get_int_def gomap_simps)
      next
        case False
        then show ?thesis using c by (intro exI [of _ c]) (auto simp: out get_int_def gomap_simps)
      qed
    qed
  qed
qed

lemma counted_fold:
  assumes "set vs \<subseteq> visits" "counted r visits state"
  shows "counted r visits (foldl (\<lambda>state (e, d, i). ready_replica r e d state i) state vs)"
  using assms
proof (induction vs arbitrary: state)
  case (Cons v vs)
  obtain e d i where v: "v = (e, d, i)" by (cases v)
  with Cons.prems have "counted r visits (ready_replica r e d state i)"
    by (intro counted_step) auto
  with Cons v show ?case by simp
qed simp

lemma counted_ready:
  obtains c where "get_int (readyReplicasByDeployment r eps) name = int (card c)"
    "c \<subseteq> credited r (set (ready_visits r eps)) name"
proof -
  have "counted r (set (ready_visits r eps)) ([], [])"
    by (auto simp: counted_def get_int_def intro!: exI [of _ "{}"])
  from counted_fold [OF subset_refl this] that show thesis
    unfolding counted_def readyReplicasByDeployment_def by blast
qed

lemma distinct_names_eq:
  "distinct (map f xs) \<Longrightarrow> x \<in> set xs \<Longrightarrow> y \<in> set xs \<Longrightarrow> f x = f y \<Longrightarrow> x = y"
  by (metis distinct_map inj_onD)

lemma credited_replicas:
  assumes "distinct (map dep_Name (rs_Deployments (rtm_Spec r)))" "d \<in> set (rs_Deployments (rtm_Spec r))"
  shows "credited r (set (ready_visits r eps)) (dep_Name d) \<subseteq> replica_names r d"
proof
  fix n assume "n \<in> credited r (set (ready_visits r eps)) (dep_Name d)"
  then obtain e d' i where v: "(e, d', i) \<in> set (ready_visits r eps)" "dep_Name d' = dep_Name d"
    "n = containerNameForDeployment r d' i" by (auto simp: credited_def)
  then have "d' \<in> set (rs_Deployments (rtm_Spec r))" "1 \<le> i" "i \<le> deploymentReplicas d'"
    by (auto simp: set_ready_visits set_matchingDeployments)
  with v assms distinct_names_eq have "d' = d" by metis
  with v \<open>1 \<le> i\<close> \<open>i \<le> deploymentReplicas d'\<close> show "n \<in> replica_names r d"
    by (auto simp: replica_names_def)
qed

lemma ready_at_most:
  assumes "distinct (map dep_Name (rs_Deployments (rtm_Spec r)))" "d \<in> set (rs_Deployments (rtm_Spec r))"
  shows "get_int (readyReplicasByDeployment r eps) (dep_Name d) \<le> int (nat (deploymentReplicas d))"
proof -
  obtain c where c: "get_int (readyReplicasByDeployment r eps) (dep_Name d) = int (card c)"
    "c \<subseteq> credited r (set (ready_visits r eps)) (dep_Name d)" by (rule counted_ready)
  from c(2) credited_replicas [OF assms] have "c \<subseteq> replica_names r d" by blast
  then have "card c \<le> card (replica_names r d)"
    by (intro card_mono) (auto simp: replica_names_def)
  then show ?thesis unfolding c(1) card_replica_names by (simp only: of_nat_le_iff)
qed

lemma ready_all_endpoints:
  assumes "distinct (map dep_Name (rs_Deployments (rtm_Spec r)))" "d \<in> set (rs_Deployments (rtm_Spec r))"
    and "deploymentReplicas d \<le> get_int (readyReplicasByDeployment r eps) (dep_Name d)"
    and "1 \<le> i" "i \<le> deploymentReplicas d"
  shows "\<exists>s \<in> set (rs_Services (rtm_Spec r)). d \<in> set (matching r s) \<and>
    (\<exists>e \<in> set (get_list eps (svc_Name s)). ep_Container e = containerNameForDeployment r d i)"
proof -
  obtain c where c: "get_int (readyReplicasByDeployment r eps) (dep_Name d) = int (card c)"
    "c \<subseteq> credited r (set (ready_visits r eps)) (dep_Name d)" by (rule counted_ready)
  from c(2) credited_replicas [OF assms(1,2)] have sub: "c \<subseteq> replica_names r d" by blast
  moreover have "card (replica_names r d) \<le> card c" using assms(3) c(1) by (simp add: card_replica_names)
  ultimately have "c = replica_names r d" by (intro card_seteq) (auto simp: replica_names_def)
  with c(2) assms(4,5) have "containerNameForDeployment r d i \<in> credited r (set (ready_visits r eps)) (dep_Name d)"
    by (auto simp: replica_names_def)
  then obtain e d' j where v: "(e, d', j) \<in> set (ready_visits r eps)" "dep_Name d' = dep_Name d"
    "containerNameForDeployment r d i = ep_Container e" by (auto simp: credited_def)
  then have "d' = d"
    using assms(1,2) distinct_names_eq by (fastforce simp: set_ready_visits set_matchingDeployments)
  with v show ?thesis by (auto simp: set_ready_visits)
qed

section \<open>Properties\<close>

lemma NewStatus_phase:
  "rst_Phase (NewStatusWithOptions now r phase eps err opts) =
     (let n = NormalizeRuntime r; phase = (if phase = NoPhase then Running else phase)
      in if err \<noteq> None then Failed
         else if phase = Running \<and> \<not> allDeploymentsReady n (readyReplicasByDeployment n eps) then Degraded
         else phase)"
  by (simp add: NewStatusWithOptions_def fixIngressStatus_def Let_def)

lemma NewStatus_deployments:
  "map (\<lambda>s. (ds_Name s, ds_Ready s, ds_Replicas s)) (rst_Deployments (NewStatusWithOptions now r phase eps err opts)) =
     map (\<lambda>d. (dep_Name d, get_int (readyReplicasByDeployment (NormalizeRuntime r) eps) (dep_Name d), deploymentReplicas d))
       (rs_Deployments (rtm_Spec (NormalizeRuntime r)))"
  by (simp add: NewStatusWithOptions_def fixIngressStatus_def deployment_status_def Let_def)

lemma runtime_ok_names: "runtime_ok r \<Longrightarrow> distinct (map dep_Name (rs_Deployments (rtm_Spec r)))"
  by (simp add: runtime_ok_def spec_ok_def)

text \<open>C33: A status reports phase Running for a valid Runtime only if every replica of every deployment
  has its own container among the endpoints of a service that selects the deployment.\<close>

theorem running_means_every_replica_serves:
  assumes "rst_Phase (NewStatusWithOptions now r Running eps err opts) = Running"
    and "runtime_ok (NormalizeRuntime r)" "d \<in> set (rs_Deployments (rtm_Spec (NormalizeRuntime r)))"
    and "1 \<le> i" "i \<le> deploymentReplicas d"
  shows "\<exists>s \<in> set (rs_Services (rtm_Spec (NormalizeRuntime r))).
    labelsMatch (dep_Selector d) (svc_Selector s) \<and>
    (\<exists>e \<in> set (get_list eps (svc_Name s)). ep_Container e = containerNameForDeployment (NormalizeRuntime r) d i)"
proof -
  let ?n = "NormalizeRuntime r"
  from assms(1) have "allDeploymentsReady ?n (readyReplicasByDeployment ?n eps)"
    by (auto simp: NewStatus_phase Let_def split: if_splits)
  with assms(3) have "deploymentReplicas d \<le> get_int (readyReplicasByDeployment ?n eps) (dep_Name d)"
    unfolding allDeploymentsReady_def list_all_iff by force
  from ready_all_endpoints [OF runtime_ok_names [OF assms(2)] assms(3) this assms(4,5)] show ?thesis
    by (auto simp: set_matchingDeployments)
qed

definition sample_endpoints :: "Endpoint list gomap" where
  "sample_endpoints = [(''web'',
     [\<lparr>ep_Container = ''aifar-pod-default-shop-web-current-r1'', ep_Address = ''10.0.0.1:8080''\<rparr>,
      \<lparr>ep_Container = ''aifar-pod-default-shop-web-current-r2'', ep_Address = ''10.0.0.2:8080''\<rparr>])]"

definition no_options :: StatusOptions where
  "no_options = \<lparr>so_NodeName = [], so_DeploymentRestarts = [], so_DeploymentMessages = []\<rparr>"

lemma sample_ok: "runtime_ok (NormalizeRuntime (sample_runtime ''shop'' 9000))"
  using sample_valid by (simp add: ValidateRuntime_def validate_normalized_None)

theorem running_means_every_replica_serves_witness:
  "\<exists>s \<in> set (rs_Services (rtm_Spec (NormalizeRuntime (sample_runtime ''shop'' 9000)))).
     labelsMatch (dep_Selector (rs_Deployments (rtm_Spec (NormalizeRuntime (sample_runtime ''shop'' 9000))) ! 0)) (svc_Selector s)"
proof -
  let ?r = "sample_runtime ''shop'' 9000"
  have "rst_Phase (NewStatusWithOptions ''t'' ?r Running sample_endpoints None no_options) = Running" by code_simp
  moreover have "length (rs_Deployments (rtm_Spec (NormalizeRuntime ?r))) = 1" by code_simp
  moreover have "deploymentReplicas (rs_Deployments (rtm_Spec (NormalizeRuntime ?r)) ! 0) = 2" by code_simp
  ultimately show ?thesis
    using running_means_every_replica_serves [OF _ sample_ok, of "''t''" sample_endpoints None no_options
        "rs_Deployments (rtm_Spec (NormalizeRuntime ?r)) ! 0" 1] by (auto simp del: NormalizeRuntime_fields)
qed

text \<open>The ready count of a deployment in the status of a valid Runtime is never above its number of
  replicas, whatever endpoints were discovered, even if two services list the same container.\<close>

theorem ready_count_bounded:
  assumes "runtime_ok (NormalizeRuntime r)"
    and "s \<in> set (rst_Deployments (NewStatusWithOptions now r phase eps err opts))"
  shows "0 \<le> ds_Ready s \<and> ds_Ready s \<le> ds_Replicas s"
proof -
  let ?n = "NormalizeRuntime r"
  from assms(2) have "(ds_Name s, ds_Ready s, ds_Replicas s) \<in> set (map (\<lambda>s. (ds_Name s, ds_Ready s, ds_Replicas s))
      (rst_Deployments (NewStatusWithOptions now r phase eps err opts)))" by simp
  then obtain d where d: "d \<in> set (rs_Deployments (rtm_Spec ?n))" "ds_Replicas s = deploymentReplicas d"
    "ds_Ready s = get_int (readyReplicasByDeployment ?n eps) (dep_Name d)"
    unfolding NewStatus_deployments by auto
  have "0 \<le> deploymentReplicas d" using assms(1) d(1) by (simp add: runtime_ok_def spec_ok_def deployment_ok_def)
  moreover have "0 \<le> get_int (readyReplicasByDeployment ?n eps) (dep_Name d)"
    using counted_ready [of ?n eps "dep_Name d"] by (metis of_nat_0_le_iff)
  ultimately show ?thesis
    using ready_at_most [OF runtime_ok_names [OF assms(1)] d(1), of eps] d(2,3) by simp
qed

definition doubled_status :: RuntimeStatus where
  "doubled_status = NewStatusWithOptions ''t'' (sample_runtime ''shop'' 9000) Running
     [(''web'', [\<lparr>ep_Container = ''aifar-pod-default-shop-web-current-r1'', ep_Address = ''a''\<rparr>,
                 \<lparr>ep_Container = ''aifar-pod-default-shop-web-current-r1'', ep_Address = ''b''\<rparr>])] None no_options"

theorem ready_count_bounded_witness:
  "ds_Ready (rst_Deployments doubled_status ! 0) \<le> ds_Replicas (rst_Deployments doubled_status ! 0)"
proof -
  have "length (rst_Deployments doubled_status) = 1" by code_simp
  then have "rst_Deployments doubled_status ! 0 \<in> set (rst_Deployments doubled_status)" by (intro nth_mem) simp
  with ready_count_bounded [OF sample_ok] show ?thesis unfolding doubled_status_def by blast
qed


definition worker_runtime :: Runtime where
  "worker_runtime =
     (let r = sample_runtime ''shop'' 9000; s = rtm_Spec r
      in r\<lparr>rtm_Spec := s\<lparr>rs_Deployments := [sample_deployment ''web'', sample_deployment ''worker'']\<rparr>\<rparr>)"


text \<open>Conditions agree with the phase: an error makes the phase Failed and marks every condition
  but the first two False, and a status in phase Running carries a True \<open>ContainerReady\<close>
  condition.\<close>

theorem conditions_match_phase:
  "(err \<noteq> None \<longrightarrow>
      rst_Phase (NewStatusWithOptions now r phase eps err opts) = Failed \<and>
      list_all (\<lambda>c. co_Status c = ConditionFalse)
        (drop 2 (rst_Conditions (NewStatusWithOptions now r phase eps err opts)))) \<and>
   (rst_Phase (NewStatusWithOptions now r phase eps err opts) = Running \<longrightarrow>
      newCondition ''ContainerReady'' ConditionTrue ''Ready'' [] now
        \<in> set (rst_Conditions (NewStatusWithOptions now r phase eps err opts)))"
  by (auto simp: NewStatusWithOptions_def fixIngressStatus_def Let_def runtimeConditions_def newCondition_def
      phase_conditions_def split: if_splits)

theorem conditions_match_phase_witness:
  "rst_Phase (NewStatusWithOptions ''t'' (sample_runtime ''shop'' 9000) Running [] (Some ''boom'') no_options) = Failed"
  using conditions_match_phase [of "Some ''boom''" "''t''" "sample_runtime ''shop'' 9000" Running "[]" no_options] by simp

end
