(* ===== verification/Routing.thy ===== *)
theory Routing
  imports Status "HOL-Library.Product_Lexorder" "HOL-Library.Word" "HOL-Library.Multiset"
begin

unbundle bit_operations_syntax

text \<open>
  The proxy's routing: \<open>ingress.go\<close>, \<open>route_state.go\<close>, the request handler of \<open>proxy.go\<close> and
  the endpoint selection of \<open>service.go\<close> (\<open>internal/runtimeagent\<close>). \<open>ManagerState\<close> holds the
  maps of the \<open>Manager\<close> struct; a server is represented by its port.
\<close>

section \<open>The state of a manager\<close>

record proxyRoute =
  pr_Key :: RuntimeKey
  pr_Service :: string
  pr_Ingress :: string
  pr_Host :: string
  pr_PathPrefix :: string

record restartRecord =
  rec_Count :: int
  rec_FailureStreak :: int
  rec_LastAttempt :: int
  rec_NextAttempt :: int
  rec_LastReason :: string

type_synonym port_routes = "(int \<times> proxyRoute list) list"

record ManagerState =
  m_specs :: "Runtime gomap"
  m_statuses :: "RuntimeStatus gomap"
  m_routes :: port_routes
  m_servers :: "int list"
  m_next :: "64 word gomap"
  m_endpoints :: "Endpoint list gomap"
  m_restarts :: "restartRecord gomap"

definition NewManager :: ManagerState where
  "NewManager = \<lparr>m_specs = [], m_statuses = [], m_routes = [], m_servers = [], m_next = [],
     m_endpoints = [], m_restarts = []\<rparr>"

definition routes_at :: "port_routes \<Rightarrow> int \<Rightarrow> proxyRoute list" where
  "routes_at m port = (case map_of m port of None \<Rightarrow> [] | Some rs \<Rightarrow> rs)"

section \<open>The routes of a Runtime\<close>

definition route_order :: "proxyRoute \<Rightarrow> int \<times> string" where
  "route_order r = (- int (length (pr_PathPrefix r)), pr_Service r)"

definition sortRoutes :: "proxyRoute list \<Rightarrow> proxyRoute list" where
  "sortRoutes routes = sort_key route_order routes"

definition add_route :: "port_routes \<Rightarrow> int \<times> proxyRoute \<Rightarrow> port_routes" where
  "add_route m e = (case e of (port, route) \<Rightarrow> AList.update port (routes_at m port @ [route]) m)"

definition route_entries :: "Runtime \<Rightarrow> (int \<times> proxyRoute) list" where
  "route_entries runtime =
     (let key = KeyForRuntime runtime; spec = rtm_Spec runtime
      in map (\<lambda>s. (svc_ListenPort s,
             \<lparr>pr_Key = key, pr_Service = svc_Name s, pr_Ingress = [], pr_Host = [], pr_PathPrefix = []\<rparr>))
           (rs_Services spec) @
         concat (map (\<lambda>i. map (\<lambda>r. (ing_ListenPort i,
             \<lparr>pr_Key = key, pr_Service = rt_ServiceName r, pr_Ingress = ing_Name i, pr_Host = ing_Host i,
              pr_PathPrefix = cleanIngressPath (rt_Path r)\<rparr>)) (ing_Routes i)) (rs_Ingress spec)))"

definition routesForRuntime :: "Runtime \<Rightarrow> port_routes" where
  "routesForRuntime runtime =
     map (\<lambda>(port, routes). (port, sortRoutes routes))
       (foldl add_route [] (route_entries (NormalizeRuntime runtime)))"

definition sortedRoutePorts :: "port_routes \<Rightarrow> int list" where
  "sortedRoutePorts routes = sort (map fst routes)"

section \<open>Replacing and removing routes\<close>

definition endpointKey :: "RuntimeKey \<Rightarrow> string \<Rightarrow> string" where
  "endpointKey key service = key_String key @ ''/'' @ service"

text \<open>The new routes and the ports that lost their last route and have a server.\<close>

definition filter_key :: "RuntimeKey \<Rightarrow> port_routes \<Rightarrow> port_routes" where
  "filter_key key m = map (\<lambda>(port, routes). (port, filter (\<lambda>r. pr_Key r \<noteq> key) routes)) m"

definition kept_routes :: "RuntimeKey \<Rightarrow> port_routes \<Rightarrow> port_routes" where
  "kept_routes key m = filter (\<lambda>(port, routes). routes \<noteq> []) (filter_key key m)"

definition emptied_ports :: "RuntimeKey \<Rightarrow> int list \<Rightarrow> port_routes \<Rightarrow> int list" where
  "emptied_ports key servers m =
     map fst (filter (\<lambda>(port, routes). routes = [] \<and> port \<in> set servers) (filter_key key m))"

definition removeRoutesForKeyLocked :: "ManagerState \<Rightarrow> RuntimeKey \<Rightarrow> ManagerState \<times> int list" where
  "removeRoutesForKeyLocked st key =
     (st\<lparr>m_routes := kept_routes key (m_routes st)\<rparr>, emptied_ports key (m_servers st) (m_routes st))"

definition drop_endpoints :: "RuntimeKey \<Rightarrow> 'a gomap \<Rightarrow> 'a gomap" where
  "drop_endpoints key endpoints = filter (\<lambda>(k, _). \<not> has_prefix k (key_String key @ ''/'')) endpoints"

definition store_endpoints :: "RuntimeKey \<Rightarrow> Endpoint list gomap \<Rightarrow> Endpoint list gomap \<Rightarrow> Endpoint list gomap" where
  "store_endpoints key refreshed endpoints =
     foldl (\<lambda>m (service, eps). map_set m (endpointKey key service) eps) endpoints refreshed"

definition merge_routes :: "port_routes \<Rightarrow> port_routes \<Rightarrow> port_routes" where
  "merge_routes m new =
     foldl (\<lambda>m (port, routes). AList.update port (sortRoutes (routes_at m port @ routes)) m) m new"

definition replaceRoutesAndState ::
    "ManagerState \<Rightarrow> Runtime \<Rightarrow> Endpoint list gomap \<Rightarrow> port_routes \<Rightarrow> ManagerState \<times> int list \<times> int list" where
  "replaceRoutesAndState st runtime refreshed routes =
     (let key = KeyForRuntime runtime;
          st = st\<lparr>m_specs := map_set (m_specs st) (key_String key) runtime,
                  m_endpoints := store_endpoints key refreshed (drop_endpoints key (m_endpoints st))\<rparr>;
          (st, stops) = removeRoutesForKeyLocked st key;
          starts = map fst (filter (\<lambda>(port, _). port \<notin> set (m_servers st)) routes);
          st = st\<lparr>m_routes := merge_routes (m_routes st) routes\<rparr>
      in (st, starts, filter (\<lambda>port. routes_at (m_routes st) port = []) stops))"

section \<open>Requests\<close>

text \<open>The parts of a request the proxy reads; header names are canonical.\<close>

record http_request =
  rq_Path :: string
  rq_Host :: string
  rq_RemoteAddr :: string
  rq_Header :: "string gomap"

definition pathMatchesPrefix :: "string \<Rightarrow> string \<Rightarrow> bool" where
  "pathMatchesPrefix path pre =
     (if pre = ''/'' then True
      else path = pre \<or> has_prefix path (trim_right_set ''/'' pre @ ''/''))"

definition hostWithoutPort :: "string \<Rightarrow> string" where
  "hostWithoutPort host =
     (let host = trim_space host
      in if host = [] then []
         else case SplitHostPort host of Some (parsed, _) \<Rightarrow> parsed | None \<Rightarrow> host)"

definition route_applies :: "Runtime gomap \<Rightarrow> string \<Rightarrow> string \<Rightarrow> proxyRoute \<Rightarrow> bool" where
  "route_applies specs path host route \<longleftrightarrow>
     \<not> (pr_Host route \<noteq> [] \<and> pr_Host route \<noteq> ''*'' \<and> pr_Host route \<noteq> host) \<and>
     \<not> (pr_PathPrefix route \<noteq> [] \<and> \<not> pathMatchesPrefix path (pr_PathPrefix route)) \<and>
     map_of specs (key_String (pr_Key route)) \<noteq> None"

definition resolveRoute :: "ManagerState \<Rightarrow> int \<Rightarrow> http_request option \<Rightarrow> (Runtime \<times> string) option" where
  "resolveRoute st port r =
     (let path = (case r of None \<Rightarrow> ''/'' | Some r \<Rightarrow> rq_Path r);
          host = (case r of None \<Rightarrow> [] | Some r \<Rightarrow> hostWithoutPort (rq_Host r))
      in case find (route_applies (m_specs st) path host) (routes_at (m_routes st) port) of
           None \<Rightarrow> None
         | Some route \<Rightarrow>
             map_option (\<lambda>runtime. (runtime, pr_Service route))
               (map_of (m_specs st) (key_String (pr_Key route))))"

section \<open>Endpoint selection\<close>

definition cachedEndpoints :: "ManagerState \<Rightarrow> RuntimeKey \<Rightarrow> string \<Rightarrow> Endpoint list" where
  "cachedEndpoints st key service = get_list (m_endpoints st) (endpointKey key service)"

text \<open>FNV-1a, 64 bits.\<close>

definition stableHash :: "string \<Rightarrow> 64 word" where
  "stableHash value =
     foldl (\<lambda>h c. (h XOR of_nat (of_char c)) * 1099511628211) 14695981039346656037 value"

definition affinity_headers :: "string list" where
  "affinity_headers = [''X-AIFAR-Affinity'', ''X-Upload-Id'', ''X-File-Md5'', ''X-File-Hash'',
     ''X-Trace-Id'', ''X-Request-Id'', ''Authorization'']"

text \<open>\<open>Header.Get\<close> looks a name up in canonical form, where \<open>X-AIFAR-Affinity\<close> is \<open>X-Aifar-Affinity\<close>.\<close>

definition header_get :: "string gomap \<Rightarrow> string \<Rightarrow> string" where
  "header_get h name = (case find (\<lambda>(k, _). equal_fold k name) h of None \<Rightarrow> [] | Some (_, v) \<Rightarrow> v)"

definition affinityKeyForRequest :: "ServiceSpec \<Rightarrow> http_request option \<Rightarrow> string" where
  "affinityKeyForRequest service req =
     (case req of
        None \<Rightarrow> []
      | Some r \<Rightarrow>
          let policy = to_lower (trim_space (svc_AffinityPolicy service))
          in if policy = ''client-ip'' then
               (let host = (case SplitHostPort (rq_RemoteAddr r) of
                              Some (host, _) \<Rightarrow> host | None \<Rightarrow> trim_space (rq_RemoteAddr r))
                in if host \<noteq> [] then ''remote:'' @ host else [])
             else if policy = ''header'' then
               (case find (\<lambda>header. \<not> is_blank (header_get (rq_Header r) header)) affinity_headers of
                  None \<Rightarrow> []
                | Some header \<Rightarrow> header @ '':'' @ trim_space (header_get (rq_Header r) header))
             else [])"

definition pickEndpoint :: "ManagerState \<Rightarrow> RuntimeKey \<Rightarrow> string \<Rightarrow> Endpoint list \<Rightarrow> Endpoint \<times> ManagerState" where
  "pickEndpoint st key service endpoints =
     (let nextKey = key_String key @ ''/'' @ service;
          index = (case map_of (m_next st) nextKey of None \<Rightarrow> 0 | Some n \<Rightarrow> n)
      in (endpoints ! unat (index mod of_nat (length endpoints)),
          st\<lparr>m_next := map_set (m_next st) nextKey (index + 1)\<rparr>))"

definition selectEndpoint ::
    "ManagerState \<Rightarrow> http_request option \<Rightarrow> RuntimeKey \<Rightarrow> ServiceSpec \<Rightarrow> Endpoint list \<Rightarrow> Endpoint \<times> ManagerState" where
  "selectEndpoint st r key service endpoints =
     (let affinity = affinityKeyForRequest service r
      in if affinity \<noteq> []
         then (endpoints ! unat (stableHash affinity mod of_nat (length endpoints)), st)
         else pickEndpoint st key (svc_Name service) endpoints)"

section \<open>The handler\<close>

datatype proxy_result = RouteNotConfigured | NoReadyEndpoints | ForwardTo Endpoint string

text \<open>The zero value of \<open>ServiceSpec\<close>, which \<open>serviceByName\<close> returns for an unknown name.\<close>

definition zero_service :: ServiceSpec where
  "zero_service = \<lparr>svc_Name = [], svc_Selector = [], svc_Port = 0, svc_TargetPort = FromInt 0,
     svc_ListenPort = 0, svc_Protocol = [], svc_AffinityPolicy = []\<rparr>"

text \<open>\<open>ForwardTo\<close> carries the endpoint and the text of the \<open>X-AIFAR-Runtime\<close> header.\<close>

definition handleProxy :: "ManagerState \<Rightarrow> int \<Rightarrow> http_request \<Rightarrow> proxy_result \<times> ManagerState" where
  "handleProxy st port r =
     (case resolveRoute st port (Some r) of
        None \<Rightarrow> (RouteNotConfigured, st)
      | Some (runtime, service) \<Rightarrow>
          let key = KeyForRuntime runtime;
              serviceSpec = (case serviceByName (rs_Services (rtm_Spec runtime)) service of
                               Some s \<Rightarrow> s | None \<Rightarrow> zero_service);
              endpoints = cachedEndpoints st key service
          in if endpoints = [] then (NoReadyEndpoints, st)
             else (case selectEndpoint st (Some r) key serviceSpec endpoints of
                     (ep, st') \<Rightarrow> (ForwardTo ep (key_String key), st')))"

section \<open>Routing tables\<close>

lemma routes_at_update [simp]:
  "routes_at (AList.update p v m) q = (if q = p then v else routes_at m q)"
  by (simp add: routes_at_def update_conv')

lemma routes_at_Nil [simp]: "routes_at [] p = []"
  by (simp add: routes_at_def)

lemma routes_at_map: "routes_at (map (\<lambda>(q, rs). (q, f rs)) m) p = (if p \<in> fst ` set m then f (routes_at m p) else [])"
  by (induction m) (auto simp: routes_at_def)

lemma routes_at_absent: "p \<notin> fst ` set m \<Longrightarrow> routes_at m p = []"
  by (simp add: routes_at_def map_of_eq_None_iff [THEN iffD2])

lemma routes_at_Cons: "routes_at ((q, rs) # m) p = (if p = q then rs else routes_at m p)"
  by (simp add: routes_at_def)

lemma ports_update: "fst ` set (AList.update p v m) = insert p (fst ` set m)"
  using dom_update [of p v m] by simp

lemma routes_at_mem: "distinct (map fst m) \<Longrightarrow> (p, rs) \<in> set m \<Longrightarrow> routes_at m p = rs"
  by (simp add: routes_at_def)

lemma sortRoutes_Nil [simp]: "sortRoutes [] = []" "sortRoutes rs = [] \<longleftrightarrow> rs = []"
  by (simp_all add: sortRoutes_def) (metis length_0_conv length_sort)

lemma set_sortRoutes [simp]: "set (sortRoutes rs) = set rs"
  by (simp add: sortRoutes_def)

lemma filter_sortRoutes: "filter P (sortRoutes rs) = sortRoutes (filter P rs)"
  by (simp add: sortRoutes_def filter_sort)

definition routes_sorted :: "proxyRoute list \<Rightarrow> bool" where
  "routes_sorted rs \<longleftrightarrow> sorted (map route_order rs)"

lemma sortRoutes_sorted [simp]: "routes_sorted (sortRoutes rs)"
  by (simp add: routes_sorted_def sortRoutes_def)

lemma sortRoutes_id: "routes_sorted rs \<Longrightarrow> sortRoutes rs = rs"
  by (simp add: routes_sorted_def sortRoutes_def sort_key_id_if_sorted)

lemma routes_sorted_filter: "routes_sorted rs \<Longrightarrow> routes_sorted (filter P rs)"
  by (simp add: routes_sorted_def sorted_filter)

lemma add_route_fold:
  "routes_at (foldl add_route m es) p = routes_at m p @ map snd (filter (\<lambda>e. fst e = p) es)"
  by (induction es arbitrary: m) (auto simp: add_route_def split: prod.splits)

lemma add_route_ports:
  "fst ` set (foldl add_route m es) = fst ` set m \<union> fst ` set es"
  by (induction es arbitrary: m) (simp_all add: add_route_def split_beta ports_update)

lemma add_route_distinct: "distinct (map fst m) \<Longrightarrow> distinct (map fst (foldl add_route m es))"
  by (induction es arbitrary: m) (auto simp: add_route_def distinct_update split: prod.splits)

lemma map_fst_pairs: "map fst (map (\<lambda>(p, rs). (p, f rs)) m) = map fst m"
  by (induction m) auto

lemma routesForRuntime_distinct: "distinct (map fst (routesForRuntime r))"
  by (simp only: routesForRuntime_def map_fst_pairs) (simp add: add_route_distinct)

lemma routesForRuntime_at:
  "routes_at (routesForRuntime r) p =
     sortRoutes (map snd (filter (\<lambda>e. fst e = p) (route_entries (NormalizeRuntime r))))"
proof -
  let ?m = "foldl add_route [] (route_entries (NormalizeRuntime r))"
  have "routes_at ?m p = map snd (filter (\<lambda>e. fst e = p) (route_entries (NormalizeRuntime r)))"
    by (simp add: add_route_fold)
  moreover have "p \<notin> fst ` set ?m \<Longrightarrow> routes_at ?m p = []" by (rule routes_at_absent)
  ultimately show ?thesis
    unfolding routesForRuntime_def routes_at_map by auto
qed

lemma routesForRuntime_ports: "fst ` set (routesForRuntime r) = fst ` set (route_entries (NormalizeRuntime r))"
proof -
  have "fst ` set (routesForRuntime r) = fst ` set (foldl add_route [] (route_entries (NormalizeRuntime r)))"
    by (force simp: routesForRuntime_def)
  then show ?thesis by (simp add: add_route_ports)
qed

lemma routesForRuntime_nonempty: "p \<in> fst ` set (routesForRuntime r) \<longleftrightarrow> routes_at (routesForRuntime r) p \<noteq> []"
  unfolding routesForRuntime_at routesForRuntime_ports by (auto simp: filter_empty_conv)

lemma routesForRuntime_key:
  assumes "route \<in> set (routes_at (routesForRuntime r) p)" shows "pr_Key route = KeyForRuntime r"
proof -
  from assms obtain e where "e \<in> set (route_entries (NormalizeRuntime r))" "route = snd e"
    by (auto simp: routesForRuntime_at)
  then show ?thesis unfolding route_entries_def Let_def KeyForRuntime_normalize by auto
qed

text \<open>A well-formed table: one entry per port, none empty, each in the order of \<open>sortRoutes\<close>.\<close>

definition routes_wf :: "port_routes \<Rightarrow> bool" where
  "routes_wf m \<longleftrightarrow> distinct (map fst m) \<and> (\<forall>(p, rs) \<in> set m. rs \<noteq> [] \<and> routes_sorted rs)"

lemma routes_wf_at: "routes_wf m \<Longrightarrow> routes_sorted (routes_at m p)"
  by (auto simp: routes_wf_def routes_at_def routes_sorted_def split: option.split dest: map_of_SomeD)

lemma routes_wf_ports: "routes_wf m \<Longrightarrow> p \<in> fst ` set m \<longleftrightarrow> routes_at m p \<noteq> []"
  by (force simp: routes_wf_def routes_at_def split: option.split dest: map_of_SomeD)

lemma kept_routes_at:
  "distinct (map fst m) \<Longrightarrow> routes_at (kept_routes k m) p = filter (\<lambda>r. pr_Key r \<noteq> k) (routes_at m p)"
proof (induction m)
  case (Cons e m)
  obtain q rs where "e = (q, rs)" by (cases e)
  with Cons show ?case by (auto simp: kept_routes_def filter_key_def routes_at_Cons routes_at_absent)
qed (simp add: kept_routes_def filter_key_def)

lemma routes_at_pair:
  assumes "distinct (map fst m)"
  shows "(p, rs) \<in> set m \<longleftrightarrow> p \<in> fst ` set m \<and> routes_at m p = rs"
proof
  assume "(p, rs) \<in> set m"
  with routes_at_mem [OF assms this] show "p \<in> fst ` set m \<and> routes_at m p = rs" by force
next
  assume p: "p \<in> fst ` set m \<and> routes_at m p = rs"
  then obtain rs' where "(p, rs') \<in> set m" by auto
  with routes_at_mem [OF assms this] p show "(p, rs) \<in> set m" by simp
qed

lemma set_emptied_ports:
  "p \<in> set (emptied_ports k servers m)
     \<longleftrightarrow> (\<exists>rs. (p, rs) \<in> set m \<and> filter (\<lambda>r. pr_Key r \<noteq> k) rs = [] \<and> p \<in> set servers)"
  by (induction m) (auto simp: emptied_ports_def filter_key_def)

lemma emptied_ports_at:
  assumes "routes_wf m"
  shows "p \<in> set (emptied_ports k servers m) \<longleftrightarrow>
    p \<in> set servers \<and> routes_at m p \<noteq> [] \<and> filter (\<lambda>r. pr_Key r \<noteq> k) (routes_at m p) = []"
proof -
  have dist: "distinct (map fst m)" using assms by (simp add: routes_wf_def)
  show ?thesis
    unfolding set_emptied_ports routes_at_pair [OF dist] routes_wf_ports [OF assms] by blast
qed

lemma filter_pairs_distinct: "distinct (map fst m) \<Longrightarrow> distinct (map fst (filter P m))"
  by (induction m) auto

lemma kept_routes_wf:
  assumes "routes_wf m" shows "routes_wf (kept_routes k m)"
proof -
  have "distinct (map fst (filter_key k m))"
    using assms by (simp only: filter_key_def map_fst_pairs routes_wf_def)
  then have "distinct (map fst (kept_routes k m))"
    by (simp add: kept_routes_def filter_pairs_distinct)
  then show ?thesis
    using assms by (auto simp: routes_wf_def kept_routes_def filter_key_def routes_sorted_filter)
qed

lemma merge_routes_at:
  "distinct (map fst new) \<Longrightarrow> routes_at (merge_routes m new) p =
     (if p \<in> fst ` set new then sortRoutes (routes_at m p @ routes_at new p) else routes_at m p)"
proof (induction new arbitrary: m)
  case (Cons e new)
  obtain q rs where e: "e = (q, rs)" by (cases e)
  from Cons.prems e have "q \<notin> fst ` set new" "distinct (map fst new)" by auto
  moreover have "merge_routes m (e # new) = merge_routes (AList.update q (sortRoutes (routes_at m q @ rs)) m) new"
    by (simp add: merge_routes_def e)
  ultimately show ?case
    using Cons.IH [of "AList.update q (sortRoutes (routes_at m q @ rs)) m"] e
    by (auto simp: routes_at_Cons)
qed (simp add: merge_routes_def)

lemma merge_routes_distinct: "distinct (map fst m) \<Longrightarrow> distinct (map fst (merge_routes m new))"
  unfolding merge_routes_def by (induction new arbitrary: m) (auto simp: distinct_update split: prod.splits)

lemma merge_routes_ports: "fst ` set (merge_routes m new) = fst ` set m \<union> fst ` set new"
  unfolding merge_routes_def by (induction new arbitrary: m) (simp_all add: split_beta ports_update)

section \<open>Replacing\<close>

lemma replace_eq:
  "replaceRoutesAndState st r eps new =
     (let key = KeyForRuntime r; merged = merge_routes (kept_routes key (m_routes st)) new
      in (st\<lparr>m_specs := map_set (m_specs st) (key_String key) r,
             m_endpoints := store_endpoints key eps (drop_endpoints key (m_endpoints st)),
             m_routes := merged\<rparr>,
          map fst (filter (\<lambda>(port, _). port \<notin> set (m_servers st)) new),
          filter (\<lambda>port. routes_at merged port = []) (emptied_ports key (m_servers st) (m_routes st))))"
  by (simp add: replaceRoutesAndState_def removeRoutesForKeyLocked_def Let_def)

lemma replace_parts:
  assumes "replaceRoutesAndState st r eps new = (st', starts, stops)"
  shows "m_routes st' = merge_routes (kept_routes (KeyForRuntime r) (m_routes st)) new"
    and "starts = map fst (filter (\<lambda>(port, _). port \<notin> set (m_servers st)) new)"
    and "stops = filter (\<lambda>port. routes_at (m_routes st') port = [])
           (emptied_ports (KeyForRuntime r) (m_servers st) (m_routes st))"
    and "m_servers st' = m_servers st"
    and "m_specs st' = map_set (m_specs st) (key_String (KeyForRuntime r)) r"
    and "m_endpoints st' = store_endpoints (KeyForRuntime r) eps (drop_endpoints (KeyForRuntime r) (m_endpoints st))"
proof -
  note eqs = assms [unfolded replace_eq Let_def prod.inject]
  note st = eqs [THEN conjunct1, symmetric]
  show "m_routes st' = merge_routes (kept_routes (KeyForRuntime r) (m_routes st)) new"
    "m_servers st' = m_servers st"
    "m_specs st' = map_set (m_specs st) (key_String (KeyForRuntime r)) r"
    "m_endpoints st' = store_endpoints (KeyForRuntime r) eps (drop_endpoints (KeyForRuntime r) (m_endpoints st))"
    unfolding st by simp_all
  show "starts = map fst (filter (\<lambda>(port, _). port \<notin> set (m_servers st)) new)"
    by (rule eqs [THEN conjunct2, THEN conjunct1, symmetric])
  show "stops = filter (\<lambda>port. routes_at (m_routes st') port = [])
      (emptied_ports (KeyForRuntime r) (m_servers st) (m_routes st))"
    unfolding st by (simp add: eqs [THEN conjunct2, THEN conjunct2, symmetric])
qed

lemma replace_routes_at:
  assumes "routes_wf (m_routes st)" "replaceRoutesAndState st r eps (routesForRuntime r) = (st', starts, stops)"
  shows "routes_at (m_routes st') p =
    sortRoutes (filter (\<lambda>x. pr_Key x \<noteq> KeyForRuntime r) (routes_at (m_routes st) p) @ routes_at (routesForRuntime r) p)"
proof -
  have dist: "distinct (map fst (m_routes st))" using assms(1) by (simp add: routes_wf_def)
  have "p \<notin> fst ` set (routesForRuntime r) \<Longrightarrow> routes_at (routesForRuntime r) p = []"
    by (rule routes_at_absent)
  moreover have "routes_sorted (filter (\<lambda>x. pr_Key x \<noteq> KeyForRuntime r) (routes_at (m_routes st) p))"
    using routes_wf_at [OF assms(1)] by (rule routes_sorted_filter)
  ultimately show ?thesis
    unfolding replace_parts(1) [OF assms(2)] merge_routes_at [OF routesForRuntime_distinct] kept_routes_at [OF dist]
    by (auto simp: sortRoutes_id)
qed

lemma replace_routes_wf:
  assumes "routes_wf (m_routes st)" "replaceRoutesAndState st r eps (routesForRuntime r) = (st', starts, stops)"
  shows "routes_wf (m_routes st')"
proof -
  let ?old = "kept_routes (KeyForRuntime r) (m_routes st)"
  note routes = replace_parts(1) [OF assms(2)]
  have old: "routes_wf ?old" using assms(1) by (rule kept_routes_wf)
  have dist: "distinct (map fst (m_routes st'))"
    unfolding routes using old by (intro merge_routes_distinct) (simp add: routes_wf_def)
  have "rs \<noteq> [] \<and> routes_sorted rs" if mem: "(p, rs) \<in> set (m_routes st')" for p rs
  proof -
    have rs: "rs = routes_at (m_routes st') p" using routes_at_mem [OF dist mem] by simp
    have "p \<in> fst ` set (m_routes st')" using mem by force
    then have "p \<in> fst ` set ?old \<or> p \<in> fst ` set (routesForRuntime r)"
      unfolding routes merge_routes_ports by blast
    then have "routes_at ?old p \<noteq> [] \<or> routes_at (routesForRuntime r) p \<noteq> []"
      using routes_wf_ports [OF old] routesForRuntime_nonempty by blast
    moreover have "routes_at (m_routes st') p = (if p \<in> fst ` set (routesForRuntime r)
        then sortRoutes (routes_at ?old p @ routes_at (routesForRuntime r) p) else routes_at ?old p)"
      unfolding routes by (rule merge_routes_at [OF routesForRuntime_distinct])
    ultimately have "rs \<noteq> []" unfolding rs using routesForRuntime_nonempty [of p r] by auto
    moreover have "routes_sorted rs" unfolding rs replace_routes_at [OF assms] by simp
    ultimately show ?thesis ..
  qed
  with dist show ?thesis by (auto simp: routes_wf_def)
qed

definition served :: "ManagerState \<Rightarrow> bool" where
  "served st \<longleftrightarrow> (\<forall>p. p \<in> set (m_servers st) \<longleftrightarrow> routes_at (m_routes st) p \<noteq> [])"

lemma replace_served:
  assumes "routes_wf (m_routes st)" "served st"
    and rep: "replaceRoutesAndState st r eps (routesForRuntime r) = (st', starts, stops)"
  shows "routes_at (m_routes st') p \<noteq> [] \<longleftrightarrow> p \<in> (set (m_servers st) \<union> set starts) - set stops"
proof -
  let ?own = "KeyForRuntime r" and ?new = "routes_at (routesForRuntime r) p" and ?old = "routes_at (m_routes st) p"
  have at: "routes_at (m_routes st') p \<noteq> [] \<longleftrightarrow> filter (\<lambda>x. pr_Key x \<noteq> ?own) ?old \<noteq> [] \<or> ?new \<noteq> []"
    unfolding replace_routes_at [OF assms(1) rep] by auto
  have starts: "p \<in> set starts \<longleftrightarrow> ?new \<noteq> [] \<and> p \<notin> set (m_servers st)"
    unfolding replace_parts(2) [OF rep] using routesForRuntime_nonempty [of p r] by force
  have stops: "p \<in> set stops \<longleftrightarrow> p \<in> set (m_servers st) \<and> ?old \<noteq> [] \<and>
      filter (\<lambda>x. pr_Key x \<noteq> ?own) ?old = [] \<and> routes_at (m_routes st') p = []"
    unfolding replace_parts(3) [OF rep] set_filter mem_Collect_eq emptied_ports_at [OF assms(1)] by auto
  have srv: "p \<in> set (m_servers st) \<longleftrightarrow> ?old \<noteq> []" using assms(2) by (simp add: served_def)
  have "?old = [] \<Longrightarrow> filter (\<lambda>x. pr_Key x \<noteq> ?own) ?old = []" by simp
  then show ?thesis unfolding Diff_iff Un_iff starts stops using at srv by argo
qed

section \<open>Endpoint keys\<close>

lemma endpointKey_prefix:
  assumes "slash_free (key_Namespace k)" "slash_free (key_Name k)" "slash_free (key_Namespace k')" "slash_free (key_Name k')"
  shows "has_prefix (endpointKey k' service) (key_String k @ ''/'') \<longleftrightarrow> k' = k"
proof
  assume "has_prefix (endpointKey k' service) (key_String k @ ''/'')"
  then obtain rest where eq: "key_Namespace k' @ CHR ''/'' # key_Name k' @ CHR ''/'' # service
      = key_Namespace k @ CHR ''/'' # key_Name k @ CHR ''/'' # rest"
    by (auto simp: has_prefix_def endpointKey_def key_String_def prefix_def)
  then have "key_Namespace k' = key_Namespace k" "key_Name k' @ CHR ''/'' # service = key_Name k @ CHR ''/'' # rest"
    using assms(1,3) append_sep_inject [of "CHR ''/''" "key_Namespace k'" "key_Namespace k"]
    by (auto simp: slash_free_def)
  moreover from this(2) have "key_Name k' = key_Name k"
    using assms(2,4) append_sep_inject [of "CHR ''/''" "key_Name k'" "key_Name k"] by (auto simp: slash_free_def)
  ultimately show "k' = k" by (simp add: RuntimeKey.equality)
qed (auto simp: has_prefix_def endpointKey_def prefix_def)

lemma endpointKey_inject: "endpointKey k a = endpointKey k b \<longleftrightarrow> a = b"
  by (simp add: endpointKey_def)

lemma map_of_drop: "map_of (drop_endpoints key m) j = (if has_prefix j (key_String key @ ''/'') then None else map_of m j)"
  by (induction m) (auto simp: drop_endpoints_def)

lemma get_list_store:
  "distinct (map fst refreshed) \<Longrightarrow> get_list (store_endpoints key refreshed m) j =
     (case find (\<lambda>(s, _). endpointKey key s = j) refreshed of Some (_, eps) \<Rightarrow> eps | None \<Rightarrow> get_list m j)"
proof (induction refreshed arbitrary: m)
  case (Cons e rest)
  obtain s eps where e: "e = (s, eps)" by (cases e)
  have step: "store_endpoints key (e # rest) m = store_endpoints key rest (map_set m (endpointKey key s) eps)"
    by (simp add: store_endpoints_def e)
  have absent: "find (\<lambda>(t, _). endpointKey key t = j) rest = None" if "endpointKey key s = j"
    using Cons.prems e that by (force simp: find_None_iff endpointKey_inject)
  have set: "get_list (map_set m (endpointKey key s) eps) j = (if j = endpointKey key s then eps else get_list m j)"
    by (simp add: get_list_def gomap_simps)
  have "distinct (map fst rest)" using Cons.prems by simp
  from Cons.IH [OF this, of "map_set m (endpointKey key s) eps"] show ?case
    unfolding step set using absent e by (cases "endpointKey key s = j") auto
qed (simp add: store_endpoints_def)

lemma find_endpointKey:
  "find (\<lambda>(s, _). endpointKey key s = endpointKey key svc) xs = find (\<lambda>(s, _). s = svc) xs"
  by (simp add: endpointKey_inject)

lemma find_map_of:
  "x = [] \<Longrightarrow> (case find (\<lambda>(s, _). s = k) m of Some (_, v) \<Rightarrow> v | None \<Rightarrow> x) = get_list m k"
  by (induction m) (auto simp: get_list_def)

section \<open>Words\<close>

lemma unat_mod_length:
  assumes "0 < n" "n < 2 ^ 64"
  shows "unat ((w :: 64 word) mod of_nat n) = unat w mod n" "unat (w mod of_nat n) < n"
proof -
  have n: "unat (of_nat n :: 64 word) = n" using assms(2) by (simp add: unat_of_nat take_bit_nat_eq_self)
  then show "unat (w mod of_nat n) = unat w mod n" by (simp add: unat_mod)
  with assms(1) show "unat (w mod of_nat n) < n" by simp
qed

text \<open>A slice that Go can hold has fewer than \<open>2 ^ 63\<close> elements.\<close>

definition go_slice :: "'a list \<Rightarrow> bool" where
  "go_slice xs \<longleftrightarrow> length xs < 2 ^ 63"

lemma select_in_range:
  "xs \<noteq> [] \<Longrightarrow> go_slice xs \<Longrightarrow> xs ! unat ((w :: 64 word) mod of_nat (length xs)) \<in> set xs"
  using unat_mod_length(2) [of "length xs" w] by (simp add: go_slice_def)

lemma selectEndpoint_mem:
  "endpoints \<noteq> [] \<Longrightarrow> go_slice endpoints \<Longrightarrow> fst (selectEndpoint st r key service endpoints) \<in> set endpoints"
  by (simp add: selectEndpoint_def pickEndpoint_def Let_def select_in_range)

section \<open>Properties\<close>

text \<open>Applying a Runtime replaces exactly its own routes: at every port the new table is the routes
  of the other runtimes, in their old order, merged with the routes of the new spec and sorted
  from the longest path prefix to the shortest; the table stays well formed.\<close>

theorem replace_routes_exact:
  assumes "routes_wf (m_routes st)" "replaceRoutesAndState st r eps (routesForRuntime r) = (st', starts, stops)"
  shows "routes_wf (m_routes st') \<and>
    (\<forall>p. routes_at (m_routes st') p =
      sortRoutes (filter (\<lambda>x. pr_Key x \<noteq> KeyForRuntime r) (routes_at (m_routes st) p)
                  @ routes_at (routesForRuntime r) p))"
  using replace_routes_wf [OF assms] replace_routes_at [OF assms] by blast

definition sample_state :: ManagerState where
  "sample_state =
     (let key = \<lparr>key_Namespace = ''default'', key_Name = ''blog''\<rparr>
      in NewManager
        \<lparr>m_specs := [(''default/blog'', sample_runtime ''blog'' 9001)],
         m_routes :=
           [(9001, [\<lparr>pr_Key = key, pr_Service = ''web'', pr_Ingress = [], pr_Host = [], pr_PathPrefix = []\<rparr>]),
            (80, [\<lparr>pr_Key = key, pr_Service = ''web'', pr_Ingress = ''edge'', pr_Host = ''*'', pr_PathPrefix = ''/blog''\<rparr>])],
         m_servers := [9001, 80]\<rparr>)"

lemma NewManager_wf: "routes_wf (m_routes NewManager)"
  by (simp add: NewManager_def routes_wf_def)

lemma sample_state_wf: "routes_wf (m_routes sample_state)"
  by (simp add: sample_state_def Let_def routes_wf_def routes_sorted_def)

theorem replace_routes_exact_witness:
  "\<exists>st' starts stops. replaceRoutesAndState sample_state (sample_runtime ''shop'' 9000) []
       (routesForRuntime (sample_runtime ''shop'' 9000)) = (st', starts, stops) \<and> routes_wf (m_routes st')"
proof -
  let ?r = "sample_runtime ''shop'' 9000"
  obtain st a b where rep: "replaceRoutesAndState sample_state ?r [] (routesForRuntime ?r) = (st, a, b)"
    by (metis prod_cases3)
  with replace_routes_exact [OF sample_state_wf rep] show ?thesis by blast
qed

text \<open>If the running servers are exactly the ports with routes, then starting the returned
  ports and stopping the returned others makes that true again after the replacement.\<close>

theorem replace_keeps_servers_in_step:
  assumes "routes_wf (m_routes st)" "\<forall>p. p \<in> set (m_servers st) \<longleftrightarrow> routes_at (m_routes st) p \<noteq> []"
    and "replaceRoutesAndState st r eps (routesForRuntime r) = (st', starts, stops)"
  shows "\<forall>p. p \<in> (set (m_servers st') \<union> set starts) - set stops \<longleftrightarrow> routes_at (m_routes st') p \<noteq> []"
  using replace_served [OF assms(1) _ assms(3)] replace_parts(4) [OF assms(3)] assms(2)
  by (simp add: served_def)

theorem replace_keeps_servers_in_step_witness:
  "\<exists>st' starts stops. replaceRoutesAndState NewManager (sample_runtime ''shop'' 9000) []
       (routesForRuntime (sample_runtime ''shop'' 9000)) = (st', starts, stops) \<and>
     (\<forall>p. p \<in> (set (m_servers st') \<union> set starts) - set stops \<longleftrightarrow> routes_at (m_routes st') p \<noteq> [])"
proof -
  let ?r = "sample_runtime ''shop'' 9000"
  obtain st a b where rep: "replaceRoutesAndState NewManager ?r [] (routesForRuntime ?r) = (st, a, b)"
    by (metis prod_cases3)
  have "\<forall>p. p \<in> set (m_servers NewManager) \<longleftrightarrow> routes_at (m_routes NewManager) p \<noteq> []"
    by (simp add: NewManager_def)
  from replace_keeps_servers_in_step [OF NewManager_wf this rep] rep show ?thesis by blast
qed

text \<open>For keys without a slash, replacing leaves the cached endpoints of every other runtime alone
  and makes those of the applied one exactly the refreshed ones, dropped services included.\<close>

theorem replace_endpoints_exact:
  assumes "replaceRoutesAndState st r eps routes = (st', starts, stops)" "distinct (map fst eps)"
    and "\<forall>k \<in> {KeyForRuntime r, key}. slash_free (key_Namespace k) \<and> slash_free (key_Name k)"
  shows "cachedEndpoints st' key svc =
    (if key = KeyForRuntime r then get_list eps svc else cachedEndpoints st key svc)"
proof (cases "key = KeyForRuntime r")
  case True
  have "get_list (drop_endpoints key (m_endpoints st)) (endpointKey key svc) = []"
    using assms(3) endpointKey_prefix [of key key svc] True by (simp add: get_list_def map_of_drop)
  then show ?thesis
    using True
    by (simp add: cachedEndpoints_def replace_parts(6) [OF assms(1)] get_list_store [OF assms(2)]
        find_endpointKey find_map_of)
next
  case False
  have pre: "\<not> has_prefix (endpointKey key svc) (key_String (KeyForRuntime r) @ ''/'')"
    using assms(3) False endpointKey_prefix [of "KeyForRuntime r" key svc] by simp
  moreover have "has_prefix (endpointKey (KeyForRuntime r) s) (key_String (KeyForRuntime r) @ ''/'')" for s
    by (simp add: has_prefix_def endpointKey_def)
  ultimately have "endpointKey (KeyForRuntime r) s \<noteq> endpointKey key svc" for s by metis
  then have "find (\<lambda>(s, _). endpointKey (KeyForRuntime r) s = endpointKey key svc) eps = None"
    by (simp add: find_None_iff)
  with pre False show ?thesis
    by (simp add: cachedEndpoints_def replace_parts(6) [OF assms(1)] get_list_store [OF assms(2)])
       (simp add: get_list_def map_of_drop)
qed

theorem replace_endpoints_exact_witness:
  "\<exists>st' starts stops. replaceRoutesAndState sample_state (sample_runtime ''shop'' 9000) sample_endpoints [] = (st', starts, stops) \<and>
     cachedEndpoints st' \<lparr>key_Namespace = ''default'', key_Name = ''shop''\<rparr> ''web'' = get_list sample_endpoints ''web''"
proof -
  let ?r = "sample_runtime ''shop'' 9000" and ?k = "\<lparr>key_Namespace = ''default'', key_Name = ''shop''\<rparr>"
  obtain st a b where rep: "replaceRoutesAndState sample_state ?r sample_endpoints [] = (st, a, b)"
    by (rule prod_cases3)
  have key: "KeyForRuntime ?r = ?k" by code_simp
  have "distinct (map fst sample_endpoints)" by (simp add: sample_endpoints_def)
  moreover have "\<forall>k \<in> {KeyForRuntime ?r, ?k}. slash_free (key_Namespace k) \<and> slash_free (key_Name k)"
    unfolding key by (simp add: slash_free_def)
  ultimately have "cachedEndpoints st ?k ''web'' = get_list sample_endpoints ''web''"
    by (subst replace_endpoints_exact [OF rep]) (simp_all only: key simp_thms if_True)
  with rep show ?thesis by metis
qed

text \<open>C35: A request is routed by the most specific route: whichever route of the port applies to the
  host and path, none with a longer path prefix does, and the runtime handed out is the stored
  one of that route.\<close>

theorem resolve_most_specific:
  assumes "resolveRoute st port (Some q) = Some (runtime, service)" "routes_wf (m_routes st)"
  defines "applies \<equiv> route_applies (m_specs st) (rq_Path q) (hostWithoutPort (rq_Host q))"
  shows "\<exists>route \<in> set (routes_at (m_routes st) port). applies route \<and> pr_Service route = service \<and>
    map_of (m_specs st) (key_String (pr_Key route)) = Some runtime \<and>
    (\<forall>other \<in> set (routes_at (m_routes st) port).
       applies other \<longrightarrow> length (pr_PathPrefix other) \<le> length (pr_PathPrefix route))"
proof -
  let ?rs = "routes_at (m_routes st) port"
  from assms(1) obtain route where f: "find applies ?rs = Some route"
    and out: "pr_Service route = service" "map_of (m_specs st) (key_String (pr_Key route)) = Some runtime"
    unfolding applies_def resolveRoute_def Let_def by (auto split: option.splits)
  from f obtain i where i: "i < length ?rs" "applies (?rs ! i)" "route = ?rs ! i" "\<And>j. j < i \<Longrightarrow> \<not> applies (?rs ! j)"
    unfolding find_Some_iff by blast
  have sorted: "sorted (map route_order ?rs)"
    using routes_wf_at [OF assms(2)] by (simp add: routes_sorted_def)
  have "length (pr_PathPrefix other) \<le> length (pr_PathPrefix route)" if "other \<in> set ?rs" "applies other" for other
  proof -
    from that(1) obtain j where j: "j < length ?rs" "other = ?rs ! j" by (metis in_set_conv_nth)
    with i(4) that(2) have "i \<le> j" using not_less by blast
    with sorted j have "route_order (?rs ! i) \<le> route_order (?rs ! j)"
      using sorted_nth_mono [OF sorted, of i j] by simp
    then show ?thesis using i(3) j(2) by (auto simp: route_order_def)
  qed
  with i out show ?thesis by (metis nth_mem)
qed

theorem resolve_most_specific_witness:
  "\<exists>route \<in> set (routes_at (m_routes sample_state) 80). pr_PathPrefix route = ''/blog'' \<and> pr_Service route = ''web''"
proof -
  let ?q = "\<lparr>rq_Path = ''/blog/post'', rq_Host = ''example.com:80'', rq_RemoteAddr = [], rq_Header = []\<rparr>"
  have "resolveRoute sample_state 80 (Some ?q) \<noteq> None" by code_simp
  then obtain rt svc where res: "resolveRoute sample_state 80 (Some ?q) = Some (rt, svc)" by auto
  have "\<forall>route \<in> set (routes_at (m_routes sample_state) 80). pr_PathPrefix route = ''/blog'' \<and> pr_Service route = ''web''"
    by code_simp
  with resolve_most_specific [OF res sample_state_wf] show ?thesis by blast
qed

text \<open>Prefixes match whole path segments: a prefix other than the root that does not end in a slash
  matches exactly itself and the paths that continue it with a slash.\<close>

theorem prefix_matches_segments:
  "pathMatchesPrefix path ''/'' \<and>
   (pre = [] \<or> last pre = CHR ''/'' \<or>
    pathMatchesPrefix path pre = (path = pre \<or> (\<exists>rest. path = pre @ ''/'' @ rest)))"
proof -
  have "trim_right_set ''/'' pre = pre" if "pre \<noteq> []" "last pre \<noteq> CHR ''/''"
    using that dropWhile_hd_fix [of "rev pre" "\<lambda>c. c \<in> set ''/''"] by (simp add: trim_right_set_def hd_rev)
  then show ?thesis by (auto simp: pathMatchesPrefix_def has_prefix_def prefix_def)
qed

text \<open>C36: The proxy forwards only to a cached endpoint of the service its route resolved to, and it
  refuses a request exactly when no route applies or that service has no endpoint.\<close>

theorem proxy_forwards_to_own_endpoint:
  assumes "\<forall>key svc. go_slice (cachedEndpoints st key svc)"
  shows "case handleProxy st port q of
    (ForwardTo ep header, st') \<Rightarrow> \<exists>runtime service. resolveRoute st port (Some q) = Some (runtime, service) \<and>
        ep \<in> set (cachedEndpoints st (KeyForRuntime runtime) service) \<and> header = key_String (KeyForRuntime runtime)
  | (NoReadyEndpoints, st') \<Rightarrow> st' = st \<and> (\<exists>runtime service. resolveRoute st port (Some q) = Some (runtime, service) \<and>
        cachedEndpoints st (KeyForRuntime runtime) service = [])
  | (RouteNotConfigured, st') \<Rightarrow> st' = st \<and> resolveRoute st port (Some q) = None"
proof (cases "resolveRoute st port (Some q)")
  case None
  then show ?thesis by (simp add: handleProxy_def)
next
  case (Some rs)
  obtain runtime service where rs: "rs = (runtime, service)" by (cases rs)
  let ?eps = "cachedEndpoints st (KeyForRuntime runtime) service"
  show ?thesis
  proof (cases "?eps = []")
    case False
    let ?svc = "case serviceByName (rs_Services (rtm_Spec runtime)) service of Some s \<Rightarrow> s | None \<Rightarrow> zero_service"
    obtain ep st' where sel: "selectEndpoint st (Some q) (KeyForRuntime runtime) ?svc ?eps = (ep, st')" by fastforce
    have "ep \<in> set ?eps"
      using selectEndpoint_mem [OF False, of st "Some q" "KeyForRuntime runtime" ?svc] assms sel by simp
    then show ?thesis using False Some rs sel by (simp add: handleProxy_def Let_def)
  qed (use Some rs in \<open>simp add: handleProxy_def Let_def\<close>)
qed

theorem proxy_forwards_to_own_endpoint_witness:
  "\<exists>ep header. fst (handleProxy (sample_state\<lparr>m_endpoints := [(''default/blog/web'', [\<lparr>ep_Container = ''c'', ep_Address = ''10.0.0.1:8080''\<rparr>])]\<rparr>) 80
     \<lparr>rq_Path = ''/blog'', rq_Host = [], rq_RemoteAddr = [], rq_Header = []\<rparr>) = ForwardTo ep header \<and> ep_Container ep = ''c''"
proof -
  let ?st = "sample_state\<lparr>m_endpoints := [(''default/blog/web'', [\<lparr>ep_Container = ''c'', ep_Address = ''10.0.0.1:8080''\<rparr>])]\<rparr>"
  let ?q = "\<lparr>rq_Path = ''/blog'', rq_Host = [], rq_RemoteAddr = [], rq_Header = []\<rparr>"
  have slices: "\<forall>key svc. go_slice (cachedEndpoints ?st key svc) \<and>
      (\<forall>ep \<in> set (cachedEndpoints ?st key svc). ep_Container ep = ''c'')"
    by (simp add: go_slice_def cachedEndpoints_def get_list_def)
  have "\<not> (fst (handleProxy ?st 80 ?q) = RouteNotConfigured) \<and> \<not> (fst (handleProxy ?st 80 ?q) = NoReadyEndpoints)"
    by code_simp
  moreover obtain x st' where h: "handleProxy ?st 80 ?q = (x, st')" by fastforce
  ultimately obtain ep header where x: "x = ForwardTo ep header" by (cases x) auto
  have "\<forall>key svc. go_slice (cachedEndpoints ?st key svc)" using slices by blast
  from proxy_forwards_to_own_endpoint [OF this, of 80 ?q] have "ep_Container ep = ''c''"
    unfolding h x using slices by auto
  then show ?thesis unfolding h x by simp
qed

text \<open>Consecutive picks by round robin.\<close>

fun picks :: "ManagerState \<Rightarrow> RuntimeKey \<Rightarrow> string \<Rightarrow> Endpoint list \<Rightarrow> nat \<Rightarrow> Endpoint list" where
  "picks st key service endpoints 0 = []"
| "picks st key service endpoints (Suc n) =
     (case pickEndpoint st key service endpoints of
        (ep, st') \<Rightarrow> ep # picks st' key service endpoints n)"

definition next_index :: "ManagerState \<Rightarrow> RuntimeKey \<Rightarrow> string \<Rightarrow> 64 word" where
  "next_index st key service =
     (case map_of (m_next st) (key_String key @ ''/'' @ service) of None \<Rightarrow> 0 | Some n \<Rightarrow> n)"

lemma picks_from:
  assumes "endpoints \<noteq> []" "go_slice endpoints" "unat (next_index st key service) + n < 2 ^ 64"
  shows "picks st key service endpoints n =
    map (\<lambda>i. endpoints ! ((unat (next_index st key service) + i) mod length endpoints)) [0..<n]"
  using assms(3)
proof (induction n arbitrary: st)
  case (Suc n)
  let ?w = "next_index st key service"
  obtain ep st' where pick: "pickEndpoint st key service endpoints = (ep, st')" by fastforce
  have ep: "ep = endpoints ! (unat ?w mod length endpoints)" and nxt: "next_index st' key service = ?w + 1"
    using pick assms(1,2) unat_mod_length(1) [of "length endpoints" ?w]
    by (auto simp: pickEndpoint_def Let_def next_index_def gomap_simps go_slice_def split: option.splits)
  have inc: "unat (?w + 1) = Suc (unat ?w)"
    using Suc.prems by (simp add: unat_word_ariths)
  have "picks st' key service endpoints n =
      map (\<lambda>i. endpoints ! ((unat (next_index st' key service) + i) mod length endpoints)) [0..<n]"
    using Suc.prems by (intro Suc.IH) (simp add: nxt inc)
  then have "picks st key service endpoints (Suc n) =
      map (\<lambda>i. endpoints ! ((unat ?w + i) mod length endpoints)) (0 # map Suc [0..<n])"
    by (simp add: pick ep nxt inc comp_def)
  then show ?case unfolding map_Suc_upt upt_conv_Cons [OF zero_less_Suc] by simp
qed simp

lemma mod_shift_bij:
  assumes "0 < n"
  shows "bij_betw (\<lambda>i. (a + i) mod n) {0..<n} {0..<n :: nat}"
proof -
  have inj: "inj_on (\<lambda>i. (a + i) mod n) {0..<n}"
  proof (rule linorder_inj_onI)
    fix i j assume ij: "i < j" "i \<in> {0..<n}" "j \<in> {0..<n}"
    show "(a + i) mod n \<noteq> (a + j) mod n"
    proof
      assume "(a + i) mod n = (a + j) mod n"
      then have "n dvd (a + j) - (a + i)" using ij mod_eq_dvd_iff_nat [of "a + i" "a + j" n] by simp
      then show False using ij by (auto dest: dvd_imp_le)
    qed
  qed auto
  have "(\<lambda>i. (a + i) mod n) ` {0..<n} \<subseteq> {0..<n}" using assms by auto
  with inj show ?thesis by (simp add: bij_betw_def endo_inj_surj)
qed

text \<open>Round robin is fair: short of the wrap of the 64-bit counter, as many consecutive picks as
  there are endpoints choose every endpoint exactly once, whatever the counter was.\<close>

theorem round_robin_fair:
  assumes "endpoints \<noteq> []" "go_slice endpoints"
    and "unat (next_index st key service) + length endpoints < 2 ^ 64"
  shows "mset (picks st key service endpoints (length endpoints)) = mset endpoints"
proof -
  let ?n = "length endpoints" and ?a = "unat (next_index st key service)"
  have "mset (picks st key service endpoints ?n)
      = image_mset ((!) endpoints) (image_mset (\<lambda>i. (?a + i) mod ?n) (mset_set {0..<?n}))"
    unfolding picks_from [OF assms] by (simp add: image_mset.compositionality comp_def flip: mset_upt)
  also have "image_mset (\<lambda>i. (?a + i) mod ?n) (mset_set {0..<?n}) = mset_set {0..<?n}"
    using mod_shift_bij [of ?n ?a] assms(1) by (simp add: image_mset_mset_set bij_betw_def)
  also have "image_mset ((!) endpoints) (mset_set {0..<?n}) = mset endpoints"
    by (metis map_nth mset_map mset_upt)
  finally show ?thesis .
qed

theorem round_robin_fair_witness:
  "mset (picks NewManager \<lparr>key_Namespace = ''default'', key_Name = ''shop''\<rparr> ''web''
      (snd (hd sample_endpoints)) 2) = mset (snd (hd sample_endpoints))"
proof -
  have "snd (hd sample_endpoints) \<noteq> []" "go_slice (snd (hd sample_endpoints))" "length (snd (hd sample_endpoints)) = 2"
    by (simp_all add: sample_endpoints_def go_slice_def)
  then show ?thesis
    using round_robin_fair [of "snd (hd sample_endpoints)" NewManager "\<lparr>key_Namespace = ''default'', key_Name = ''shop''\<rparr>" "''web''"]
    by (simp add: next_index_def NewManager_def)
qed

text \<open>With an affinity key the choice is a function of that key and the endpoint list alone: two
  requests with the same key reach the same endpoint and leave the counters untouched.\<close>

theorem affinity_is_sticky:
  assumes "affinityKeyForRequest service a = affinityKeyForRequest service b" "affinityKeyForRequest service a \<noteq> []"
  shows "fst (selectEndpoint st a key service eps) = fst (selectEndpoint st' b key service eps) \<and>
    snd (selectEndpoint st a key service eps) = st"
  using assms by (simp add: selectEndpoint_def Let_def)

theorem affinity_is_sticky_witness:
  "fst (selectEndpoint NewManager (Some \<lparr>rq_Path = [], rq_Host = [], rq_RemoteAddr = ''10.1.1.1:5000'', rq_Header = []\<rparr>)
       \<lparr>key_Namespace = ''default'', key_Name = ''shop''\<rparr> (zero_service\<lparr>svc_AffinityPolicy := '' Client-IP''\<rparr>) (snd (hd sample_endpoints)))
   = fst (selectEndpoint sample_state (Some \<lparr>rq_Path = ''/x'', rq_Host = [], rq_RemoteAddr = ''10.1.1.1:6000'', rq_Header = []\<rparr>)
       \<lparr>key_Namespace = ''default'', key_Name = ''shop''\<rparr> (zero_service\<lparr>svc_AffinityPolicy := '' Client-IP''\<rparr>) (snd (hd sample_endpoints)))"
proof -
  let ?s = "zero_service\<lparr>svc_AffinityPolicy := '' Client-IP''\<rparr>"
  let ?a = "\<lparr>rq_Path = [], rq_Host = [], rq_RemoteAddr = ''10.1.1.1:5000'', rq_Header = []\<rparr>"
  let ?b = "\<lparr>rq_Path = ''/x'', rq_Host = [], rq_RemoteAddr = ''10.1.1.1:6000'', rq_Header = []\<rparr>"
  have "affinityKeyForRequest ?s (Some ?a) = ''remote:10.1.1.1'' \<and>
      affinityKeyForRequest ?s (Some ?b) = ''remote:10.1.1.1''" by code_simp
  then show ?thesis using affinity_is_sticky [of ?s "Some ?a" "Some ?b"] by simp
qed

text \<open>Admission folds the case of ingress hosts and the router does not: a host the spec writes with
  a capital letter conflicts with its lower-case form but is never matched by it.\<close>

theorem host_case_differs:
  "ingressHostsOverlap ''Shop.example'' ''shop.example'' \<and>
   \<not> route_applies specs path ''shop.example''
       \<lparr>pr_Key = k, pr_Service = s, pr_Ingress = i, pr_Host = ''Shop.example'', pr_PathPrefix = p\<rparr>"
proof
  show "ingressHostsOverlap ''Shop.example'' ''shop.example''" by code_simp
qed (simp add: route_applies_def)

end
