(* ===== verification/Parse.thy ===== *)
theory Parse
  imports Samples
begin

text \<open>
  \<open>ParseRuntimeDocument\<close> and the conversion of legacy documents
  (\<open>internal/runtimeagent/spec.go\<close>, lines 448 to 482 and 855 to 1042). The YAML library is a
  parameter: a reader of generic values and one decoder per Go type.
\<close>

section \<open>Generic documents\<close>

text \<open>
  What \<open>yaml.Unmarshal\<close> leaves in an \<open>any\<close>: a mapping with string keys, a sequence, or anything
  else (scalars, and mappings with other keys, into which the code does not look).
\<close>

datatype raw_value = RMap "(string \<times> raw_value) list" | RList "raw_value list" | ROther

definition hasMapKey :: "(string \<times> raw_value) list \<Rightarrow> string \<Rightarrow> bool" where
  "hasMapKey values key \<longleftrightarrow> key \<in> fst ` set values"

fun hasForbiddenField :: "raw_value \<Rightarrow> string \<Rightarrow> bool" where
  "hasForbiddenField (RMap kvs) field =
     (\<exists>(key, nested) \<in> set kvs. key = field \<or> hasForbiddenField nested field)"
| "hasForbiddenField (RList vs) field = (\<exists>nested \<in> set vs. hasForbiddenField nested field)"
| "hasForbiddenField ROther field = False"

definition isLegacyRuntimeDocument :: "(string \<times> raw_value) list \<Rightarrow> bool" where
  "isLegacyRuntimeDocument raw =
     (if hasMapKey raw ''spec'' then False
      else if hasMapKey raw ''instanceId'' then True
      else hasMapKey raw ''services'' \<and> hasMapKey raw ''deployments'')"

datatype parse_error =
    TemplateToken string
  | NotYAML
  | HasStatus
  | HasRegistryProjections
  | NotDecodable
  | Invalid spec_error

definition rejectRenderedRuntimeHazards :: "string \<Rightarrow> parse_error option" where
  "rejectRenderedRuntimeHazards text =
     first_error
       (map (\<lambda>token. check (contains text token) (TemplateToken token)) [''{{'', ''}}'', ''${'', ''<%''])"

section \<open>Legacy documents\<close>

record legacyDeploymentSpec =
  ld_ServiceName :: string
  ld_DeploymentName :: string
  ld_Image :: string
  ld_PodRevision :: string
  ld_Replicas :: int
  ld_Ports :: "ContainerPort list"
  ld_EnvFiles :: "string list"
  ld_Volumes :: "VolumeMount list"
  ld_Resources :: ResourceSpec
  ld_HealthCheck :: HealthCheckSpec
  ld_Entrypoint :: "string list"
  ld_Command :: "string list"
  ld_Environment :: "string gomap"
  ld_Labels :: "string gomap"

record legacyServiceSpec =
  ls_Name :: string
  ls_Port :: int
  ls_ListenPort :: int
  ls_TargetPort :: int
  ls_AffinityPolicy :: string

record legacyIngressSpec =
  li_GatewayService :: string
  li_WebService :: string
  li_GatewayPort :: int
  li_WebPort :: int

record legacyRuntimeSpec =
  lr_InstanceID :: string
  lr_Network :: string
  lr_Deployments :: "legacyDeploymentSpec list"
  lr_Services :: "legacyServiceSpec list"
  lr_Ingress :: legacyIngressSpec

text \<open>Every rune outside ASCII becomes a dash.\<close>

definition sanitize_rune :: "char \<Rightarrow> char" where
  "sanitize_rune c = (if dns_char c then c else CHR ''-'')"

definition sanitizeLegacyName :: "string \<Rightarrow> string" where
  "sanitizeLegacyName value =
     (let value = to_lower (trim_space value)
      in if value = [] then []
         else
           let out = trim_set ''-'' (map sanitize_rune (filter (\<lambda>c. \<not> utf8_continuation c) value))
           in if out = [] then ''default'' else out)"

definition legacy_service :: "legacyServiceSpec \<Rightarrow> ServiceSpec" where
  "legacy_service s =
     (let listen = (if ls_ListenPort s = 0 then ls_Port s else ls_ListenPort s);
          target = (if ls_TargetPort s = 0 then ls_Port s else ls_TargetPort s)
      in \<lparr>svc_Name = sanitizeLegacyName (ls_Name s),
          svc_Selector = [(''app'', sanitizeLegacyName (ls_Name s))],
          svc_Port = ls_Port s, svc_TargetPort = FromInt target, svc_ListenPort = listen,
          svc_Protocol = [], svc_AffinityPolicy = ls_AffinityPolicy s\<rparr>)"

definition legacy_deployment :: "legacyDeploymentSpec \<Rightarrow> DeploymentSpec" where
  "legacy_deployment d =
     (let name = sanitizeLegacyName (ld_ServiceName d);
          name = (if name = [] then sanitizeLegacyName (ld_DeploymentName d) else name);
          replicas = (if ld_Replicas d = 0 then 1 else ld_Replicas d)
      in \<lparr>dep_Name = name, dep_ServiceName = [], dep_Image = ld_Image d, dep_ImagePullSecrets = [],
          dep_Replicas = Some replicas, dep_Strategy = \<lparr>st_Type = [], st_RollingUpdate = None\<rparr>,
          dep_Selector = [(''app'', name)], dep_Ports = ld_Ports d, dep_Env = ld_Environment d,
          dep_EnvFiles = ld_EnvFiles d, dep_EnvFrom = [], dep_Volumes = ld_Volumes d,
          dep_Resources = ld_Resources d, dep_HealthCheck = ld_HealthCheck d,
          dep_Entrypoint = ld_Entrypoint d, dep_Command = ld_Command d, dep_Labels = ld_Labels d,
          dep_Revision = ld_PodRevision d, dep_PodRevision = []\<rparr>)"

definition legacy_route :: "string \<Rightarrow> string \<Rightarrow> IngressRoute" where
  "legacy_route path service =
     \<lparr>rt_Path = path, rt_ServiceName = service, rt_ServicePort = FromInt 0\<rparr>"

definition legacy_ingress :: "legacyIngressSpec \<Rightarrow> IngressSpec list" where
  "legacy_ingress i =
     (if li_WebPort i > 0 \<and> li_WebService i \<noteq> [] then
        let web = legacy_route ''/'' (sanitizeLegacyName (li_WebService i));
            routes = (if li_GatewayService i \<noteq> []
                      then [legacy_route ''/api'' (sanitizeLegacyName (li_GatewayService i)), web] else [web])
        in [\<lparr>ing_Name = ''public'', ing_Provider = ''builtin'', ing_Host = ''*'',
             ing_ListenPort = li_WebPort i, ing_TLS = None, ing_Routes = routes\<rparr>]
      else [])"

definition ToRuntime :: "legacyRuntimeSpec \<Rightarrow> Runtime" where
  "ToRuntime legacy =
     (let name = trim_space (lr_InstanceID legacy);
          name = (if name = [] then ''default'' else name)
      in NormalizeRuntime
        \<lparr>rtm_APIVersion = DefaultAPIVersion, rtm_Kind = DefaultKind,
         rtm_Metadata = \<lparr>om_Name = sanitizeLegacyName name, om_Namespace = DefaultNamespace, om_Generation = 0\<rparr>,
         rtm_Spec =
           \<lparr>rs_NodeName = [], rs_NodeSelector = [], rs_Network = lr_Network legacy, rs_Secrets = [],
            rs_Deployments = map legacy_deployment (lr_Deployments legacy),
            rs_Services = map legacy_service (lr_Services legacy),
            rs_Ingress = legacy_ingress (lr_Ingress legacy)\<rparr>,
         rtm_Status = None\<rparr>)"

section \<open>Parsing\<close>

record yaml_library =
  yaml_generic :: "string \<Rightarrow> (string \<times> raw_value) list option"
  yaml_legacy :: "string \<Rightarrow> legacyRuntimeSpec option"
  yaml_runtime :: "string \<Rightarrow> Runtime option"

text \<open>
  \<open>ValidateRuntime(runtime)\<close> normalises a copy that shares the lists and maps of \<open>runtime\<close>; what
  is returned afterwards is \<open>NormalizeInPlace runtime\<close>.
\<close>

definition parse_runtime :: "Runtime \<Rightarrow> parse_error + Runtime" where
  "parse_runtime decoded =
     (let runtime = NormalizeRuntime decoded
      in case ValidateRuntime runtime of
           Some e \<Rightarrow> Inl (Invalid e)
         | None \<Rightarrow> Inr (NormalizeInPlace runtime))"

definition parse_legacy :: "legacyRuntimeSpec \<Rightarrow> parse_error + Runtime" where
  "parse_legacy legacy =
     (let runtime = ToRuntime legacy
      in case ValidateRuntime runtime of
           Some e \<Rightarrow> Inl (Invalid e)
         | None \<Rightarrow> Inr (NormalizeRuntime (NormalizeInPlace runtime)))"

definition ParseRuntimeDocument :: "yaml_library \<Rightarrow> string \<Rightarrow> parse_error + Runtime" where
  "ParseRuntimeDocument yaml data =
     (case rejectRenderedRuntimeHazards data of
        Some e \<Rightarrow> Inl e
      | None \<Rightarrow>
     (case yaml_generic yaml data of
        None \<Rightarrow> Inl NotYAML
      | Some raw \<Rightarrow>
          if hasMapKey raw ''status'' then Inl HasStatus
          else if hasForbiddenField (RMap raw) ''registryProjections'' then Inl HasRegistryProjections
          else if isLegacyRuntimeDocument raw then
            (case yaml_legacy yaml data of
               None \<Rightarrow> Inl NotDecodable
             | Some legacy \<Rightarrow> parse_legacy legacy)
          else
            (case yaml_runtime yaml data of
               None \<Rightarrow> Inl NotDecodable
             | Some decoded \<Rightarrow> parse_runtime decoded)))"

section \<open>Legacy names\<close>

lemma sanitize_rune_idem [simp]: "sanitize_rune (sanitize_rune c) = sanitize_rune c"
proof -
  have "\<not> dns_char (CHR ''-'')" by (simp add: dns_char_def)
  then show ?thesis by (simp add: sanitize_rune_def)
qed

lemma sanitize_rune_class: "dns_char (sanitize_rune c) \<or> sanitize_rune c = CHR ''-''"
  by (simp add: sanitize_rune_def)

text \<open>Bytes of a sanitized name are ASCII, unchanged by folding, and no white space.\<close>

lemma dns_char_plain:
  assumes "dns_char c \<or> c = CHR ''-''"
  shows "lower_char c = c" "\<not> utf8_continuation c" "\<not> space_byte c"
proof -
  from assms have range: "(97 \<le> (of_char c :: nat) \<and> (of_char c :: nat) \<le> 122) \<or>
      (48 \<le> (of_char c :: nat) \<and> (of_char c :: nat) \<le> 57) \<or> (of_char c :: nat) = 45"
    by (auto simp: dns_char_def Let_def)
  then show "lower_char c = c" "\<not> utf8_continuation c"
    by (auto simp: lower_char_def utf8_continuation_def Let_def)
  from range show "\<not> space_byte c" using space_byte_outer [of c] by auto
qed

definition sanitized :: "string \<Rightarrow> bool" where
  "sanitized s \<longleftrightarrow> s \<noteq> [] \<and> (\<forall>c \<in> set s. dns_char c \<or> c = CHR ''-'') \<and>
     hd s \<noteq> CHR ''-'' \<and> last s \<noteq> CHR ''-''"

lemma sanitizeLegacyName_sanitized:
  assumes "sanitizeLegacyName v \<noteq> []" shows "sanitized (sanitizeLegacyName v)"
proof -
  let ?out = "trim_set ''-'' (map sanitize_rune (filter (\<lambda>c. \<not> utf8_continuation c) (to_lower (trim_space v))))"
  have cls: "\<forall>c \<in> set ?out. dns_char c \<or> c = CHR ''-''"
    using set_trim_set sanitize_rune_class by fastforce
  have "sanitized ''default''" by (simp add: sanitized_def dns_char_def)
  moreover have "?out \<noteq> [] \<Longrightarrow> sanitized ?out"
    using cls trim_set_hd [of "''-''"] trim_set_last [of "''-''"] by (auto simp: sanitized_def)
  ultimately show ?thesis using assms by (auto simp: sanitizeLegacyName_def Let_def)
qed

lemma sanitized_fixed:
  assumes "sanitized s" shows "sanitizeLegacyName s = s"
proof -
  from assms have cls: "\<And>c. c \<in> set s \<Longrightarrow> dns_char c \<or> c = CHR ''-''" and s: "s \<noteq> []"
    by (auto simp: sanitized_def)
  have "trim_space s = s"
    using s cls dns_char_plain(3) by (intro trim_space_ends) auto
  moreover have "to_lower s = s"
    using cls dns_char_plain(1) by (simp add: to_lower_def map_idI)
  moreover have "filter (\<lambda>c. \<not> utf8_continuation c) s = s"
    using cls dns_char_plain(2) by (simp add: filter_True)
  moreover have "map sanitize_rune s = s"
    using cls by (intro map_idI) (auto simp: sanitize_rune_def)
  moreover have "trim_set ''-'' s = s"
    using assms by (intro trim_set_fix) (auto simp: sanitized_def)
  ultimately show ?thesis using s by (simp add: sanitizeLegacyName_def)
qed

lemma sanitizeLegacyName_idem: "sanitizeLegacyName (sanitizeLegacyName v) = sanitizeLegacyName v"
  using sanitized_fixed [OF sanitizeLegacyName_sanitized [of v]]
  by (cases "sanitizeLegacyName v = []") (simp_all add: sanitizeLegacyName_def)

interpretation legacy_name: idempotent_op sanitizeLegacyName
  by unfold_locales (rule sanitizeLegacyName_idem)

section \<open>Properties\<close>

text \<open>A sanitized legacy name is final, is empty only for a blank name, and is a valid DNS label
  as soon as it has at most 63 characters.\<close>

theorem legacy_name_is_label:
  "sanitizeLegacyName (sanitizeLegacyName v) = sanitizeLegacyName v \<and>
   (sanitizeLegacyName v = [] \<longleftrightarrow> is_blank v) \<and>
   (is_blank v \<or> validDNSLabel (sanitizeLegacyName v) \<or> 63 < length (sanitizeLegacyName v))"
proof -
  have blank: "sanitizeLegacyName v = [] \<longleftrightarrow> is_blank v"
    by (auto simp: sanitizeLegacyName_def Let_def is_blank_def)
  have "dnsLabelRE s" if "sanitized s" for s
    using that hd_in_set [of s] last_in_set [of s] by (auto simp: sanitized_def dnsLabelRE_def list_all_iff)
  then have "validDNSLabel (sanitizeLegacyName v) \<or> 63 < length (sanitizeLegacyName v)" if "\<not> is_blank v"
    using sanitizeLegacyName_sanitized [of v] that blank by (auto simp: validDNSLabel_def not_less)
  then show ?thesis using blank legacy_name.idem by blast
qed

lemma parsed_normal_valid:
  assumes "ParseRuntimeDocument yaml data = Inr r"
  shows "NormalizeRuntime r = r \<and> runtime_ok r"
proof -
  have run: "NormalizeRuntime r = r \<and> runtime_ok r" if "parse_runtime d = Inr r" for d
    using that NormalizeRuntime_twice [of d]
    by (auto simp: parse_runtime_def Let_def error_case_Inr NormalizeInPlace_normalized ValidateRuntime_def
        validate_normalized_None)
  have leg: "NormalizeRuntime r = r \<and> runtime_ok r" if "parse_legacy l = Inr r" for l
  proof -
    obtain x where x: "ToRuntime l = NormalizeRuntime x" by (auto simp: ToRuntime_def Let_def)
    show ?thesis
      using that NormalizeRuntime_twice [of x]
      by (auto simp: parse_legacy_def Let_def error_case_Inr x NormalizeInPlace_normalized ValidateRuntime_def
          validate_normalized_None)
  qed
  show ?thesis
    using assms run leg by (auto simp: ParseRuntimeDocument_def split: option.splits if_splits)
qed

text \<open>C32: What \<open>ParseRuntimeDocument\<close> returns is valid and completely normalised (normalising it
  again changes nothing), and the document held no unresolved template token, no status and no
  registry projection.\<close>

theorem parsed_document_is_final:
  assumes "ParseRuntimeDocument yaml data = Inr r"
  shows "NormalizeRuntime r = r \<and> runtime_ok r \<and>
    (\<forall>token \<in> {''{{'', ''}}'', ''${'', ''<%''}. \<not> contains data token) \<and>
    (\<exists>raw. yaml_generic yaml data = Some raw \<and> \<not> hasMapKey raw ''status'' \<and>
       \<not> hasForbiddenField (RMap raw) ''registryProjections'')"
  using assms parsed_normal_valid [OF assms]
  by (auto simp: ParseRuntimeDocument_def rejectRenderedRuntimeHazards_def first_error_Cons_None check_None
      split: option.splits if_splits)

definition sample_yaml :: yaml_library where
  "sample_yaml = \<lparr>yaml_generic = (\<lambda>_. Some [(''spec'', RMap [(''network'', ROther)])]),
     yaml_legacy = (\<lambda>_. None), yaml_runtime = (\<lambda>_. Some (sample_runtime ''shop'' 9000))\<rparr>"

theorem parsed_document_is_final_witness:
  "\<exists>r. ParseRuntimeDocument sample_yaml ''spec: {}'' = Inr r \<and> NormalizeRuntime r = r \<and> runtime_ok r"
proof -
  have "isl (ParseRuntimeDocument sample_yaml ''spec: {}'') = False" by code_simp
  then obtain r where "ParseRuntimeDocument sample_yaml ''spec: {}'' = Inr r"
    using sum.collapse(2) by metis
  with parsed_document_is_final [OF this] show ?thesis by blast
qed

end
