(* ===== verification/GoText.thy ===== *)
theory GoText
  imports Prelude
begin

text \<open>
  Functions of Go's standard library on text that the container engine uses:
  \<open>strings.Fields\<close>, \<open>strings.ReplaceAll\<close>, \<open>strings.Join\<close>, \<open>strconv.Atoi\<close> where the code
  ignores its error and uses the value that comes with it, and \<open>path.Clean\<close>; with lemmas on
  splitting and on the tails of lists that the components share.
\<close>

section \<open>Fields\<close>

definition leading_space :: "string \<Rightarrow> string option" where
  "leading_space s = find (\<lambda>w. w \<noteq> [] \<and> prefix w s) go_whitespace"

text \<open>\<open>token\<close> holds the bytes of the field being read.\<close>

function fields_from :: "string \<Rightarrow> string \<Rightarrow> string list" where
  "fields_from token [] = (if token = [] then [] else [token])"
| "fields_from token (c # s) =
     (case leading_space (c # s) of
        None \<Rightarrow> fields_from (token @ [c]) s
      | Some w \<Rightarrow>
          (if token = [] then fields_from [] (drop (length w) (c # s))
           else token # fields_from [] (drop (length w) (c # s))))"
  by pat_completeness auto
termination
  by (relation "measure (\<lambda>(token, s). length s)")
     (auto simp: leading_space_def find_Some_iff prefix_def)

declare fields_from.simps [simp del]

definition string_fields :: "string \<Rightarrow> string list" where
  "string_fields s = fields_from [] s"

lemma fields_from_nonempty: "f \<in> set (fields_from token s) \<Longrightarrow> f \<noteq> []"
  by (induction token s rule: fields_from.induct)
     (auto simp: fields_from.simps split: if_splits option.splits)

lemma string_fields_nonempty: "f \<in> set (string_fields s) \<Longrightarrow> f \<noteq> []"
  unfolding string_fields_def by (rule fields_from_nonempty)

section \<open>Replacing and joining\<close>

function replace_all :: "string \<Rightarrow> string \<Rightarrow> string \<Rightarrow> string" where
  "replace_all old new [] = []"
| "replace_all old new (c # s) =
     (if old \<noteq> [] \<and> prefix old (c # s) then new @ replace_all old new (drop (length old) (c # s))
      else c # replace_all old new s)"
  by pat_completeness auto
termination
  by (relation "measure (\<lambda>(old, new, s). length s)") (auto simp: neq_Nil_conv)

declare replace_all.simps [simp del]

lemma replace_all_absent: "\<not> contains s old \<Longrightarrow> replace_all old new s = s"
  by (induction old new s rule: replace_all.induct) (auto simp: replace_all.simps)

fun join_with :: "string \<Rightarrow> string list \<Rightarrow> string" where
  "join_with sep [] = []"
| "join_with sep [s] = s"
| "join_with sep (s # t # ss) = s @ sep @ join_with sep (t # ss)"

abbreviation newline :: string where "newline \<equiv> [CHR 0x0A]"

section \<open>Numbers with ignored errors\<close>

text \<open>
  \<open>value, _ := strconv.Atoi(s)\<close>: 0 for a syntax error, the bound of the range for a number that
  does not fit.
\<close>

definition atoi_value :: "string \<Rightarrow> int" where
  "atoi_value s = (case split_sign s of (neg, ds) \<Rightarrow>
     if ds = [] \<or> \<not> list_all is_digit ds then 0
     else let n = (if neg then - digits_val ds else digits_val ds)
          in if in_int64 n then n else if neg then - max_int64 - 1 else max_int64)"

lemma atoi_value_ok: "atoi s = Some n \<Longrightarrow> atoi_value s = n"
  by (auto simp: atoi_def atoi_value_def Let_def split: prod.splits if_splits)

section \<open>The tail of a list\<close>

definition take_tail :: "int \<Rightarrow> 'a list \<Rightarrow> 'a list" where
  "take_tail n xs = (if n > 0 \<and> int (length xs) > n then drop (length xs - nat n) xs else xs)"

lemma take_tail_append: "take_tail n (take_tail n xs @ ys) = take_tail n (xs @ ys)"
proof (cases "n > 0 \<and> int (length xs) > n")
  case True
  then have "take_tail n xs = drop (length xs - nat n) xs" by (simp add: take_tail_def)
  moreover have "length (drop (length xs - nat n) xs) = nat n" using True by (simp add: nat_le_iff)
  ultimately show ?thesis using True by (auto simp: take_tail_def add.commute)
next
  case False
  then have "take_tail n xs = xs" by (auto simp: take_tail_def)
  then show ?thesis by simp
qed

section \<open>Splitting what was joined\<close>

lemma split_on_line: "c \<notin> set xs \<Longrightarrow> split_on c (xs @ c # ys) = xs # split_on c ys"
  by (induction xs) auto

lemma split_on_free: "c \<notin> set xs \<Longrightarrow> split_on c xs = [xs]"
  by (induction xs) auto

lemma split_on_join:
  "xs \<noteq> [] \<Longrightarrow> (\<And>x. x \<in> set xs \<Longrightarrow> c \<notin> set x) \<Longrightarrow> split_on c (join_with [c] xs) = xs"
proof (induction xs rule: induct_list012)
  case (3 x y zs)
  then show ?case by (simp add: split_on_line)
qed (simp_all add: split_on_free)

section \<open>Paths\<close>

text \<open>
  \<open>path.Clean\<close>, which \<open>filepath.Clean\<close> is on Unix: empty and dot segments go, a dot-dot takes
  the segment before it with it, is dropped at the root and kept at the front of a relative path.
\<close>

fun clean_segments :: "bool \<Rightarrow> string list \<Rightarrow> string list \<Rightarrow> string list" where
  "clean_segments rooted kept [] = rev kept"
| "clean_segments rooted kept (seg # segs) =
     (if seg = [] \<or> seg = ''.'' then clean_segments rooted kept segs
      else if seg = ''..'' then
        (if kept \<noteq> [] \<and> hd kept \<noteq> ''..'' then clean_segments rooted (tl kept) segs
         else if rooted then clean_segments rooted kept segs
         else clean_segments rooted (seg # kept) segs)
      else clean_segments rooted (seg # kept) segs)"

definition path_Clean :: "string \<Rightarrow> string" where
  "path_Clean path =
     (let rooted = (path \<noteq> [] \<and> hd path = CHR ''/'');
          clean = join_with ''/'' (clean_segments rooted [] (split_on (CHR ''/'') path))
      in if rooted then CHR ''/'' # clean else if clean = [] then ''.'' else clean)"

text \<open>\<open>filepath.Join\<close> of a non-empty first element and others.\<close>

definition path_Join :: "string list \<Rightarrow> string" where
  "path_Join elems = path_Clean (join_with ''/'' elems)"

lemma clean_segments_append:
  "clean_segments rooted kept (xs @ ys) = clean_segments rooted (rev (clean_segments rooted kept xs)) ys"
  by (induction rooted kept xs rule: clean_segments.induct) auto

definition plain_segment :: "string \<Rightarrow> bool" where
  "plain_segment s \<longleftrightarrow> s \<noteq> [] \<and> s \<noteq> ''.'' \<and> s \<noteq> ''..'' \<and> CHR ''/'' \<notin> set s"

lemma clean_segments_plain:
  "list_all plain_segment xs \<Longrightarrow> clean_segments rooted kept xs = rev kept @ xs"
  by (induction xs arbitrary: kept) (auto simp: plain_segment_def)

lemma split_on_pieces: "x \<in> set (split_on c s) \<Longrightarrow> c \<notin> set x"
  by (induction c s arbitrary: x rule: split_on.induct) (auto split: if_splits list.splits)

lemma split_on_ne [simp]: "split_on c s \<noteq> []"
  by (induction s) (auto split: list.split)

lemma split_on_append_sep: "split_on c (s @ c # t) = split_on c s @ split_on c t"
proof (induction s)
  case (Cons d s)
  then show ?case using split_on_ne [of c s] by (cases "split_on c s") auto
qed simp

end
