(* ===== verification/Agent.thy ===== *)
theory Agent
  imports Routing Parse GoText
begin

text \<open>
  The effects of the manager (\<open>manager.go\<close>, \<open>runner.go\<close> of \<open>internal/runtimeagent\<close>): the
  programs it runs, the state store it writes, its clock and its listeners act on a world \<open>'w\<close>
  that the model does not fix. The interfaces \<open>CommandRunner\<close> and \<open>RuntimeStateStore\<close> are
  records of functions on the world, as is what the code takes from the operating system.
  \<open>ag_trace\<close> is a ghost field: the argument vectors of the Docker commands run so far.
\<close>

section \<open>Errors\<close>

text \<open>
  An error is a value: one made from a fixed text or by the outside (\<open>Text\<close>), one of the coded
  errors of the pure components, a wrapped error (\<open>fmt.Errorf("...: %w", err)\<close>) or
  \<open>errors.Join\<close>. \<open>OutOfFuel\<close> marks a polling loop that was cut off; the code has no such error.
\<close>

datatype coded_error =
    Invalid spec_error
  | NotAdmitted admission_error
  | BadTarget service_error
  | BadDocument parse_error

datatype RuntimeError =
    Coded coded_error
  | Text string
  | Wrap string RuntimeError
  | Joined "RuntimeError list"
  | OutOfFuel

text \<open>\<open>err.Error()\<close>; the texts of the coded errors are an argument.\<close>

fun error_text :: "(coded_error \<Rightarrow> string) \<Rightarrow> RuntimeError \<Rightarrow> string" where
  "error_text texts (Coded e) = texts e"
| "error_text texts (Text s) = s"
| "error_text texts (Wrap s e) = s @ '': '' @ error_text texts e"
| "error_text texts (Joined es) = join_with newline (map (error_text texts) es)"
| "error_text texts OutOfFuel = []"

text \<open>\<open>errors.Join\<close> drops nil errors and is nil when none is left.\<close>

definition join_errors :: "RuntimeError option list \<Rightarrow> RuntimeError option" where
  "join_errors es = (case List.map_filter id es of [] \<Rightarrow> None | xs \<Rightarrow> Some (Joined xs))"

section \<open>The interfaces\<close>

record CommandResult =
  cr_Stdout :: string
  cr_Stderr :: string

type_synonym 'w run = "'w \<Rightarrow> (CommandResult \<times> string option) \<times> 'w"

text \<open>An operation that returns \<open>error\<close>.\<close>

type_synonym 'w fallible = "'w \<Rightarrow> RuntimeError option \<times> 'w"

record 'w RuntimeStateStore =
  sto_Root :: string
  sto_Ensure :: "'w fallible"
  sto_SaveRuntime :: "Runtime \<Rightarrow> 'w fallible"
  sto_ReadRuntime :: "string \<Rightarrow> string \<Rightarrow> 'w \<Rightarrow> (RuntimeError + Runtime) \<times> 'w"
  sto_LoadAll :: "'w \<Rightarrow> (RuntimeError + Runtime list) \<times> 'w"
  sto_SaveStatus :: "Runtime \<Rightarrow> RuntimeStatus \<Rightarrow> 'w fallible"
  sto_ReadStatus :: "string \<Rightarrow> string \<Rightarrow> 'w \<Rightarrow> (RuntimeError + RuntimeStatus) \<times> 'w"
  sto_AppendEvent :: "string \<Rightarrow> string \<Rightarrow> string \<Rightarrow> string \<Rightarrow> string \<Rightarrow> 'w fallible"
  sto_ReadEvents :: "string \<Rightarrow> string \<Rightarrow> int \<Rightarrow> 'w \<Rightarrow> (RuntimeError + RuntimeEvent list) \<times> 'w"
  sto_DeleteRuntime :: "string \<Rightarrow> string \<Rightarrow> 'w fallible"

text \<open>
  \<open>env_Wait d\<close> is the select between \<open>ctx.Done()\<close> and \<open>time.After(d)\<close>; it gives the context's
  error when that came first. \<open>env_RunWithInput\<close> is absent for a runner that is no
  \<open>InputCommandRunner\<close>. \<open>env_Digest\<close> is the hexadecimal SHA-256 of the JSON text of the hashed
  fields, \<open>env_Format\<close> a time as RFC 3339 text with its nanoseconds, \<open>env_FormatSeconds\<close> without,
  \<open>env_Fuel\<close> the bound on the polls of one wait.
\<close>

record 'w Env =
  env_Config :: RuntimeConfig
  env_Store :: "'w RuntimeStateStore"
  env_Admit :: "Runtime gomap \<Rightarrow> Runtime \<Rightarrow> admission_error + Runtime"
  env_Run :: "string \<Rightarrow> string list \<Rightarrow> 'w run"
  env_RunWithInput :: "(string \<Rightarrow> string \<Rightarrow> string list \<Rightarrow> 'w run) option"
  env_Now :: "'w \<Rightarrow> int \<times> 'w"
  env_Wait :: "int \<Rightarrow> 'w \<Rightarrow> string option \<times> 'w"
  env_Cancelled :: "'w \<Rightarrow> string option \<times> 'w"
  env_MkdirTemp :: "'w \<Rightarrow> (string + string) \<times> 'w"
  env_RemoveAll :: "string \<Rightarrow> 'w \<Rightarrow> unit \<times> 'w"
  env_Listen :: "int \<Rightarrow> 'w \<Rightarrow> string option \<times> 'w"
  env_CloseListener :: "int \<Rightarrow> 'w \<Rightarrow> unit \<times> 'w"
  env_Shutdown :: "int \<Rightarrow> 'w \<Rightarrow> string option \<times> 'w"
  env_WriteRoutes :: "string \<Rightarrow> port_routes \<Rightarrow> 'w fallible"
  env_Sprintf :: "string \<Rightarrow> int \<Rightarrow> string \<Rightarrow> string"
  env_Digest :: "DeploymentSpec \<Rightarrow> string"
  env_Format :: "int \<Rightarrow> string"
  env_FormatSeconds :: "int \<Rightarrow> string"
  env_Texts :: "coded_error \<Rightarrow> string"
  env_Fuel :: nat

record 'w Agent =
  ag_m :: ManagerState
  ag_w :: 'w
  ag_trace :: "string list list"

section \<open>Actions\<close>

text \<open>
  A method of the manager: it ends with an error or a value, and its effects stay in either
  case. \<open>attempt\<close> hands the error to the code that follows, as \<open>x, err := f()\<close> does.
\<close>

type_synonym ('a, 'w) act = "'w Agent \<Rightarrow> (RuntimeError + 'a) \<times> 'w Agent"

definition ret :: "'a \<Rightarrow> ('a, 'w) act" where
  "ret x s = (Inr x, s)"

definition fail :: "RuntimeError \<Rightarrow> ('a, 'w) act" where
  "fail e s = (Inl e, s)"

definition andThen :: "('a, 'w) act \<Rightarrow> ('a \<Rightarrow> ('b, 'w) act) \<Rightarrow> ('b, 'w) act" where
  "andThen m f s = (case m s of (Inl e, s') \<Rightarrow> (Inl e, s') | (Inr x, s') \<Rightarrow> f x s')"

definition attempt :: "('a, 'w) act \<Rightarrow> (RuntimeError + 'a, 'w) act" where
  "attempt m s = (case m s of (r, s') \<Rightarrow> (Inr r, s'))"

definition manager :: "(ManagerState \<Rightarrow> 'a) \<Rightarrow> ('a, 'w) act" where
  "manager f s = (Inr (f (ag_m s)), s)"

definition modify :: "(ManagerState \<Rightarrow> ManagerState) \<Rightarrow> (unit, 'w) act" where
  "modify f s = (Inr (), s\<lparr>ag_m := f (ag_m s)\<rparr>)"

definition exchange :: "(ManagerState \<Rightarrow> 'a \<times> ManagerState) \<Rightarrow> ('a, 'w) act" where
  "exchange f s = (case f (ag_m s) of (x, m) \<Rightarrow> (Inr x, s\<lparr>ag_m := m\<rparr>))"

definition world :: "('w \<Rightarrow> 'a \<times> 'w) \<Rightarrow> ('a, 'w) act" where
  "world f s = (case f (ag_w s) of (x, w) \<Rightarrow> (Inr x, s\<lparr>ag_w := w\<rparr>))"

text \<open>Raise an error that an operation has returned, wrapped or as it is.\<close>

definition raise :: "(RuntimeError \<Rightarrow> RuntimeError) \<Rightarrow> RuntimeError option \<Rightarrow> (unit, 'w) act" where
  "raise wrap err = (case err of None \<Rightarrow> ret () | Some e \<Rightarrow> fail (wrap e))"

definition wrapping :: "string \<Rightarrow> ('a, 'w) act \<Rightarrow> ('a, 'w) act" where
  "wrapping prefix_text m s = (case m s of (Inl e, s') \<Rightarrow> (Inl (Wrap prefix_text e), s') | r \<Rightarrow> r)"

definition saving :: "'w fallible \<Rightarrow> (unit, 'w) act" where
  "saving f = andThen (world f) (raise id)"

fun forEach :: "'a list \<Rightarrow> ('a \<Rightarrow> (unit, 'w) act) \<Rightarrow> (unit, 'w) act" where
  "forEach [] body = ret ()"
| "forEach (x # xs) body = andThen (body x) (\<lambda>_. forEach xs body)"

fun collect :: "'a list \<Rightarrow> ('a \<Rightarrow> ('b, 'w) act) \<Rightarrow> ('b list, 'w) act" where
  "collect [] body = ret []"
| "collect (x # xs) body = andThen (body x) (\<lambda>y. andThen (collect xs body) (\<lambda>ys. ret (y # ys)))"

section \<open>Docker, time, events\<close>

text \<open>\<open>m.docker\<close>: the result comes with the error, if any.\<close>

definition docker :: "'w Env \<Rightarrow> string list \<Rightarrow> (CommandResult \<times> string option, 'w) act" where
  "docker env args s =
     (case env_Run env (dc_Command (cfg_Docker (env_Config env))) args (ag_w s) of
        (r, w) \<Rightarrow> (Inr r, s\<lparr>ag_w := w, ag_trace := ag_trace s @ [args]\<rparr>))"

definition dockerWithInput :: "'w Env \<Rightarrow> string \<Rightarrow> string list \<Rightarrow> (CommandResult \<times> string option, 'w) act" where
  "dockerWithInput env input args s =
     (case env_RunWithInput env of
        None \<Rightarrow> (Inr (\<lparr>cr_Stdout = [], cr_Stderr = []\<rparr>,
                     Some ''configured command runner does not support stdin''), s)
      | Some run \<Rightarrow>
          (case run input (dc_Command (cfg_Docker (env_Config env))) args (ag_w s) of
             (r, w) \<Rightarrow> (Inr r, s\<lparr>ag_w := w, ag_trace := ag_trace s @ [args]\<rparr>)))"

text \<open>\<open>if _, err := m.docker(...); err != nil { return fmt.Errorf("...: %w", err) }\<close>.\<close>

definition must :: "string \<Rightarrow> (CommandResult \<times> string option, 'w) act \<Rightarrow> (CommandResult, 'w) act" where
  "must prefix_text cmd =
     andThen cmd (\<lambda>(result, err). case err of
        None \<Rightarrow> ret result
      | Some e \<Rightarrow> fail (Wrap prefix_text (Text e)))"

definition time_now :: "'w Env \<Rightarrow> (int, 'w) act" where
  "time_now env = world (env_Now env)"

text \<open>A failed write of an event is logged only.\<close>

definition appendEvent :: "'w Env \<Rightarrow> RuntimeKey \<Rightarrow> string \<Rightarrow> string \<Rightarrow> string \<Rightarrow> (unit, 'w) act" where
  "appendEvent env key eventType reason message =
     andThen (world (sto_AppendEvent (env_Store env) (key_Namespace key) (key_Name key) eventType reason message))
       (\<lambda>_. ret ())"

definition text_of :: "'w Env \<Rightarrow> RuntimeError \<Rightarrow> string" where
  "text_of env = error_text (env_Texts env)"

end
