(* ===== verification/Restarts.thy ===== *)
theory Restarts
  imports Agent
begin

text \<open>
  Restart records and status updates: the bookkeeping of \<open>self_heal.go\<close>, \<open>statusOptions\<close> of
  \<open>node.go\<close>, and \<open>updateRuntimeStatus\<close> and \<open>recordFailedStatus\<close> of \<open>manager.go\<close>. Times are
  nanoseconds since Go's zero time, so the zero record was due long ago.
\<close>

section \<open>Restart records\<close>

definition zero_record :: restartRecord where
  "zero_record = \<lparr>rec_Count = 0, rec_FailureStreak = 0, rec_LastAttempt = 0, rec_NextAttempt = 0,
     rec_LastReason = []\<rparr>"

definition restart_record :: "ManagerState \<Rightarrow> string \<Rightarrow> restartRecord" where
  "restart_record m name = (case map_of (m_restarts m) name of None \<Rightarrow> zero_record | Some r \<Rightarrow> r)"

definition setRestartRecord :: "string \<Rightarrow> restartRecord \<Rightarrow> ManagerState \<Rightarrow> ManagerState" where
  "setRestartRecord name record m = m\<lparr>m_restarts := map_set (m_restarts m) name record\<rparr>"

definition markRestartHealthy :: "string \<Rightarrow> ManagerState \<Rightarrow> ManagerState" where
  "markRestartHealthy name m =
     (let record = restart_record m name
      in if rec_Count record = 0 \<and> rec_FailureStreak record = 0 then m
         else setRestartRecord name (record\<lparr>rec_FailureStreak := 0, rec_LastReason := []\<rparr>) m)"

definition setRestartMessage :: "string \<Rightarrow> string \<Rightarrow> ManagerState \<Rightarrow> ManagerState" where
  "setRestartMessage name message m =
     setRestartRecord name ((restart_record m name)\<lparr>rec_LastReason := trim_space message\<rparr>) m"

text \<open>The record after one more attempt at time \<open>now\<close>: the delay grows with the streak.\<close>

definition next_attempt :: "int \<Rightarrow> int \<Rightarrow> string \<Rightarrow> restartRecord \<Rightarrow> restartRecord" where
  "next_attempt backoff now reason record =
     record\<lparr>rec_Count := rec_Count record + 1,
            rec_FailureStreak := rec_FailureStreak record + 1,
            rec_LastAttempt := now,
            rec_NextAttempt := now + (rec_FailureStreak record + 1) * backoff,
            rec_LastReason := reason\<rparr>"

lemma restart_record_set [simp]:
  "restart_record (setRestartRecord name r m) other = (if other = name then r else restart_record m other)"
  by (simp add: restart_record_def setRestartRecord_def update_conv')

lemma setRestartRecord_fields [simp]:
  "m_specs (setRestartRecord name r m) = m_specs m" "m_statuses (setRestartRecord name r m) = m_statuses m"
  "m_routes (setRestartRecord name r m) = m_routes m" "m_servers (setRestartRecord name r m) = m_servers m"
  "m_next (setRestartRecord name r m) = m_next m" "m_endpoints (setRestartRecord name r m) = m_endpoints m"
  by (simp_all add: setRestartRecord_def)

section \<open>Per deployment\<close>

definition replica_names_of :: "Runtime \<Rightarrow> DeploymentSpec \<Rightarrow> string list" where
  "replica_names_of runtime deployment =
     map (containerNameForDeployment runtime deployment) [1..deploymentReplicas deployment]"

definition restartCountsByDeployment :: "ManagerState \<Rightarrow> Runtime \<Rightarrow> int gomap" where
  "restartCountsByDeployment m runtime =
     foldl (\<lambda>out (dep, name). map_set out dep (get_int out dep + rec_Count (restart_record m name))) []
       (concat (map (\<lambda>d. map (\<lambda>name. (dep_Name d, name)) (replica_names_of runtime d))
          (rs_Deployments (rtm_Spec runtime))))"

definition restartMessagesByDeployment :: "ManagerState \<Rightarrow> Runtime \<Rightarrow> string gomap" where
  "restartMessagesByDeployment m runtime =
     foldl (\<lambda>out (dep, name). if is_blank (rec_LastReason (restart_record m name)) then out
                             else map_set out dep (rec_LastReason (restart_record m name))) []
       (concat (map (\<lambda>d. map (\<lambda>name. (dep_Name d, name)) (replica_names_of runtime d))
          (rs_Deployments (rtm_Spec runtime))))"

definition statusOptions :: "'w Env \<Rightarrow> ManagerState \<Rightarrow> Runtime \<Rightarrow> StatusOptions" where
  "statusOptions env m runtime =
     \<lparr>so_NodeName = nc_Name (cfg_Node (env_Config env)),
      so_DeploymentRestarts = restartCountsByDeployment m runtime,
      so_DeploymentMessages = restartMessagesByDeployment m runtime\<rparr>"

section \<open>Status updates\<close>

definition put_status :: "Runtime \<Rightarrow> RuntimeStatus \<Rightarrow> ManagerState \<Rightarrow> ManagerState" where
  "put_status runtime status m =
     (let key = key_String (KeyForRuntime runtime)
      in m\<lparr>m_specs := map_set (m_specs m) key runtime, m_statuses := map_set (m_statuses m) key status\<rparr>)"

definition newStatus ::
    "'w Env \<Rightarrow> Runtime \<Rightarrow> phase \<Rightarrow> Endpoint list gomap \<Rightarrow> RuntimeError option \<Rightarrow> (RuntimeStatus, 'w) act" where
  "newStatus env runtime phase endpoints err =
     andThen (manager (\<lambda>m. statusOptions env m runtime)) (\<lambda>options.
     andThen (time_now env) (\<lambda>now.
       ret (NewStatusWithOptions (env_Format env now) runtime phase endpoints
              (map_option (text_of env) err) options)))"

text \<open>A failed write of the status is logged only.\<close>

definition updateRuntimeStatus ::
    "'w Env \<Rightarrow> Runtime \<Rightarrow> phase \<Rightarrow> Endpoint list gomap \<Rightarrow> RuntimeError option \<Rightarrow> (RuntimeStatus, 'w) act" where
  "updateRuntimeStatus env runtime phase endpoints err =
     andThen (newStatus env runtime phase endpoints err) (\<lambda>status.
     andThen (modify (put_status runtime status)) (\<lambda>_.
     andThen (world (sto_SaveStatus (env_Store env) runtime status)) (\<lambda>_. ret status)))"

definition recordFailedStatus :: "'w Env \<Rightarrow> Runtime \<Rightarrow> RuntimeError \<Rightarrow> (unit, 'w) act" where
  "recordFailedStatus env runtime err =
     andThen (newStatus env runtime Failed [] (Some err)) (\<lambda>status.
     andThen (modify (put_status runtime status)) (\<lambda>_.
     andThen (world (sto_SaveRuntime (env_Store env) runtime)) (\<lambda>_.
     andThen (world (sto_SaveStatus (env_Store env) runtime status)) (\<lambda>_.
       appendEvent env (KeyForRuntime runtime) ''Warning'' ''ReconcileFailed'' (text_of env err)))))"

end
