(* ===== verification/Container.thy ===== *)
theory Container
  imports Restarts
begin

text \<open>
  \<open>container.go\<close>: how the manager drives Docker. The arguments of \<open>docker run\<close> are a pure
  function of the Runtime; the polling of \<open>waitContainerReady\<close> has \<open>env_Fuel\<close> rounds. The order
  in which Go visits a map is the order of the association list.
\<close>

section \<open>Inspecting\<close>

abbreviation inspect_format :: "string \<Rightarrow> string \<Rightarrow> string list" where
  "inspect_format format name \<equiv> [''inspect'', ''-f'', format, name]"

definition containerExists :: "'w Env \<Rightarrow> string \<Rightarrow> (bool, 'w) act" where
  "containerExists env name =
     andThen (docker env (inspect_format ''{{.Id}}'' name)) (\<lambda>(_, err). ret (err = None))"

text \<open>The fields of \<open>hashDeployment\<close>: all but the replica count and the two legacy fields.\<close>

definition hashDeployment :: "DeploymentSpec \<Rightarrow> DeploymentSpec" where
  "hashDeployment d = d\<lparr>dep_Replicas := None, dep_ServiceName := [], dep_PodRevision := []\<rparr>"

definition deploymentSpecHash :: "'w Env \<Rightarrow> DeploymentSpec \<Rightarrow> string" where
  "deploymentSpecHash env deployment = env_Digest env (hashDeployment deployment)"

definition spec_hash_format :: "string \<Rightarrow> string" where
  "spec_hash_format label = ''{{index .Config.Labels \"'' @ label @ ''\"}}''"

definition containerNeedsRecreate :: "'w Env \<Rightarrow> string \<Rightarrow> DeploymentSpec \<Rightarrow> (bool, 'w) act" where
  "containerNeedsRecreate env name deployment =
     andThen (docker env (inspect_format (spec_hash_format ''aifar.runtime/spec-hash'') name)) (\<lambda>(result, err).
     andThen (if err \<noteq> None \<or> is_blank (cr_Stdout result)
              then docker env (inspect_format (spec_hash_format ''aifar.spec-hash'') name)
              else ret (result, err)) (\<lambda>(result, err).
       if err \<noteq> None then ret False
       else ret (let current = trim_space (cr_Stdout result)
                 in current = [] \<or> current \<noteq> deploymentSpecHash env deployment)))"

section \<open>Secrets and images\<close>

fun decode_data :: "string \<Rightarrow> string gomap \<Rightarrow> string gomap \<Rightarrow> RuntimeError + string gomap" where
  "decode_data name [] out = Inr out"
| "decode_data name ((key, v) # rest) out =
     (case base64_decode (trim_space v) of
        None \<Rightarrow> Inl (Text (''secret '' @ name @ '' data['' @ key @ ''] must be base64 encoded''))
      | Some decoded \<Rightarrow> decode_data name rest (map_set out (trim_space key) decoded))"

definition secretValues :: "SecretSpec \<Rightarrow> RuntimeError + string gomap" where
  "secretValues secret =
     (case decode_data (sec_Name secret) (sec_Data secret) [] of
        Inl e \<Rightarrow> Inl e
      | Inr out \<Rightarrow>
          Inr (map_del (foldl (\<lambda>out (key, v). map_set out (trim_space key) v) out (sec_StringData secret)) []))"

definition registryForImage :: "string \<Rightarrow> string" where
  "registryForImage img =
     (case cut (CHR ''/'') (trim_space img) of
        (first, _, found) \<Rightarrow>
          if \<not> found then ''index.docker.io''
          else if CHR ''.'' \<in> set first \<or> CHR '':'' \<in> set first \<or> first = ''localhost'' then first
          else ''index.docker.io'')"

definition lift_sum :: "RuntimeError + 'a \<Rightarrow> ('a, 'w) act" where
  "lift_sum r = (case r of Inl e \<Rightarrow> fail e | Inr x \<Rightarrow> ret x)"

text \<open>\<open>defer\<close>: the clean-up runs whichever way the rest ends.\<close>

definition deferring :: "(unit, 'w) act \<Rightarrow> ('a, 'w) act \<Rightarrow> ('a, 'w) act" where
  "deferring cleanup m s = (case m s of (r, s') \<Rightarrow> (r, snd (cleanup s')))"

definition login_and_pull :: "'w Env \<Rightarrow> string \<Rightarrow> SecretSpec \<Rightarrow> string \<Rightarrow> string \<Rightarrow> string \<Rightarrow> string \<Rightarrow> (unit, 'w) act" where
  "login_and_pull env img secret registry username password configDir =
     deferring (world (env_RemoveAll env configDir))
       (andThen (must (''docker login registry '' @ registry @ '' for secret '' @ sec_Name secret)
          (dockerWithInput env (password @ newline)
             [''--config'', configDir, ''login'', registry, ''--username'', username, ''--password-stdin''])) (\<lambda>_.
        andThen (must (''pull image '' @ img @ '' with registry secret '' @ sec_Name secret)
          (docker env [''--config'', configDir, ''pull'', img])) (\<lambda>_. ret ())))"

definition pullImageWithSecret :: "'w Env \<Rightarrow> string \<Rightarrow> SecretSpec \<Rightarrow> (unit, 'w) act" where
  "pullImageWithSecret env img secret =
     andThen (lift_sum (secretValues secret)) (\<lambda>data.
       if sec_Type secret = ''dockerconfigjson'' then
         (let configPath = trim_space (get_str data ''configPath'')
          in if configPath = []
             then fail (Text (''imagePullSecret '' @ sec_Name secret @
                    '' dockerconfigjson requires stringData.configPath''))
             else andThen (must (''pull image '' @ img @ '' with docker config secret '' @ sec_Name secret)
                    (docker env [''--config'', configPath, ''pull'', img])) (\<lambda>_. ret ()))
       else if sec_Type secret \<noteq> ''registry-auth'' then
         fail (Text (''imagePullSecret '' @ sec_Name secret @ '' type '' @ sec_Type secret @ '' is not supported''))
       else
         (let server = trim_space (get_str data ''server'');
              registry = (if server = [] then registryForImage img else server);
              username = trim_space (get_str data ''username'');
              password = get_str data ''password''
          in if registry = [] \<or> username = [] \<or> password = []
             then fail (Text (''imagePullSecret '' @ sec_Name secret @
                    '' requires stringData.server, username, and password''))
             else andThen (world (env_MkdirTemp env)) (\<lambda>dir. case dir of
                    Inl e \<Rightarrow> fail (Text e)
                  | Inr configDir \<Rightarrow> login_and_pull env img secret registry username password configDir)))"

definition pullImageWithSecrets :: "'w Env \<Rightarrow> Runtime \<Rightarrow> DeploymentSpec \<Rightarrow> (unit, 'w) act" where
  "pullImageWithSecrets env runtime deployment =
     forEach (dep_ImagePullSecrets deployment) (\<lambda>ref.
       case secretByName (rs_Secrets (rtm_Spec runtime)) (lor_Name ref) of
         None \<Rightarrow> fail (Text (''deployment '' @ dep_Name deployment @ '' imagePullSecret '' @ lor_Name ref @
                   '' is not defined''))
       | Some secret \<Rightarrow> pullImageWithSecret env (dep_Image deployment) secret)"

section \<open>The arguments of docker run\<close>

abbreviation label :: "string \<Rightarrow> string list" where
  "label text \<equiv> [''--label'', text]"

definition owner_labels :: "'w Env \<Rightarrow> Runtime \<Rightarrow> DeploymentSpec \<Rightarrow> int \<Rightarrow> string list" where
  "owner_labels env runtime deployment replica =
     (let key = KeyForRuntime runtime
      in [''aifar.runtime/managed=true'',
          ''aifar.runtime/namespace='' @ key_Namespace key,
          ''aifar.runtime/name='' @ key_Name key,
          ''aifar.runtime/deployment='' @ dep_Name deployment,
          ''aifar.runtime/replica='' @ itoa replica,
          ''aifar.runtime/generation='' @ itoa (om_Generation (rtm_Metadata runtime)),
          ''aifar.runtime/revision='' @ dep_Revision deployment,
          ''aifar.runtime/spec-hash='' @ deploymentSpecHash env deployment,
          ''aifar.app=aifar'',
          ''aifar.component=pod'',
          ''aifar.instance='' @ key_Name key,
          ''aifar.service='' @ dep_Name deployment,
          ''aifar.replica='' @ itoa replica,
          ''aifar.revision='' @ dep_Revision deployment])"

definition resource_args :: "ResourceSpec \<Rightarrow> string list" where
  "resource_args res =
     (if res_CPUs res \<noteq> [] then [''--cpus'', res_CPUs res] else []) @
     (if res_Memory res \<noteq> [] then [''--memory'', res_Memory res, ''--memory-swap'',
        (if res_MemorySwap res \<noteq> [] then res_MemorySwap res else res_Memory res)] else []) @
     (if res_PIDsLimit res > 0 then [''--pids-limit'', itoa (res_PIDsLimit res)] else [])"

definition healthCheckCommand :: "'w Env \<Rightarrow> DeploymentSpec \<Rightarrow> string" where
  "healthCheckCommand env deployment =
     (let hc = dep_HealthCheck deployment
      in if \<not> is_blank (hc_Command hc) then hc_Command hc
         else case hc_HTTPGet hc of
             None \<Rightarrow> []
           | Some get \<Rightarrow>
               let port = (if 0 < IntVal (hg_Port get) then IntVal (hg_Port get)
                      else case find (\<lambda>c. cp_Name c = StrVal (hg_Port get)) (dep_Ports deployment) of
                             Some candidate \<Rightarrow> cp_ContainerPort candidate | None \<Rightarrow> 0)
               in if port \<le> 0 then []
                  else env_Sprintf env (cc_HTTPHealthCheckTemplate (cfg_Container (env_Config env))) port
                         (cleanIngressPath (hg_Path get)))"

definition health_args :: "'w Env \<Rightarrow> DeploymentSpec \<Rightarrow> string list" where
  "health_args env deployment =
     (let hc = dep_HealthCheck deployment; command = healthCheckCommand env deployment
      in if command = [] then []
         else [''--health-cmd'', command] @
              (if hc_Interval hc \<noteq> [] then [''--health-interval'', hc_Interval hc] else []) @
              (if hc_Timeout hc \<noteq> [] then [''--health-timeout'', hc_Timeout hc] else []) @
              (if hc_Retries hc > 0 then [''--health-retries'', itoa (hc_Retries hc)] else []) @
              (if hc_StartPeriod hc \<noteq> [] then [''--health-start-period'', hc_StartPeriod hc] else []))"

fun env_from_args :: "Runtime \<Rightarrow> DeploymentSpec \<Rightarrow> EnvFromSource list \<Rightarrow> RuntimeError + string list" where
  "env_from_args runtime deployment [] = Inr []"
| "env_from_args runtime deployment (source # rest) =
     (let file = (if equal_fold (ef_Type source) ''file'' \<and> \<not> is_blank (ef_Path source)
                  then [''--env-file'', trim_space (ef_Path source)] else []);
          secret = (if equal_fold (ef_Type source) ''secret'' then
              (case secretByName (rs_Secrets (rtm_Spec runtime)) (ef_Name source) of
                 None \<Rightarrow> Inl (Text (''deployment '' @ dep_Name deployment @ '' envFrom secret '' @
                             ef_Name source @ '' is not defined''))
               | Some secret \<Rightarrow>
                   (case secretValues secret of
                      Inl e \<Rightarrow> Inl e
                    | Inr values \<Rightarrow> Inr (concat (map (\<lambda>(k, v). [''-e'', k @ ''='' @ v]) values))))
              else Inr [])
      in case secret of
           Inl e \<Rightarrow> Inl e
         | Inr args \<Rightarrow>
             (case env_from_args runtime deployment rest of
                Inl e \<Rightarrow> Inl e
              | Inr others \<Rightarrow> Inr (file @ args @ others)))"

definition env_args :: "string gomap \<Rightarrow> string \<Rightarrow> string list" where
  "env_args vars name =
     concat (map (\<lambda>(key, v). if is_blank key then []
        else [''-e'', key @ ''='' @ replace_all ''${containerName}'' name v]) vars)"

definition volume_args :: "VolumeMount list \<Rightarrow> string list" where
  "volume_args volumes =
     concat (map (\<lambda>v. if vm_Source v = [] \<or> vm_Target v = [] then []
        else [''-v'', vm_Source v @ '':'' @ vm_Target v @ (if vm_ReadOnly v then '':ro'' else [])]) volumes)"

definition entrypoint_args :: "string list \<Rightarrow> string list" where
  "entrypoint_args entrypoint =
     (case entrypoint of
        [] \<Rightarrow> []
      | e # _ \<Rightarrow> if is_blank e then [] else [''--entrypoint'', trim_space e])"

definition run_args :: "'w Env \<Rightarrow> Runtime \<Rightarrow> DeploymentSpec \<Rightarrow> int \<Rightarrow> string \<Rightarrow> RuntimeError + string list" where
  "run_args env runtime deployment replica name =
     (let docker_cfg = cfg_Docker (env_Config env);
          front =
            [''run'', ''-d'', ''--name'', name, ''--restart'', dc_RestartPolicy docker_cfg] @
            concat (map label (owner_labels env runtime deployment replica)) @
            [''--network'', rs_Network (rtm_Spec runtime)] @
            (if dc_AddHost docker_cfg \<noteq> [] then [''--add-host'', dc_AddHost docker_cfg] else []) @
            concat (map (\<lambda>(k, v). if is_blank k then [] else label (k @ ''='' @ v)) (dep_Labels deployment)) @
            resource_args (dep_Resources deployment) @
            health_args env deployment @
            concat (map (\<lambda>f. if is_blank f then [] else [''--env-file'', f]) (dep_EnvFiles deployment));
          back =
            env_args (dep_Env deployment) name @
            volume_args (dep_Volumes deployment) @
            entrypoint_args (dep_Entrypoint deployment) @
            [dep_Image deployment] @
            filter (\<lambda>arg. \<not> is_blank arg) (drop 1 (dep_Entrypoint deployment)) @
            dep_Command deployment
      in case env_from_args runtime deployment (dep_EnvFrom deployment) of
           Inl e \<Rightarrow> Inl e
         | Inr env_from \<Rightarrow> Inr (front @ env_from @ back))"

section \<open>Waiting for a container\<close>

definition trimDiagnosticOutput :: "string \<Rightarrow> nat \<Rightarrow> string" where
  "trimDiagnosticOutput v limit =
     (let v = trim_space v
      in if limit = 0 \<or> length v \<le> limit then v else take limit v @ ''...(truncated)'')"

definition failure_text :: "string \<Rightarrow> CommandResult \<Rightarrow> string \<Rightarrow> string" where
  "failure_text what result e =
     what @ '' failed: '' @ e @
     (if is_blank (cr_Stderr result) then [] else '': '' @ trimDiagnosticOutput (cr_Stderr result) 1024) @ newline"

definition inspect_diagnostics_format :: string where
  "inspect_diagnostics_format =
     ''status={{.State.Status}} running={{.State.Running}} exitCode={{.State.ExitCode}} error={{.State.Error}} '' @
     ''oomKilled={{.State.OOMKilled}}{{if .State.Health}} health={{.State.Health.Status}}{{end}}''"

definition health_log_format :: string where
  "health_log_format =
     ''{{if .State.Health}}{{range .State.Health.Log}}{{println .Start \"exit=\" .ExitCode \"output=\" .Output}}'' @
     ''{{end}}{{end}}''"

definition containerReadyDiagnostics :: "'w Env \<Rightarrow> string \<Rightarrow> string \<Rightarrow> (string, 'w) act" where
  "containerReadyDiagnostics env name lastInspect =
     andThen (docker env (inspect_format inspect_diagnostics_format name)) (\<lambda>(inspect, inspect_err).
     andThen (docker env (inspect_format health_log_format name)) (\<lambda>(health, health_err).
     andThen (docker env [''logs'', ''--tail'', itoa (cc_DiagnosticsLogTail (cfg_Container (env_Config env))), name]) (\<lambda>(logs, logs_err).
       ret (trim_space
         ((if is_blank lastInspect then []
           else ''last inspect: '' @ trimDiagnosticOutput lastInspect 1024 @ newline) @
          (case inspect_err of
             Some e \<Rightarrow> failure_text ''inspect'' inspect e
           | None \<Rightarrow> if is_blank (cr_Stdout inspect) then []
                     else ''inspect: '' @ trimDiagnosticOutput (cr_Stdout inspect) 2048 @ newline) @
          (if health_err = None \<and> \<not> is_blank (cr_Stdout health)
           then ''health log:'' @ newline @ trimDiagnosticOutput (cr_Stdout health) 4096 @ newline else []) @
          (case logs_err of
             Some e \<Rightarrow> failure_text ''logs'' logs e
           | None \<Rightarrow>
               let text = trim_space (trim_space (cr_Stdout logs) @ newline @ trim_space (cr_Stderr logs))
               in if text = [] then [] else ''logs:'' @ newline @ trimDiagnosticOutput text 8192 @ newline))))))"

definition ready_format :: string where
  "ready_format = ''{{.State.Running}}|{{if .State.Health}}{{.State.Health.Status}}{{end}}''"

definition ready_output :: "string \<Rightarrow> bool" where
  "ready_output out =
     (case split_n 2 (CHR ''|'') (trim_space out) of
        [] \<Rightarrow> False
      | running # rest \<Rightarrow> running = ''true'' \<and> (rest = [] \<or> hd rest \<in> {[], ''healthy''}))"

definition last_inspect :: "CommandResult \<Rightarrow> string option \<Rightarrow> string" where
  "last_inspect result err =
     (case err of
        None \<Rightarrow> trim_space (cr_Stdout result)
      | Some e \<Rightarrow> trim_space e @
          (if is_blank (cr_Stderr result) then [] else '': '' @ trim_space (cr_Stderr result)))"

definition not_ready :: "'w Env \<Rightarrow> string \<Rightarrow> string \<Rightarrow> (unit, 'w) act" where
  "not_ready env name lastInspect =
     andThen (containerReadyDiagnostics env name lastInspect) (\<lambda>diagnostics.
       fail (Text (''AIFAR pod did not become ready: '' @ name @
         (if diagnostics = [] then [] else newline @ diagnostics))))"

text \<open>The loop of \<open>waitContainerReady\<close>, one unit of fuel per poll.\<close>

fun poll_ready :: "'w Env \<Rightarrow> nat \<Rightarrow> string \<Rightarrow> int \<Rightarrow> (unit, 'w) act" where
  "poll_ready env 0 name deadline = fail OutOfFuel"
| "poll_ready env (Suc fuel) name deadline =
     andThen (docker env (inspect_format ready_format name)) (\<lambda>(result, err).
       if err = None \<and> ready_output (cr_Stdout result) then ret ()
       else andThen (time_now env) (\<lambda>now.
         if deadline < now then not_ready env name (last_inspect result err)
         else andThen (world (env_Wait env (cc_ReadyPollInterval (cfg_Container (env_Config env))))) (\<lambda>cancelled.
           case cancelled of
             Some e \<Rightarrow> fail (Text e)
           | None \<Rightarrow> poll_ready env fuel name deadline)))"

definition waitContainerReady :: "'w Env \<Rightarrow> string \<Rightarrow> (unit, 'w) act" where
  "waitContainerReady env name =
     andThen (time_now env) (\<lambda>now.
       poll_ready env (env_Fuel env) name (now + cc_ReadyTimeout (cfg_Container (env_Config env))))"

section \<open>Starting and removing containers\<close>

definition runContainer :: "'w Env \<Rightarrow> Runtime \<Rightarrow> DeploymentSpec \<Rightarrow> int \<Rightarrow> string \<Rightarrow> (unit, 'w) act" where
  "runContainer env runtime deployment replica name =
     andThen (updateRuntimeStatus env runtime Pulling [] None) (\<lambda>_.
     andThen (pullImageWithSecrets env runtime deployment) (\<lambda>_.
     andThen (updateRuntimeStatus env runtime Starting [] None) (\<lambda>_.
     andThen (lift_sum (run_args env runtime deployment replica name)) (\<lambda>args.
     andThen (must (''start AIFAR pod '' @ name) (docker env args)) (\<lambda>_.
       waitContainerReady env name)))))"

definition owner_filters :: "RuntimeKey \<Rightarrow> string list" where
  "owner_filters key = [''aifar.runtime/managed=true'', ''aifar.runtime/namespace='' @ key_Namespace key,
     ''aifar.runtime/name='' @ key_Name key]"

definition filter_args :: "string list \<Rightarrow> string list" where
  "filter_args labels = concat (map (\<lambda>l. [''--filter'', ''label='' @ l]) labels)"

definition remove_each :: "'w Env \<Rightarrow> string \<Rightarrow> string list \<Rightarrow> (unit, 'w) act" where
  "remove_each env what names =
     forEach names (\<lambda>name. andThen (must (what @ name) (docker env [''rm'', ''-f'', name])) (\<lambda>_. ret ()))"

definition removeOwnedContainers :: "'w Env \<Rightarrow> Runtime \<Rightarrow> (unit, 'w) act" where
  "removeOwnedContainers env runtime =
     (let key = KeyForRuntime runtime
      in andThen (must (''list owned AIFAR pods for runtime '' @ key_String key)
           (docker env ([''ps'', ''-a''] @ filter_args (owner_filters key) @ [''--format'', ''{{.Names}}'']))) (\<lambda>result.
         remove_each env ''remove owned container '' (string_fields (cr_Stdout result))))"

end
