(* ===== verification/Reconcile.thy ===== *)
theory Reconcile
  imports Container
begin

text \<open>
  Reconciling a Runtime with Docker: self-healing (\<open>self_heal.go\<close>), the replicas of a deployment
  (\<open>deployment.go\<close>) and the discovery of endpoints (\<open>service.go\<close>).
\<close>

section \<open>The state of a container\<close>

record containerRuntimeState =
  crs_Running :: bool
  crs_Status :: string
  crs_ExitCode :: int
  crs_Health :: string

definition Ready :: "containerRuntimeState \<Rightarrow> bool" where
  "Ready s \<longleftrightarrow> crs_Running s \<and> (crs_Health s = [] \<or> crs_Health s = ''healthy'')"

definition NeedsRestart :: "containerRuntimeState \<Rightarrow> bool" where
  "NeedsRestart s \<longleftrightarrow> \<not> crs_Running s \<or> crs_Health s = ''unhealthy''"

definition Reason :: "containerRuntimeState \<Rightarrow> string" where
  "Reason s =
     (if \<not> crs_Running s then
        (let status = trim_space (crs_Status s)
         in ''container status='' @ (if status = [] then ''not-running'' else status) @
            '' exitCode='' @ itoa (crs_ExitCode s))
      else if crs_Health s = ''unhealthy'' then ''container health=unhealthy''
      else ''container is not ready'')"

definition state_format :: string where
  "state_format = ''{{.State.Running}}|{{.State.Status}}|{{.State.ExitCode}}|{{if .State.Health}}'' @
     ''{{.State.Health.Status}}{{end}}''"

definition parse_state :: "string \<Rightarrow> containerRuntimeState option" where
  "parse_state out =
     (case split_n 4 (CHR ''|'') (trim_space out) of
        [running, status, exitCode, health] \<Rightarrow>
          Some \<lparr>crs_Running = trim_space running = ''true'', crs_Status = trim_space status,
                crs_ExitCode = atoi_value (trim_space exitCode), crs_Health = trim_space health\<rparr>
      | _ \<Rightarrow> None)"

definition read_state :: "'w Env \<Rightarrow> string \<Rightarrow> (containerRuntimeState, 'w) act" where
  "read_state env name =
     andThen (docker env (inspect_format state_format name)) (\<lambda>(result, err). case err of
        Some e \<Rightarrow> fail (Text e)
      | None \<Rightarrow>
          (case parse_state (cr_Stdout result) of
             None \<Rightarrow> fail (Text (''inspect container '' @ name @ '' returned unexpected state \"'' @
                       trim_space (cr_Stdout result) @ ''\"''))
           | Some state \<Rightarrow> ret state))"

section \<open>Self-healing\<close>

definition heal_enabled :: "'w Env \<Rightarrow> bool" where
  "heal_enabled env \<longleftrightarrow> sh_Enabled (cfg_SelfHeal (env_Config env)) = Some True"

definition max_restarts :: "'w Env \<Rightarrow> int" where
  "max_restarts env = sh_MaxRestarts (cfg_SelfHeal (env_Config env))"

definition heal_backoff :: "'w Env \<Rightarrow> int" where
  "heal_backoff env = sh_Backoff (cfg_SelfHeal (env_Config env))"

text \<open>What \<open>healContainer\<close> decides before it touches the container.\<close>

datatype heal_decision = Disabled | LimitReached | BackingOff | Restart

definition heal_decide :: "'w Env \<Rightarrow> int \<Rightarrow> restartRecord \<Rightarrow> heal_decision" where
  "heal_decide env now record =
     (if \<not> heal_enabled env then Disabled
      else if rec_FailureStreak record \<ge> max_restarts env then LimitReached
      else if now < rec_NextAttempt record then BackingOff
      else Restart)"

definition limit_message :: "string \<Rightarrow> restartRecord \<Rightarrow> string \<Rightarrow> string" where
  "limit_message name record reason =
     name @ '' restart limit exceeded after '' @ itoa (rec_FailureStreak record) @ '' consecutive attempts: '' @ reason"

definition restart_container ::
    "'w Env \<Rightarrow> Runtime \<Rightarrow> DeploymentSpec \<Rightarrow> int \<Rightarrow> string \<Rightarrow> string \<Rightarrow> int \<Rightarrow> (bool, 'w) act" where
  "restart_container env runtime deployment replica name reason now =
     andThen (manager (\<lambda>m. next_attempt (heal_backoff env) now reason (restart_record m name))) (\<lambda>record.
     andThen (modify (setRestartRecord name record)) (\<lambda>_.
     andThen (appendEvent env (KeyForRuntime runtime) ''Warning'' ''ContainerRestarting''
       (''Restarting '' @ name @ '' attempt='' @ itoa (rec_Count record) @ '' reason='' @ reason)) (\<lambda>_.
     andThen (updateRuntimeStatus env runtime Updating [] None) (\<lambda>_.
     andThen (must (''self-heal remove unhealthy AIFAR pod '' @ name) (docker env [''rm'', ''-f'', name])) (\<lambda>_.
     andThen (wrapping (''self-heal restart AIFAR pod '' @ name)
       (runContainer env runtime deployment replica name)) (\<lambda>_. ret True))))))"

definition heal_after ::
    "'w Env \<Rightarrow> Runtime \<Rightarrow> DeploymentSpec \<Rightarrow> int \<Rightarrow> string \<Rightarrow> string \<Rightarrow> int \<Rightarrow> restartRecord \<Rightarrow> (bool, 'w) act" where
  "heal_after env runtime deployment replica name reason now record =
     (case heal_decide env now record of
        LimitReached \<Rightarrow>
          (let message = limit_message name record reason
           in andThen (modify (setRestartMessage name message)) (\<lambda>_.
              andThen (appendEvent env (KeyForRuntime runtime) ''Warning'' ''RestartLimitExceeded'' message) (\<lambda>_.
                ret False)))
      | BackingOff \<Rightarrow>
          andThen (modify (setRestartMessage name
            (name @ '' waiting for restart backoff until '' @ env_FormatSeconds env (rec_NextAttempt record) @ '': '' @ reason)))
          (\<lambda>_. ret False)
      | _ \<Rightarrow> restart_container env runtime deployment replica name reason now)"

definition healContainer ::
    "'w Env \<Rightarrow> Runtime \<Rightarrow> DeploymentSpec \<Rightarrow> int \<Rightarrow> string \<Rightarrow> containerRuntimeState \<Rightarrow> (bool, 'w) act" where
  "healContainer env runtime deployment replica name state =
     (let reason = Reason state
      in if \<not> heal_enabled env then
           andThen (modify (setRestartMessage name reason)) (\<lambda>_.
           andThen (appendEvent env (KeyForRuntime runtime) ''Warning'' ''ContainerUnhealthy''
             (name @ '' is unhealthy but self-heal is disabled: '' @ reason)) (\<lambda>_. ret False))
         else
           andThen (time_now env) (\<lambda>now.
           andThen (manager (\<lambda>m. restart_record m name))
             (heal_after env runtime deployment replica name reason now)))"

section \<open>The replicas of a deployment\<close>

definition ensureNetwork :: "'w Env \<Rightarrow> string \<Rightarrow> (unit, 'w) act" where
  "ensureNetwork env network =
     (let network = trim_space network
      in if network = [] then fail (Text ''docker network is required'')
         else andThen (docker env [''network'', ''inspect'', network]) (\<lambda>(_, err).
           if err = None then ret ()
           else andThen (must (''ensure docker network '' @ network)
                  (docker env [''network'', ''create'', network])) (\<lambda>_. ret ())))"

definition surge_name :: "Runtime \<Rightarrow> string \<Rightarrow> string" where
  "surge_name runtime canonicalName =
     sanitizeDockerName (canonicalName @ ''-surge-g'' @ itoa (om_Generation (rtm_Metadata runtime)))"

definition replaceContainerWithSurge ::
    "'w Env \<Rightarrow> Runtime \<Rightarrow> DeploymentSpec \<Rightarrow> int \<Rightarrow> string \<Rightarrow> (unit, 'w) act" where
  "replaceContainerWithSurge env runtime deployment replica canonicalName =
     (let surgeName = surge_name runtime canonicalName
      in andThen (runContainer env runtime deployment replica surgeName) (\<lambda>_.
         andThen (must (''replace drifted AIFAR pod '' @ canonicalName) (docker env [''rm'', ''-f'', canonicalName])) (\<lambda>_.
         andThen (must (''rename surge AIFAR pod '' @ surgeName @ '' to '' @ canonicalName)
           (docker env [''rename'', surgeName, canonicalName])) (\<lambda>_. ret ()))))"

definition uses_surge :: "DeploymentSpec \<Rightarrow> bool" where
  "uses_surge deployment \<longleftrightarrow>
     st_Type (dep_Strategy deployment) = ''rollingupdate'' \<and>
     (case st_RollingUpdate (dep_Strategy deployment) of None \<Rightarrow> False | Some ru \<Rightarrow> ru_MaxSurge ru > 0)"

text \<open>The part of the loop body for a container that exists and is not replaced.\<close>

definition ensure_healthy :: "'w Env \<Rightarrow> Runtime \<Rightarrow> DeploymentSpec \<Rightarrow> int \<Rightarrow> string \<Rightarrow> (unit, 'w) act" where
  "ensure_healthy env runtime deployment replica name =
     andThen (read_state env name) (\<lambda>state.
     andThen (if Ready state then modify (markRestartHealthy name) else ret ()) (\<lambda>_.
       if NeedsRestart state
       then andThen (healContainer env runtime deployment replica name state) (\<lambda>_. ret ())
       else ret ()))"

definition ensure_replica :: "'w Env \<Rightarrow> Runtime \<Rightarrow> DeploymentSpec \<Rightarrow> int \<Rightarrow> (unit, 'w) act" where
  "ensure_replica env runtime deployment replica =
     (let name = containerNameForDeployment runtime deployment replica
      in andThen (containerExists env name) (\<lambda>exists.
         if \<not> exists then runContainer env runtime deployment replica name
         else andThen (containerNeedsRecreate env name deployment) (\<lambda>recreate.
           if recreate \<and> uses_surge deployment then
             replaceContainerWithSurge env runtime deployment replica name
           else if recreate then
             andThen (must (''replace drifted AIFAR pod '' @ name) (docker env [''rm'', ''-f'', name])) (\<lambda>_.
               runContainer env runtime deployment replica name)
           else ensure_healthy env runtime deployment replica name)))"

definition extra_format :: string where
  "extra_format = ''{{.Names}}|{{.Label \"aifar.runtime/replica\"}}|{{.Label \"aifar.runtime/revision\"}}''"

text \<open>The container a line of the listing names, if it is one to remove.\<close>

definition extra_container :: "DeploymentSpec \<Rightarrow> string \<Rightarrow> string option" where
  "extra_container deployment line =
     (case split_n 3 (CHR ''|'') (trim_space line) of
        name # replica # rest \<Rightarrow>
          let revision = (case rest of [r] \<Rightarrow> trim_space r | _ \<Rightarrow> [])
          in if is_blank line then None
             else if atoi_value (trim_space replica) > deploymentReplicas deployment \<or>
                     (revision \<noteq> [] \<and> revision \<noteq> dep_Revision deployment)
             then Some (trim_space name) else None
      | _ \<Rightarrow> None)"

definition removeExtraReplicas :: "'w Env \<Rightarrow> Runtime \<Rightarrow> DeploymentSpec \<Rightarrow> (unit, 'w) act" where
  "removeExtraReplicas env runtime deployment =
     (let labels = owner_filters (KeyForRuntime runtime) @ [''aifar.runtime/deployment='' @ dep_Name deployment]
      in andThen (must (''list extra AIFAR pods for deployment '' @ dep_Name deployment)
           (docker env ([''ps'', ''-a''] @ filter_args labels @ [''--format'', extra_format]))) (\<lambda>result.
         remove_each env ''remove extra AIFAR pod ''
           (List.map_filter (extra_container deployment)
              (split_on (CHR 0x0A) (trim_space (cr_Stdout result))))))"

definition ensureDeployment :: "'w Env \<Rightarrow> Runtime \<Rightarrow> DeploymentSpec \<Rightarrow> (unit, 'w) act" where
  "ensureDeployment env runtime deployment =
     andThen (forEach [1..deploymentReplicas deployment] (ensure_replica env runtime deployment)) (\<lambda>_.
       removeExtraReplicas env runtime deployment)"

definition reconcileDeployments :: "'w Env \<Rightarrow> Runtime \<Rightarrow> (unit, 'w) act" where
  "reconcileDeployments env runtime =
     forEach (rs_Deployments (rtm_Spec runtime)) (ensureDeployment env runtime)"

section \<open>Discovery\<close>

definition endpoint_format :: "string \<Rightarrow> string" where
  "endpoint_format network =
     ''{{.State.Running}}|{{if .State.Health}}{{.State.Health.Status}}{{end}}|{{with index .NetworkSettings.Networks \"'' @
     network @ ''\"}}{{.IPAddress}}{{else}}{{range .NetworkSettings.Networks}}{{.IPAddress}}{{end}}{{end}}''"

text \<open>\<open>net.JoinHostPort\<close> brackets a host with a colon.\<close>

definition JoinHostPort :: "string \<Rightarrow> string \<Rightarrow> string" where
  "JoinHostPort host port =
     (if CHR '':'' \<in> set host then ''['' @ host @ '']:'' @ port else host @ '':'' @ port)"

definition endpoint_of :: "string \<Rightarrow> int \<Rightarrow> string \<Rightarrow> Endpoint option" where
  "endpoint_of name targetPort out =
     (case split_n 3 (CHR ''|'') (trim_space out) of
        [running, health, ip] \<Rightarrow>
          if running = ''true'' \<and> (health = [] \<or> health = ''healthy'') \<and> \<not> is_blank ip
          then Some \<lparr>ep_Container = name, ep_Address = JoinHostPort (trim_space ip) (itoa targetPort)\<rparr>
          else None
      | _ \<Rightarrow> None)"

definition inspect_endpoint :: "'w Env \<Rightarrow> string \<Rightarrow> int \<Rightarrow> string \<Rightarrow> (Endpoint option, 'w) act" where
  "inspect_endpoint env network targetPort name =
     andThen (docker env (inspect_format (endpoint_format network) name)) (\<lambda>(result, err).
       ret (if err \<noteq> None then None else endpoint_of name targetPort (cr_Stdout result)))"

definition discoverDeploymentEndpoints ::
    "'w Env \<Rightarrow> Runtime \<Rightarrow> DeploymentSpec \<Rightarrow> int \<Rightarrow> (Endpoint list, 'w) act" where
  "discoverDeploymentEndpoints env runtime deployment targetPort =
     (let key = KeyForRuntime runtime
      in andThen (docker env ([''ps''] @
             filter_args (owner_filters key @ [''aifar.runtime/deployment='' @ dep_Name deployment]) @
             [''--format'', ''{{.Names}}''])) (\<lambda>(result, err).
         andThen (if err \<noteq> None \<or> is_blank (cr_Stdout result)
             then docker env ([''ps''] @
               filter_args [''aifar.app=aifar'', ''aifar.component=pod'',
                 ''aifar.instance='' @ key_Name key, ''aifar.service='' @ dep_Name deployment] @
               [''--format'', ''{{.Names}}''])
             else ret (result, err)) (\<lambda>(result, err). case err of
             Some e \<Rightarrow> fail (Wrap ''list AIFAR deployment pods'' (Text e))
           | None \<Rightarrow>
               andThen (collect (string_fields (cr_Stdout result))
                 (inspect_endpoint env (rs_Network (rtm_Spec runtime)) targetPort)) (\<lambda>found.
                 ret (List.map_filter id found)))))"

definition discoverEndpoints :: "'w Env \<Rightarrow> Runtime \<Rightarrow> ServiceSpec \<Rightarrow> (Endpoint list, 'w) act" where
  "discoverEndpoints env runtime service =
     (let deployments = matching runtime service
      in case resolveServiceTargetPort service deployments of
           Inl e \<Rightarrow> fail (Coded (BadTarget e))
         | Inr targetPort \<Rightarrow>
             andThen (collect deployments (\<lambda>d. discoverDeploymentEndpoints env runtime d targetPort)) (\<lambda>found.
               ret (sort_key ep_Container (concat found))))"

definition refreshRuntimeEndpoints :: "'w Env \<Rightarrow> Runtime \<Rightarrow> (Endpoint list gomap, 'w) act" where
  "refreshRuntimeEndpoints env runtime =
     andThen (collect (rs_Services (rtm_Spec runtime)) (\<lambda>service.
       andThen (discoverEndpoints env runtime service) (\<lambda>endpoints. ret (svc_Name service, endpoints)))) (\<lambda>pairs.
       ret (foldl (\<lambda>m (service, endpoints). map_set m service endpoints) [] pairs))"

end
