(* ===== verification/Manager.thy ===== *)
theory Manager
  imports Reconcile
begin

text \<open>
  The operations of the manager: \<open>Apply\<close>, \<open>Remove\<close>, \<open>Load\<close>, \<open>Resync\<close>, \<open>Shutdown\<close> and the
  queries (\<open>manager.go\<close>, \<open>reconcile.go\<close>, \<open>metrics.go\<close>), the rollback of a failed update
  (\<open>rollback.go\<close>) and the listeners (\<open>proxy.go\<close>). \<open>reconcileMu\<close> lets one of them run at a time;
  an operation is one action. \<open>cloneRuntime\<close> is the identity. A Runtime is normalised twice where
  the code normalises it and then takes its key, which normalises the shared parts once more;
  further passes change nothing (\<open>NormalizeRuntime_twice\<close>).
\<close>

section \<open>Listeners and the proxy state files\<close>

definition startPort :: "'w Env \<Rightarrow> int \<Rightarrow> (unit, 'w) act" where
  "startPort env port =
     andThen (world (env_Listen env port)) (\<lambda>err. case err of
        Some e \<Rightarrow> fail (Wrap (''listen runtime proxy port '' @ itoa port) (Text e))
      | None \<Rightarrow>
          andThen (exchange (\<lambda>m. if port \<in> set (m_servers m) then (True, m)
             else (False, m\<lparr>m_servers := m_servers m @ [port]\<rparr>))) (\<lambda>existed.
            if existed then world (env_CloseListener env port) else ret ()))"

definition stopPort :: "'w Env \<Rightarrow> int \<Rightarrow> (unit, 'w) act" where
  "stopPort env port =
     andThen (exchange (\<lambda>m. (port \<in> set (m_servers m),
        m\<lparr>m_servers := filter (\<lambda>p. p \<noteq> port) (m_servers m)\<rparr>))) (\<lambda>running.
       if running then andThen (world (env_Shutdown env port)) (\<lambda>_. ret ()) else ret ())"

definition split_routes :: "(proxyRoute \<Rightarrow> bool) \<Rightarrow> port_routes \<Rightarrow> port_routes" where
  "split_routes P routes =
     filter (\<lambda>(port, rs). rs \<noteq> []) (map (\<lambda>(port, rs). (port, filter P rs)) routes)"

definition writeProxyState :: "'w Env \<Rightarrow> (unit, 'w) act" where
  "writeProxyState env =
     andThen (saving (sto_Ensure (env_Store env))) (\<lambda>_.
     andThen (manager m_routes) (\<lambda>routes.
     andThen (saving (env_WriteRoutes env (sto_Root (env_Store env) @ ''/proxy/services.json'')
        (split_routes (\<lambda>r. pr_Ingress r = []) routes))) (\<lambda>_.
       saving (env_WriteRoutes env (sto_Root (env_Store env) @ ''/proxy/ingress.json'')
        (split_routes (\<lambda>r. pr_Ingress r \<noteq> []) routes)))))"

section \<open>The previous state and rollback\<close>

definition zero_status :: RuntimeStatus where
  "zero_status = \<lparr>rst_ObservedGeneration = 0, rst_Phase = NoPhase, rst_NodeName = [], rst_Conditions = [],
     rst_Deployments = [], rst_Services = [], rst_Ingress = [], rst_LastTransitionTime = []\<rparr>"

definition known_runtime :: "ManagerState \<Rightarrow> RuntimeKey \<Rightarrow> (Runtime \<times> RuntimeStatus) option" where
  "known_runtime m key =
     map_option (\<lambda>runtime. (runtime,
         case map_of (m_statuses m) (key_String key) of Some status \<Rightarrow> status | None \<Rightarrow> zero_status))
       (map_of (m_specs m) (key_String key))"

definition stored_runtime :: "'w Env \<Rightarrow> RuntimeKey \<Rightarrow> ((Runtime \<times> RuntimeStatus) option, 'w) act" where
  "stored_runtime env key =
     andThen (world (sto_ReadRuntime (env_Store env) (key_Namespace key) (key_Name key))) (\<lambda>read. case read of
        Inl _ \<Rightarrow> ret None
      | Inr runtime \<Rightarrow>
          andThen (world (sto_ReadStatus (env_Store env) (key_Namespace key) (key_Name key))) (\<lambda>status.
            ret (Some (runtime, case status of Inl _ \<Rightarrow> zero_status | Inr st \<Rightarrow> st))))"

definition previousRuntimeState :: "'w Env \<Rightarrow> RuntimeKey \<Rightarrow> ((Runtime \<times> RuntimeStatus) option, 'w) act" where
  "previousRuntimeState env key =
     andThen (manager (\<lambda>m. known_runtime m key)) (\<lambda>known. case known of
        Some found \<Rightarrow> ret (Some found)
      | None \<Rightarrow> stored_runtime env key)"

definition runtimeEndpoints :: "ManagerState \<Rightarrow> Runtime \<Rightarrow> Endpoint list gomap" where
  "runtimeEndpoints m runtime =
     foldl (\<lambda>out service. map_set out (svc_Name service)
         (get_list (m_endpoints m) (endpointKey (KeyForRuntime runtime) (svc_Name service)))) []
       (rs_Services (rtm_Spec runtime))"

definition generation :: "Runtime \<Rightarrow> int" where
  "generation runtime = om_Generation (rtm_Metadata runtime)"

definition removeOwnedContainersForGeneration :: "'w Env \<Rightarrow> Runtime \<Rightarrow> (unit, 'w) act" where
  "removeOwnedContainersForGeneration env runtime =
     (let key = KeyForRuntime runtime; gen = itoa (generation runtime)
      in if generation runtime \<le> 0 then ret ()
         else andThen (must (''list failed generation '' @ gen @ '' AIFAR pods for runtime '' @ key_String key)
           (docker env ([''ps'', ''-a''] @
              filter_args (owner_filters key @ [''aifar.runtime/generation='' @ gen]) @
              [''--format'', ''{{.Names}}'']))) (\<lambda>result.
           remove_each env (''remove failed generation '' @ gen @ '' AIFAR pod '')
             (string_fields (cr_Stdout result))))"

definition restorePreviousRuntime :: "'w Env \<Rightarrow> Runtime \<Rightarrow> RuntimeStatus \<Rightarrow> (unit, 'w) act" where
  "restorePreviousRuntime env runtime status =
     (let runtime = NormalizeInPlace (NormalizeRuntime runtime)
      in andThen (if rst_Phase status = NoPhase
             then andThen (manager (\<lambda>m. runtimeEndpoints m runtime)) (\<lambda>endpoints.
                    newStatus env runtime Running endpoints None)
             else ret status) (\<lambda>status.
         andThen (modify (put_status runtime status)) (\<lambda>_.
         andThen (saving (sto_SaveRuntime (env_Store env) runtime)) (\<lambda>_.
           saving (sto_SaveStatus (env_Store env) runtime status)))))"

definition error_of :: "RuntimeError + 'a \<Rightarrow> RuntimeError option" where
  "error_of r = (case r of Inl e \<Rightarrow> Some e | Inr _ \<Rightarrow> None)"

text \<open>What follows the clean-up and the restoring: the event and the error of the update.\<close>

definition finish_rollback ::
    "'w Env \<Rightarrow> Runtime \<Rightarrow> RuntimeError \<Rightarrow> RuntimeError + unit \<Rightarrow> RuntimeError + unit \<Rightarrow> (unit, 'w) act" where
  "finish_rollback env previous cause cleanup restore =
     (let key = KeyForRuntime previous
      in case join_errors [error_of cleanup, error_of restore] of
           Some rollbackErr \<Rightarrow>
             andThen (appendEvent env key ''Warning'' ''RollbackFailed'' (text_of env rollbackErr)) (\<lambda>_.
               fail (Wrap ''rolling update failed and rollback failed'' (Joined [cause, rollbackErr])))
         | None \<Rightarrow>
             andThen (appendEvent env key ''Normal'' ''RollbackComplete''
               (''Rolled back to generation '' @ itoa (generation previous) @ '' after failed update: '' @ text_of env cause)) (\<lambda>_.
               fail (Wrap ''rolling update failed and was rolled back'' cause)))"

definition rollbackRuntime ::
    "'w Env \<Rightarrow> Runtime \<Rightarrow> Runtime \<Rightarrow> RuntimeStatus \<Rightarrow> RuntimeError \<Rightarrow> (unit, 'w) act" where
  "rollbackRuntime env failed previous previousStatus cause =
     andThen (appendEvent env (KeyForRuntime previous) ''Warning'' ''RollbackStarted''
       (''Rolling update failed for generation '' @ itoa (generation failed) @
        ''; rolling back to generation '' @ itoa (generation previous) @ '': '' @ text_of env cause)) (\<lambda>_.
     andThen (attempt (removeOwnedContainersForGeneration env failed)) (\<lambda>cleanup.
     andThen (attempt (restorePreviousRuntime env previous previousStatus)) (\<lambda>restore.
       finish_rollback env previous cause cleanup restore)))"

section \<open>Apply\<close>

definition nextGeneration :: "ManagerState \<Rightarrow> RuntimeKey \<Rightarrow> int" where
  "nextGeneration m key =
     (case map_of (m_specs m) (key_String key) of
        Some existing \<Rightarrow> if generation existing > 0 then wrap64 (generation existing + 1) else 1
      | None \<Rightarrow> 1)"

definition runtimeExists :: "ManagerState \<Rightarrow> RuntimeKey \<Rightarrow> bool" where
  "runtimeExists m key \<longleftrightarrow> map_of (m_specs m) (key_String key) \<noteq> None"

definition set_generation :: "int \<Rightarrow> Runtime \<Rightarrow> Runtime" where
  "set_generation gen runtime = runtime\<lparr>rtm_Metadata := (rtm_Metadata runtime)\<lparr>om_Generation := gen\<rparr>\<rparr>"

text \<open>\<open>if err := ...; err != nil { m.recordFailedStatus(runtime, err); return err }\<close>.\<close>

definition or_record :: "'w Env \<Rightarrow> Runtime \<Rightarrow> ('a, 'w) act \<Rightarrow> ('a, 'w) act" where
  "or_record env runtime m =
     andThen (attempt m) (\<lambda>r. case r of
        Inl e \<Rightarrow> andThen (recordFailedStatus env runtime e) (\<lambda>_. fail e)
      | Inr x \<Rightarrow> ret x)"

definition reject :: "'w Env \<Rightarrow> RuntimeKey \<Rightarrow> RuntimeError \<Rightarrow> ('a, 'w) act" where
  "reject env key e =
     andThen (appendEvent env key ''Warning'' ''Rejected'' (text_of env e)) (\<lambda>_. fail e)"

definition set_status :: "RuntimeKey \<Rightarrow> RuntimeStatus \<Rightarrow> ManagerState \<Rightarrow> ManagerState" where
  "set_status key status m = m\<lparr>m_statuses := map_set (m_statuses m) (key_String key) status\<rparr>"

text \<open>From the new routes to the end of \<open>Apply\<close>.\<close>

definition publish :: "'w Env \<Rightarrow> Runtime \<Rightarrow> Endpoint list gomap \<Rightarrow> (unit, 'w) act" where
  "publish env runtime refreshed =
     (let key = KeyForRuntime runtime; routes = routesForRuntime runtime
      in andThen (exchange (\<lambda>m. case replaceRoutesAndState m runtime refreshed routes of
             (m', starts, stops) \<Rightarrow> ((sort starts, sort stops), m'))) (\<lambda>(portsToStart, portsToStop).
         andThen (or_record env runtime (forEach portsToStart (startPort env))) (\<lambda>_.
         andThen (forEach portsToStop (stopPort env)) (\<lambda>_.
         andThen (newStatus env runtime Running refreshed None) (\<lambda>status.
         andThen (modify (set_status key status)) (\<lambda>_.
         andThen (saving (sto_SaveRuntime (env_Store env) runtime)) (\<lambda>_.
         andThen (saving (sto_SaveStatus (env_Store env) runtime status)) (\<lambda>_.
         andThen (writeProxyState env) (\<lambda>_.
         andThen (appendEvent env key ''Normal'' ''Applied'' ''Runtime reconciliation completed'') (\<lambda>_.
         andThen (world (env_Cancelled env)) (\<lambda>cancelled.
           raise id (map_option Text cancelled))))))))))))"

definition reconcile_or_roll_back ::
    "'w Env \<Rightarrow> Runtime \<Rightarrow> (Runtime \<times> RuntimeStatus) option \<Rightarrow> (unit, 'w) act" where
  "reconcile_or_roll_back env runtime previous =
     andThen (attempt (reconcileDeployments env runtime)) (\<lambda>r. case r of
        Inr _ \<Rightarrow> ret ()
      | Inl e \<Rightarrow>
          (case previous of
             Some (previousRuntime, previousStatus) \<Rightarrow>
               rollbackRuntime env runtime previousRuntime previousStatus e
           | None \<Rightarrow> andThen (recordFailedStatus env runtime e) (\<lambda>_. fail e)))"

definition apply_admitted ::
    "'w Env \<Rightarrow> RuntimeKey \<Rightarrow> Runtime \<Rightarrow> (Runtime \<times> RuntimeStatus) option \<Rightarrow> (unit, 'w) act" where
  "apply_admitted env key runtime previous =
     andThen (appendEvent env key ''Normal'' ''ApplyStarted'' ''Runtime reconciliation started'') (\<lambda>_.
     andThen (manager (\<lambda>m. runtimeExists m key)) (\<lambda>exists.
     andThen (updateRuntimeStatus env runtime (if exists then Updating else Pending) [] None) (\<lambda>_.
     andThen (or_record env runtime (ensureNetwork env (rs_Network (rtm_Spec runtime)))) (\<lambda>_.
     andThen (updateRuntimeStatus env runtime Starting [] None) (\<lambda>_.
     andThen (reconcile_or_roll_back env runtime previous) (\<lambda>_.
     andThen (or_record env runtime (refreshRuntimeEndpoints env runtime)) (\<lambda>refreshed.
       publish env runtime refreshed)))))))"

definition Apply :: "'w Env \<Rightarrow> Runtime \<Rightarrow> (unit, 'w) act" where
  "Apply env runtime =
     (let runtime = NormalizeInPlace (NormalizeRuntime runtime); key = KeyForRuntime runtime
      in andThen (previousRuntimeState env key) (\<lambda>previous.
         andThen (manager (\<lambda>m. if generation runtime = 0 then set_generation (nextGeneration m key) runtime
             else runtime)) (\<lambda>runtime.
           case ValidateRuntime runtime of
             Some e \<Rightarrow> reject env key (Coded (Invalid e))
           | None \<Rightarrow>
               andThen (manager (\<lambda>m. env_Admit env (m_specs m) runtime)) (\<lambda>admitted.
                 case admitted of
                   Inl e \<Rightarrow> reject env key (Coded (NotAdmitted e))
                 | Inr runtime \<Rightarrow> apply_admitted env key runtime previous))))"

definition Load :: "'w Env \<Rightarrow> (unit, 'w) act" where
  "Load env =
     andThen (world (sto_LoadAll (env_Store env))) (\<lambda>loaded. case loaded of
        Inl e \<Rightarrow> fail e
      | Inr runtimes \<Rightarrow> forEach runtimes (Apply env))"

section \<open>Remove\<close>

definition forget :: "RuntimeKey \<Rightarrow> ManagerState \<Rightarrow> int list \<times> ManagerState" where
  "forget key m =
     (case removeRoutesForKeyLocked
             (m\<lparr>m_specs := map_del (m_specs m) (key_String key),
                m_statuses := map_del (m_statuses m) (key_String key),
                m_endpoints := drop_endpoints key (m_endpoints m)\<rparr>) key of
        (m', ports) \<Rightarrow> (ports, m'))"

definition Remove :: "'w Env \<Rightarrow> string \<Rightarrow> string \<Rightarrow> (unit, 'w) act" where
  "Remove env namespace name =
     (let key = runtimeKey namespace name
      in if key_Name key = [] then fail (Text ''runtime name is required'')
         else
           andThen (appendEvent env key ''Normal'' ''DeleteStarted'' ''Runtime deletion started'') (\<lambda>_.
           andThen (manager (\<lambda>m. map_of (m_specs m) (key_String key))) (\<lambda>known.
           andThen (case known of
               Some runtime \<Rightarrow> ret (Some runtime)
             | None \<Rightarrow> andThen (world (sto_ReadRuntime (env_Store env) (key_Namespace key) (key_Name key)))
                 (\<lambda>read. ret (case read of Inl _ \<Rightarrow> None | Inr loaded \<Rightarrow> Some loaded))) (\<lambda>runtime.
           andThen (case runtime of
               None \<Rightarrow> ret ()
             | Some r \<Rightarrow> andThen (updateRuntimeStatus env r Terminating [] None) (\<lambda>_. ret ())) (\<lambda>_.
           andThen (exchange (forget key)) (\<lambda>portsToStop.
           andThen (forEach portsToStop (stopPort env)) (\<lambda>_.
           andThen (case runtime of None \<Rightarrow> ret () | Some r \<Rightarrow> removeOwnedContainers env r) (\<lambda>_.
           andThen (saving (sto_DeleteRuntime (env_Store env) (key_Namespace key) (key_Name key))) (\<lambda>_.
           andThen (writeProxyState env) (\<lambda>_.
             appendEvent env key ''Normal'' ''Deleted''
               ''Runtime state, listeners, and owned containers removed''))))))))))"

section \<open>Resync and Shutdown\<close>

definition set_observed :: "RuntimeKey \<Rightarrow> Endpoint list gomap \<Rightarrow> RuntimeStatus \<Rightarrow> ManagerState \<Rightarrow> ManagerState" where
  "set_observed key refreshed status m =
     set_status key status (m\<lparr>m_endpoints := store_endpoints key refreshed (m_endpoints m)\<rparr>)"

definition resync_runtime :: "'w Env \<Rightarrow> Runtime \<Rightarrow> (unit, 'w) act" where
  "resync_runtime env runtime =
     andThen (or_record env runtime (reconcileDeployments env runtime)) (\<lambda>_.
     andThen (or_record env runtime (refreshRuntimeEndpoints env runtime)) (\<lambda>refreshed.
     andThen (newStatus env runtime Running refreshed None) (\<lambda>status.
     andThen (modify (set_observed (KeyForRuntime runtime) refreshed status)) (\<lambda>_.
       saving (sto_SaveStatus (env_Store env) runtime status)))))"

definition snapshotRuntimes :: "ManagerState \<Rightarrow> Runtime list" where
  "snapshotRuntimes m = sorted_values (m_specs m)"

definition Resync :: "'w Env \<Rightarrow> (unit, 'w) act" where
  "Resync env = andThen (manager snapshotRuntimes) (\<lambda>runtimes. forEach runtimes (resync_runtime env))"

definition Shutdown :: "'w Env \<Rightarrow> (unit, 'w) act" where
  "Shutdown env =
     andThen (exchange (\<lambda>m. (sort (m_servers m), m\<lparr>m_servers := [], m_routes := []\<rparr>))) (\<lambda>ports.
     andThen (collect ports (\<lambda>port. andThen (world (env_Shutdown env port)) (\<lambda>err.
         ret (map_option (\<lambda>e. Wrap (''shutdown proxy port '' @ itoa port) (Text e)) err)))) (\<lambda>errs.
     andThen (attempt (writeProxyState env)) (\<lambda>written.
       raise id (join_errors (errs @ [error_of written])))))"

section \<open>Queries\<close>

definition GetRuntime :: "'w Env \<Rightarrow> string \<Rightarrow> string \<Rightarrow> ((Runtime \<times> RuntimeStatus) option, 'w) act" where
  "GetRuntime env namespace name = previousRuntimeState env (runtimeKey namespace name)"

definition ReadyCheck :: "'w Env \<Rightarrow> (unit, 'w) act" where
  "ReadyCheck env =
     andThen (saving (sto_Ensure (env_Store env))) (\<lambda>_.
     andThen (docker env [''info'']) (\<lambda>(_, err). raise id (map_option Text err)))"

record RuntimeMetrics =
  rm_RuntimeVersion :: string
  rm_RuntimeCount :: nat
  rm_ListenerCount :: nat
  rm_DesiredReplicas :: int
  rm_ReadyReplicas :: int
  rm_FailedRuntimeCount :: nat
  rm_DegradedRuntimeCount :: nat
  rm_ContainerRestarts :: int
  rm_EndpointCount :: nat

definition status_at :: "ManagerState \<Rightarrow> string \<Rightarrow> RuntimeStatus" where
  "status_at m key = (case map_of (m_statuses m) key of Some status \<Rightarrow> status | None \<Rightarrow> zero_status)"

definition Metrics :: "ManagerState \<Rightarrow> RuntimeMetrics" where
  "Metrics m =
     (let statuses = map (\<lambda>(key, _). status_at m key) (m_specs m);
          deployments = concat (map rst_Deployments statuses)
      in \<lparr>rm_RuntimeVersion = RuntimeVersion,
          rm_RuntimeCount = length (m_specs m),
          rm_ListenerCount = length (m_servers m),
          rm_DesiredReplicas = sum_list (map deploymentReplicas
             (concat (map (\<lambda>(_, runtime). rs_Deployments (rtm_Spec runtime)) (m_specs m)))),
          rm_ReadyReplicas = sum_list (map ds_Ready deployments),
          rm_FailedRuntimeCount = length (filter (\<lambda>s. rst_Phase s = Failed) statuses),
          rm_DegradedRuntimeCount = length (filter (\<lambda>s. rst_Phase s = Degraded) statuses),
          rm_ContainerRestarts = sum_list (map ds_Restarts deployments),
          rm_EndpointCount = sum_list (map (\<lambda>(_, eps). length eps) (m_endpoints m))\<rparr>)"

end
