(* ===== verification/Steps.thy ===== *)
theory Steps
  imports Manager
begin

text \<open>
  What an action can do to the agent, proved once for every relation that the elementary effects
  respect. \<open>agent_relation\<close> is the calculus of sequencing; \<open>start_step\<close> adds the effects of
  starting a container and \<open>reconcile_step\<close> those of a reconciliation. An invariant or a
  property of the Docker commands is an interpretation of one of them.
\<close>

section \<open>Sequencing\<close>

definition obeys :: "('w Agent \<Rightarrow> 'w Agent \<Rightarrow> bool) \<Rightarrow> ('a, 'w) act \<Rightarrow> bool" where
  "obeys R m \<longleftrightarrow> (\<forall>s. R s (snd (m s)))"

lemma obeysD: "obeys R m \<Longrightarrow> R s (snd (m s))"
  by (simp add: obeys_def)

lemma obeysI: "(\<And>s. R s (snd (m s))) \<Longrightarrow> obeys R m"
  by (simp add: obeys_def)

lemma andThen_eq:
  "andThen m f s = (case fst (m s) of Inl e \<Rightarrow> (Inl e, snd (m s)) | Inr x \<Rightarrow> f x (snd (m s)))"
  by (simp add: andThen_def split: prod.splits sum.splits)

lemma attempt_eq: "attempt m s = (Inr (fst (m s)), snd (m s))"
  by (simp add: attempt_def split: prod.split)

named_theorems step_rules \<open>an action respects a relation if its parts do\<close>

locale agent_relation =
  fixes R :: "'w Agent \<Rightarrow> 'w Agent \<Rightarrow> bool"
  assumes R_refl: "R s s"
    and R_trans: "R s t \<Longrightarrow> R t u \<Longrightarrow> R s u"
begin

lemma obeys_ret [step_rules]: "obeys R (ret x)"
  by (simp add: obeys_def ret_def R_refl)

lemma obeys_fail [step_rules]: "obeys R (fail e)"
  by (simp add: obeys_def fail_def R_refl)

lemma obeys_manager [step_rules]: "obeys R (manager f)"
  by (simp add: obeys_def manager_def R_refl)

lemma obeys_andThen [step_rules]:
  assumes "obeys R m" "\<And>x. obeys R (f x)"
  shows "obeys R (andThen m f)"
proof (rule obeysI)
  fix s
  show "R s (snd (andThen m f s))"
    using assms(1) [THEN obeysD, of s] assms(2) [THEN obeysD]
    by (auto simp: andThen_eq split: sum.split intro: R_trans)
qed

lemma obeys_attempt [step_rules]: "obeys R m \<Longrightarrow> obeys R (attempt m)"
  by (simp add: obeys_def attempt_eq)

lemma obeys_wrapping [step_rules]: "obeys R m \<Longrightarrow> obeys R (wrapping p m)"
proof (rule obeysI)
  fix s assume "obeys R m"
  then have "R s (snd (m s))" by (rule obeysD)
  then show "R s (snd (wrapping p m s))" by (cases "m s") (auto simp: wrapping_def split: sum.splits)
qed

lemma obeys_if [step_rules]: "obeys R m \<Longrightarrow> obeys R m' \<Longrightarrow> obeys R (if b then m else m')"
  by simp

lemma obeys_option [step_rules]:
  "obeys R m \<Longrightarrow> (\<And>x. obeys R (f x)) \<Longrightarrow> obeys R (case v of None \<Rightarrow> m | Some x \<Rightarrow> f x)"
  by (cases v) auto

lemma obeys_sum [step_rules]:
  "(\<And>e. obeys R (f e)) \<Longrightarrow> (\<And>x. obeys R (g x)) \<Longrightarrow> obeys R (case v of Inl e \<Rightarrow> f e | Inr x \<Rightarrow> g x)"
  by (cases v) auto

lemma obeys_prod [step_rules]: "(\<And>x y. obeys R (f x y)) \<Longrightarrow> obeys R (case p of (x, y) \<Rightarrow> f x y)"
  by (cases p) auto

lemma obeys_raise [step_rules]: "obeys R (raise wrap err)"
  unfolding raise_def by (intro step_rules)

lemma obeys_lift_sum [step_rules]: "obeys R (lift_sum r)"
  unfolding lift_sum_def by (intro step_rules)

lemma obeys_forEach [step_rules]: "(\<And>x. obeys R (body x)) \<Longrightarrow> obeys R (forEach xs body)"
  by (induction xs) (auto intro: step_rules)

lemma obeys_collect [step_rules]: "(\<And>x. obeys R (body x)) \<Longrightarrow> obeys R (collect xs body)"
  by (induction xs) (auto intro!: step_rules)

lemma obeys_deferring [step_rules]:
  assumes "obeys R cleanup" "obeys R m" shows "obeys R (deferring cleanup m)"
proof (rule obeysI)
  fix s
  have "R s (snd (m s))" "R (snd (m s)) (snd (cleanup (snd (m s))))"
    using assms by (auto dest: obeysD)
  then show "R s (snd (deferring cleanup m s))" by (auto simp: deferring_def split: prod.split intro: R_trans)
qed

lemma obeys_must [step_rules]: "obeys R cmd \<Longrightarrow> obeys R (must p cmd)"
  unfolding must_def by (intro step_rules)

end

section \<open>Starting a container\<close>

text \<open>\<open>allowed\<close> are the Docker commands the relation accepts, \<open>owned\<close> the Runtimes it lets be stored.\<close>

locale start_step = agent_relation R for R :: "'w Agent \<Rightarrow> 'w Agent \<Rightarrow> bool" +
  fixes env :: "'w Env" and allowed :: "string list \<Rightarrow> bool" and owned :: "Runtime \<Rightarrow> bool"
  assumes step_docker: "allowed args \<Longrightarrow> R s (s\<lparr>ag_w := w, ag_trace := ag_trace s @ [args]\<rparr>)"
    and step_world: "R s (s\<lparr>ag_w := w\<rparr>)"
    and step_status: "owned r \<Longrightarrow> R s (s\<lparr>ag_m := put_status r st (ag_m s)\<rparr>)"
    and allowed_start: "hd args \<noteq> ''rm'' \<Longrightarrow> hd args \<noteq> ''rename'' \<Longrightarrow> allowed args"
begin

lemma obeys_docker: "allowed args \<Longrightarrow> obeys R (docker env args)"
  by (auto simp: obeys_def docker_def step_docker split: prod.split)

lemma obeys_input: "allowed args \<Longrightarrow> obeys R (dockerWithInput env input args)"
  by (auto simp: obeys_def dockerWithInput_def step_docker R_refl split: prod.split option.split)

lemma obeys_world [step_rules]: "obeys R (world f)"
  by (auto simp: obeys_def world_def step_world split: prod.split)

lemma obeys_put_status: "owned r \<Longrightarrow> obeys R (modify (put_status r st))"
  by (simp add: obeys_def modify_def step_status)

lemma obeys_now [step_rules]: "obeys R (time_now env)"
  unfolding time_now_def by (intro step_rules)

lemma obeys_saving [step_rules]: "obeys R (saving f)"
  unfolding saving_def by (intro step_rules)

lemma obeys_appendEvent [step_rules]: "obeys R (appendEvent env key t reason msg)"
  unfolding appendEvent_def by (intro step_rules)

lemma obeys_newStatus [step_rules]: "obeys R (newStatus env r ph eps err)"
  unfolding newStatus_def by (intro step_rules)

lemma obeys_updateRuntimeStatus:
  "owned r \<Longrightarrow> obeys R (updateRuntimeStatus env r ph eps err)"
  unfolding updateRuntimeStatus_def by (intro step_rules obeys_put_status)

lemma obeys_recordFailedStatus: "owned r \<Longrightarrow> obeys R (recordFailedStatus env r err)"
  unfolding recordFailedStatus_def by (intro step_rules obeys_put_status)

lemma obeys_or_record: "owned r \<Longrightarrow> obeys R m \<Longrightarrow> obeys R (or_record env r m)"
  unfolding or_record_def by (intro step_rules obeys_recordFailedStatus)

lemma obeys_inspect [step_rules]: "obeys R (docker env (inspect_format f name))"
  by (intro obeys_docker allowed_start) simp_all

lemma obeys_pull [step_rules]: "obeys R (pullImageWithSecrets env r d)"
  unfolding pullImageWithSecrets_def pullImageWithSecret_def login_and_pull_def Let_def
  by (intro step_rules obeys_docker obeys_input allowed_start) simp_all

lemma obeys_diagnostics [step_rules]: "obeys R (containerReadyDiagnostics env name l)"
  unfolding containerReadyDiagnostics_def
  by (intro step_rules obeys_docker allowed_start) simp_all

lemma obeys_poll [step_rules]: "obeys R (poll_ready env fuel name deadline)"
proof (induction fuel)
  case (Suc fuel)
  then show ?case unfolding poll_ready.simps not_ready_def by (intro step_rules)
qed (simp add: step_rules)

lemma obeys_wait [step_rules]: "obeys R (waitContainerReady env name)"
  unfolding waitContainerReady_def by (intro step_rules)

lemma hd_run_args: "run_args env r d i name = Inr args \<Longrightarrow> hd args = ''run''"
  by (auto simp: run_args_def Let_def split: sum.splits)

lemma obeys_runContainer:
  assumes "owned r" shows "obeys R (runContainer env r d i name)"
proof -
  have run: "obeys R (case run_args env r d i name of Inl e \<Rightarrow> fail e
      | Inr args \<Rightarrow> andThen (must p (docker env args)) (\<lambda>_. waitContainerReady env name))" for p
    by (cases "run_args env r d i name")
       (auto dest!: hd_run_args intro!: step_rules obeys_docker allowed_start)
  have lift: "andThen (lift_sum v) f = (case v of Inl e \<Rightarrow> fail e | Inr x \<Rightarrow> f x)"
    for v :: "RuntimeError + string list" and f :: "string list \<Rightarrow> (unit, 'w) act"
    by (rule ext) (cases v; simp add: andThen_eq lift_sum_def fail_def ret_def)
  show ?thesis
    unfolding runContainer_def lift
    by (intro obeys_andThen obeys_updateRuntimeStatus obeys_pull run assms)
qed

end

section \<open>Reconciling\<close>

locale reconcile_step = start_step R env allowed owned
    for R :: "'w Agent \<Rightarrow> 'w Agent \<Rightarrow> bool" and env :: "'w Env" and allowed owned +
  assumes allowed_all: "allowed args"
    and step_message: "R s (s\<lparr>ag_m := setRestartMessage name msg (ag_m s)\<rparr>)"
    and step_healthy: "R s (s\<lparr>ag_m := markRestartHealthy name (ag_m s)\<rparr>)"
    and step_attempt: "heal_decide env now (restart_record (ag_m s) name) = Restart \<Longrightarrow>
      R s (s\<lparr>ag_m := setRestartRecord name
        (next_attempt (heal_backoff env) now reason (restart_record (ag_m s) name)) (ag_m s)\<rparr>)"
begin

lemmas any_docker [step_rules] = obeys_docker [OF allowed_all]

lemma obeys_message [step_rules]: "obeys R (modify (setRestartMessage name msg))"
  by (simp add: obeys_def modify_def step_message)

lemma obeys_healthy [step_rules]: "obeys R (modify (markRestartHealthy name))"
  by (simp add: obeys_def modify_def step_healthy)

lemma restart_container_step:
  assumes "owned r" "heal_decide env now (restart_record (ag_m s) name) = Restart"
  shows "R s (snd (restart_container env r d i name reason now s))"
proof -
  let ?rec = "next_attempt (heal_backoff env) now reason (restart_record (ag_m s) name)"
  let ?rest = "andThen (appendEvent env (KeyForRuntime r) ''Warning'' ''ContainerRestarting''
       (''Restarting '' @ name @ '' attempt='' @ itoa (rec_Count ?rec) @ '' reason='' @ reason)) (\<lambda>_.
     andThen (updateRuntimeStatus env r Updating [] None) (\<lambda>_.
     andThen (must (''self-heal remove unhealthy AIFAR pod '' @ name) (docker env [''rm'', ''-f'', name])) (\<lambda>_.
     andThen (wrapping (''self-heal restart AIFAR pod '' @ name) (runContainer env r d i name)) (\<lambda>_. ret True))))"
  let ?s = "s\<lparr>ag_m := setRestartRecord name ?rec (ag_m s)\<rparr>"
  have "obeys R ?rest"
    using assms(1) by (intro step_rules obeys_updateRuntimeStatus obeys_runContainer)
  then have "R ?s (snd (?rest ?s))" by (rule obeysD)
  moreover have "R s ?s" using assms(2) by (rule step_attempt)
  moreover have "restart_container env r d i name reason now s = ?rest ?s"
    by (simp add: restart_container_def andThen_eq [of "manager _"] andThen_eq [of "modify _"]
        manager_def modify_def)
  ultimately show ?thesis by (simp only:) (rule R_trans)
qed

lemma obeys_healContainer:
  assumes "owned r" shows "obeys R (healContainer env r d i name state)"
proof (cases "heal_enabled env")
  case False
  then show ?thesis by (auto simp: healContainer_def Let_def intro!: step_rules)
next
  case True
  let ?after = "heal_after env r d i name (Reason state)"
  have heal: "healContainer env r d i name state = andThen (time_now env) (\<lambda>now.
      andThen (manager (\<lambda>m. restart_record m name)) (?after now))"
    using True by (simp add: healContainer_def Let_def)
  have wait: "obeys R (?after now rc)" if "heal_decide env now rc \<in> {LimitReached, BackingOff}" for now rc
    using that by (auto simp: heal_after_def Let_def intro!: step_rules)
  have step: "R s (snd (?after now (restart_record (ag_m s) name) s))" for now s
  proof (cases "heal_decide env now (restart_record (ag_m s) name)")
    case Restart
    then show ?thesis using assms by (simp add: heal_after_def restart_container_step)
  next
    case Disabled
    then show ?thesis using True by (auto simp: heal_decide_def split: if_splits)
  qed (rule obeysD, rule wait, simp)+
  have "obeys R (andThen (manager (\<lambda>m. restart_record m name)) (?after now))" for now
    by (rule obeysI) (simp add: andThen_eq manager_def step)
  then show ?thesis unfolding heal by (rule obeys_andThen [OF obeys_now])
qed

lemma obeys_read_state [step_rules]: "obeys R (read_state env name)"
  unfolding read_state_def by (intro step_rules)

lemma obeys_exists [step_rules]: "obeys R (containerExists env name)"
  unfolding containerExists_def by (intro step_rules)

lemma obeys_recreate [step_rules]: "obeys R (containerNeedsRecreate env name d)"
  unfolding containerNeedsRecreate_def by (intro step_rules)

lemma obeys_ensureNetwork [step_rules]: "obeys R (ensureNetwork env network)"
  unfolding ensureNetwork_def Let_def by (intro step_rules)

lemma obeys_remove_each [step_rules]: "obeys R (remove_each env what names)"
  unfolding remove_each_def by (intro step_rules)

lemma obeys_ensure_replica: "owned r \<Longrightarrow> obeys R (ensure_replica env r d i)"
  unfolding ensure_replica_def ensure_healthy_def replaceContainerWithSurge_def Let_def
  by (intro step_rules obeys_runContainer obeys_healContainer)

lemma obeys_reconcileDeployments: "owned r \<Longrightarrow> obeys R (reconcileDeployments env r)"
  unfolding reconcileDeployments_def ensureDeployment_def removeExtraReplicas_def Let_def
  by (intro step_rules obeys_ensure_replica)

lemma obeys_refresh [step_rules]: "obeys R (refreshRuntimeEndpoints env r)"
  unfolding refreshRuntimeEndpoints_def discoverEndpoints_def discoverDeploymentEndpoints_def
    inspect_endpoint_def Let_def
  by (intro step_rules)

lemma obeys_removeOwned [step_rules]: "obeys R (removeOwnedContainers env r)"
  unfolding removeOwnedContainers_def Let_def by (intro step_rules)

lemma obeys_removeGeneration [step_rules]: "obeys R (removeOwnedContainersForGeneration env r)"
  unfolding removeOwnedContainersForGeneration_def Let_def by (intro step_rules)

lemma obeys_writeProxyState [step_rules]: "obeys R (writeProxyState env)"
  unfolding writeProxyState_def by (intro step_rules)

lemma obeys_previous [step_rules]: "obeys R (previousRuntimeState env key)"
  unfolding previousRuntimeState_def stored_runtime_def by (intro step_rules)

lemma obeys_reject [step_rules]: "obeys R (reject env key e)"
  unfolding reject_def by (intro step_rules)

end

end
