(* ===== verification/Operations.thy ===== *)
theory Operations
  imports Steps
begin

text \<open>
  The operations of the manager as steps: \<open>operation_step\<close> lists the changes they make to the
  manager beside those of a reconciliation, and \<open>reachable\<close> is the state machine that performs
  them in any order while the world outside changes at will.
\<close>

section \<open>The changes an operation makes\<close>

locale operation_step = reconcile_step R env allowed owned
    for R :: "'w Agent \<Rightarrow> 'w Agent \<Rightarrow> bool" and env :: "'w Env" and allowed owned +
  assumes step_set_status: "R s (s\<lparr>ag_m := set_status key st (ag_m s)\<rparr>)"
    and step_endpoints: "R s (s\<lparr>ag_m := (ag_m s)\<lparr>m_endpoints := store_endpoints key eps (m_endpoints (ag_m s))\<rparr>\<rparr>)"
    and step_replace: "owned r \<Longrightarrow>
      R s (s\<lparr>ag_m := fst (replaceRoutesAndState (ag_m s) r eps (routesForRuntime r))\<rparr>)"
    and step_listen: "port \<notin> set (m_servers (ag_m s)) \<Longrightarrow>
      R s (s\<lparr>ag_m := (ag_m s)\<lparr>m_servers := m_servers (ag_m s) @ [port]\<rparr>\<rparr>)"
    and step_stop: "R s (s\<lparr>ag_m := (ag_m s)\<lparr>m_servers := filter (\<lambda>p. p \<noteq> port) (m_servers (ag_m s))\<rparr>\<rparr>)"
begin

lemma obeys_startPort [step_rules]: "obeys R (startPort env port)"
proof -
  have "obeys R (exchange (\<lambda>m. if port \<in> set (m_servers m) then (True, m)
             else (False, m\<lparr>m_servers := m_servers m @ [port]\<rparr>)))"
    by (rule obeysI) (auto simp: exchange_def step_listen R_refl)
  then show ?thesis unfolding startPort_def by (intro step_rules)
qed

lemma obeys_stopPort [step_rules]: "obeys R (stopPort env port)"
proof -
  have "obeys R (exchange (\<lambda>m. (port \<in> set (m_servers m),
        m\<lparr>m_servers := filter (\<lambda>p. p \<noteq> port) (m_servers m)\<rparr>)))"
    by (rule obeysI) (simp add: exchange_def step_stop)
  then show ?thesis unfolding stopPort_def by (intro step_rules)
qed

lemma obeys_set_status [step_rules]: "obeys R (modify (set_status key st))"
  by (simp add: obeys_def modify_def step_set_status)

lemma obeys_observed [step_rules]: "obeys R (modify (set_observed key eps st))"
proof (rule obeysI)
  fix s :: "'w Agent"
  let ?t = "s\<lparr>ag_m := (ag_m s)\<lparr>m_endpoints := store_endpoints key eps (m_endpoints (ag_m s))\<rparr>\<rparr>"
  have "R s ?t" by (rule step_endpoints)
  moreover have "R ?t (?t\<lparr>ag_m := set_status key st (ag_m ?t)\<rparr>)" by (rule step_set_status)
  ultimately have "R s (?t\<lparr>ag_m := set_status key st (ag_m ?t)\<rparr>)" by (rule R_trans)
  then show "R s (snd (modify (set_observed key eps st) s))" by (simp add: modify_def set_observed_def)
qed

lemma obeys_publish: "owned r \<Longrightarrow> obeys R (publish env r refreshed)"
proof -
  assume owned: "owned r"
  have "obeys R (exchange (\<lambda>m. case replaceRoutesAndState m r refreshed (routesForRuntime r) of
             (m', starts, stops) \<Rightarrow> ((sort starts, sort stops), m')))"
  proof (rule obeysI)
    fix s :: "'w Agent"
    have "R s (s\<lparr>ag_m := fst (replaceRoutesAndState (ag_m s) r refreshed (routesForRuntime r))\<rparr>)"
      using owned by (rule step_replace)
    then show "R s (snd (exchange (\<lambda>m. case replaceRoutesAndState m r refreshed (routesForRuntime r) of
             (m', starts, stops) \<Rightarrow> ((sort starts, sort stops), m')) s))"
      by (simp add: exchange_def split_beta)
  qed
  then show ?thesis unfolding publish_def Let_def
    by (intro step_rules obeys_or_record [OF owned])
qed

lemma obeys_restore:
  "owned (NormalizeInPlace (NormalizeRuntime r)) \<Longrightarrow> obeys R (restorePreviousRuntime env r st)"
  unfolding restorePreviousRuntime_def Let_def by (intro step_rules obeys_put_status)

lemma obeys_rollback:
  "owned (NormalizeInPlace (NormalizeRuntime r)) \<Longrightarrow> obeys R (rollbackRuntime env failed r st cause)"
  unfolding rollbackRuntime_def finish_rollback_def Let_def by (intro step_rules obeys_restore)

lemma obeys_apply_admitted:
  assumes "owned r" "\<And>p st. previous = Some (p, st) \<Longrightarrow> owned (NormalizeInPlace (NormalizeRuntime p))"
  shows "obeys R (apply_admitted env key r previous)"
proof -
  have "obeys R (reconcile_or_roll_back env r previous)"
  proof (cases previous)
    case None
    then show ?thesis unfolding reconcile_or_roll_back_def
      using assms(1) by (auto intro!: step_rules obeys_reconcileDeployments obeys_recordFailedStatus split: sum.split)
  next
    case (Some q)
    then show ?thesis unfolding reconcile_or_roll_back_def using assms
      by (cases q) (auto intro!: step_rules obeys_reconcileDeployments obeys_rollback split: sum.split)
  qed
  then show ?thesis unfolding apply_admitted_def
    by (intro step_rules obeys_updateRuntimeStatus obeys_or_record obeys_publish assms(1))
qed

lemma obeys_resync_runtime: "owned r \<Longrightarrow> obeys R (resync_runtime env r)"
  unfolding resync_runtime_def by (intro step_rules obeys_or_record obeys_reconcileDeployments)

end

locale manager_step = operation_step R env allowed "\<lambda>_. True"
    for R :: "'w Agent \<Rightarrow> 'w Agent \<Rightarrow> bool" and env :: "'w Env" and allowed +
  assumes step_forget: "R s (s\<lparr>ag_m := snd (forget key (ag_m s))\<rparr>)"
    and step_shutdown: "R s (s\<lparr>ag_m := (ag_m s)\<lparr>m_servers := [], m_routes := []\<rparr>\<rparr>)"
begin

lemma obeys_Apply [step_rules]: "obeys R (Apply env r)"
  unfolding Apply_def Let_def by (intro step_rules obeys_apply_admitted TrueI)

lemma obeys_Load [step_rules]: "obeys R (Load env)"
  unfolding Load_def by (intro step_rules)

lemma obeys_Resync [step_rules]: "obeys R (Resync env)"
  unfolding Resync_def by (intro step_rules obeys_resync_runtime TrueI)

lemma obeys_Remove [step_rules]: "obeys R (Remove env ns name)"
proof -
  have "obeys R (exchange (forget key))" for key
  proof (rule obeysI)
    fix s :: "'w Agent" show "R s (snd (exchange (forget key) s))"
      using step_forget [of s key] by (simp add: exchange_def split_beta)
  qed
  then show ?thesis unfolding Remove_def Let_def by (intro step_rules obeys_updateRuntimeStatus TrueI)
qed

lemma obeys_Shutdown [step_rules]: "obeys R (Shutdown env)"
proof -
  have "obeys R (exchange (\<lambda>m. (sort (m_servers m), m\<lparr>m_servers := [], m_routes := []\<rparr>)))"
    by (rule obeysI) (simp add: exchange_def step_shutdown)
  then show ?thesis unfolding Shutdown_def by (intro step_rules)
qed

lemma obeys_ReadyCheck [step_rules]: "obeys R (ReadyCheck env)"
  unfolding ReadyCheck_def by (intro step_rules)

end

section \<open>The state machine\<close>

text \<open>
  \<open>handleProxy\<close> changes the round-robin counters; \<open>outside\<close> is everything that happens between
  two operations: containers die, files change, time passes.
\<close>

datatype operation =
    OpApply Runtime
  | OpRemove string string
  | OpLoad
  | OpResync
  | OpShutdown
  | OpReady
  | OpRequest int http_request

fun perform :: "'w Env \<Rightarrow> operation \<Rightarrow> 'w Agent \<Rightarrow> 'w Agent" where
  "perform env (OpApply r) s = snd (Apply env r s)"
| "perform env (OpRemove ns name) s = snd (Remove env ns name s)"
| "perform env OpLoad s = snd (Load env s)"
| "perform env OpResync s = snd (Resync env s)"
| "perform env OpShutdown s = snd (Shutdown env s)"
| "perform env OpReady s = snd (ReadyCheck env s)"
| "perform env (OpRequest port rq) s = s\<lparr>ag_m := snd (handleProxy (ag_m s) port rq)\<rparr>"

inductive reachable :: "'w Env \<Rightarrow> 'w Agent \<Rightarrow> bool" for env where
  start: "reachable env \<lparr>ag_m = NewManager, ag_w = w, ag_trace = []\<rparr>"
| step: "reachable env s \<Longrightarrow> reachable env (perform env op s)"
| outside: "reachable env s \<Longrightarrow> reachable env (s\<lparr>ag_w := w\<rparr>)"

text \<open>
  An invariant of the manager holds in every reachable state if it holds at the start, is kept by
  requests, and the relation "keeps the invariant" is a \<open>manager_step\<close>.
\<close>

definition keeps :: "(ManagerState \<Rightarrow> bool) \<Rightarrow> 'w Agent \<Rightarrow> 'w Agent \<Rightarrow> bool" where
  "keeps I s t \<longleftrightarrow> (I (ag_m s) \<longrightarrow> I (ag_m t))"

lemma reachable_invariant:
  assumes "manager_step (keeps I :: 'w Agent \<Rightarrow> _) env allowed" "I NewManager"
    and "reachable env s"
    and request: "\<And>m port rq. I m \<Longrightarrow> I (snd (handleProxy m port rq))"
  shows "I (ag_m s)"
  using assms(3)
proof induction
  case (step s op)
  note kept = manager_step.obeys_Apply manager_step.obeys_Remove manager_step.obeys_Load
    manager_step.obeys_Resync manager_step.obeys_Shutdown manager_step.obeys_ReadyCheck
  show ?case
  proof (cases op)
    case (OpRequest port rq)
    then show ?thesis using request [OF step.IH] by simp
  qed (use step.IH kept [OF assms(1)] in \<open>simp_all add: keeps_def obeys_def\<close>)
qed (use assms(2) in simp_all)

end
