(* ===== verification/SampleAgent.thy ===== *)
theory SampleAgent
  imports Operations Samples
begin

text \<open>
  A small world on which the operations can be evaluated: a Docker that keeps container names,
  a clock that each reading and each wait advances, and a store that keeps the last Runtime
  written under a key. It serves the witnesses only.
\<close>

record sample_world =
  sw_containers :: "string list"
  sw_clock :: int
  sw_specs :: "Runtime gomap"
  sw_broken :: bool

definition sample_output :: "string \<Rightarrow> string" where
  "sample_output format =
     (if format = ready_format then ''true|healthy''
      else if format = state_format then ''true|running|0|healthy''
      else if prefix ''{{index'' format then ''hash''
      else ''true|healthy|10.0.0.2'')"

text \<open>A broken Docker starts no container.\<close>

definition sample_run :: "string \<Rightarrow> string list \<Rightarrow> sample_world run" where
  "sample_run command args w =
     (let good = (\<lambda>out. (\<lparr>cr_Stdout = out, cr_Stderr = []\<rparr>, None));
          bad = (\<lparr>cr_Stdout = [], cr_Stderr = []\<rparr>, Some ''exit status 1'')
      in case args of
           verb # rest \<Rightarrow>
             if verb = ''run'' then
               (if sw_broken w then (bad, w)
                else (good [], w\<lparr>sw_containers := args ! 3 # sw_containers w\<rparr>))
             else if verb = ''rm'' then (good [], w\<lparr>sw_containers := remove1 (args ! 2) (sw_containers w)\<rparr>)
             else if verb = ''inspect'' then
               (if args ! 3 \<in> set (sw_containers w) then (good (sample_output (args ! 2)), w) else (bad, w))
             else if verb = ''ps'' \<and> last args = ''{{.Names}}'' then
               (good (join_with newline (sw_containers w)), w)
             else (good [], w)
         | [] \<Rightarrow> (bad, w))"

definition sample_store :: "sample_world RuntimeStateStore" where
  "sample_store =
     \<lparr>sto_Root = ''/state'', sto_Ensure = (\<lambda>w. (None, w)),
      sto_SaveRuntime = (\<lambda>r w. (None, w\<lparr>sw_specs := map_set (sw_specs w) (key_String (KeyForRuntime r)) r\<rparr>)),
      sto_ReadRuntime = (\<lambda>ns name w. (case map_of (sw_specs w) (ns @ ''/'' @ name) of
          None \<Rightarrow> Inl (Text ''no such file'') | Some r \<Rightarrow> Inr r, w)),
      sto_LoadAll = (\<lambda>w. (Inr (map snd (sw_specs w)), w)),
      sto_SaveStatus = (\<lambda>r st w. (None, w)),
      sto_ReadStatus = (\<lambda>ns name w. (Inl (Text ''no such file''), w)),
      sto_AppendEvent = (\<lambda>ns name t reason msg w. (None, w)),
      sto_ReadEvents = (\<lambda>ns name tail w. (Inr [], w)),
      sto_DeleteRuntime = (\<lambda>ns name w. (None, w\<lparr>sw_specs := map_del (sw_specs w) (ns @ ''/'' @ name)\<rparr>))\<rparr>"

definition sample_env :: "nat \<Rightarrow> sample_world Env" where
  "sample_env fuel =
     \<lparr>env_Config = DefaultRuntimeConfig, env_Store = sample_store,
      env_Admit = AdmitRuntime (cfg_Node DefaultRuntimeConfig),
      env_Run = sample_run, env_RunWithInput = None,
      env_Now = (\<lambda>w. (sw_clock w, w\<lparr>sw_clock := sw_clock w + 1\<rparr>)),
      env_Wait = (\<lambda>d w. (None, w\<lparr>sw_clock := sw_clock w + d\<rparr>)),
      env_Cancelled = (\<lambda>w. (None, w)), env_MkdirTemp = (\<lambda>w. (Inr ''/tmp/d'', w)),
      env_RemoveAll = (\<lambda>dir w. ((), w)), env_Listen = (\<lambda>port w. (None, w)),
      env_CloseListener = (\<lambda>port w. ((), w)), env_Shutdown = (\<lambda>port w. (None, w)),
      env_WriteRoutes = (\<lambda>path routes w. (None, w)), env_Sprintf = (\<lambda>template port path. template),
      env_Digest = (\<lambda>d. ''hash''), env_Format = itoa, env_FormatSeconds = itoa, env_Texts = (\<lambda>e. ''error''), env_Fuel = fuel\<rparr>"

definition sample_agent :: "bool \<Rightarrow> sample_world Agent" where
  "sample_agent broken =
     \<lparr>ag_m = NewManager,
      ag_w = \<lparr>sw_containers = [], sw_clock = 1, sw_specs = [], sw_broken = broken\<rparr>, ag_trace = []\<rparr>"

lemma sample_reachable: "reachable (sample_env fuel) (sample_agent broken)"
  unfolding sample_agent_def by (rule reachable.start)

end
