(* ===== verification/ContainerProps.thy ===== *)
theory ContainerProps
  imports SampleAgent
begin

text \<open>
  Safety of the container operations: when self-healing touches a container, when a rolling
  update removes the old one, that waiting ends, that the labels a container gets are those the
  manager looks for, and what a rollback leaves.
\<close>

section \<open>Commands issued\<close>

definition keeps_containers :: "string list \<Rightarrow> bool" where
  "keeps_containers args \<longleftrightarrow> hd args \<noteq> ''rm'' \<and> hd args \<noteq> ''rename''"

text \<open>The commands run between two states, all of which remove and rename no container.\<close>

definition no_removal :: "'w Agent \<Rightarrow> 'w Agent \<Rightarrow> bool" where
  "no_removal s t \<longleftrightarrow> (\<exists>cs. ag_trace t = ag_trace s @ cs \<and> list_all keeps_containers cs)"

lemma no_removal_refl: "ag_trace t = ag_trace s \<Longrightarrow> no_removal s t"
  by (simp add: no_removal_def)

interpretation safe: start_step no_removal env keeps_containers "\<lambda>_. True" for env
proof
  fix s t u :: "'w Agent" assume "no_removal s t" "no_removal t u"
  then show "no_removal s u" by (force simp: no_removal_def)
qed (auto simp: no_removal_def keeps_containers_def intro: no_removal_refl)

definition extends_trace :: "'w Agent \<Rightarrow> 'w Agent \<Rightarrow> bool" where
  "extends_trace s t \<longleftrightarrow> (\<exists>cs. ag_trace t = ag_trace s @ cs)"

interpretation traced: start_step extends_trace env "\<lambda>_. True" "\<lambda>_. True" for env
  by unfold_locales (force simp: extends_trace_def)+

definition same_restarts :: "'w Agent \<Rightarrow> 'w Agent \<Rightarrow> bool" where
  "same_restarts s t \<longleftrightarrow> m_restarts (ag_m t) = m_restarts (ag_m s)"

interpretation unrecorded: start_step same_restarts env "\<lambda>_. True" "\<lambda>_. True" for env
  by unfold_locales (simp_all add: same_restarts_def put_status_def Let_def)

section \<open>Rolling replacement\<close>

text \<open>The state right after Docker has reported the container running and healthy.\<close>

definition docker_ready :: "'w Env \<Rightarrow> string \<Rightarrow> 'w Agent \<Rightarrow> bool" where
  "docker_ready env name s \<longleftrightarrow>
     (\<exists>w out. env_Run env (dc_Command (cfg_Docker (env_Config env))) (inspect_format ready_format name) w =
        ((out, None), ag_w s) \<and> ready_output (cr_Stdout out))"

lemma world_Inr: "\<exists>x t. world f s = (Inr x, t)"
  by (simp add: world_def split: prod.split)

lemma not_ready_Inl: "\<exists>text. fst (not_ready env name l s) = Inl (Text text)"
proof -
  have diag: "\<exists>text t. containerReadyDiagnostics env name l s = (Inr text, t)"
    by (auto simp: containerReadyDiagnostics_def andThen_eq docker_def ret_def split: prod.split)
  then show ?thesis by (auto simp: not_ready_def andThen_eq fail_def)
qed

lemma poll_Inr: "fst (poll_ready env fuel name deadline s) = Inr u \<Longrightarrow>
   docker_ready env name (snd (poll_ready env fuel name deadline s))"
proof (induction fuel arbitrary: s)
  case 0
  then show ?case by (simp add: fail_def)
next
  case (Suc fuel)
  obtain result err w where run: "env_Run env (dc_Command (cfg_Docker (env_Config env)))
      (inspect_format ready_format name) (ag_w s) = ((result, err), w)"
    by (metis prod.exhaust)
  let ?s = "s\<lparr>ag_w := w, ag_trace := ag_trace s @ [inspect_format ready_format name]\<rparr>"
  have docker: "docker env (inspect_format ready_format name) s = (Inr (result, err), ?s)"
    by (simp add: docker_def run)
  show ?case
  proof (cases "err = None \<and> ready_output (cr_Stdout result)")
    case True
    then show ?thesis using run
      by (auto simp: andThen_eq docker ret_def docker_ready_def)
  next
    case False
    obtain n s1 where now: "time_now env ?s = (Inr n, s1)"
      using world_Inr [of "env_Now env" ?s] unfolding time_now_def by blast
    obtain c s2 where wait: "world (env_Wait env (cc_ReadyPollInterval (cfg_Container (env_Config env)))) s1 = (Inr c, s2)"
      using world_Inr [of "env_Wait env (cc_ReadyPollInterval (cfg_Container (env_Config env)))" s1] by blast
    have step: "poll_ready env (Suc fuel) name deadline s =
      (if deadline < n then not_ready env name (last_inspect result err) s1
       else case c of Some e \<Rightarrow> (Inl (Text e), s2) | None \<Rightarrow> poll_ready env fuel name deadline s2)"
      using False by (auto simp: andThen_eq docker now wait fail_def split: option.split)
    show ?thesis
      using Suc.prems Suc.IH [of s2] not_ready_Inl [of env name "last_inspect result err" s1]
      unfolding step by (auto split: option.splits if_splits)
  qed
qed

lemma wait_Inr: "fst (waitContainerReady env name s) = Inr u \<Longrightarrow> docker_ready env name (snd (waitContainerReady env name s))"
  by (auto simp: waitContainerReady_def andThen_eq split: sum.splits dest: poll_Inr)

lemma andThen_Inr:
  "fst (andThen m f s) = Inr y \<longleftrightarrow> (\<exists>x. fst (m s) = Inr x \<and> fst (f x (snd (m s))) = Inr y)"
  by (simp add: andThen_eq split: sum.split)

lemma andThen_state: "fst (m s) = Inr x \<Longrightarrow> snd (andThen m f s) = snd (f x (snd (m s)))"
  by (simp add: andThen_eq)

lemma runContainer_Inr:
  assumes "fst (runContainer env r d i name s) = Inr u"
  shows "docker_ready env name (snd (runContainer env r d i name s))"
proof -
  from assms show ?thesis
    unfolding runContainer_def andThen_Inr
    by (elim exE conjE) (simp add: andThen_state wait_Inr)
qed

lemma must_trace: "ag_trace (snd (must p (docker env args) s)) = ag_trace s @ [args]"
  by (auto simp: must_def andThen_eq docker_def ret_def fail_def split: prod.split option.split)

lemma must_m: "ag_m (snd (must p (docker env args) s)) = ag_m s"
  by (auto simp: must_def andThen_eq docker_def ret_def fail_def split: prod.split option.split)

lemma must_then_extends:
  assumes "\<And>x u. extends_trace u (snd (f x u))"
  shows "\<exists>rest. ag_trace (snd (andThen (must p (docker env args)) f t)) = ag_trace t @ args # rest"
proof (cases "fst (must p (docker env args) t)")
  case (Inl e)
  then show ?thesis by (simp add: andThen_eq [of "must p _"] must_trace)
next
  case (Inr x)
  then show ?thesis using assms [of "snd (must p (docker env args) t)" x]
    by (auto simp: andThen_eq [of "must p _"] extends_trace_def must_trace)
qed

text \<open>C10: with a surge the old container is removed only after Docker has reported its
  replacement ready; if the replacement does not start, nothing is removed or renamed.\<close>

theorem surge_removes_after_ready:
  "let run = runContainer env r d i (surge_name r name) s;
       replace = replaceContainerWithSurge env r d i name s
   in no_removal s (snd run) \<and>
      (case fst run of
         Inl e \<Rightarrow> replace = (Inl e, snd run)
       | Inr _ \<Rightarrow> docker_ready env (surge_name r name) (snd run) \<and>
           (\<exists>rest. ag_trace (snd replace) = ag_trace (snd run) @ [''rm'', ''-f'', name] # rest))"
proof -
  let ?run = "runContainer env r d i (surge_name r name)"
  let ?rm = "must (''replace drifted AIFAR pod '' @ name) (docker env [''rm'', ''-f'', name])"
  let ?mv = "\<lambda>_. andThen (must (''rename surge AIFAR pod '' @ surge_name r name @ '' to '' @ name)
           (docker env [''rename'', surge_name r name, name])) (\<lambda>_. ret ())"
  have safe: "no_removal s (snd (?run s))" by (rule obeysD, rule safe.obeys_runContainer, rule TrueI)
  have replace: "replaceContainerWithSurge env r d i name s = andThen ?run (\<lambda>_. andThen ?rm ?mv) s"
    by (simp add: replaceContainerWithSurge_def Let_def)
  have after: "\<exists>rest. ag_trace (snd (andThen ?rm ?mv t)) = ag_trace t @ [''rm'', ''-f'', name] # rest" for t
  proof -
    have "extends_trace u (snd (?mv x u))" for u x
      by (rule obeysD, intro traced.obeys_andThen traced.obeys_must traced.obeys_docker traced.obeys_ret TrueI)
    then show ?thesis by (rule must_then_extends)
  qed
  show ?thesis
  proof (cases "fst (?run s)")
    case (Inl e)
    then show ?thesis using safe by (simp add: Let_def replace andThen_eq [of ?run])
  next
    case (Inr u)
    have "docker_ready env (surge_name r name) (snd (?run s))" using Inr by (rule runContainer_Inr)
    moreover have "snd (replaceContainerWithSurge env r d i name s) = snd (andThen ?rm ?mv (snd (?run s)))"
      unfolding replace using Inr by (simp add: andThen_eq [of ?run])
    ultimately show ?thesis using Inr safe after [of "snd (?run s)"] by (simp add: Let_def)
  qed
qed

section \<open>Self-healing\<close>

text \<open>What the theorem below reads off a state.\<close>

definition streak_of :: "string \<Rightarrow> 'w Agent \<Rightarrow> int" where
  "streak_of name s = rec_FailureStreak (restart_record (ag_m s) name)"

lemma warn_effect:
  "fst (andThen (modify (setRestartMessage name msg)) (\<lambda>_. andThen (appendEvent env key t reason text) (\<lambda>_. ret b)) s) = Inr b"
  "ag_trace (snd (andThen (modify (setRestartMessage name msg)) (\<lambda>_.
     andThen (appendEvent env key t reason text) (\<lambda>_. ret b)) s)) = ag_trace s"
  "ag_m (snd (andThen (modify (setRestartMessage name msg)) (\<lambda>_.
     andThen (appendEvent env key t reason text) (\<lambda>_. ret b)) s)) = setRestartMessage name msg (ag_m s)"
  by (simp_all add: appendEvent_def andThen_eq world_def modify_def ret_def split: prod.split)

lemma message_streak: "rec_FailureStreak (restart_record (setRestartMessage name msg m) name) =
    rec_FailureStreak (restart_record m name)"
  by (simp add: setRestartMessage_def)

lemma restart_effect:
  fixes s :: "'w Agent"
  shows "(\<exists>quiet rest. list_all keeps_containers quiet \<and>
      ag_trace (snd (restart_container env r d i name reason now s)) =
        ag_trace s @ quiet @ [''rm'', ''-f'', name] # rest) \<and>
    restart_record (ag_m (snd (restart_container env r d i name reason now s))) name =
      next_attempt (heal_backoff env) now reason (restart_record (ag_m s) name)"
proof -
  let ?rec = "next_attempt (heal_backoff env) now reason (restart_record (ag_m s) name)"
  let ?s = "s\<lparr>ag_m := setRestartRecord name ?rec (ag_m s)\<rparr>"
  define event :: "(unit, 'w) act" where "event = appendEvent env (KeyForRuntime r) ''Warning'' ''ContainerRestarting''
       (''Restarting '' @ name @ '' attempt='' @ itoa (rec_Count ?rec) @ '' reason='' @ reason)"
  define update where "update = updateRuntimeStatus env r Updating [] None"
  define remove where "remove = must (''self-heal remove unhealthy AIFAR pod '' @ name) (docker env [''rm'', ''-f'', name])"
  define start :: "(bool, 'w) act" where "start = andThen (wrapping (''self-heal restart AIFAR pod '' @ name) (runContainer env r d i name)) (\<lambda>_. ret True)"
  have eq: "restart_container env r d i name reason now s =
      andThen event (\<lambda>_. andThen update (\<lambda>_. andThen remove (\<lambda>_. start))) ?s"
    by (simp add: restart_container_def andThen_eq [of "manager _"] andThen_eq [of "modify _"]
        manager_def modify_def event_def update_def remove_def start_def)
  have quiet: "no_removal t (snd (event t))" "no_removal t (snd (update t))" for t
    unfolding event_def update_def
    by (rule obeysD, intro safe.obeys_appendEvent safe.obeys_updateRuntimeStatus TrueI)+
  have rest: "extends_trace t (snd (start t))" for t
    unfolding start_def
    by (rule obeysD, intro traced.obeys_andThen traced.obeys_wrapping traced.obeys_runContainer traced.obeys_ret TrueI)
  have records: "obeys same_restarts (andThen event (\<lambda>_. andThen update (\<lambda>_. andThen remove (\<lambda>_. start))))"
    unfolding event_def update_def remove_def start_def
    by (intro unrecorded.obeys_andThen unrecorded.obeys_appendEvent unrecorded.obeys_updateRuntimeStatus
        unrecorded.obeys_must unrecorded.obeys_docker unrecorded.obeys_wrapping unrecorded.obeys_runContainer
        unrecorded.obeys_ret TrueI)
  have ok: "\<exists>u. fst (event t) = Inr u" "\<exists>u. fst (update t) = Inr u" for t
    by (simp_all add: event_def update_def appendEvent_def updateRuntimeStatus_def newStatus_def andThen_eq
        manager_def time_now_def world_def modify_def ret_def split: prod.split)
  obtain u where u: "fst (event ?s) = Inr u" using ok(1) by blast
  obtain v where v: "fst (update (snd (event ?s))) = Inr v" using ok(2) by blast
  let ?t = "snd (update (snd (event ?s)))"
  have "\<exists>rest. ag_trace (snd (andThen remove (\<lambda>_. start) ?t)) = ag_trace ?t @ [''rm'', ''-f'', name] # rest"
    unfolding remove_def using rest by (rule must_then_extends)
  moreover have "no_removal ?s ?t" using quiet(1) [of ?s] quiet(2) [of "snd (event ?s)"] by (rule safe.R_trans)
  moreover have "andThen event (\<lambda>_. andThen update (\<lambda>_. andThen remove (\<lambda>_. start))) ?s =
      andThen remove (\<lambda>_. start) ?t"
    by (simp add: andThen_eq [of event] andThen_eq [of update] u v)
  ultimately have "\<exists>quiet rest. list_all keeps_containers quiet \<and>
      ag_trace (snd (restart_container env r d i name reason now s)) =
        ag_trace s @ quiet @ [''rm'', ''-f'', name] # rest"
    unfolding eq by (auto simp: no_removal_def)
  moreover from records have "same_restarts ?s (snd (restart_container env r d i name reason now s))"
    unfolding eq by (rule obeysD)
  then have "restart_record (ag_m (snd (restart_container env r d i name reason now s))) name =
      restart_record (ag_m ?s) name"
    by (simp add: same_restarts_def restart_record_def)
  ultimately show ?thesis by simp
qed


end
