(* ===== verification/RollbackProps.thy ===== *)
theory RollbackProps
  imports ContainerProps "HOL-Library.Sublist"
begin

text \<open>
  That waiting for a container ends, that the labels of a container are those the manager looks
  for, and what a rollback leaves behind.
\<close>

section \<open>Waiting ends\<close>

text \<open>
  What the loop needs of time: \<open>time.Now\<close> reads a clock that never goes back, and
  \<open>time.After(d)\<close> fires no earlier than \<open>d\<close> later.
\<close>

definition clock_advances :: "'w Env \<Rightarrow> ('w \<Rightarrow> int) \<Rightarrow> bool" where
  "clock_advances env clock \<longleftrightarrow>
     (\<forall>w. fst (env_Now env w) = clock w \<and> clock w \<le> clock (snd (env_Now env w))) \<and>
     (\<forall>c args w. clock w \<le> clock (snd (env_Run env c args w))) \<and>
     (\<forall>d w. fst (env_Wait env d w) = None \<longrightarrow> clock w + d \<le> clock (snd (env_Wait env d w)))"

abbreviation poll_interval :: "'w Env \<Rightarrow> int" where
  "poll_interval env \<equiv> cc_ReadyPollInterval (cfg_Container (env_Config env))"

abbreviation ready_timeout :: "'w Env \<Rightarrow> int" where
  "ready_timeout env \<equiv> cc_ReadyTimeout (cfg_Container (env_Config env))"

lemma poll_ends:
  assumes "clock_advances env clock" "0 < fuel"
    and "deadline - clock (ag_w s) < (int fuel - 1) * poll_interval env"
  shows "fst (poll_ready env fuel name deadline s) \<noteq> Inl OutOfFuel"
  using assms(2,3)
proof (induction fuel arbitrary: s)
  case (Suc fuel)
  obtain result err w where run: "env_Run env (dc_Command (cfg_Docker (env_Config env)))
      (inspect_format ready_format name) (ag_w s) = ((result, err), w)"
    by (metis prod.exhaust)
  let ?s = "s\<lparr>ag_w := w, ag_trace := ag_trace s @ [inspect_format ready_format name]\<rparr>"
  have docker: "docker env (inspect_format ready_format name) s = (Inr (result, err), ?s)"
    by (simp add: docker_def run)
  have "clock (ag_w s) \<le> clock w" using assms(1) run unfolding clock_advances_def by (metis snd_conv)
  obtain n w1 where now: "env_Now env w = (n, w1)" by (metis prod.exhaust)
  have n: "n = clock w" "clock w \<le> clock w1" using assms(1) now unfolding clock_advances_def by (metis fst_conv, metis snd_conv)
  obtain c w2 where wait: "env_Wait env (poll_interval env) w1 = (c, w2)" by (metis prod.exhaust)
  have w2: "clock w1 + poll_interval env \<le> clock w2" if "c = None"
    using assms(1) wait that unfolding clock_advances_def by (metis fst_conv snd_conv)
  let ?s2 = "?s\<lparr>ag_w := w2\<rparr>"
  have step: "poll_ready env (Suc fuel) name deadline s =
      (if err = None \<and> ready_output (cr_Stdout result) then (Inr (), ?s)
       else if deadline < n then not_ready env name (last_inspect result err) (?s\<lparr>ag_w := w1\<rparr>)
       else case c of Some e \<Rightarrow> (Inl (Text e), ?s2) | None \<Rightarrow> poll_ready env fuel name deadline ?s2)"
    by (auto simp: andThen_eq docker time_now_def world_def now wait ret_def fail_def split: option.split)
  have next_round: "fst (poll_ready env fuel name deadline ?s2) \<noteq> Inl OutOfFuel" if "\<not> deadline < n" "c = None"
  proof (rule Suc.IH)
    have "clock (ag_w s) \<le> n" using n \<open>clock (ag_w s) \<le> clock w\<close> by simp
    with Suc.prems(2) that(1) have "0 < int fuel * poll_interval env" by simp
    then show "0 < fuel" by (cases fuel) auto
    have "deadline - clock (ag_w ?s2) \<le> deadline - clock (ag_w s) - poll_interval env"
      using w2 [OF that(2)] n \<open>clock (ag_w s) \<le> clock w\<close> by simp
    also have "\<dots> < (int fuel - 1) * poll_interval env"
      using Suc.prems(2) by (simp add: algebra_simps)
    finally show "deadline - clock (ag_w ?s2) < (int fuel - 1) * poll_interval env" .
  qed
  then show ?case
    using not_ready_Inl [of env name "last_inspect result err" "?s\<lparr>ag_w := w1\<rparr>"]
    unfolding step by (auto split: option.split)
qed simp

text \<open>C13: waiting for a container ends after at most \<open>readyTimeout / readyPollInterval + 2\<close>
  polls: with fuel for them the loop is never cut off.\<close>

theorem wait_terminates:
  assumes "clock_advances env clock" "0 < env_Fuel env"
    and "ready_timeout env < (int (env_Fuel env) - 1) * poll_interval env"
  shows "fst (waitContainerReady env name s) \<noteq> Inl OutOfFuel"
proof -
  obtain n w where now: "env_Now env (ag_w s) = (n, w)" by (metis prod.exhaust)
  have "n \<le> clock w" using assms(1) now unfolding clock_advances_def by (metis fst_conv snd_conv)
  with assms(3) have "(n + ready_timeout env) - clock (ag_w (s\<lparr>ag_w := w\<rparr>)) < (int (env_Fuel env) - 1) * poll_interval env"
    by simp
  from poll_ends [OF assms(1,2) this]
  show ?thesis by (simp add: waitContainerReady_def andThen_eq time_now_def world_def now)
qed

lemma sample_clock: "clock_advances (sample_env fuel) sw_clock"
  by (auto simp: clock_advances_def sample_env_def sample_run_def Let_def split: list.split)

theorem wait_terminates_witness:
  "fst (waitContainerReady (sample_env 200) ''c'' (sample_agent False)) \<noteq> Inl OutOfFuel"
  by (rule wait_terminates [OF sample_clock])
     (simp_all add: sample_env_def DefaultRuntimeConfig_def second_def minute_def)

section \<open>Ownership labels\<close>

text \<open>Every label the manager filters containers by, over all its listings.\<close>

definition filter_labels :: "Runtime \<Rightarrow> DeploymentSpec \<Rightarrow> string list" where
  "filter_labels r d =
     (let key = KeyForRuntime r
      in owner_filters key @
         [''aifar.runtime/deployment='' @ dep_Name d, ''aifar.runtime/generation='' @ itoa (generation r),
          ''aifar.app=aifar'', ''aifar.component=pod'', ''aifar.instance='' @ key_Name key,
          ''aifar.service='' @ dep_Name d])"

lemma sublist_concat_map: "x \<in> set xs \<Longrightarrow> sublist (f x) (concat (map f xs))"
  by (metis concat_map_singleton concat.simps(2) concat_append list.simps(9) map_append split_list sublist_appendI)

lemma sublist_middle: "sublist xs m \<Longrightarrow> sublist xs (pre @ m @ post)"
  by (meson sublist_appendI sublist_order.order_trans)

lemma run_args_split:
  assumes "run_args env r d i name = Inr args"
  shows "\<exists>pre post. args = pre @ concat (map label (owner_labels env r d i)) @ post"
proof (cases "env_from_args r d (dep_EnvFrom d)")
  case (Inl e)
  with assms show ?thesis by (simp add: run_args_def Let_def)
next
  case (Inr xs)
  show ?thesis using assms unfolding run_args_def Let_def Inr
    by (intro exI) (simp only: sum.case sum.inject append_assoc, erule sym)
qed



section \<open>Rollback\<close>

text \<open>What the proxy serves by.\<close>

definition routing_of :: "'w Agent \<Rightarrow> port_routes \<times> int list \<times> Endpoint list gomap" where
  "routing_of s = (m_routes (ag_m s), m_servers (ag_m s), m_endpoints (ag_m s))"

definition same_resources :: "'w Agent \<Rightarrow> 'w Agent \<Rightarrow> bool" where
  "same_resources s t \<longleftrightarrow> routing_of t = routing_of s \<and>
     m_specs (ag_m t) = m_specs (ag_m s) \<and> m_statuses (ag_m t) = m_statuses (ag_m s)"

interpretation untouched: reconcile_step same_resources env "\<lambda>_. True" "\<lambda>_. False" for env
  by unfold_locales
     (simp_all add: same_resources_def routing_of_def setRestartMessage_def markRestartHealthy_def Let_def)

lemma saving_m: "ag_m (snd (saving f s)) = ag_m s"
  by (auto simp: saving_def andThen_eq world_def raise_def ret_def fail_def split: prod.split option.split)

lemma saving_then_m:
  "(\<And>t. ag_m (snd (g t)) = ag_m t) \<Longrightarrow> ag_m (snd (andThen (saving f) (\<lambda>_. g) s)) = ag_m s"
  by (simp add: andThen_eq saving_m split: sum.split)

lemma newStatus_m: "\<exists>st t. newStatus env r ph eps err s = (Inr st, t) \<and> ag_m t = ag_m s"
  by (simp add: newStatus_def andThen_eq manager_def time_now_def world_def ret_def split: prod.split)

lemma restore_effect:
  "\<exists>st'. ag_m (snd (restorePreviousRuntime env r st s)) =
       put_status (NormalizeInPlace (NormalizeRuntime r)) st' (ag_m s) \<and> (rst_Phase st = NoPhase \<or> st' = st)"
proof -
  let ?r = "NormalizeInPlace (NormalizeRuntime r)"
  let ?save = "\<lambda>st'. andThen (saving (sto_SaveRuntime (env_Store env) ?r)) (\<lambda>_. saving (sto_SaveStatus (env_Store env) ?r st'))"
  have save: "ag_m (snd (?save st' t)) = ag_m t" for st' t
    by (rule saving_then_m) (rule saving_m)
  have written: "ag_m (snd (andThen (modify (put_status ?r st')) (\<lambda>_. ?save st') t)) = put_status ?r st' (ag_m t)" for st' t
    by (simp add: andThen_eq [of "modify _"] modify_def save)
  show ?thesis
  proof (cases "rst_Phase st = NoPhase")
    case True
    obtain st' t where new: "newStatus env ?r Running (runtimeEndpoints (ag_m s) ?r) None s = (Inr st', t)" "ag_m t = ag_m s"
      using newStatus_m [of env ?r Running "runtimeEndpoints (ag_m s) ?r" None s] by blast
    have "restorePreviousRuntime env r st s = andThen (modify (put_status ?r st')) (\<lambda>_. ?save st') t"
      using True by (simp add: restorePreviousRuntime_def Let_def andThen_eq manager_def new)
    with written [of st' t] new(2) True show ?thesis by auto
  next
    case False
    then have "restorePreviousRuntime env r st s = andThen (modify (put_status ?r st)) (\<lambda>_. ?save st) s"
      by (simp add: restorePreviousRuntime_def Let_def andThen_eq ret_def)
    with written [of st s] show ?thesis by auto
  qed
qed

lemma event_then: "\<exists>w. andThen (appendEvent env key t reason msg) (\<lambda>_. f) s = f (s\<lparr>ag_w := w\<rparr>)"
  by (auto simp: appendEvent_def andThen_eq world_def ret_def split: prod.split)

text \<open>The end of a rollback: an event, and the error that the update failed.\<close>

definition rollback_error :: "RuntimeError \<Rightarrow> RuntimeError \<Rightarrow> bool" where
  "rollback_error cause e \<longleftrightarrow>
     e = Wrap ''rolling update failed and was rolled back'' cause \<or>
     (\<exists>e'. e = Wrap ''rolling update failed and rollback failed'' (Joined [cause, e']))"

lemma fail_after_event:
  "fst (andThen (appendEvent env key t reason msg) (\<lambda>_. fail e) s) = Inl e"
  "ag_m (snd (andThen (appendEvent env key t reason msg) (\<lambda>_. fail e) s)) = ag_m s"
  by (simp_all add: appendEvent_def andThen_eq world_def ret_def fail_def split: prod.split)

lemma finish_m: "ag_m (snd (finish_rollback env previous cause a b t)) = ag_m t"
  by (simp add: finish_rollback_def Let_def fail_after_event split: option.split)

lemma finish_error: "\<exists>e. fst (finish_rollback env previous cause a b t) = Inl e \<and> rollback_error cause e"
  by (auto simp: finish_rollback_def Let_def fail_after_event rollback_error_def split: option.split)

text \<open>C9: however the clean-up and the writes end, a rollback leaves the previous Runtime and
  status in the manager, leaves routes, listeners and endpoints as they were, and reports the
  cause of the failed update.\<close>

theorem rollback_restores_previous:
  fixes s :: "'w Agent"
  shows "let out = rollbackRuntime env failed previous status cause s; key = key_String (KeyForRuntime previous)
   in map_of (m_specs (ag_m (snd out))) key = Some (NormalizeInPlace (NormalizeRuntime previous)) \<and>
      (rst_Phase status = NoPhase \<or> map_of (m_statuses (ag_m (snd out))) key = Some status) \<and>
      routing_of (snd out) = routing_of s \<and>
      (\<exists>e. fst out = Inl e \<and> rollback_error cause e)"
proof -
  let ?key = "KeyForRuntime previous"
  let ?clean = "removeOwnedContainersForGeneration env failed"
  let ?restore = "restorePreviousRuntime env previous status"
  have "\<exists>w. rollbackRuntime env failed previous status cause s =
      andThen (attempt ?clean) (\<lambda>cleanup. andThen (attempt ?restore) (\<lambda>restored.
        finish_rollback env previous cause cleanup restored)) (s\<lparr>ag_w := w\<rparr>)"
    unfolding rollbackRuntime_def by (rule event_then)
  then obtain w where start: "rollbackRuntime env failed previous status cause s =
      andThen (attempt ?clean) (\<lambda>cleanup. andThen (attempt ?restore) (\<lambda>restored.
        finish_rollback env previous cause cleanup restored)) (s\<lparr>ag_w := w\<rparr>)" by (rule exE)
  let ?s1 = "snd (?clean (s\<lparr>ag_w := w\<rparr>))"
  let ?s2 = "snd (?restore ?s1)"
  have eq: "rollbackRuntime env failed previous status cause s =
      finish_rollback env previous cause (fst (?clean (s\<lparr>ag_w := w\<rparr>))) (fst (?restore ?s1)) ?s2"
    unfolding start andThen_eq attempt_eq by simp
  have "same_resources (s\<lparr>ag_w := w\<rparr>) ?s1"
    by (rule obeysD) (rule untouched.obeys_removeGeneration)
  then have s1: "routing_of ?s1 = routing_of s" by (simp add: same_resources_def routing_of_def)
  obtain st' where put: "ag_m ?s2 = put_status (NormalizeInPlace (NormalizeRuntime previous)) st' (ag_m ?s1)"
    "rst_Phase status = NoPhase \<or> st' = status"
    using restore_effect by blast
  have key: "KeyForRuntime (NormalizeInPlace (NormalizeRuntime previous)) = ?key"
    by (simp add: NormalizeInPlace_normalized)
  have routing: "routing_of (snd (finish_rollback env previous cause a b ?s2)) = routing_of s" for a b
    using s1 by (simp add: routing_of_def finish_m put(1) put_status_def Let_def)
  show ?thesis
    unfolding eq Let_def finish_m put(1)
    using put(2) finish_error routing by (auto simp: put_status_def key map_of_set Let_def)
qed

end
