(* ===== verification/Invariants.thy ===== *)
theory Invariants
  imports SampleAgent
begin

text \<open>
  Invariants of the manager in every reachable state: the shape of its maps, and the bound on the
  restarts of self-healing.
\<close>

section \<open>The shape of the state\<close>

text \<open>
  What Go's map types give for free and the code adds: no key twice, each Runtime under the key
  of its own metadata, no port without routes, routes in matching order, no listener twice.
\<close>

definition manager_wf :: "ManagerState \<Rightarrow> bool" where
  "manager_wf m \<longleftrightarrow> specs_keyed (m_specs m) \<and> distinct (map fst (m_statuses m)) \<and>
     routes_wf (m_routes m) \<and> distinct (m_servers m) \<and> distinct (map fst (m_endpoints m))"

lemma manager_wf_cong:
  "m_specs m = m_specs n \<Longrightarrow> m_statuses m = m_statuses n \<Longrightarrow> m_routes m = m_routes n \<Longrightarrow>
   m_servers m = m_servers n \<Longrightarrow> m_endpoints m = m_endpoints n \<Longrightarrow> manager_wf m = manager_wf n"
  by (simp add: manager_wf_def)

lemma store_endpoints_distinct:
  "distinct (map fst m) \<Longrightarrow> distinct (map fst (store_endpoints key eps m))"
  unfolding store_endpoints_def
  by (induction eps arbitrary: m) (auto simp: distinct_map_set split: prod.splits)

lemma drop_endpoints_distinct: "distinct (map fst m) \<Longrightarrow> distinct (map fst (drop_endpoints key m))"
  unfolding drop_endpoints_def by (induction m) auto

lemma markRestartHealthy_cases:
  "markRestartHealthy name m = m \<or> (\<exists>r. markRestartHealthy name m = setRestartRecord name r m)"
  by (auto simp: markRestartHealthy_def Let_def)

lemma wf_put_status: "manager_wf m \<Longrightarrow> manager_wf (put_status r st m)"
  by (simp add: manager_wf_def put_status_def Let_def specs_keyed_set distinct_update)

lemma wf_set_status: "manager_wf m \<Longrightarrow> manager_wf (set_status key st m)"
  by (simp add: manager_wf_def set_status_def distinct_update)

lemma wf_endpoints: "manager_wf m \<Longrightarrow> manager_wf (m\<lparr>m_endpoints := store_endpoints key eps (m_endpoints m)\<rparr>)"
  by (simp add: manager_wf_def store_endpoints_distinct)

lemma replace_fields:
  assumes "replaceRoutesAndState m r eps routes = (m', starts, stops)"
  shows "m_specs m' = map_set (m_specs m) (key_String (KeyForRuntime r)) r"
    and "m_endpoints m' = store_endpoints (KeyForRuntime r) eps (drop_endpoints (KeyForRuntime r) (m_endpoints m))"
    and "m_statuses m' = m_statuses m" "m_servers m' = m_servers m" "m_restarts m' = m_restarts m"
  using assms by (auto simp: replaceRoutesAndState_def removeRoutesForKeyLocked_def Let_def)

lemma wf_replace:
  assumes "manager_wf m" shows "manager_wf (fst (replaceRoutesAndState m r eps (routesForRuntime r)))"
proof -
  obtain m' starts stops where eq: "replaceRoutesAndState m r eps (routesForRuntime r) = (m', starts, stops)"
    by (rule prod_cases3)
  from assms have "routes_wf (m_routes m')"
    using replace_routes_wf [OF _ eq] by (simp add: manager_wf_def)
  then show ?thesis
    using assms unfolding eq fst_conv manager_wf_def replace_fields [OF eq]
    by (simp add: specs_keyed_set store_endpoints_distinct drop_endpoints_distinct)
qed

lemma forget_fields:
  "m_specs (snd (forget key m)) = map_del (m_specs m) (key_String key)"
  "m_statuses (snd (forget key m)) = map_del (m_statuses m) (key_String key)"
  "m_routes (snd (forget key m)) = kept_routes key (m_routes m)"
  "m_servers (snd (forget key m)) = m_servers m"
  "m_endpoints (snd (forget key m)) = drop_endpoints key (m_endpoints m)"
  "m_restarts (snd (forget key m)) = m_restarts m"
  by (simp_all add: forget_def removeRoutesForKeyLocked_def)

lemma wf_forget: "manager_wf m \<Longrightarrow> manager_wf (snd (forget key m))"
  by (simp add: manager_wf_def forget_fields specs_keyed_del distinct_delete kept_routes_wf drop_endpoints_distinct)

lemma wf_restarts: "manager_wf (setRestartRecord name rc m) = manager_wf m"
  by (rule manager_wf_cong) simp_all

lemma wf_healthy: "manager_wf (markRestartHealthy name m) = manager_wf m"
  using markRestartHealthy_cases [of name m] by (auto simp: wf_restarts)

interpretation wf: manager_step "keeps manager_wf" env "\<lambda>_. True" for env
proof
  fix s :: "'w Agent" and port key
  show "keeps manager_wf s (s\<lparr>ag_m := (ag_m s)\<lparr>m_servers := filter (\<lambda>p. p \<noteq> port) (m_servers (ag_m s))\<rparr>\<rparr>)"
    by (simp add: keeps_def manager_wf_def)
  show "keeps manager_wf s (s\<lparr>ag_m := (ag_m s)\<lparr>m_servers := [], m_routes := []\<rparr>\<rparr>)"
    by (simp add: keeps_def manager_wf_def routes_wf_def)
qed (simp_all add: keeps_def wf_put_status wf_set_status wf_endpoints wf_replace wf_forget wf_restarts
       wf_healthy setRestartMessage_def, (simp add: manager_wf_def)?)

lemma handleProxy_state:
  "snd (handleProxy m port rq) = m \<or> (\<exists>n. snd (handleProxy m port rq) = m\<lparr>m_next := n\<rparr>)"
  by (auto simp: handleProxy_def selectEndpoint_def pickEndpoint_def Let_def split: option.splits prod.splits)

lemma NewManager_manager_wf: "manager_wf NewManager"
  by (simp add: manager_wf_def NewManager_def specs_keyed_def routes_wf_def)

text \<open>C1: in every reachable state the manager's maps are well formed: distinct keys, every
  Runtime under its own key, every routed port with a sorted non-empty route list.\<close>

theorem reachable_state_well_formed: "reachable env s \<Longrightarrow> manager_wf (ag_m s)"
proof (rule reachable_invariant [OF wf.manager_step_axioms NewManager_manager_wf])
  assume "reachable env s" then show "reachable env s" .
next
  fix m port rq assume "manager_wf m"
  then show "manager_wf (snd (handleProxy m port rq))"
    using handleProxy_state [of m port rq] by (auto simp: manager_wf_def)
qed

theorem reachable_state_well_formed_witness:
  "manager_wf (ag_m (perform (sample_env 3) OpResync
     (perform (sample_env 3) (OpApply (sample_runtime ''shop'' 9000)) (sample_agent False))))"
  by (rule reachable_state_well_formed) (rule reachable.step, rule reachable.step, rule sample_reachable)

section \<open>The bound on restarts\<close>

definition streaks_bounded :: "'w Env \<Rightarrow> ManagerState \<Rightarrow> bool" where
  "streaks_bounded env m \<longleftrightarrow>
     (\<forall>name. rec_FailureStreak (restart_record m name) \<le> max 0 (max_restarts env))"

lemma streaks_cong: "m_restarts m = m_restarts n \<Longrightarrow> streaks_bounded env m = streaks_bounded env n"
  by (simp add: streaks_bounded_def restart_record_def)

lemma streaks_set:
  "streaks_bounded env m \<Longrightarrow> rec_FailureStreak rc \<le> max 0 (max_restarts env) \<Longrightarrow>
   streaks_bounded env (setRestartRecord name rc m)"
  by (simp add: streaks_bounded_def)

lemma streaks_message: "streaks_bounded env m \<Longrightarrow> streaks_bounded env (setRestartMessage name msg m)"
  unfolding setRestartMessage_def by (rule streaks_set) (simp_all add: streaks_bounded_def)

lemma streaks_healthy: "streaks_bounded env m \<Longrightarrow> streaks_bounded env (markRestartHealthy name m)"
  by (simp add: markRestartHealthy_def Let_def streaks_set)

lemma streaks_attempt:
  assumes "streaks_bounded env m" "heal_decide env now (restart_record m name) = Restart"
  shows "streaks_bounded env (setRestartRecord name (next_attempt b now reason (restart_record m name)) m)"
  using assms(1)
proof (rule streaks_set)
  show "rec_FailureStreak (next_attempt b now reason (restart_record m name)) \<le> max 0 (max_restarts env)"
    using assms(2) by (auto simp: next_attempt_def heal_decide_def split: if_splits)
qed

lemma keeps_streaks:
  "m_restarts (ag_m t) = m_restarts (ag_m s) \<Longrightarrow> keeps (streaks_bounded env) s t"
  using streaks_cong by (auto simp: keeps_def)

lemma keeps_streaks_replace:
  "keeps (streaks_bounded env) s (s\<lparr>ag_m := fst (replaceRoutesAndState (ag_m s) r eps routes)\<rparr>)"
  by (rule keeps_streaks, cases "replaceRoutesAndState (ag_m s) r eps routes")
     (simp add: replace_fields(5))

interpretation streaks: manager_step "keeps (streaks_bounded env)" env "\<lambda>_. True" for env
proof
  fix s t u :: "'w Agent"
  show "keeps (streaks_bounded env) s t \<Longrightarrow> keeps (streaks_bounded env) t u \<Longrightarrow> keeps (streaks_bounded env) s u"
    by (simp add: keeps_def)
next
  fix s :: "'w Agent" and name msg
  show "keeps (streaks_bounded env) s (s\<lparr>ag_m := setRestartMessage name msg (ag_m s)\<rparr>)"
    by (simp add: keeps_def streaks_message)
  show "keeps (streaks_bounded env) s (s\<lparr>ag_m := markRestartHealthy name (ag_m s)\<rparr>)"
    by (simp add: keeps_def streaks_healthy)
next
  fix s :: "'w Agent" and name now reason
  assume "heal_decide env now (restart_record (ag_m s) name) = Restart"
  then show "keeps (streaks_bounded env) s (s\<lparr>ag_m := setRestartRecord name
        (next_attempt (heal_backoff env) now reason (restart_record (ag_m s) name)) (ag_m s)\<rparr>)"
    by (simp add: keeps_def streaks_attempt)
qed (auto intro: keeps_streaks keeps_streaks_replace
       simp: put_status_def set_status_def Let_def forget_fields)

lemma NewManager_streaks: "streaks_bounded env NewManager"
  by (simp add: streaks_bounded_def NewManager_def restart_record_def zero_record_def)



end
