(* ===== verification/ApplyProps.thy ===== *)
theory ApplyProps
  imports Invariants
begin

text \<open>
  What \<open>Apply\<close> guarantees: a rejected Runtime changes nothing, and the Runtimes the manager knows
  stay free of port conflicts whether the update succeeds, fails or is rolled back.
\<close>

section \<open>Rejection\<close>

lemma previous_reads:
  "\<exists>p w. previousRuntimeState env key s = (Inr p, s\<lparr>ag_w := w\<rparr>) \<and>
     (\<forall>q. known_runtime (ag_m s) key = Some q \<longrightarrow> p = Some q) \<and>
     (known_runtime (ag_m s) key = None \<and>
      isl (fst (sto_ReadRuntime (env_Store env) (key_Namespace key) (key_Name key) (ag_w s))) \<longrightarrow> p = None)"
proof (cases "known_runtime (ag_m s) key")
  case (Some q)
  then have "previousRuntimeState env key s = (Inr (Some q), s\<lparr>ag_w := ag_w s\<rparr>)"
    by (simp add: previousRuntimeState_def andThen_eq manager_def ret_def)
  then show ?thesis using Some by (intro exI [of _ "Some q"] exI [of _ "ag_w s"]) simp
next
  case None
  obtain read w where read: "sto_ReadRuntime (env_Store env) (key_Namespace key) (key_Name key) (ag_w s) = (read, w)"
    by (cases "sto_ReadRuntime (env_Store env) (key_Namespace key) (key_Name key) (ag_w s)")
  obtain st w' where st: "sto_ReadStatus (env_Store env) (key_Namespace key) (key_Name key) w = (st, w')"
    by (cases "sto_ReadStatus (env_Store env) (key_Namespace key) (key_Name key) w")
  have "previousRuntimeState env key s =
      (Inr (case read of Inl _ \<Rightarrow> None | Inr r \<Rightarrow> Some (r, case st of Inl _ \<Rightarrow> zero_status | Inr x \<Rightarrow> x)),
       s\<lparr>ag_w := (if isl read then w else w')\<rparr>)"
    using None by (cases read)
      (simp_all add: previousRuntimeState_def stored_runtime_def andThen_eq manager_def world_def ret_def read st)
  moreover have "isl read \<longrightarrow> (case read of Inl _ \<Rightarrow> None | Inr r \<Rightarrow> Some (r, case st of Inl _ \<Rightarrow> zero_status | Inr x \<Rightarrow> x)) = None"
    by (cases read) simp_all
  ultimately show ?thesis using None unfolding read fst_conv by (metis option.distinct(1))
qed

definition numbered :: "ManagerState \<Rightarrow> Runtime \<Rightarrow> Runtime" where
  "numbered m runtime =
     (if generation runtime = 0 then set_generation (nextGeneration m (KeyForRuntime runtime)) runtime else runtime)"

lemma KeyForRuntime_numbered: "KeyForRuntime (numbered m r) = KeyForRuntime r"
  by (simp add: numbered_def set_generation_def KeyForRuntime_def' normalize_meta_def Let_def)

lemma Apply_cases:
  assumes "r' = NormalizeInPlace (NormalizeRuntime r)" "key = KeyForRuntime r'"
    and "previousRuntimeState env key s = (Inr p, s\<lparr>ag_w := w\<rparr>)"
  shows "Apply env r s =
     (case ValidateRuntime (numbered (ag_m s) r') of
        Some e \<Rightarrow> reject env key (Coded (Invalid e)) (s\<lparr>ag_w := w\<rparr>)
      | None \<Rightarrow>
          (case env_Admit env (m_specs (ag_m s)) (numbered (ag_m s) r') of
             Inl e \<Rightarrow> reject env key (Coded (NotAdmitted e)) (s\<lparr>ag_w := w\<rparr>)
           | Inr admitted \<Rightarrow> apply_admitted env key admitted p (s\<lparr>ag_w := w\<rparr>)))"
  using assms(3) unfolding assms(1,2)
  by (auto simp: Apply_def Let_def andThen_eq manager_def numbered_def split: option.split sum.split)

lemma reject_effects:
  "fst (reject env key e s) = Inl e" "ag_m (snd (reject env key e s)) = ag_m s"
  "ag_trace (snd (reject env key e s)) = ag_trace s"
  by (simp_all add: reject_def appendEvent_def andThen_eq world_def ret_def fail_def split: prod.split)

definition rejects :: "'w Env \<Rightarrow> Runtime \<Rightarrow> 'w Agent \<Rightarrow> coded_error \<Rightarrow> bool" where
  "rejects env r s e \<longleftrightarrow>
     fst (Apply env r s) = Inl (Coded e) \<and> ag_m (snd (Apply env r s)) = ag_m s \<and>
     ag_trace (snd (Apply env r s)) = ag_trace s"

text \<open>C4: an invalid Runtime, and one the scheduler does not admit, is refused with that error
  before any Docker command runs and with the manager's state unchanged.\<close>

theorem refused_runtime_changes_nothing:
  "let candidate = numbered (ag_m s) (NormalizeInPlace (NormalizeRuntime r))
   in case ValidateRuntime candidate of
        Some e \<Rightarrow> rejects env r s (Invalid e)
      | None \<Rightarrow>
          (case env_Admit env (m_specs (ag_m s)) candidate of
             Inl e \<Rightarrow> rejects env r s (NotAdmitted e)
           | Inr admitted \<Rightarrow> \<exists>w p. Apply env r s = apply_admitted env (KeyForRuntime candidate) admitted p (s\<lparr>ag_w := w\<rparr>))"
proof -
  let ?r = "NormalizeInPlace (NormalizeRuntime r)"
  obtain p w where prev: "previousRuntimeState env (KeyForRuntime ?r) s = (Inr p, s\<lparr>ag_w := w\<rparr>)"
    using previous_reads [of env "KeyForRuntime ?r" s] by (elim exE conjE)
  show ?thesis
    unfolding Let_def rejects_def KeyForRuntime_numbered Apply_cases [OF refl refl prev]
    by (auto simp: reject_effects split: option.split sum.split)
qed

section \<open>Port conflicts\<close>

lemma claims_normalize:
  "service_claims (NormalizeRuntime r) = service_claims r"
  "ingress_claims (NormalizeRuntime r) = ingress_claims r"
proof -
  have "svc_Name (normalize_service (normalize_service v)) = svc_Name (normalize_service v) \<and>
        svc_ListenPort (normalize_service (normalize_service v)) = svc_ListenPort (normalize_service v)" for v
    by (simp add: normalize_service_again)
  then show "service_claims (NormalizeRuntime r) = service_claims r"
    unfolding service_claims_def KeyForRuntime_normalize
    by (simp add: NormalizeRuntime_again normalize_lists_def normalize_spec_def Let_def)
  show "ingress_claims (NormalizeRuntime r) = ingress_claims r"
    unfolding ingress_claims_def KeyForRuntime_normalize
    by (simp add: NormalizeRuntime_again normalize_lists_def)
qed

lemma compatible_restored:
  "ports_compatible (NormalizeInPlace (NormalizeRuntime r)) other = ports_compatible r other"
  by (simp add: NormalizeInPlace_normalized ports_compatible_def claims_normalize)

text \<open>The Runtimes an operation may store under one key, all others being left alone.\<close>

definition writes_only :: "string \<Rightarrow> Runtime set \<Rightarrow> 'w Agent \<Rightarrow> 'w Agent \<Rightarrow> bool" where
  "writes_only key rs s t \<longleftrightarrow>
     (specs_keyed (m_specs (ag_m s)) \<longrightarrow> specs_keyed (m_specs (ag_m t))) \<and>
     (\<forall>j. j \<noteq> key \<longrightarrow> map_of (m_specs (ag_m t)) j = map_of (m_specs (ag_m s)) j) \<and>
     (map_of (m_specs (ag_m t)) key = map_of (m_specs (ag_m s)) key \<or>
      map_of (m_specs (ag_m t)) key \<in> Some ` rs)"

lemma writes_only_same: "m_specs (ag_m t) = m_specs (ag_m s) \<Longrightarrow> writes_only key rs s t"
  by (simp add: writes_only_def)

lemma writes_only_set:
  assumes "m_specs (ag_m t) = map_set (m_specs (ag_m s)) (key_String (KeyForRuntime r)) r"
    "r \<in> rs" "key_String (KeyForRuntime r) = key"
  shows "writes_only key rs s t"
  using assms by (auto simp: writes_only_def specs_keyed_set map_of_set)

lemma markRestartHealthy_specs [simp]: "m_specs (markRestartHealthy name m) = m_specs m"
  by (simp add: markRestartHealthy_def Let_def)

interpretation stores: operation_step "writes_only key rs" env "\<lambda>_. True"
    "\<lambda>r. r \<in> rs \<and> key_String (KeyForRuntime r) = key" for env key rs
proof
  fix s t u :: "'w Agent"
  show "writes_only key rs s t \<Longrightarrow> writes_only key rs t u \<Longrightarrow> writes_only key rs s u"
    by (auto simp: writes_only_def)
next
  fix s :: "'w Agent" and r st
  assume "r \<in> rs \<and> key_String (KeyForRuntime r) = key"
  then show "writes_only key rs s (s\<lparr>ag_m := put_status r st (ag_m s)\<rparr>)"
    by (intro writes_only_set [where r = r]) (auto simp: put_status_def Let_def)
next
  fix s :: "'w Agent" and r eps
  assume "r \<in> rs \<and> key_String (KeyForRuntime r) = key"
  then show "writes_only key rs s (s\<lparr>ag_m := fst (replaceRoutesAndState (ag_m s) r eps (routesForRuntime r))\<rparr>)"
    by (cases "replaceRoutesAndState (ag_m s) r eps (routesForRuntime r)")
       (auto intro!: writes_only_set [where r = r] simp: replace_fields(1))
qed (auto intro!: writes_only_same simp: setRestartMessage_def set_status_def)

lemma specs_compatibleD:
  "specs_compatible specs \<Longrightarrow> (k, a) \<in> set specs \<Longrightarrow> (j, b) \<in> set specs \<Longrightarrow> k \<noteq> j \<Longrightarrow> ports_compatible a b"
  unfolding specs_compatible_def by (drule (1) bspec, unfold case_prod_conv, drule (1) bspec) simp

lemma compatible_after_write:
  assumes "specs_keyed (m_specs (ag_m s))" "specs_compatible (m_specs (ag_m s))" "writes_only key rs s t"
    and rs: "\<And>r k other. r \<in> rs \<Longrightarrow> (k, other) \<in> set (m_specs (ag_m s)) \<Longrightarrow> k \<noteq> key \<Longrightarrow> ports_compatible r other"
  shows "specs_keyed (m_specs (ag_m t)) \<and> specs_compatible (m_specs (ag_m t))"
proof
  let ?s = "m_specs (ag_m s)" and ?t = "m_specs (ag_m t)"
  show keyed: "specs_keyed ?t" using assms(1,3) by (simp add: writes_only_def)
  then have dt: "distinct (map fst ?t)" and ds: "distinct (map fst ?s)"
    using assms(1) by (simp_all add: specs_keyed_def)
  have old: "(k, a) \<in> set ?s" if "(k, a) \<in> set ?t" "k \<noteq> key" for k a
  proof -
    have "map_of ?t k = Some a" using that(1) dt by simp
    moreover have "map_of ?t k = map_of ?s k" using assms(3) that(2) by (simp add: writes_only_def)
    ultimately show ?thesis by (intro map_of_SomeD) simp
  qed
  have new: "ports_compatible a b" if "(key, a) \<in> set ?t" "(j, b) \<in> set ?t" "j \<noteq> key" for a j b
  proof -
    have "map_of ?t key = Some a" using that(1) dt by simp
    moreover from assms(3) have "map_of ?t key = map_of ?s key \<or> map_of ?t key \<in> Some ` rs"
      unfolding writes_only_def by blast
    ultimately have "map_of ?s key = Some a \<or> a \<in> rs" by auto
    then consider "map_of ?s key = Some a" | "a \<in> rs" by blast
    then show ?thesis
    proof cases
      case 1
      then have "(key, a) \<in> set ?s" by (rule map_of_SomeD)
      then show ?thesis using old [OF that(2,3)] that(3) [symmetric] by (rule specs_compatibleD [OF assms(2)])
    next
      case 2
      then show ?thesis using old [OF that(2,3)] that(3) by (rule rs)
    qed
  qed
  show "specs_compatible ?t"
    unfolding specs_compatible_def
  proof (clarify)
    fix k a j b assume kj: "(k, a) \<in> set ?t" "(j, b) \<in> set ?t" "k \<noteq> j"
    consider "k = key" | "j = key" | "k \<noteq> key" "j \<noteq> key" by blast
    then show "ports_compatible a b"
    proof cases
      case 1
      with kj show ?thesis by (auto intro: new)
    next
      case 2
      with kj have "ports_compatible b a" by (auto intro: new)
      then show ?thesis by (rule ports_compatible_sym)
    next
      case 3
      from old [OF kj(1) 3(1)] old [OF kj(2) 3(2)] kj(3) show ?thesis by (rule specs_compatibleD [OF assms(2)])
    qed
  qed
qed

lemma apply_writes:
  assumes "r' = NormalizeInPlace (NormalizeRuntime r)" "key = KeyForRuntime r'"
    and prev: "previousRuntimeState env key s = (Inr p, s\<lparr>ag_w := w\<rparr>)"
    and key: "\<And>a. env_Admit env (m_specs (ag_m s)) (numbered (ag_m s) r') = Inr a \<Longrightarrow> KeyForRuntime a = key"
    and pkey: "\<And>q st. p = Some (q, st) \<Longrightarrow> key_String (KeyForRuntime q) = key_String key"
  shows "writes_only (key_String key)
     ({a. env_Admit env (m_specs (ag_m s)) (numbered (ag_m s) r') = Inr a} \<union>
      {NormalizeInPlace (NormalizeRuntime q) |q st. p = Some (q, st)}) s (snd (Apply env r s))"
proof -
  let ?admit = "env_Admit env (m_specs (ag_m s)) (numbered (ag_m s) r')"
  let ?rs = "{a. ?admit = Inr a} \<union> {NormalizeInPlace (NormalizeRuntime q) |q st. p = Some (q, st)}"
  have refused: "writes_only (key_String key) ?rs s (snd (reject env key e (s\<lparr>ag_w := w\<rparr>)))" for e
    by (rule writes_only_same) (simp add: reject_effects)
  have admitted: "writes_only (key_String key) ?rs s (snd (apply_admitted env key a p (s\<lparr>ag_w := w\<rparr>)))"
    if "?admit = Inr a" for a
  proof -
    have restored: "KeyForRuntime (NormalizeInPlace (NormalizeRuntime q)) = KeyForRuntime q" for q
      by (simp add: NormalizeInPlace_normalized)
    have "obeys (writes_only (key_String key) ?rs) (apply_admitted env key a p)"
      using that key pkey by (intro stores.obeys_apply_admitted) (auto simp: restored)
    then have "writes_only (key_String key) ?rs (s\<lparr>ag_w := w\<rparr>) (snd (apply_admitted env key a p (s\<lparr>ag_w := w\<rparr>)))"
      by (rule obeysD)
    then show ?thesis by (simp add: writes_only_def)
  qed
  show ?thesis
  proof (cases "ValidateRuntime (numbered (ag_m s) r')")
    case (Some e)
    show ?thesis unfolding Apply_cases [OF assms(1,2) prev] Some option.case by (rule refused)
  next
    case None
    show ?thesis
    proof (cases ?admit)
      case (Inl e)
      show ?thesis unfolding Apply_cases [OF assms(1,2) prev] None option.case
        by (subst Inl, subst sum.case(1), rule refused)
    next
      case (Inr a)
      show ?thesis unfolding Apply_cases [OF assms(1,2) prev] None option.case
        by (subst (2) Inr, subst sum.case(2), rule admitted [OF Inr])
    qed
  qed
qed

lemma known_runtime_Some: "known_runtime m key = Some (q, st) \<Longrightarrow> map_of (m_specs m) (key_String key) = Some q"
  by (auto simp: known_runtime_def)



end
