(* ===== verification/Outcomes.thy ===== *)
theory Outcomes
  imports RollbackProps ApplyProps
begin

text \<open>
  What an operation that returns no error has achieved: after \<open>Apply\<close> the admitted Runtime is known,
  routed and listened for; after \<open>Remove\<close> nothing of the Runtime is left in the manager.
\<close>

section \<open>Operations that succeed\<close>

lemma andThen_success: "andThen m f s = (Inr y, u) \<longleftrightarrow> (\<exists>x t. m s = (Inr x, t) \<and> f x t = (Inr y, u))"
  by (cases "m s") (auto simp: andThen_def split: sum.splits)

lemma or_record_Inr: "or_record env r m s = (Inr x, t) \<Longrightarrow> m s = (Inr x, t)"
  by (cases "m s") (auto simp: or_record_def andThen_eq attempt_def ret_def fail_def split: sum.splits)

lemma reject_Inl: "reject env key e s \<noteq> (Inr x, t)"
  by (auto simp: reject_def andThen_success fail_def)

lemma finish_Inl: "finish_rollback env previous cause a b s \<noteq> (Inr x, t)"
  by (auto simp: finish_rollback_def Let_def andThen_success fail_def split: option.splits)

lemma rollback_Inl: "rollbackRuntime env failed previous st cause s \<noteq> (Inr x, t)"
  by (simp add: rollbackRuntime_def andThen_success finish_Inl)

section \<open>Before the new routes\<close>

text \<open>Until it publishes, an update changes neither routes nor listeners.\<close>

definition same_routing :: "'w Agent \<Rightarrow> 'w Agent \<Rightarrow> bool" where
  "same_routing s t \<longleftrightarrow> m_routes (ag_m t) = m_routes (ag_m s) \<and> m_servers (ag_m t) = m_servers (ag_m s)"

interpretation unrouted: reconcile_step same_routing env "\<lambda>_. True" "\<lambda>_. True" for env
  by unfold_locales
     (simp_all add: same_routing_def put_status_def setRestartMessage_def markRestartHealthy_def Let_def)

lemma reconcile_or_roll_back_Inr:
  "reconcile_or_roll_back env r previous s = (Inr x, t) \<Longrightarrow> \<exists>y. reconcileDeployments env r s = (Inr y, t)"
  by (cases "reconcileDeployments env r s")
     (auto simp: reconcile_or_roll_back_def andThen_eq attempt_def ret_def fail_def rollback_Inl
           split: sum.splits option.splits)

lemma obeysD_eq: "obeys R m \<Longrightarrow> m s = (r, t) \<Longrightarrow> R s t"
  using obeysD [of R m s] by simp

lemma apply_admitted_Inr:
  assumes "apply_admitted env key r previous s = (Inr x, t)"
  obtains refreshed u where "same_routing s u" "publish env r refreshed u = (Inr x, t)"
proof -
  let ?exists = "runtimeExists (ag_m s) key"
  let ?before = "\<lambda>present. andThen (updateRuntimeStatus env r (if present then Updating else Pending) [] None) (\<lambda>_.
     andThen (or_record env r (ensureNetwork env (rs_Network (rtm_Spec r)))) (\<lambda>_.
     updateRuntimeStatus env r Starting [] None))"
  from assms obtain s1 s2 present s3 y where
    "appendEvent env key ''Normal'' ''ApplyStarted'' ''Runtime reconciliation started'' s = (Inr (), s1)"
    "?before present s1 = (Inr y, s2)" "reconcile_or_roll_back env r previous s2 = (Inr (), s3)"
    and rest: "andThen (or_record env r (refreshRuntimeEndpoints env r)) (publish env r) s3 = (Inr x, t)"
    by (fastforce simp: apply_admitted_def andThen_success manager_def)
  moreover have "obeys same_routing (?before present)"
    by (intro step_rules unrouted.obeys_updateRuntimeStatus unrouted.obeys_or_record TrueI)
  moreover have "obeys same_routing (reconcileDeployments env r)"
    by (rule unrouted.obeys_reconcileDeployments) simp
  moreover have "obeys same_routing (appendEvent env key ''Normal'' ''ApplyStarted'' ''Runtime reconciliation started'')"
    by (rule unrouted.obeys_appendEvent)
  ultimately have "same_routing s s1" "same_routing s1 s2" "same_routing s2 s3"
    by (auto dest!: reconcile_or_roll_back_Inr intro: obeysD_eq)
  moreover obtain refreshed u where u: "refreshRuntimeEndpoints env r s3 = (Inr refreshed, u)"
    "publish env r refreshed u = (Inr x, t)"
    using rest by (auto simp: andThen_success dest!: or_record_Inr)
  moreover have "same_routing s3 u" using u(1) by (rule obeysD_eq [OF unrouted.obeys_refresh])
  ultimately have "same_routing s u" by (metis unrouted.R_trans)
  then show thesis using u(2) by (rule that)
qed

section \<open>Listeners\<close>

lemma startPort_Inr:
  "startPort env port s = (Inr x, t) \<Longrightarrow>
   \<exists>servers. ag_m t = (ag_m s)\<lparr>m_servers := servers\<rparr> \<and> set servers = insert port (set (m_servers (ag_m s)))"
  by (intro exI [of _ "m_servers (ag_m t)"])
     (auto simp: startPort_def andThen_success world_def exchange_def fail_def ret_def
           split: prod.splits option.splits if_splits)

lemma stopPort_eq:
  "fst (stopPort env port s) = Inr ()"
  "ag_m (snd (stopPort env port s)) = (ag_m s)\<lparr>m_servers := filter (\<lambda>p. p \<noteq> port) (m_servers (ag_m s))\<rparr>"
  by (auto simp: stopPort_def andThen_eq world_def exchange_def ret_def split: prod.split)

lemma stopPorts_eq:
  "\<exists>servers. ag_m (snd (forEach ports (stopPort env) s)) = (ag_m s)\<lparr>m_servers := servers\<rparr> \<and>
     set servers = set (m_servers (ag_m s)) - set ports"
proof (induction ports arbitrary: s)
  case (Cons p ports)
  from Cons [of "snd (stopPort env p s)"] show ?case
    by (auto simp: andThen_eq stopPort_eq intro: exI)
next
  case Nil
  show ?case by (rule exI [of _ "m_servers (ag_m s)"]) (simp add: ret_def)
qed

lemma startPorts_Inr:
  "forEach ports (startPort env) s = (Inr x, t) \<Longrightarrow>
   \<exists>servers. ag_m t = (ag_m s)\<lparr>m_servers := servers\<rparr> \<and> set servers = set (m_servers (ag_m s)) \<union> set ports"
proof (induction ports arbitrary: s)
  case (Cons p ports)
  then obtain u where u: "startPort env p s = (Inr (), u)" "forEach ports (startPort env) u = (Inr x, t)"
    by (auto simp: andThen_success)
  from startPort_Inr [OF u(1)] Cons.IH [OF u(2)] show ?case by fastforce
next
  case Nil
  then show ?case by (intro exI [of _ "m_servers (ag_m s)"]) (simp add: ret_def)
qed

section \<open>A published Runtime\<close>

lemma NewStatusWithOptions_generation:
  "rst_ObservedGeneration (NewStatusWithOptions now r ph eps err options) = generation r"
proof -
  have "rst_ObservedGeneration (fixIngressStatus st r eps err) = rst_ObservedGeneration st" for st r
    by (simp add: fixIngressStatus_def)
  moreover have "om_Generation (rtm_Metadata (NormalizeRuntime r)) = om_Generation (rtm_Metadata r)"
    by (simp add: NormalizeRuntime_def normalize_meta_def Let_def)
  ultimately show ?thesis unfolding NewStatusWithOptions_def Let_def by (simp add: generation_def)
qed

lemma newStatus_eq:
  "newStatus env r ph eps err s = (Inr st, t) \<Longrightarrow>
   ag_m t = ag_m s \<and> rst_ObservedGeneration st = generation r"
  by (auto simp: newStatus_def andThen_success manager_def time_now_def world_def ret_def
      NewStatusWithOptions_generation split: prod.splits)

lemma publish_Inr:
  assumes "publish env r refreshed s = (Inr x, t)"
  obtains m starts stops servers st
  where "replaceRoutesAndState (ag_m s) r refreshed (routesForRuntime r) = (m, starts, stops)"
    "set servers = set (m_servers m) \<union> set starts - set stops"
    "rst_ObservedGeneration st = generation r"
    "m_specs (ag_m t) = m_specs m" "routing_of t = (m_routes m, servers, m_endpoints m)"
    "m_statuses (ag_m t) = map_set (m_statuses m) (key_String (KeyForRuntime r)) st"
proof -
  obtain m starts stops where rep:
    "replaceRoutesAndState (ag_m s) r refreshed (routesForRuntime r) = (m, starts, stops)"
    by (rule prod_cases3)
  let ?key = "KeyForRuntime r"
  let ?rest = "\<lambda>st. andThen (saving (sto_SaveRuntime (env_Store env) r)) (\<lambda>_.
         andThen (saving (sto_SaveStatus (env_Store env) r st)) (\<lambda>_.
         andThen (writeProxyState env) (\<lambda>_.
         andThen (appendEvent env ?key ''Normal'' ''Applied'' ''Runtime reconciliation completed'') (\<lambda>_.
         andThen (world (env_Cancelled env)) (\<lambda>cancelled. raise id (map_option Text cancelled))))))"
  let ?s = "s\<lparr>ag_m := m\<rparr>"
  from assms obtain s1 s2 s3 st where
    start: "forEach (sort starts) (startPort env) ?s = (Inr (), s1)" and
    stop: "forEach (sort stops) (stopPort env) s1 = (Inr (), s2)" and
    new: "newStatus env r Running refreshed None s2 = (Inr st, s3)" and
    rest: "?rest st (s3\<lparr>ag_m := set_status ?key st (ag_m s3)\<rparr>) = (Inr x, t)"
    by (fastforce simp: publish_def Let_def andThen_success exchange_def rep modify_def dest: or_record_Inr)
  have "obeys same_resources (?rest st)" by (intro step_rules)
  then have kept: "same_resources (s3\<lparr>ag_m := set_status ?key st (ag_m s3)\<rparr>) t" using rest by (rule obeysD_eq)
  obtain up where up: "ag_m s1 = m\<lparr>m_servers := up\<rparr>" "set up = set (m_servers m) \<union> set starts"
    using startPorts_Inr [OF start] by auto
  obtain down where down: "ag_m s2 = (ag_m s1)\<lparr>m_servers := down\<rparr>" "set down = set up - set stops"
    using stopPorts_eq [of "sort stops" env s1] stop up by auto
  have new': "ag_m s3 = ag_m s2" "rst_ObservedGeneration st = generation r" using newStatus_eq [OF new] by simp_all
  show thesis
  proof (rule that [OF rep])
    show "set down = set (m_servers m) \<union> set starts - set stops" using up down by simp
    show "rst_ObservedGeneration st = generation r" by (rule new')
  qed (use kept in \<open>simp_all add: same_resources_def routing_of_def set_status_def new' down up\<close>)
qed


section \<open>An update that succeeds\<close>

text \<open>
  For the witness: a Docker that answers every command with no output and no error, and a Runtime
  whose deployment wants no replicas.
\<close>

definition idle_env :: "'w RuntimeStateStore \<Rightarrow> (string \<Rightarrow> port_routes \<Rightarrow> 'w fallible) \<Rightarrow> 'w Env" where
  "idle_env store write =
     \<lparr>env_Config = DefaultRuntimeConfig, env_Store = store, env_Admit = AdmitRuntime (cfg_Node DefaultRuntimeConfig),
      env_Run = (\<lambda>command args w. ((\<lparr>cr_Stdout = [], cr_Stderr = []\<rparr>, None), w)), env_RunWithInput = None,
      env_Now = (\<lambda>w. (0, w)), env_Wait = (\<lambda>d w. (None, w)), env_Cancelled = (\<lambda>w. (None, w)),
      env_MkdirTemp = (\<lambda>w. (Inr ''/tmp/d'', w)), env_RemoveAll = (\<lambda>dir w. ((), w)),
      env_Listen = (\<lambda>port w. (None, w)), env_CloseListener = (\<lambda>port w. ((), w)),
      env_Shutdown = (\<lambda>port w. (None, w)), env_WriteRoutes = write,
      env_Sprintf = (\<lambda>template port path. template), env_Digest = (\<lambda>d. ''hash''), env_Format = itoa,
      env_FormatSeconds = itoa, env_Texts = (\<lambda>e. ''error''), env_Fuel = 3\<rparr>"

text \<open>Writes that do not fail.\<close>

definition quiet :: "'w RuntimeStateStore \<Rightarrow> (string \<Rightarrow> port_routes \<Rightarrow> 'w fallible) \<Rightarrow> bool" where
  "quiet store write \<longleftrightarrow>
     (\<forall>r w. fst (sto_SaveRuntime store r w) = None) \<and> (\<forall>r st w. fst (sto_SaveStatus store r st w) = None) \<and>
     (\<forall>w. fst (sto_Ensure store w) = None) \<and> (\<forall>ns name w. fst (sto_DeleteRuntime store ns name w) = None) \<and>
     (\<forall>path routes w. fst (write path routes w) = None)"

abbreviation no_routes :: "string \<Rightarrow> port_routes \<Rightarrow> 'w fallible" where
  "no_routes \<equiv> \<lambda>path routes w. (None, w)"

lemma quiet_sample: "quiet sample_store no_routes" by (simp add: quiet_def sample_store_def)

definition idle_runtime :: Runtime where
  "idle_runtime = (sample_runtime ''shop'' 9000)\<lparr>rtm_Spec := (rtm_Spec (sample_runtime ''shop'' 9000))\<lparr>
     rs_Deployments := [(sample_deployment ''web'')\<lparr>dep_Replicas := Some 0\<rparr>]\<rparr>\<rparr>"

definition succeeds :: "('a, 'w) act \<Rightarrow> bool" where
  "succeeds m \<longleftrightarrow> (\<forall>s. \<exists>x t. m s = (Inr x, t))"

named_theorems success \<open>an action succeeds if its parts do\<close>

lemma succeeds_basic [success]:
  "succeeds (ret x)" "succeeds (manager f)" "succeeds (modify g)" "succeeds (exchange h)" "succeeds (world k)"
  "succeeds (attempt m)"
  by (simp_all add: succeeds_def ret_def manager_def modify_def exchange_def world_def attempt_def split: prod.splits)

lemma succeeds_andThen [success]: "succeeds m \<Longrightarrow> (\<And>x. succeeds (f x)) \<Longrightarrow> succeeds (andThen m f)"
  unfolding succeeds_def andThen_success by meson

lemma succeeds_if [success]: "succeeds m \<Longrightarrow> succeeds m' \<Longrightarrow> succeeds (if b then m else m')"
  by simp

lemma succeeds_prod [success]: "(\<And>x y. succeeds (f x y)) \<Longrightarrow> succeeds (case p of (x, y) \<Rightarrow> f x y)"
  by (cases p) simp

lemma succeeds_forEach [success]: "(\<And>x. x \<in> set xs \<Longrightarrow> succeeds (body x)) \<Longrightarrow> succeeds (forEach xs body)"
  by (induction xs) (auto intro: success)

lemma succeeds_collect [success]: "(\<And>x. x \<in> set xs \<Longrightarrow> succeeds (body x)) \<Longrightarrow> succeeds (collect xs body)"
  by (induction xs) (auto intro!: success)

lemma succeeds_or_record [success]:
  assumes "succeeds m" shows "succeeds (or_record env r m)"
proof -
  have "or_record env r m s = m s" for s
  proof -
    obtain x t where "m s = (Inr x, t)" using assms by (force simp: succeeds_def)
    then show ?thesis by (simp add: or_record_def andThen_eq attempt_def ret_def)
  qed
  then show ?thesis using assms by (simp add: succeeds_def)
qed

lemma succeeds_saving:
  assumes "\<And>w. fst (f w) = None" shows "succeeds (saving f)"
proof -
  have "saving f s = (Inr (), s\<lparr>ag_w := snd (f (ag_w s))\<rparr>)" for s
    using assms [of "ag_w s"] by (cases "f (ag_w s)") (simp add: saving_def andThen_eq world_def raise_def ret_def)
  then show ?thesis by (simp add: succeeds_def)
qed

lemma idle_docker:
  "docker (idle_env store write) args s = (Inr (\<lparr>cr_Stdout = [], cr_Stderr = []\<rparr>, None), s\<lparr>ag_trace := ag_trace s @ [args]\<rparr>)"
  by (simp add: docker_def idle_env_def)

lemma idle_docker_then [success]:
  "succeeds (f (\<lparr>cr_Stdout = [], cr_Stderr = []\<rparr>, None)) \<Longrightarrow> succeeds (andThen (docker (idle_env store write) args) f)"
  by (simp add: succeeds_def andThen_success idle_docker)

lemma idle_must [success]: "succeeds (must p (docker (idle_env store write) args))"
  unfolding must_def by (rule idle_docker_then) (simp add: succeeds_basic)

lemma idle_parts:
  "env_Listen (idle_env store write) = (\<lambda>port w. (None, w))" "env_Cancelled (idle_env store write) = (\<lambda>w. (None, w))"
  "env_WriteRoutes (idle_env store write) = write" "env_Store (idle_env store write) = store"
  "env_Admit (idle_env store write) = AdmitRuntime (cfg_Node DefaultRuntimeConfig)"
  by (simp_all add: idle_env_def)

lemma idle_saving [success]:
  "quiet store write \<Longrightarrow> succeeds (saving (sto_SaveRuntime (env_Store (idle_env store write)) r))"
  "quiet store write \<Longrightarrow> succeeds (saving (sto_SaveStatus (env_Store (idle_env store write)) r st))"
  "quiet store write \<Longrightarrow> succeeds (saving (sto_Ensure (env_Store (idle_env store write))))"
  "quiet store write \<Longrightarrow> succeeds (saving (sto_DeleteRuntime (env_Store (idle_env store write)) ns name))"
  "quiet store write \<Longrightarrow> succeeds (saving (env_WriteRoutes (idle_env store write) path routes))"
  by (rule succeeds_saving; simp add: idle_parts quiet_def)+

lemma idle_actions [success]:
  "succeeds (appendEvent env key t reason msg)" "succeeds (newStatus env r ph eps err)"
  "succeeds (updateRuntimeStatus env r ph eps err)" "succeeds (stopPort env port)"
  unfolding appendEvent_def newStatus_def time_now_def updateRuntimeStatus_def stopPort_def
  by (intro success)+

lemma idle_startPort [success]: "succeeds (startPort (idle_env store write) port)"
proof -
  have "andThen (world (env_Listen (idle_env store write) port)) f s = f None s" for f :: "_ \<Rightarrow> (unit, _) act" and s
    by (simp add: idle_parts andThen_eq world_def)
  then have "startPort (idle_env store write) port = andThen (exchange (\<lambda>m. if port \<in> set (m_servers m) then (True, m)
             else (False, m\<lparr>m_servers := m_servers m @ [port]\<rparr>))) (\<lambda>existed.
            if existed then world (env_CloseListener (idle_env store write) port) else ret ())"
    by (intro ext) (simp add: startPort_def)
  then show ?thesis by (simp only:) (intro success)
qed

lemma idle_publish [success]: "quiet store write \<Longrightarrow> succeeds (publish (idle_env store write) r eps)"
proof -
  have "andThen (world (env_Cancelled (idle_env store write))) (\<lambda>cancelled. raise id (map_option Text cancelled)) = ret ()"
    by (intro ext) (simp add: idle_parts andThen_eq world_def raise_def ret_def)
  then show "quiet store write \<Longrightarrow> ?thesis" unfolding publish_def writeProxyState_def Let_def by (simp only:) (intro success)
qed

lemma idle_refresh:
  assumes "\<And>service. service \<in> set (rs_Services (rtm_Spec r)) \<Longrightarrow>
    \<exists>port. resolveServiceTargetPort service (matching r service) = Inr port"
  shows "succeeds (refreshRuntimeEndpoints (idle_env store write) r)"
proof -
  have none: "string_fields [] = []" by code_simp
  have inspect: "succeeds (inspect_endpoint (idle_env store write) network port name)" for network port name
    unfolding inspect_endpoint_def by (intro success)
  have "succeeds (discoverDeploymentEndpoints (idle_env store write) r d port)" for d port
    unfolding discoverDeploymentEndpoints_def Let_def
    by (intro idle_docker_then)
       (simp add: is_blank_def succeeds_def idle_docker andThen_eq ret_def none)
  then have "succeeds (discoverEndpoints (idle_env store write) r service)" if "service \<in> set (rs_Services (rtm_Spec r))" for service
    using assms [OF that] by (auto simp: discoverEndpoints_def Let_def intro!: success)
  then show ?thesis unfolding refreshRuntimeEndpoints_def by (intro success)
qed

lemma idle_reconcile:
  assumes "\<And>d. d \<in> set (rs_Deployments (rtm_Spec r)) \<Longrightarrow> deploymentReplicas d = 0"
  shows "succeeds (reconcileDeployments (idle_env store write) r)"
proof -
  have "succeeds (ensureDeployment (idle_env store write) r d)" if "d \<in> set (rs_Deployments (rtm_Spec r))" for d
  proof -
    have "ensureDeployment (idle_env store write) r d = andThen (ret ()) (\<lambda>_. removeExtraReplicas (idle_env store write) r d)"
      using assms [OF that] by (simp add: ensureDeployment_def)
    then show ?thesis unfolding removeExtraReplicas_def remove_each_def Let_def by (simp only:) (intro success)
  qed
  then show ?thesis unfolding reconcileDeployments_def by (intro success)
qed

lemma idle_succeeds:
  assumes "quiet store write" "trim_space (rs_Network (rtm_Spec r)) \<noteq> []"
    and "list_all (\<lambda>d. deploymentReplicas d = 0) (rs_Deployments (rtm_Spec r))"
    and "list_all (\<lambda>service. \<not> isl (resolveServiceTargetPort service (matching r service))) (rs_Services (rtm_Spec r))"
  shows "succeeds (apply_admitted (idle_env store write) key r previous)"
proof -
  have "succeeds (ensureNetwork (idle_env store write) (rs_Network (rtm_Spec r)))"
    using assms(2) by (simp add: ensureNetwork_def Let_def success)
  moreover have reconcile: "succeeds (reconcileDeployments (idle_env store write) r)"
    using assms(3) by (intro idle_reconcile) (simp add: list_all_iff)
  have "reconcile_or_roll_back (idle_env store write) r previous s = (Inr (), snd (reconcileDeployments (idle_env store write) r s))" for s
    using reconcile [unfolded succeeds_def, rule_format, of s]
    by (auto simp: reconcile_or_roll_back_def andThen_eq attempt_def ret_def)
  then have "succeeds (reconcile_or_roll_back (idle_env store write) r previous)" by (simp add: succeeds_def)
  moreover have "succeeds (refreshRuntimeEndpoints (idle_env store write) r)"
    using assms(4) by (intro idle_refresh) (metis list_all_iff sum.collapse(2))
  ultimately show ?thesis using assms(1) unfolding apply_admitted_def by (intro success)
qed

lemma idle_checks:
  "ValidateRuntime (numbered NewManager (NormalizeInPlace (NormalizeRuntime idle_runtime))) = None"
  "case AdmitRuntime (cfg_Node DefaultRuntimeConfig) []
     (numbered NewManager (NormalizeInPlace (NormalizeRuntime idle_runtime))) of
     Inl _ \<Rightarrow> False
   | Inr a \<Rightarrow> trim_space (rs_Network (rtm_Spec a)) \<noteq> [] \<and>
       list_all (\<lambda>d. deploymentReplicas d = 0) (rs_Deployments (rtm_Spec a)) \<and>
       list_all (\<lambda>service. \<not> isl (resolveServiceTargetPort service (matching a service))) (rs_Services (rtm_Spec a))"
  by code_simp+

text \<open>A manager that has just been created over a given world.\<close>

definition fresh_agent :: "'w \<Rightarrow> 'w Agent" where
  "fresh_agent w = \<lparr>ag_m = NewManager, ag_w = w, ag_trace = []\<rparr>"

lemma idle_apply:
  assumes "quiet store write" shows "\<exists>x t. Apply (idle_env store write) idle_runtime (fresh_agent w\<^sub>0) = (Inr x, t)"
proof -
  let ?r = "NormalizeInPlace (NormalizeRuntime idle_runtime)" and ?s = "fresh_agent w\<^sub>0"
  have m: "ag_m ?s = NewManager" "m_specs NewManager = []" by (simp_all add: fresh_agent_def NewManager_def)
  obtain p w where prev: "previousRuntimeState (idle_env store write) (KeyForRuntime ?r) ?s = (Inr p, ?s\<lparr>ag_w := w\<rparr>)"
    using previous_reads [of "idle_env store write" "KeyForRuntime ?r" ?s] by (elim exE conjE)
  obtain a where a: "env_Admit (idle_env store write) [] (numbered NewManager ?r) = Inr a"
    "trim_space (rs_Network (rtm_Spec a)) \<noteq> []"
    "list_all (\<lambda>d. deploymentReplicas d = 0) (rs_Deployments (rtm_Spec a))"
    "list_all (\<lambda>service. \<not> isl (resolveServiceTargetPort service (matching a service))) (rs_Services (rtm_Spec a))"
    using idle_checks(2) unfolding idle_parts by (auto split: sum.splits)
  from idle_succeeds [OF assms a(2-4)] show ?thesis
    unfolding Apply_cases [OF refl refl prev] m idle_checks(1) option.case a(1) sum.case
    by (simp only: succeeds_def)
qed


section \<open>A removed Runtime\<close>

lemma forget_served:
  assumes "routes_wf (m_routes m)" "served m"
  shows "routes_at (m_routes (snd (forget key m))) p =
      filter (\<lambda>x. pr_Key x \<noteq> key) (routes_at (m_routes m) p)"
    and "(p \<in> set (m_servers m) - set (fst (forget key m))) =
      (routes_at (m_routes (snd (forget key m))) p \<noteq> [])"
proof -
  have dist: "distinct (map fst (m_routes m))" using assms(1) by (simp add: routes_wf_def)
  show at: "routes_at (m_routes (snd (forget key m))) p = filter (\<lambda>x. pr_Key x \<noteq> key) (routes_at (m_routes m) p)"
    by (simp add: forget_fields kept_routes_at [OF dist])
  have "fst (forget key m) = emptied_ports key (m_servers m) (m_routes m)"
    by (simp add: forget_def removeRoutesForKeyLocked_def)
  moreover have "p \<in> set (m_servers m) \<longleftrightarrow> routes_at (m_routes m) p \<noteq> []"
    using assms(2) by (simp add: served_def)
  ultimately show "(p \<in> set (m_servers m) - set (fst (forget key m))) =
      (routes_at (m_routes (snd (forget key m))) p \<noteq> [])"
    unfolding at by (auto simp: emptied_ports_at [OF assms(1)])
qed

lemma Remove_Inr:
  assumes "Remove env ns name s = (Inr x, t)"
  obtains u servers where "same_routing s u"
    "m_specs (ag_m t) = m_specs (snd (forget (runtimeKey ns name) (ag_m u)))"
    "m_statuses (ag_m t) = m_statuses (snd (forget (runtimeKey ns name) (ag_m u)))"
    "routing_of t = (m_routes (snd (forget (runtimeKey ns name) (ag_m u))), servers,
       m_endpoints (snd (forget (runtimeKey ns name) (ag_m u))))"
    "set servers = set (m_servers (ag_m u)) - set (fst (forget (runtimeKey ns name) (ag_m u)))"
proof -
  let ?key = "runtimeKey ns name" and ?store = "env_Store env"
  let ?find = "\<lambda>known. case known of Some runtime \<Rightarrow> ret (Some runtime)
     | None \<Rightarrow> andThen (world (sto_ReadRuntime ?store (key_Namespace ?key) (key_Name ?key)))
                 (\<lambda>read. ret (case read of Inl _ \<Rightarrow> None | Inr loaded \<Rightarrow> Some loaded))"
  let ?mark = "\<lambda>runtime. case runtime of None \<Rightarrow> ret ()
     | Some r \<Rightarrow> andThen (updateRuntimeStatus env r Terminating [] None) (\<lambda>_. ret ())"
  let ?start = "appendEvent env ?key ''Normal'' ''DeleteStarted'' ''Runtime deletion started''"
  let ?rest = "\<lambda>runtime. andThen (case runtime of None \<Rightarrow> ret () | Some r \<Rightarrow> removeOwnedContainers env r) (\<lambda>_.
           andThen (saving (sto_DeleteRuntime ?store (key_Namespace ?key) (key_Name ?key))) (\<lambda>_.
           andThen (writeProxyState env) (\<lambda>_.
             appendEvent env ?key ''Normal'' ''Deleted'' ''Runtime state, listeners, and owned containers removed'')))"
  let ?ports = "\<lambda>u. fst (forget ?key (ag_m u))"
  have name: "key_Name ?key \<noteq> []" using assms by (auto simp: Remove_def fail_def)
  have exchange: "exchange f u = (Inr (fst (f (ag_m u))), u\<lparr>ag_m := snd (f (ag_m u))\<rparr>)" for f :: "_ \<Rightarrow> int list \<times> _" and u
    by (simp add: exchange_def split_beta)
  have "andThen ?start (\<lambda>_. andThen (manager (\<lambda>m. map_of (m_specs m) (key_String ?key))) (\<lambda>known.
      andThen (?find known) (\<lambda>runtime. andThen (?mark runtime) (\<lambda>_. andThen (exchange (forget ?key)) (\<lambda>ports.
      andThen (forEach ports (stopPort env)) (\<lambda>_. ?rest runtime)))))) s = (Inr x, t)"
    using assms name by (simp only: Remove_def Let_def if_False)
  then obtain y1 s1 s2 runtime y2 u y3 t2 where
    steps: "?start s = (Inr y1, s1)" "?find (map_of (m_specs (ag_m s1)) (key_String ?key)) s1 = (Inr runtime, s2)"
      "?mark runtime s2 = (Inr y2, u)" and
    stop: "forEach (?ports u) (stopPort env) (u\<lparr>ag_m := snd (forget ?key (ag_m u))\<rparr>) = (Inr y3, t2)" and
    rest: "?rest runtime t2 = (Inr x, t)"
    unfolding andThen_success [of ?start] andThen_success [of "manager _"] andThen_success [of "?find _"]
      andThen_success [of "?mark _"] andThen_success [of "exchange _"] andThen_success [of "forEach _ _"] exchange
    by (simp only: manager_def prod.inject sum.inject) blast
  have "obeys same_routing ?start" "obeys same_routing (?find known)" "obeys same_routing (?mark runtime)" for known
    by (intro step_rules unrouted.obeys_updateRuntimeStatus TrueI)+
  with steps have "same_routing s s1" "same_routing s1 s2" "same_routing s2 u" by (auto intro: obeysD_eq)
  then have before: "same_routing s u" by (metis unrouted.R_trans)
  have "obeys same_resources (?rest runtime)" by (intro step_rules)
  then have kept: "same_resources t2 t" using rest by (rule obeysD_eq)
  obtain servers where "ag_m t2 = (snd (forget ?key (ag_m u)))\<lparr>m_servers := servers\<rparr>"
    "set servers = set (m_servers (ag_m u)) - set (?ports u)"
    using stopPorts_eq [of "?ports u" env "u\<lparr>ag_m := snd (forget ?key (ag_m u))\<rparr>"] stop by (auto simp: forget_fields)
  with before kept show thesis by (intro that) (simp_all add: same_resources_def routing_of_def)
qed

lemma dropped_endpoints: "get_list (drop_endpoints key m) (endpointKey key service) = []"
proof -
  have "has_prefix (endpointKey key service) (key_String key @ ''/'')" by (simp add: endpointKey_def has_prefix_def)
  then have "endpointKey key service \<notin> fst ` set (drop_endpoints key m)" by (auto simp: drop_endpoints_def)
  then show ?thesis by (simp add: get_list_def map_of_eq_None_iff [THEN iffD2])
qed


text \<open>A manager that knows the Runtime.\<close>

definition knowing_agent :: "sample_world Agent" where
  "knowing_agent = (sample_agent False)\<lparr>ag_m := put_status idle_runtime zero_status NewManager\<rparr>"

lemma idle_remove:
  assumes "quiet store write" shows "succeeds (Remove (idle_env store write) ''default'' ''shop'')"
proof -
  have "key_Name (runtimeKey ''default'' ''shop'') \<noteq> []" by code_simp
  then show ?thesis
    unfolding Remove_def removeOwnedContainers_def remove_each_def writeProxyState_def Let_def
    by (simp only: if_False) (intro success assms; simp add: success split: option.split)
qed


end
