(* ===== verification/Store.thy ===== *)
theory Store
  imports Agent
begin

text \<open>
  The state store of \<open>store.go\<close>: Runtimes, statuses and events as files below a root directory.
  The state is the map from path to content; directories exist as soon as a file needs them. The
  JSON encoders and decoders, with their error texts, are a parameter. Failures of the file system are left out: an
  operation fails only for a missing file or content it cannot decode.
\<close>

section \<open>Files\<close>

type_synonym disk = "string gomap"

text \<open>The indented JSON of a Runtime and of a status, the one-line JSON of an event.\<close>

record json_codec =
  js_Runtime :: "Runtime \<Rightarrow> string"
  js_Status :: "RuntimeStatus \<Rightarrow> string"
  js_Event :: "RuntimeEvent \<Rightarrow> string"
  js_readStatus :: "string \<Rightarrow> string + RuntimeStatus"
  js_readEvent :: "string \<Rightarrow> RuntimeEvent option"
  js_yaml :: yaml_library

definition NewStateStore :: "string \<Rightarrow> string" where
  "NewStateStore root = (if is_blank root then DefaultStateDir else trim_space root)"

definition state_path :: "string \<Rightarrow> string \<Rightarrow> string \<Rightarrow> string \<Rightarrow> string \<Rightarrow> string" where
  "state_path root kind ext namespace name =
     (let key = runtimeKey namespace name
      in path_Join [root, kind, key_Namespace key, key_Name key @ ext])"

definition specPath :: "string \<Rightarrow> string \<Rightarrow> string \<Rightarrow> string" where
  "specPath root = state_path root ''specs'' ''.json''"

definition statusPath :: "string \<Rightarrow> string \<Rightarrow> string \<Rightarrow> string" where
  "statusPath root = state_path root ''status'' ''.json''"

definition eventsPath :: "string \<Rightarrow> string \<Rightarrow> string \<Rightarrow> string" where
  "eventsPath root = state_path root ''events'' ''.jsonl''"

definition lockPath :: "string \<Rightarrow> string \<Rightarrow> string \<Rightarrow> string" where
  "lockPath root = state_path root ''locks'' ''.lock''"

section \<open>Runtimes and statuses\<close>

definition MustJSONRuntime :: "json_codec \<Rightarrow> Runtime \<Rightarrow> string" where
  "MustJSONRuntime codec runtime = js_Runtime codec (NormalizeRuntime runtime) @ newline"

definition SaveRuntime :: "json_codec \<Rightarrow> string \<Rightarrow> Runtime \<Rightarrow> disk \<Rightarrow> disk" where
  "SaveRuntime codec root runtime fs =
     (let runtime = (NormalizeRuntime runtime)\<lparr>rtm_Status := None\<rparr>; meta = rtm_Metadata runtime
      in map_set fs (specPath root (om_Namespace meta) (om_Name meta)) (MustJSONRuntime codec runtime))"

definition missing :: "string \<Rightarrow> RuntimeError" where
  "missing path = Text (''open '' @ path @ '': no such file or directory'')"

definition ReadRuntime :: "json_codec \<Rightarrow> string \<Rightarrow> string \<Rightarrow> string \<Rightarrow> disk \<Rightarrow> RuntimeError + Runtime" where
  "ReadRuntime codec root namespace name fs =
     (let key = runtimeKey namespace name; path = specPath root (key_Namespace key) (key_Name key)
      in case map_of fs path of
           None \<Rightarrow> Inl (missing path)
         | Some data \<Rightarrow>
             (case ParseRuntimeDocument (js_yaml codec) data of
                Inl e \<Rightarrow> Inl (Coded (BadDocument e))
              | Inr runtime \<Rightarrow> Inr runtime))"

definition SaveStatus :: "json_codec \<Rightarrow> string \<Rightarrow> Runtime \<Rightarrow> RuntimeStatus \<Rightarrow> disk \<Rightarrow> disk" where
  "SaveStatus codec root runtime status fs =
     (let meta = rtm_Metadata (NormalizeRuntime runtime)
      in map_set fs (statusPath root (om_Namespace meta) (om_Name meta)) (js_Status codec status @ newline))"

definition ReadStatus :: "json_codec \<Rightarrow> string \<Rightarrow> string \<Rightarrow> string \<Rightarrow> disk \<Rightarrow> RuntimeError + RuntimeStatus" where
  "ReadStatus codec root namespace name fs =
     (let key = runtimeKey namespace name; path = statusPath root (key_Namespace key) (key_Name key)
      in case map_of fs path of
           None \<Rightarrow> Inl (missing path)
         | Some data \<Rightarrow>
             (case js_readStatus codec data of
                Inl e \<Rightarrow> Inl (Text e)
              | Inr status \<Rightarrow> Inr status))"

section \<open>Events\<close>

definition AppendEvent ::
    "json_codec \<Rightarrow> string \<Rightarrow> string \<Rightarrow> string \<Rightarrow> string \<Rightarrow> string \<Rightarrow> string \<Rightarrow> string \<Rightarrow> disk \<Rightarrow> disk" where
  "AppendEvent codec root now namespace name eventType reason message fs =
     (let key = runtimeKey namespace name;
          event = \<lparr>ev_Time = now, ev_Type = trim_space eventType, ev_Reason = trim_space reason,
                   ev_Message = trim_space message, ev_Namespace = key_Namespace key, ev_Name = key_Name key\<rparr>;
          path = eventsPath root (key_Namespace key) (key_Name key)
      in map_set fs path (get_str fs path @ js_Event codec event @ newline))"

text \<open>
  The lines that a \<open>bufio.Scanner\<close> delivers, without their line ends; it fails on a line that does not
  fit its buffer of 64 KiB.
\<close>

definition scan_limit :: nat where
  "scan_limit = 65536"

definition drop_cr :: "string \<Rightarrow> string" where
  "drop_cr line = (if line \<noteq> [] \<and> last line = CHR 0x0D then butlast line else line)"

definition scan_lines :: "string \<Rightarrow> string list option" where
  "scan_lines content =
     (let lines = split_on (CHR 0x0A) content; lines = (if last lines = [] then butlast lines else lines)
      in if list_all (\<lambda>l. length l < scan_limit) lines then Some (map drop_cr lines) else None)"

definition ReadEvents ::
    "json_codec \<Rightarrow> string \<Rightarrow> string \<Rightarrow> string \<Rightarrow> int \<Rightarrow> disk \<Rightarrow> RuntimeError + RuntimeEvent list" where
  "ReadEvents codec root namespace name tail fs =
     (let key = runtimeKey namespace name
      in case map_of fs (eventsPath root (key_Namespace key) (key_Name key)) of
           None \<Rightarrow> Inr []
         | Some content \<Rightarrow>
             (case scan_lines content of
                None \<Rightarrow> Inl (Text ''bufio.Scanner: token too long'')
              | Some lines \<Rightarrow> Inr (take_tail tail (List.map_filter (js_readEvent codec) lines))))"

definition writeEvents :: "json_codec \<Rightarrow> string \<Rightarrow> string \<Rightarrow> string \<Rightarrow> RuntimeEvent list \<Rightarrow> disk \<Rightarrow> disk" where
  "writeEvents codec root namespace name events fs =
     (let key = runtimeKey namespace name
      in map_set fs (eventsPath root (key_Namespace key) (key_Name key))
           (concat (map (\<lambda>e. js_Event codec (e\<lparr>ev_Namespace := key_Namespace key, ev_Name := key_Name key\<rparr>) @ newline)
              events)))"

section \<open>Deletion\<close>

definition DeleteRuntime :: "string \<Rightarrow> string \<Rightarrow> string \<Rightarrow> disk \<Rightarrow> disk" where
  "DeleteRuntime root namespace name fs =
     (let key = runtimeKey namespace name
      in foldl (\<lambda>fs path. map_del fs (path root (key_Namespace key) (key_Name key))) fs
           [specPath, statusPath, lockPath])"

section \<open>Loading everything\<close>

text \<open>The part of a path below a directory.\<close>

definition below :: "string \<Rightarrow> string \<Rightarrow> string option" where
  "below dir path =
     (let base = path_Clean dir; pre = (if base = ''/'' then base else if base = ''.'' then [] else base @ ''/'')
      in if prefix pre path then Some (drop (length pre) path) else None)"

text \<open>\<open>WalkDir\<close> visits the files below a directory in the order of their path segments.\<close>

definition walk :: "string \<Rightarrow> disk \<Rightarrow> string list" where
  "walk dir fs = sort_key (split_on (CHR ''/'')) (filter (\<lambda>p. below dir p \<noteq> None) (map_keys fs))"

definition has_suffix :: "string \<Rightarrow> string \<Rightarrow> bool" where
  "has_suffix s t \<longleftrightarrow> prefix (rev t) (rev s)"

fun parse_specs :: "json_codec \<Rightarrow> disk \<Rightarrow> string list \<Rightarrow> RuntimeError + Runtime list" where
  "parse_specs codec fs [] = Inr []"
| "parse_specs codec fs (path # paths) =
     (case ParseRuntimeDocument (js_yaml codec) (get_str fs path) of
        Inl e \<Rightarrow> Inl (Wrap path (Coded (BadDocument e)))
      | Inr runtime \<Rightarrow> (case parse_specs codec fs paths of Inl e \<Rightarrow> Inl e | Inr rs \<Rightarrow> Inr (runtime # rs)))"

definition legacy_dir :: "string \<Rightarrow> string \<Rightarrow> string option" where
  "legacy_dir root path =
     (case below root path of
        None \<Rightarrow> None
      | Some rest \<Rightarrow>
          (case split_on (CHR ''/'') rest of
             [dir, file] \<Rightarrow>
               if file = ''runtime-spec.json'' \<and>
                  dir \<notin> set [''specs'', ''status'', ''events'', ''locks'', ''proxy'']
               then Some dir else None
           | _ \<Rightarrow> None))"

text \<open>Old installations keep one file per directory; those that do not parse are skipped.\<close>

definition loadLegacySpecs :: "json_codec \<Rightarrow> string \<Rightarrow> disk \<Rightarrow> Runtime list" where
  "loadLegacySpecs codec root fs =
     List.map_filter (\<lambda>path. case ParseRuntimeDocument (js_yaml codec) (get_str fs path) of
         Inl _ \<Rightarrow> None | Inr runtime \<Rightarrow> Some runtime)
       (filter (\<lambda>path. legacy_dir root path \<noteq> None) (walk root fs))"

definition key_text :: "Runtime \<Rightarrow> string" where
  "key_text runtime = key_String (KeyForRuntime runtime)"

definition LoadAll :: "json_codec \<Rightarrow> string \<Rightarrow> disk \<Rightarrow> RuntimeError + Runtime list" where
  "LoadAll codec root fs =
     (case parse_specs codec fs
             (filter (\<lambda>p. has_suffix p ''.json'') (walk (path_Join [root, ''specs'']) fs)) of
        Inl e \<Rightarrow> Inl e
      | Inr runtimes \<Rightarrow>
          let legacy = filter (\<lambda>r. key_text r \<notin> set (map key_text runtimes)) (loadLegacySpecs codec root fs)
          in Inr (sort_key key_text (runtimes @ legacy)))"

section \<open>Backup and restore\<close>

record StateBackup =
  bk_Version :: string
  bk_CreatedAt :: string
  bk_Runtimes :: "Runtime list"
  bk_Statuses :: "RuntimeStatus gomap"
  bk_Events :: "RuntimeEvent list gomap"

definition add_to_backup :: "json_codec \<Rightarrow> string \<Rightarrow> disk \<Rightarrow> StateBackup \<Rightarrow> Runtime \<Rightarrow> StateBackup" where
  "add_to_backup codec root fs backup runtime =
     (let key = KeyForRuntime runtime;
          backup = (case ReadStatus codec root (key_Namespace key) (key_Name key) fs of
             Inl _ \<Rightarrow> backup
           | Inr status \<Rightarrow> backup\<lparr>bk_Statuses := map_set (bk_Statuses backup) (key_String key) status\<rparr>)
      in case ReadEvents codec root (key_Namespace key) (key_Name key) 0 fs of
           Inl _ \<Rightarrow> backup
         | Inr events \<Rightarrow>
             if events = [] then backup
             else backup\<lparr>bk_Events := map_set (bk_Events backup) (key_String key) events\<rparr>)"

definition BackupTo :: "json_codec \<Rightarrow> string \<Rightarrow> string \<Rightarrow> disk \<Rightarrow> RuntimeError + StateBackup" where
  "BackupTo codec root now fs =
     (case LoadAll codec root fs of
        Inl e \<Rightarrow> Inl e
      | Inr runtimes \<Rightarrow>
          Inr (foldl (add_to_backup codec root fs)
            \<lparr>bk_Version = RuntimeVersion, bk_CreatedAt = now, bk_Runtimes = runtimes, bk_Statuses = [], bk_Events = []\<rparr>
            runtimes))"

text \<open>The loop of \<open>RestoreFrom\<close>: what it wrote before a bad Runtime stays.\<close>

definition restore_one :: "json_codec \<Rightarrow> string \<Rightarrow> StateBackup \<Rightarrow> Runtime \<Rightarrow> disk \<Rightarrow> disk" where
  "restore_one codec root backup runtime fs =
     (let key = KeyForRuntime runtime;
          fs = SaveRuntime codec root runtime fs;
          fs = (case map_of (bk_Statuses backup) (key_String key) of
                  None \<Rightarrow> fs | Some status \<Rightarrow> SaveStatus codec root runtime status fs);
          events = get_list (bk_Events backup) (key_String key)
      in if events = [] then fs else writeEvents codec root (key_Namespace key) (key_Name key) events fs)"

fun restore_all :: "json_codec \<Rightarrow> string \<Rightarrow> StateBackup \<Rightarrow> Runtime list \<Rightarrow> disk \<Rightarrow> RuntimeError option \<times> disk" where
  "restore_all codec root backup [] fs = (None, fs)"
| "restore_all codec root backup (decoded # rest) fs =
     (let runtime = NormalizeRuntime decoded
      in case ValidateRuntime runtime of
           Some e \<Rightarrow> (Some (Wrap (''restore runtime '' @ key_text runtime) (Coded (Invalid e))), fs)
         | None \<Rightarrow> restore_all codec root backup rest (restore_one codec root backup (NormalizeInPlace runtime) fs))"

definition RestoreFrom :: "json_codec \<Rightarrow> string \<Rightarrow> string + StateBackup \<Rightarrow> disk \<Rightarrow> RuntimeError option \<times> disk" where
  "RestoreFrom codec root decoded fs =
     (case decoded of
        Inl e \<Rightarrow> (Some (Text e), fs)
      | Inr backup \<Rightarrow>
          if bk_Version backup = [] \<or> bk_Runtimes backup = []
          then (Some (Text ''invalid AIFAR Runtime backup''), fs)
          else restore_all codec root backup (bk_Runtimes backup) fs)"

section \<open>The store as the interface the manager uses\<close>

text \<open>\<open>RuntimeStateStore\<close> on a disk and a clock; each event reads the clock.\<close>

definition StateStore :: "json_codec \<Rightarrow> string \<Rightarrow> (int \<Rightarrow> string) \<Rightarrow> (disk \<times> int) RuntimeStateStore" where
  "StateStore codec root format =
     \<lparr>sto_Root = root, sto_Ensure = (\<lambda>w. (None, w)),
      sto_SaveRuntime = (\<lambda>r (fs, t). (None, (SaveRuntime codec root r fs, t))),
      sto_ReadRuntime = (\<lambda>ns name (fs, t). (ReadRuntime codec root ns name fs, (fs, t))),
      sto_LoadAll = (\<lambda>(fs, t). (LoadAll codec root fs, (fs, t))),
      sto_SaveStatus = (\<lambda>r st (fs, t). (None, (SaveStatus codec root r st fs, t))),
      sto_ReadStatus = (\<lambda>ns name (fs, t). (ReadStatus codec root ns name fs, (fs, t))),
      sto_AppendEvent = (\<lambda>ns name eventType reason message (fs, t).
         (None, (AppendEvent codec root (format t) ns name eventType reason message fs, t + 1))),
      sto_ReadEvents = (\<lambda>ns name tail (fs, t). (ReadEvents codec root ns name tail fs, (fs, t))),
      sto_DeleteRuntime = (\<lambda>ns name (fs, t). (None, (DeleteRuntime root ns name fs, t)))\<rparr>"

end
