(* ===== verification/StoreProps.thy ===== *)
theory StoreProps
  imports Store Samples
begin

text \<open>
  The store keeps what it is given: as a map from keys to Runtimes it is updated by saving and
  deleting, and a backup restored elsewhere gives back Runtimes, statuses and events.
\<close>

section \<open>Paths tell keys apart\<close>

definition label_key :: "RuntimeKey \<Rightarrow> bool" where
  "label_key k \<longleftrightarrow> validDNSLabel (key_Namespace k) \<and> validDNSLabel (key_Name k)"

lemma runtimeKey_label [simp]: "label_key k \<Longrightarrow> runtimeKey (key_Namespace k) (key_Name k) = k"
proof -
  assume k: "label_key k"
  have "trim_space s = s \<and> s \<noteq> []" if "validDNSLabel s" for s
  proof -
    have "dns_char c \<Longrightarrow> \<not> space_byte c" for c by (rule dns_char_plain(3)) simp
    then show ?thesis using that by (auto simp: validDNSLabel_def dnsLabelRE_def intro!: trim_space_ends)
  qed
  with k show ?thesis by (simp add: label_key_def runtimeKey_def Let_def)
qed

lemma label_plain:
  assumes "validDNSLabel s"
  shows "plain_segment s" "plain_segment (s @ ''.json'')" "plain_segment (s @ ''.jsonl'')" "plain_segment (s @ ''.lock'')"
  using label_chars [OF assms] by (auto simp: plain_segment_def append_eq_Cons_conv)

lemma path_Join_inj:
  assumes "list_all plain_segment xs" "list_all plain_segment ys" "xs \<noteq> []" "ys \<noteq> []" "root \<noteq> []"
    and eq: "path_Join (root # xs) = path_Join (root # ys)"
  shows "xs = ys"
proof -
  let ?r = "hd root = CHR ''/''"
  let ?kept = "clean_segments ?r [] (split_on (CHR ''/'') root)"
  have join: "join_with ''/'' (root # zs) = root @ CHR ''/'' # join_with ''/'' zs" if "zs \<noteq> []" for zs
    using that by (cases zs) simp_all
  have split: "split_on (CHR ''/'') (join_with ''/'' zs) = zs" if "list_all plain_segment zs" "zs \<noteq> []" for zs
    using that by (intro split_on_join) (auto simp: plain_segment_def list_all_iff)
  have clean: "clean_segments ?r [] (split_on (CHR ''/'') (join_with ''/'' (root # zs))) = ?kept @ zs"
    if "list_all plain_segment zs" "zs \<noteq> []" for zs
    unfolding join [OF that(2)] split_on_append_sep split [OF that] clean_segments_append
    using that by (simp add: clean_segments_plain)
  have kept: "CHR ''/'' \<notin> set x" if "x \<in> set (clean_segments b k zs)" "\<forall>z \<in> set k \<union> set zs. CHR ''/'' \<notin> set z" for x b k zs
    using that by (induction b k zs rule: clean_segments.induct) (auto split: if_splits dest: list.set_sel(2))
  have "\<forall>z \<in> set (split_on (CHR ''/'') root). CHR ''/'' \<notin> set z" using split_on_pieces by blast
  then have free: "CHR ''/'' \<notin> set x" if "x \<in> set (?kept @ zs)" "list_all plain_segment zs" for x zs
    using that kept [of x ?r "[]" "split_on (CHR ''/'') root"] by (auto simp: plain_segment_def list_all_iff)
  have hd: "join_with ''/'' (root # zs) \<noteq> [] \<and> hd (join_with ''/'' (root # zs)) = hd root" if "zs \<noteq> []" for zs
    using assms(5) unfolding join [OF that] by simp
  have resplit: "split_on (CHR ''/'') (join_with ''/'' (?kept @ zs)) = ?kept @ zs" if "list_all plain_segment zs" "zs \<noteq> []" for zs
    using that free by (intro split_on_join) auto
  have joined: "join_with ''/'' (?kept @ zs) \<noteq> []" if "list_all plain_segment zs" "zs \<noteq> []" for zs
  proof -
    have "?kept @ zs \<noteq> [[]]" using that by (cases ?kept) (auto simp: plain_segment_def)
    with resplit [OF that] show ?thesis by (metis split_on.simps(1))
  qed
  have form: "path_Join (root # zs) = (if ?r then CHR ''/'' # join_with ''/'' (?kept @ zs) else join_with ''/'' (?kept @ zs))"
    if "list_all plain_segment zs" "zs \<noteq> []" for zs
  proof (cases ?r)
    case True
    then show ?thesis unfolding path_Join_def path_Clean_def Let_def using hd [OF that(2)] clean [OF that] by simp
  next
    case False
    then show ?thesis unfolding path_Join_def path_Clean_def Let_def
      using hd [OF that(2)] clean [OF that] joined [OF that] by simp
  qed
  have "join_with ''/'' (?kept @ xs) = join_with ''/'' (?kept @ ys)"
    using eq unfolding form [OF assms(1,3)] form [OF assms(2,4)] by (simp split: if_splits)
  then have "split_on (CHR ''/'') (join_with ''/'' (?kept @ xs)) = split_on (CHR ''/'') (join_with ''/'' (?kept @ ys))" by simp
  then show ?thesis unfolding resplit [OF assms(1,3)] resplit [OF assms(2,4)] by simp
qed

lemma state_path_inj:
  assumes "root \<noteq> []" "label_key a" "label_key b"
    and "plain_segment kind" "plain_segment kind'"
    and "ext \<in> {''.json'', ''.jsonl'', ''.lock''}" "ext' \<in> {''.json'', ''.jsonl'', ''.lock''}"
    and "state_path root kind ext (key_Namespace a) (key_Name a) = state_path root kind' ext' (key_Namespace b) (key_Name b)"
  shows "kind = kind' \<and> key_Namespace a = key_Namespace b \<and> key_Name a @ ext = key_Name b @ ext'"
proof -
  have "list_all plain_segment [kind, key_Namespace a, key_Name a @ ext]"
    "list_all plain_segment [kind', key_Namespace b, key_Name b @ ext']"
    using assms(2-7) label_plain by (auto simp: label_key_def)
  then have "[kind, key_Namespace a, key_Name a @ ext] = [kind', key_Namespace b, key_Name b @ ext']"
    using assms(1,8) by (intro path_Join_inj) (simp_all add: state_path_def assms(2,3))
  then show ?thesis by simp
qed

lemma plain_kinds: "plain_segment ''specs''" "plain_segment ''status''" "plain_segment ''events''" "plain_segment ''locks''"
  by (simp_all add: plain_segment_def)

lemmas path_defs = specPath_def statusPath_def eventsPath_def lockPath_def

lemma same_kind_paths:
  assumes "root \<noteq> []" "label_key a" "label_key b"
  shows "specPath root (key_Namespace a) (key_Name a) = specPath root (key_Namespace b) (key_Name b) \<longleftrightarrow> a = b"
    "statusPath root (key_Namespace a) (key_Name a) = statusPath root (key_Namespace b) (key_Name b) \<longleftrightarrow> a = b"
    "eventsPath root (key_Namespace a) (key_Name a) = eventsPath root (key_Namespace b) (key_Name b) \<longleftrightarrow> a = b"
  using state_path_inj [OF assms plain_kinds(1,1), of "''.json''" "''.json''"]
    state_path_inj [OF assms plain_kinds(2,2), of "''.json''" "''.json''"]
    state_path_inj [OF assms plain_kinds(3,3), of "''.jsonl''" "''.jsonl''"]
  by (auto simp: path_defs)

lemma other_kind_paths:
  assumes "root \<noteq> []" "label_key a" "label_key b"
  shows "specPath root (key_Namespace a) (key_Name a) \<noteq> statusPath root (key_Namespace b) (key_Name b)"
    "specPath root (key_Namespace a) (key_Name a) \<noteq> eventsPath root (key_Namespace b) (key_Name b)"
    "specPath root (key_Namespace a) (key_Name a) \<noteq> lockPath root (key_Namespace b) (key_Name b)"
    "statusPath root (key_Namespace a) (key_Name a) \<noteq> eventsPath root (key_Namespace b) (key_Name b)"
  using state_path_inj [OF assms plain_kinds(1,2), of "''.json''" "''.json''"]
    state_path_inj [OF assms plain_kinds(1,3), of "''.json''" "''.jsonl''"]
    state_path_inj [OF assms plain_kinds(1,4), of "''.json''" "''.lock''"]
    state_path_inj [OF assms plain_kinds(2,3), of "''.json''" "''.jsonl''"]
  by (auto simp: path_defs)

section \<open>The store as a map\<close>

text \<open>
  A Runtime that survives being written and parsed: it is valid and in normal form, the YAML
  library decodes its JSON to the same value, and that text meets none of the refusals of the parser.
\<close>

definition storable :: "json_codec \<Rightarrow> Runtime \<Rightarrow> bool" where
  "storable codec r \<longleftrightarrow>
     (let text = MustJSONRuntime codec r; yaml = js_yaml codec
      in NormalizeRuntime r = r \<and> ValidateRuntime r = None \<and> rtm_Status r = None \<and>
         rejectRenderedRuntimeHazards text = None \<and> yaml_runtime yaml text = Some r \<and>
         (\<exists>raw. yaml_generic yaml text = Some raw \<and> \<not> hasMapKey raw ''status'' \<and>
            \<not> hasForbiddenField (RMap raw) ''registryProjections'' \<and> \<not> isLegacyRuntimeDocument raw))"

lemma storable_normal: "storable codec r \<Longrightarrow> NormalizeRuntime r = r" "storable codec r \<Longrightarrow> ValidateRuntime r = None"
  by (simp_all add: storable_def Let_def)

lemma storable_in_place: "storable codec r \<Longrightarrow> NormalizeInPlace r = r"
  using NormalizeInPlace_normalized [of r] by (simp add: storable_def Let_def)

lemma storable_parse: "storable codec r \<Longrightarrow> ParseRuntimeDocument (js_yaml codec) (MustJSONRuntime codec r) = Inr r"
  using storable_in_place [of codec r]
  by (auto simp: storable_def Let_def ParseRuntimeDocument_def parse_runtime_def)

lemma storable_label: "storable codec r \<Longrightarrow> label_key (KeyForRuntime r)"
proof -
  assume r: "storable codec r"
  note norm = storable_normal(1) [OF r]
  have "validate_normalized r = None" using storable_normal(2) [OF r] by (simp add: ValidateRuntime_def norm)
  then have "runtime_ok r" by (simp add: validate_normalized_None)
  then show ?thesis by (simp add: runtime_ok_def label_key_def KeyForRuntime_def norm Let_def)
qed

lemma storable_key:
  assumes "storable codec r"
  shows "om_Namespace (rtm_Metadata r) = key_Namespace (KeyForRuntime r)"
    "om_Name (rtm_Metadata r) = key_Name (KeyForRuntime r)"
  by (simp_all add: KeyForRuntime_def storable_normal(1) [OF assms] Let_def)

lemma Save_storable:
  assumes "storable codec r"
  shows "SaveRuntime codec root r fs =
    map_set fs (specPath root (key_Namespace (KeyForRuntime r)) (key_Name (KeyForRuntime r))) (MustJSONRuntime codec r)"
proof -
  have "r\<lparr>rtm_Status := None\<rparr> = r" using assms by (simp add: storable_def Let_def)
  then show ?thesis
    by (simp add: SaveRuntime_def storable_normal(1) [OF assms] storable_key [OF assms] Let_def)
qed

text \<open>The Runtimes the store holds under keys made of labels.\<close>

definition stored :: "json_codec \<Rightarrow> string \<Rightarrow> disk \<Rightarrow> RuntimeKey \<Rightarrow> Runtime option" where
  "stored codec root fs k =
     (if label_key k then
        (case ReadRuntime codec root (key_Namespace k) (key_Name k) fs of Inl _ \<Rightarrow> None | Inr r \<Rightarrow> Some r)
      else None)"

lemma stored_code:
  "label_key k \<Longrightarrow> stored codec root fs k =
     (case map_of fs (specPath root (key_Namespace k) (key_Name k)) of
        None \<Rightarrow> None
      | Some data \<Rightarrow> (case ParseRuntimeDocument (js_yaml codec) data of Inl _ \<Rightarrow> None | Inr r \<Rightarrow> Some r))"
  by (simp add: stored_def ReadRuntime_def Let_def split: option.split sum.split)

lemma stored_save:
  assumes "root \<noteq> []" "storable codec r"
  shows "stored codec root (SaveRuntime codec root r fs) = (stored codec root fs)(KeyForRuntime r \<mapsto> r)"
proof
  fix k
  show "stored codec root (SaveRuntime codec root r fs) k = ((stored codec root fs)(KeyForRuntime r \<mapsto> r)) k"
  proof (cases "label_key k")
    case True
    then show ?thesis
      using storable_label [OF assms(2)] storable_parse [OF assms(2)]
      by (auto simp: stored_code Save_storable [OF assms(2)] map_of_set same_kind_paths assms(1))
  next
    case False
    then show ?thesis using storable_label [OF assms(2)] by (auto simp: stored_def)
  qed
qed

lemma stored_delete:
  assumes "root \<noteq> []" "label_key k"
  shows "stored codec root (DeleteRuntime root (key_Namespace k) (key_Name k) fs) = (stored codec root fs)(k := None)"
proof
  fix j
  show "stored codec root (DeleteRuntime root (key_Namespace k) (key_Name k) fs) j = ((stored codec root fs)(k := None)) j"
  proof (cases "label_key j")
    case True
    then show ?thesis using assms
      by (auto simp: stored_code DeleteRuntime_def map_of_del same_kind_paths other_kind_paths Let_def)
  next
    case False
    then show ?thesis by (simp add: stored_def)
  qed
qed


section \<open>A pass over many Runtimes\<close>

text \<open>What a sequence of steps does to one component of the store, each step to its own key.\<close>

locale keyed_steps =
  fixes get :: "'s \<Rightarrow> RuntimeKey \<Rightarrow> 'v" and step :: "'a \<Rightarrow> 's \<Rightarrow> 's" and key :: "'a \<Rightarrow> RuntimeKey"
    and upd :: "'a \<Rightarrow> 'v \<Rightarrow> 'v" and good :: "'a \<Rightarrow> bool"
  assumes get_step: "good x \<Longrightarrow> label_key j \<Longrightarrow> get (step x s) j = (if j = key x then upd x (get s j) else get s j)"
begin

lemma get_fold_other:
  "list_all good xs \<Longrightarrow> label_key j \<Longrightarrow> j \<notin> key ` set xs \<Longrightarrow> get (fold step xs s) j = get s j"
  by (induction xs arbitrary: s) (auto simp: get_step)

lemma get_fold:
  "list_all good xs \<Longrightarrow> distinct (map key xs) \<Longrightarrow> x \<in> set xs \<Longrightarrow> label_key (key x) \<Longrightarrow>
    get (fold step xs s) (key x) = upd x (get s (key x))"
proof (induction xs arbitrary: s)
  case (Cons y ys)
  show ?case
  proof (cases "x = y")
    case True
    then show ?thesis using Cons.prems by (simp add: get_fold_other get_step)
  next
    case False
    with Cons.prems(3) have x: "x \<in> set ys" by simp
    then have "key x \<noteq> key y" using Cons.prems(2) by (metis distinct.simps(2) image_eqI list.map(2) list.set_map)
    with x show ?thesis using Cons by (simp add: get_step)
  qed
qed simp

end

text \<open>Events are restored as events of the Runtime they are filed under.\<close>

definition owned_by :: "RuntimeKey \<Rightarrow> RuntimeEvent \<Rightarrow> RuntimeEvent" where
  "owned_by k e = e\<lparr>ev_Namespace := key_Namespace k, ev_Name := key_Name k\<rparr>"

text \<open>An event whose line is read back: the JSON text is one line that fits the scanner's buffer.\<close>

definition event_line :: "json_codec \<Rightarrow> RuntimeEvent \<Rightarrow> bool" where
  "event_line codec e \<longleftrightarrow>
     (let line = js_Event codec e
      in js_readEvent codec line = Some e \<and> CHR 0x0A \<notin> set line \<and> length line < scan_limit \<and>
         line \<noteq> [] \<and> last line \<noteq> CHR 0x0D)"

lemma scan_written:
  assumes "list_all (event_line codec) es"
  shows "scan_lines (concat (map (\<lambda>e. js_Event codec e @ newline) es)) = Some (map (js_Event codec) es)"
proof -
  have "split_on (CHR 0x0A) (concat (map (\<lambda>e. js_Event codec e @ newline) es)) = map (js_Event codec) es @ [[]]"
    using assms by (induction es) (simp_all add: split_on_line event_line_def Let_def)
  moreover have "list_all (\<lambda>l. length l < scan_limit) (map (js_Event codec) es) \<and> map drop_cr (map (js_Event codec) es) = map (js_Event codec) es"
    using assms by (induction es) (simp_all add: event_line_def drop_cr_def Let_def)
  ultimately show ?thesis unfolding scan_lines_def Let_def by simp
qed

lemma read_written:
  assumes "list_all (event_line codec) es"
  shows "List.map_filter (js_readEvent codec) (map (js_Event codec) es) = es"
  using assms by (induction es) (simp_all add: event_line_def Let_def map_filter_simps)

definition event_file :: "json_codec \<Rightarrow> RuntimeEvent list \<Rightarrow> string" where
  "event_file codec es = concat (map (\<lambda>e. js_Event codec e @ newline) es)"

abbreviation status_of :: "json_codec \<Rightarrow> string \<Rightarrow> disk \<Rightarrow> RuntimeKey \<Rightarrow> RuntimeError + RuntimeStatus" where
  "status_of codec root fs k \<equiv> ReadStatus codec root (key_Namespace k) (key_Name k) fs"

abbreviation events_of :: "json_codec \<Rightarrow> string \<Rightarrow> disk \<Rightarrow> RuntimeKey \<Rightarrow> RuntimeError + RuntimeEvent list" where
  "events_of codec root fs k \<equiv> ReadEvents codec root (key_Namespace k) (key_Name k) 0 fs"

lemma events_of_file:
  "label_key k \<Longrightarrow> map_of fs (eventsPath root (key_Namespace k) (key_Name k)) = Some (event_file codec es) \<Longrightarrow>
    list_all (event_line codec) es \<Longrightarrow> events_of codec root fs k = Inr es"
  by (simp add: ReadEvents_def event_file_def scan_written read_written take_tail_def Let_def)

section \<open>Restoring\<close>

text \<open>The parts of a backup that a Runtime is restored with.\<close>

definition restorable :: "json_codec \<Rightarrow> string \<Rightarrow> StateBackup \<Rightarrow> Runtime \<Rightarrow> bool" where
  "restorable codec root backup r \<longleftrightarrow>
     root \<noteq> [] \<and> storable codec r \<and>
     (\<forall>st. map_of (bk_Statuses backup) (key_text r) = Some st \<longrightarrow> js_readStatus codec (js_Status codec st @ newline) = Inr st) \<and>
     list_all (\<lambda>e. event_line codec (owned_by (KeyForRuntime r) e)) (get_list (bk_Events backup) (key_text r))"

definition restored_files :: "json_codec \<Rightarrow> string \<Rightarrow> StateBackup \<Rightarrow> Runtime \<Rightarrow> disk \<Rightarrow> disk" where
  "restored_files codec root backup r fs =
     (let k = KeyForRuntime r; es = get_list (bk_Events backup) (key_text r);
          fs = map_set fs (specPath root (key_Namespace k) (key_Name k)) (MustJSONRuntime codec r);
          fs = (case map_of (bk_Statuses backup) (key_text r) of None \<Rightarrow> fs
                | Some st \<Rightarrow> map_set fs (statusPath root (key_Namespace k) (key_Name k)) (js_Status codec st @ newline))
      in if es = [] then fs
         else map_set fs (eventsPath root (key_Namespace k) (key_Name k)) (event_file codec (map (owned_by k) es)))"

lemma restore_one_files:
  assumes "restorable codec root backup r"
  shows "restore_one codec root backup r fs = restored_files codec root backup r fs"
proof -
  have r: "storable codec r" using assms by (simp add: restorable_def)
  note label = storable_label [OF r]
  have ev: "writeEvents codec root (key_Namespace (KeyForRuntime r)) (key_Name (KeyForRuntime r)) es fs =
      map_set fs (eventsPath root (key_Namespace (KeyForRuntime r)) (key_Name (KeyForRuntime r)))
        (event_file codec (map (owned_by (KeyForRuntime r)) es))" for es fs
    by (simp add: writeEvents_def label event_file_def owned_by_def comp_def Let_def)
  have st: "SaveStatus codec root r st fs =
      map_set fs (statusPath root (key_Namespace (KeyForRuntime r)) (key_Name (KeyForRuntime r))) (js_Status codec st @ newline)" for st fs
    by (simp add: SaveStatus_def storable_normal(1) [OF r] storable_key [OF r] Let_def)
  show ?thesis
    unfolding restore_one_def restored_files_def Let_def Save_storable [OF r] ev st key_text_def ..
qed

lemma restored_lookup:
  assumes "restorable codec root backup r" "label_key j"
  shows "map_of (restore_one codec root backup r fs) (specPath root (key_Namespace j) (key_Name j)) =
      (if j = KeyForRuntime r then Some (MustJSONRuntime codec r)
       else map_of fs (specPath root (key_Namespace j) (key_Name j)))"
    "map_of (restore_one codec root backup r fs) (statusPath root (key_Namespace j) (key_Name j)) =
      (case map_of (bk_Statuses backup) (key_text r) of
         Some st \<Rightarrow> if j = KeyForRuntime r then Some (js_Status codec st @ newline)
                   else map_of fs (statusPath root (key_Namespace j) (key_Name j))
       | None \<Rightarrow> map_of fs (statusPath root (key_Namespace j) (key_Name j)))"
    "map_of (restore_one codec root backup r fs) (eventsPath root (key_Namespace j) (key_Name j)) =
      (if j = KeyForRuntime r \<and> get_list (bk_Events backup) (key_text r) \<noteq> []
       then Some (event_file codec (map (owned_by (KeyForRuntime r)) (get_list (bk_Events backup) (key_text r))))
       else map_of fs (eventsPath root (key_Namespace j) (key_Name j)))"
proof -
  have root: "root \<noteq> []" and label: "label_key (KeyForRuntime r)"
    using assms(1) storable_label by (auto simp: restorable_def)
  note ne = other_kind_paths [OF root] not_sym [OF other_kind_paths(1) [OF root]]
    not_sym [OF other_kind_paths(2) [OF root]] not_sym [OF other_kind_paths(4) [OF root]]
  note same = same_kind_paths [OF root label assms(2)] same_kind_paths [OF root assms(2) label]
  show "map_of (restore_one codec root backup r fs) (specPath root (key_Namespace j) (key_Name j)) =
      (if j = KeyForRuntime r then Some (MustJSONRuntime codec r)
       else map_of fs (specPath root (key_Namespace j) (key_Name j)))"
    using label assms(2)
    by (auto simp: restore_one_files [OF assms(1)] restored_files_def Let_def map_of_set ne same split: option.split)
  show "map_of (restore_one codec root backup r fs) (statusPath root (key_Namespace j) (key_Name j)) =
      (case map_of (bk_Statuses backup) (key_text r) of
         Some st \<Rightarrow> if j = KeyForRuntime r then Some (js_Status codec st @ newline)
                   else map_of fs (statusPath root (key_Namespace j) (key_Name j))
       | None \<Rightarrow> map_of fs (statusPath root (key_Namespace j) (key_Name j)))"
    using label assms(2)
    by (auto simp: restore_one_files [OF assms(1)] restored_files_def Let_def map_of_set ne same split: option.split)
  show "map_of (restore_one codec root backup r fs) (eventsPath root (key_Namespace j) (key_Name j)) =
      (if j = KeyForRuntime r \<and> get_list (bk_Events backup) (key_text r) \<noteq> []
       then Some (event_file codec (map (owned_by (KeyForRuntime r)) (get_list (bk_Events backup) (key_text r))))
       else map_of fs (eventsPath root (key_Namespace j) (key_Name j)))"
    using label assms(2)
    by (auto simp: restore_one_files [OF assms(1)] restored_files_def Let_def map_of_set ne same split: option.split)
qed

definition saved_status :: "StateBackup \<Rightarrow> Runtime \<Rightarrow> RuntimeError + RuntimeStatus \<Rightarrow> RuntimeError + RuntimeStatus" where
  "saved_status backup r old = (case map_of (bk_Statuses backup) (key_text r) of None \<Rightarrow> old | Some st \<Rightarrow> Inr st)"

definition saved_events :: "StateBackup \<Rightarrow> Runtime \<Rightarrow> RuntimeError + RuntimeEvent list \<Rightarrow> RuntimeError + RuntimeEvent list" where
  "saved_events backup r old =
     (let es = get_list (bk_Events backup) (key_text r)
      in if es = [] then old else Inr (map (owned_by (KeyForRuntime r)) es))"

interpretation specs: keyed_steps "stored codec root" "restore_one codec root backup" KeyForRuntime "\<lambda>r _. Some r"
    "restorable codec root backup" for codec root backup
proof
  fix r j s assume r: "restorable codec root backup r" "label_key j"
  then show "stored codec root (restore_one codec root backup r s) j =
      (if j = KeyForRuntime r then Some r else stored codec root s j)"
    using storable_parse [of codec r]
    by (auto simp: stored_code restored_lookup(1) [OF r] restorable_def)
qed

interpretation statuses: keyed_steps "status_of codec root" "restore_one codec root backup" KeyForRuntime
    "saved_status backup" "restorable codec root backup" for codec root backup
proof
  fix r j s assume r: "restorable codec root backup r" "label_key j"
  then show "status_of codec root (restore_one codec root backup r s) j =
      (if j = KeyForRuntime r then saved_status backup r (status_of codec root s j) else status_of codec root s j)"
    by (auto simp: ReadStatus_def saved_status_def restored_lookup(2) [OF r] restorable_def Let_def split: option.split)
qed

interpretation events: keyed_steps "events_of codec root" "restore_one codec root backup" KeyForRuntime
    "saved_events backup" "restorable codec root backup" for codec root backup
proof
  fix r j s assume r: "restorable codec root backup r" "label_key j"
  let ?es = "get_list (bk_Events backup) (key_text r)"
  show "events_of codec root (restore_one codec root backup r s) j =
      (if j = KeyForRuntime r then saved_events backup r (events_of codec root s j) else events_of codec root s j)"
  proof (cases "j = KeyForRuntime r \<and> ?es \<noteq> []")
    case True
    have "events_of codec root (restore_one codec root backup r s) j = Inr (map (owned_by (KeyForRuntime r)) ?es)"
    proof (rule events_of_file [OF r(2)])
      show "map_of (restore_one codec root backup r s) (eventsPath root (key_Namespace j) (key_Name j)) =
          Some (event_file codec (map (owned_by (KeyForRuntime r)) ?es))"
        using restored_lookup(3) [OF r, of s] True by simp
      show "list_all (event_line codec) (map (owned_by (KeyForRuntime r)) ?es)"
        using r(1) by (simp add: restorable_def list.pred_map comp_def)
    qed
    with True show ?thesis by (simp add: saved_events_def Let_def)
  next
    case False
    then have "map_of (restore_one codec root backup r s) (eventsPath root (key_Namespace j) (key_Name j)) =
        map_of s (eventsPath root (key_Namespace j) (key_Name j))"
      by (auto simp: restored_lookup(3) [OF r])
    then have "events_of codec root (restore_one codec root backup r s) j = events_of codec root s j"
      using r(2) by (simp add: ReadEvents_def Let_def)
    then show ?thesis using False by (auto simp: saved_events_def Let_def)
  qed
qed

lemma restore_all_fold:
  "list_all (restorable codec root backup) rs \<Longrightarrow>
    restore_all codec root backup rs fs = (None, fold (restore_one codec root backup) rs fs)"
proof (induction rs arbitrary: fs)
  case (Cons r rs)
  then have "storable codec r" by (simp add: restorable_def)
  then have "NormalizeRuntime r = r" "ValidateRuntime r = None" "NormalizeInPlace r = r"
    using storable_normal storable_in_place by blast+
  then show ?case using Cons by simp
qed simp

section \<open>Backing up\<close>

lemma label_key_text:
  "label_key a \<Longrightarrow> label_key b \<Longrightarrow> key_String a = key_String b \<longleftrightarrow> a = b"
proof -
  assume k: "label_key a" "label_key b"
  have "slash_free s" if "validDNSLabel s" for s using label_chars(2) [OF that] by (auto simp: slash_free_def)
  with k show ?thesis by (intro key_String_inject) (auto simp: label_key_def)
qed

definition known :: "'e + 'v \<Rightarrow> 'v option" where
  "known r = (case r of Inl _ \<Rightarrow> None | Inr v \<Rightarrow> Some v)"

lemma backup_kept:
  "bk_Runtimes (foldl (add_to_backup codec root fs) b rs) = bk_Runtimes b"
  "bk_Version (foldl (add_to_backup codec root fs) b rs) = bk_Version b"
proof -
  have "bk_Runtimes (add_to_backup codec root fs b r) = bk_Runtimes b \<and>
      bk_Version (add_to_backup codec root fs b r) = bk_Version b" for b r
    by (simp add: add_to_backup_def Let_def split: sum.split)
  then show "bk_Runtimes (foldl (add_to_backup codec root fs) b rs) = bk_Runtimes b"
    "bk_Version (foldl (add_to_backup codec root fs) b rs) = bk_Version b"
    by (induction rs arbitrary: b) simp_all
qed

lemma add_to_backup_fields:
  assumes "label_key (KeyForRuntime r)" "label_key k"
  shows "map_of (bk_Statuses (add_to_backup codec root fs b r)) (key_String k) =
      (if k = KeyForRuntime r \<and> known (status_of codec root fs k) \<noteq> None then known (status_of codec root fs k)
       else map_of (bk_Statuses b) (key_String k))"
    "get_list (bk_Events (add_to_backup codec root fs b r)) (key_String k) =
      (if k = KeyForRuntime r \<and> known (events_of codec root fs k) \<notin> {None, Some []} then the (known (events_of codec root fs k))
       else get_list (bk_Events b) (key_String k))"
  using label_key_text [OF assms] label_key_text [OF assms(2,1)]
  by (auto simp: add_to_backup_def known_def get_list_def map_of_set Let_def split: sum.split)

definition readable_events :: "json_codec \<Rightarrow> string \<Rightarrow> disk \<Rightarrow> RuntimeKey \<Rightarrow> RuntimeEvent list" where
  "readable_events codec root fs k = (case events_of codec root fs k of Inl _ \<Rightarrow> [] | Inr es \<Rightarrow> es)"

lemma backup_content:
  assumes "list_all (\<lambda>r. label_key (KeyForRuntime r)) rs" "label_key k"
    and "bk_Statuses b = []" "bk_Events b = []"
  shows "map_of (bk_Statuses (foldl (add_to_backup codec root fs) b rs)) (key_String k) =
      (if k \<in> KeyForRuntime ` set rs then known (status_of codec root fs k) else None) \<and>
    get_list (bk_Events (foldl (add_to_backup codec root fs) b rs)) (key_String k) =
      (if k \<in> KeyForRuntime ` set rs then readable_events codec root fs k else [])"
  using assms(1)
proof (induction rs rule: rev_induct)
  case Nil
  then show ?case using assms(3,4) by (simp add: get_list_def)
next
  case (snoc r rs)
  then have "label_key (KeyForRuntime r)" by simp
  note fields = add_to_backup_fields [OF this assms(2)]
  show ?case using snoc by (auto simp: fields known_def readable_events_def split: sum.splits)
qed

section \<open>The round trip\<close>

text \<open>What a Runtime finds again after its backup is restored; a part the backup lacks is as before.\<close>

definition given_back :: "json_codec \<Rightarrow> string \<Rightarrow> disk \<Rightarrow> string \<Rightarrow> disk \<Rightarrow> disk \<Rightarrow> Runtime \<Rightarrow> bool" where
  "given_back codec root fs root' before after r \<longleftrightarrow>
     (let k = KeyForRuntime r
      in ReadRuntime codec root' (key_Namespace k) (key_Name k) after = Inr r \<and>
         status_of codec root' after k =
           (case status_of codec root fs k of Inl _ \<Rightarrow> status_of codec root' before k | Inr st \<Rightarrow> Inr st) \<and>
         events_of codec root' after k =
           (case events_of codec root fs k of
              Inl _ \<Rightarrow> events_of codec root' before k
            | Inr es \<Rightarrow> if es = [] then events_of codec root' before k else Inr (map (owned_by k) es)))"

text \<open>The codec gives back the status and the events stored for a Runtime.\<close>

definition faithful_records :: "json_codec \<Rightarrow> string \<Rightarrow> disk \<Rightarrow> Runtime \<Rightarrow> bool" where
  "faithful_records codec root fs r \<longleftrightarrow>
     (case status_of codec root fs (KeyForRuntime r) of
        Inl _ \<Rightarrow> True | Inr st \<Rightarrow> js_readStatus codec (js_Status codec st @ newline) = Inr st) \<and>
     (case events_of codec root fs (KeyForRuntime r) of
        Inl _ \<Rightarrow> True | Inr es \<Rightarrow> list_all (\<lambda>e. event_line codec (owned_by (KeyForRuntime r) e)) es)"


section \<open>Limits of the store\<close>

text \<open>One line of an event log after whole lines, and whatever follows it.\<close>

definition has_line :: "string \<Rightarrow> string \<Rightarrow> bool" where
  "has_line content line \<longleftrightarrow>
     (\<exists>before rest. content = concat (map (\<lambda>l. l @ newline) before) @ line @ newline @ rest)"

lemma has_line_append: "has_line content line \<Longrightarrow> has_line (content @ added) line"
  by (auto simp: has_line_def) (metis append.assoc append_Cons)

lemma has_line_split:
  assumes "has_line content line" "CHR 0x0A \<notin> set line"
  shows "line \<in> set (split_on (CHR 0x0A) content)"
proof -
  obtain before rest where c: "content = concat (map (\<lambda>l. l @ newline) before) @ line @ newline @ rest"
    using assms(1) by (auto simp: has_line_def)
  have "set (split_on (CHR 0x0A) s) \<subseteq> set (split_on (CHR 0x0A) (concat (map (\<lambda>l. l @ newline) before) @ s))" for s
    by (induction before) (auto simp: split_on_append_sep)
  moreover have "line \<in> set (split_on (CHR 0x0A) (line @ newline @ rest))"
    using assms(2) by (simp add: split_on_line)
  ultimately show ?thesis unfolding c by blast
qed

lemma long_line_scan:
  assumes "has_line content line" "CHR 0x0A \<notin> set line" "scan_limit \<le> length line"
  shows "scan_lines content = None"
proof -
  let ?lines = "split_on (CHR 0x0A) content"
  have line: "line \<in> set ?lines" using assms(1,2) by (rule has_line_split)
  moreover have "line \<noteq> []" using assms(3) by (auto simp: scan_limit_def)
  ultimately have "last ?lines = [] \<longrightarrow> line \<in> set (butlast ?lines)"
    by (metis append_butlast_last_id in_set_conv_decomp set_ConsD Un_iff empty_iff list.set(1) set_append split_on_ne)
  with line assms(3) show ?thesis by (auto simp: scan_lines_def Let_def list_all_iff not_less)
qed

definition append_events ::
    "json_codec \<Rightarrow> string \<Rightarrow> RuntimeKey \<Rightarrow> (string \<times> string \<times> string \<times> string) list \<Rightarrow> disk \<Rightarrow> disk" where
  "append_events codec root k es fs =
     fold (\<lambda>(now, eventType, reason, message).
       AppendEvent codec root now (key_Namespace k) (key_Name k) eventType reason message) es fs"


text \<open>A name with dot-dot segments, which the interface accepts, leaves the state directory.\<close>

lemma dotdot_leaves_state_dir:
  "specPath ''/var/lib/aifar-runtime'' ''default'' ''../../../other/x'' = ''/var/lib/other/x.json''"
  "DeleteRuntime ''/var/lib/aifar-runtime'' ''default'' ''../../../other/x'' [(''/var/lib/other/x.json'', c)] = []"
proof -
  show spec: "specPath ''/var/lib/aifar-runtime'' ''default'' ''../../../other/x'' = ''/var/lib/other/x.json''" by code_simp
  have "runtimeKey ''default'' ''../../../other/x'' = \<lparr>key_Namespace = ''default'', key_Name = ''../../../other/x''\<rparr>" by code_simp
  then show "DeleteRuntime ''/var/lib/aifar-runtime'' ''default'' ''../../../other/x'' [(''/var/lib/other/x.json'', c)] = []"
    by (simp add: DeleteRuntime_def spec del: split_on.simps)
qed

section \<open>Tokens that only the stored form has\<close>

lemma rooted_clean:
  assumes "list_all plain_segment segs"
  shows "path_Clean (CHR ''/'' # join_with ''/'' segs) = CHR ''/'' # join_with ''/'' segs"
proof (cases "segs = []")
  case True
  have "path_Clean ''/'' = ''/''" by code_simp
  then show ?thesis using True by simp
next
  case False
  then have "split_on (CHR ''/'') (join_with ''/'' segs) = segs"
    using assms by (intro split_on_join) (auto simp: plain_segment_def list_all_iff)
  then show ?thesis using assms by (simp add: path_Clean_def clean_segments_plain)
qed

lemma join_append: "a \<noteq> [] \<Longrightarrow> b \<noteq> [] \<Longrightarrow> join_with sep (a @ b) = join_with sep a @ sep @ join_with sep b"
proof (induction sep a rule: join_with.induct)
  case (2 sep s)
  then show ?case by (cases b) auto
qed auto

lemma rooted_join:
  assumes "list_all plain_segment segs" "list_all plain_segment zs" "segs \<noteq> []" "zs \<noteq> []"
  shows "path_Join ((CHR ''/'' # join_with ''/'' segs) # zs) = CHR ''/'' # join_with ''/'' (segs @ zs)"
proof -
  obtain z more where "zs = z # more" using assms(4) by (cases zs) auto
  then have "join_with ''/'' ((CHR ''/'' # join_with ''/'' segs) # zs) = CHR ''/'' # join_with ''/'' (segs @ zs)"
    using join_append [OF assms(3,4), of "''/''"] by simp
  then show ?thesis using rooted_clean [of "segs @ zs"] assms by (simp add: path_Join_def)
qed

lemma parse_specs_fails:
  "p \<in> set paths \<Longrightarrow> ParseRuntimeDocument (js_yaml codec) (get_str fs p) = Inl e \<Longrightarrow> \<exists>e. parse_specs codec fs paths = Inl e"
  by (induction paths) (auto split: sum.split)

text \<open>The file of a Runtime is among those that loading reads.\<close>

lemma saved_spec_walked:
  assumes root: "root = CHR ''/'' # join_with ''/'' segs" "segs \<noteq> []" "list_all plain_segment segs"
    and label: "label_key k" and saved: "specPath root (key_Namespace k) (key_Name k) \<in> set (map_keys fs)"
  shows "specPath root (key_Namespace k) (key_Name k) \<in>
    set (filter (\<lambda>p. has_suffix p ''.json'') (walk (path_Join [root, ''specs'']) fs))"
proof -
  let ?segs = "[key_Namespace k, key_Name k @ ''.json'']" and ?path = "specPath root (key_Namespace k) (key_Name k)"
  have plain: "list_all plain_segment ?segs" using label label_plain by (simp add: label_key_def)
  have dir: "path_Join [root, ''specs''] = CHR ''/'' # join_with ''/'' (segs @ [''specs''])"
    using rooted_join [OF root(3), of "[''specs'']"] root plain_kinds by simp
  have path: "?path = CHR ''/'' # join_with ''/'' (segs @ ''specs'' # ?segs)"
    using rooted_join [OF root(3), of "''specs'' # ?segs"] root plain plain_kinds label
    by (simp add: specPath_def state_path_def Let_def)
  have "path_Clean (CHR ''/'' # join_with ''/'' (segs @ [''specs''])) = CHR ''/'' # join_with ''/'' (segs @ [''specs''])"
    by (rule rooted_clean) (use root plain_kinds in simp)
  moreover have "join_with ''/'' (segs @ ''specs'' # ?segs) = join_with ''/'' (segs @ [''specs'']) @ ''/'' @ join_with ''/'' ?segs"
    using join_append [of "segs @ [''specs'']" ?segs "''/''"] by simp
  ultimately have "below (path_Join [root, ''specs'']) ?path \<noteq> None"
    using root(2) unfolding dir path by (simp add: below_def Let_def)
  moreover have "has_suffix ?path ''.json''"
  proof -
    have "?path = (CHR ''/'' # join_with ''/'' (segs @ [''specs'', key_Namespace k]) @ ''/'' @ key_Name k) @ ''.json''"
      using join_append [of "segs @ [''specs'', key_Namespace k]" "[key_Name k @ ''.json'']" "''/''"] unfolding path by simp
    then show ?thesis unfolding has_suffix_def by (metis prefixI rev_append)
  qed
  ultimately show ?thesis using saved by (simp add: walk_def)
qed

text \<open>C26: when the JSON of an accepted Runtime holds a token that the text of its request did not show (it was
  written with an escape), the file that saving makes cannot be read: after that nothing can be loaded,
  so the service does not start again, and no backup can be made.\<close>

theorem escaped_token_blocks_loading:
  assumes root: "root = CHR ''/'' # join_with ''/'' segs" "segs \<noteq> []" "list_all plain_segment segs"
    and accepted: "ParseRuntimeDocument yaml data = Inr r"
    and token: "token \<in> {''{{'', ''}}'', ''${'', ''<%''}" "contains (MustJSONRuntime codec (r\<lparr>rtm_Status := None\<rparr>)) token"
  shows "(\<exists>e. LoadAll codec root (SaveRuntime codec root r fs) = Inl e) \<and>
    (\<exists>e. BackupTo codec root now (SaveRuntime codec root r fs) = Inl e)"
proof -
  let ?fs = "SaveRuntime codec root r fs" and ?k = "KeyForRuntime r"
  have r: "NormalizeRuntime r = r" "runtime_ok r" using parsed_normal_valid [OF accepted] by simp_all
  then have label: "label_key ?k" by (simp add: runtime_ok_def label_key_def KeyForRuntime_def Let_def)
  let ?path = "specPath root (key_Namespace ?k) (key_Name ?k)"
  have saved: "get_str ?fs ?path = MustJSONRuntime codec (r\<lparr>rtm_Status := None\<rparr>)" "?path \<in> set (map_keys ?fs)"
    using r(1) by (simp_all add: SaveRuntime_def KeyForRuntime_def map_keys_def gomap_simps dom_update Let_def)
  note walked = saved_spec_walked [OF root label saved(2)]
  have "rejectRenderedRuntimeHazards (get_str ?fs ?path) \<noteq> None"
    using token saved(1) by (auto simp: rejectRenderedRuntimeHazards_def first_error_Cons_None check_None)
  then obtain e where "ParseRuntimeDocument (js_yaml codec) (get_str ?fs ?path) = Inl e"
    by (auto simp: ParseRuntimeDocument_def)
  from parse_specs_fails [OF walked this] obtain e' where "LoadAll codec root ?fs = Inl e'"
    by (auto simp: LoadAll_def)
  then show ?thesis by (simp add: BackupTo_def)
qed


section \<open>Witnesses\<close>

definition stored_sample :: Runtime where
  "stored_sample = NormalizeRuntime (NormalizeRuntime (sample_runtime ''shop'' 9000))"

definition sample_codec :: json_codec where
  "sample_codec =
     \<lparr>js_Runtime = (\<lambda>_. ''spec: {}''), js_Status = (\<lambda>_. ''ok''), js_Event = (\<lambda>e. ev_Reason e @ ''!''),
      js_readStatus = (\<lambda>_. Inl ''bad''), js_readEvent = (\<lambda>_. None),
      js_yaml = sample_yaml\<lparr>yaml_runtime := (\<lambda>_. Some stored_sample)\<rparr>\<rparr>"

lemma stored_sample_storable: "storable sample_codec stored_sample"
proof -
  have "NormalizeRuntime stored_sample = stored_sample" "ValidateRuntime stored_sample = None"
    "rtm_Status stored_sample = None" by code_simp+
  moreover have "rejectRenderedRuntimeHazards (''spec: {}'' @ newline) = None" by code_simp
  ultimately show ?thesis
    by (simp add: storable_def MustJSONRuntime_def sample_codec_def sample_yaml_def Let_def
        hasMapKey_def isLegacyRuntimeDocument_def)
qed

abbreviation shop :: RuntimeKey where
  "shop \<equiv> \<lparr>key_Namespace = ''default'', key_Name = ''shop''\<rparr>"

lemma shop_label: "label_key shop"
  unfolding label_key_def by code_simp


definition sample_disk :: disk where
  "sample_disk = SaveRuntime sample_codec ''/state'' stored_sample []"

definition sample_backup :: StateBackup where
  "sample_backup = \<lparr>bk_Version = RuntimeVersion, bk_CreatedAt = ''now'', bk_Runtimes = [stored_sample],
     bk_Statuses = [], bk_Events = []\<rparr>"



text \<open>An environment value whose placeholder was written with an escape.\<close>

definition env_codec :: json_codec where
  "env_codec = sample_codec\<lparr>js_Runtime := (\<lambda>r. concat (map (\<lambda>d. concat (map snd (dep_Env d))) (rs_Deployments (rtm_Spec r))))\<rparr>"

definition with_placeholder :: "Runtime \<Rightarrow> Runtime" where
  "with_placeholder r = r\<lparr>rtm_Spec := (rtm_Spec r)\<lparr>rs_Deployments :=
     map (\<lambda>d. d\<lparr>dep_Env := [(''NAME'', ''${containerName}'')]\<rparr>) (rs_Deployments (rtm_Spec r))\<rparr>\<rparr>"

definition escaping_yaml :: yaml_library where
  "escaping_yaml = sample_yaml\<lparr>yaml_runtime := (\<lambda>_. Some (with_placeholder (sample_runtime ''shop'' 9000)))\<rparr>"

definition accepted_document :: string where
  "accepted_document = ''NAME: '' @ [CHR 0x5C] @ ''u0024{containerName}''"

theorem escaped_token_blocks_loading_witness:
  "\<exists>r. ParseRuntimeDocument escaping_yaml accepted_document = Inr r \<and>
     (\<exists>e. LoadAll env_codec ''/state'' (SaveRuntime env_codec ''/state'' r []) = Inl e) \<and>
     (\<exists>e. BackupTo env_codec ''/state'' ''now'' (SaveRuntime env_codec ''/state'' r []) = Inl e)"
proof -
  have "case ParseRuntimeDocument escaping_yaml accepted_document of Inl _ \<Rightarrow> False
    | Inr r \<Rightarrow> contains (MustJSONRuntime env_codec (r\<lparr>rtm_Status := None\<rparr>)) ''${''" by code_simp
  then obtain r where r: "ParseRuntimeDocument escaping_yaml accepted_document = Inr r"
      "contains (MustJSONRuntime env_codec (r\<lparr>rtm_Status := None\<rparr>)) ''${''"
    by (cases "ParseRuntimeDocument escaping_yaml accepted_document") auto
  have "plain_segment ''state''" by (simp add: plain_segment_def)
  then show ?thesis
    using escaped_token_blocks_loading [of "''/state''" "[''state'']" escaping_yaml accepted_document r "''${''" env_codec "[]" "''now''"] r
    by auto
qed

end
