(* ===== verification/Durable.thy ===== *)
theory Durable
  imports Outcomes StoreProps
begin

text \<open>
  The manager on the state store: what \<open>Apply\<close> and \<open>Remove\<close> have done is what a manager finds that
  is started afterwards on the same files. The world of the manager is the disk and a clock, and its
  store is the one of \<open>Store\<close>. Docker and the listeners may change both at will; writing the proxy
  documents changes their two files, and looking at a context changes none.
\<close>

section \<open>Actions that leave a file alone\<close>

lemma andThen_successE:
  assumes "andThen m f s = (Inr y, u)"
  obtains x t where "m s = (Inr x, t)" "f x t = (Inr y, u)"
  using assms by (auto simp: andThen_success)

definition keeps_file :: "string \<Rightarrow> (disk \<times> int) Agent \<Rightarrow> (disk \<times> int) Agent \<Rightarrow> bool" where
  "keeps_file p s t \<longleftrightarrow> map_of (fst (ag_w t)) p = map_of (fst (ag_w s)) p"

interpretation file_kept: agent_relation "keeps_file p" for p
  by unfold_locales (simp_all add: keeps_file_def)

lemma keeps_world:
  "(\<And>w. map_of (fst (snd (f w))) p = map_of (fst w) p) \<Longrightarrow> obeys (keeps_file p) (world f)"
  by (simp add: obeys_def keeps_file_def world_def split_beta)

lemma keeps_saving:
  "(\<And>w. map_of (fst (snd (f w))) p = map_of (fst w) p) \<Longrightarrow> obeys (keeps_file p) (saving f)"
  unfolding saving_def by (intro step_rules keeps_world)

lemma saving_always: "(\<And>w. fst (f w) = None) \<Longrightarrow> saving f s = (Inr (), s\<lparr>ag_w := snd (f (ag_w s))\<rparr>)"
  by (simp add: saving_def andThen_eq world_def raise_def ret_def split_beta)

text \<open>
  The outside does not touch the files of the store: the end of a context writes nothing, and the
  proxy state is written to its own path.
\<close>

definition spares_store :: "(disk \<times> int) Env \<Rightarrow> bool" where
  "spares_store env \<longleftrightarrow>
     (\<forall>w. fst (snd (env_Cancelled env w)) = fst w) \<and>
     (\<forall>path routes w p. p \<noteq> path \<longrightarrow> map_of (fst (snd (env_WriteRoutes env path routes w))) p = map_of (fst w) p)"

locale file_manager =
  fixes env :: "(disk \<times> int) Env" and codec :: json_codec and root :: string and segs :: "string list"
    and format :: "int \<Rightarrow> string"
  assumes store: "env_Store env = StateStore codec root format"
    and root: "root = CHR ''/'' # join_with ''/'' segs" "segs \<noteq> []" "list_all plain_segment segs"
    and spares: "spares_store env"
begin

lemma spared:
  "fst (snd (env_Cancelled env w)) = fst w"
  "p \<noteq> path \<Longrightarrow> map_of (fst (snd (env_WriteRoutes env path routes w))) p = map_of (fst w) p"
  using spares unfolding spares_store_def by blast+

lemma root_ne: "root \<noteq> []" by (simp add: root)

lemma plain_proxy_files: "plain_segment ''services.json''" "plain_segment ''ingress.json''"
  by (simp_all add: plain_segment_def)

lemma proxy_path:
  assumes "plain_segment f" shows "path_Join [root, ''proxy'', f] = root @ ''/proxy/'' @ f"
proof -
  have "list_all plain_segment [''proxy'', f]" using assms by (simp add: plain_segment_def)
  from rooted_join [OF root(3) this] show ?thesis using root(1,2) join_append by simp
qed

lemma keeps_proxy_state:
  assumes "label_key k" shows "obeys (keeps_file (specPath root (key_Namespace k) (key_Name k))) (writeProxyState env)"
proof -
  let ?spec = "[''specs'', key_Namespace k, key_Name k @ ''.json'']"
  have plain: "list_all plain_segment ?spec" using assms label_plain plain_kinds by (simp add: label_key_def)
  have path: "specPath root (key_Namespace k) (key_Name k) = path_Join (root # ?spec)"
    using assms by (simp add: specPath_def state_path_def)
  have "specPath root (key_Namespace k) (key_Name k) \<noteq> path_Join [root, ''proxy'', f]" if f: "plain_segment f" for f
  proof
    assume "specPath root (key_Namespace k) (key_Name k) = path_Join [root, ''proxy'', f]"
    then have "path_Join (root # ?spec) = path_Join (root # [''proxy'', f])" by (simp only: path)
    moreover have "list_all plain_segment [''proxy'', f]" using f by (simp add: plain_segment_def)
    ultimately have "?spec = [''proxy'', f]" by (intro path_Join_inj [OF plain _ _ _ root_ne]) simp_all
    then show False by simp
  qed
  moreover have "path_Join [root, ''proxy'', f] = root @ ''/proxy/'' @ f" if f: "plain_segment f" for f
    using proxy_path [OF f] .
  ultimately have other: "specPath root (key_Namespace k) (key_Name k) \<noteq> root @ ''/proxy/services.json''"
      "specPath root (key_Namespace k) (key_Name k) \<noteq> root @ ''/proxy/ingress.json''"
    by (metis append_Cons append_Nil plain_proxy_files)+
  have parts: "sto_Root (env_Store env) = root" "sto_Ensure (env_Store env) = (\<lambda>w. (None, w))"
    by (simp_all add: store StateStore_def)
  have ensured: "obeys (keeps_file (specPath root (key_Namespace k) (key_Name k))) (saving (\<lambda>w. (None, w)))"
    by (rule keeps_saving) simp
  show ?thesis
    unfolding writeProxyState_def parts
    by (rule file_kept.obeys_andThen, rule ensured, rule file_kept.obeys_andThen, rule file_kept.obeys_manager,
        rule file_kept.obeys_andThen; rule keeps_saving, rule spared(2) [OF other(1)] spared(2) [OF other(2)])
qed

lemma keeps_event:
  assumes "label_key k" "label_key j"
  shows "obeys (keeps_file (specPath root (key_Namespace k) (key_Name k))) (appendEvent env j ty reason message)"
  unfolding appendEvent_def store
  by (intro step_rules keeps_world)
     (auto simp: StateStore_def AppendEvent_def gomap_simps other_kind_paths [OF root_ne assms] assms(2) Let_def)

lemma keeps_status:
  assumes "label_key k" "storable codec r"
  shows "obeys (keeps_file (specPath root (key_Namespace k) (key_Name k))) (saving (sto_SaveStatus (env_Store env) r st))"
proof -
  have "SaveStatus codec root r st fs =
      map_set fs (statusPath root (key_Namespace (KeyForRuntime r)) (key_Name (KeyForRuntime r))) (js_Status codec st @ newline)" for fs
    by (simp only: SaveStatus_def storable_normal(1) [OF assms(2)] storable_key [OF assms(2)] Let_def)
  then show ?thesis
    unfolding store
    by (intro keeps_saving)
       (auto simp: StateStore_def gomap_simps other_kind_paths [OF root_ne assms(1) storable_label [OF assms(2)]])
qed

text \<open>The end of \<open>Apply\<close>: the Runtime is written and stays written.\<close>

lemma publish_stores:
  assumes "publish env r refreshed s = (Inr x, t)" "storable codec r"
  shows "stored codec root (fst (ag_w t)) (KeyForRuntime r) = Some r"
proof -
  let ?k = "KeyForRuntime r"
  let ?path = "specPath root (key_Namespace ?k) (key_Name ?k)"
  let ?rest = "\<lambda>st. andThen (saving (sto_SaveStatus (env_Store env) r st)) (\<lambda>_.
      andThen (writeProxyState env) (\<lambda>_.
      andThen (appendEvent env ?k ''Normal'' ''Applied'' ''Runtime reconciliation completed'') (\<lambda>_.
      andThen (world (env_Cancelled env)) (\<lambda>cancelled. raise id (map_option Text cancelled)))))"
  have label: "label_key ?k" by (rule storable_label [OF assms(2)])
  obtain st u v where save: "saving (sto_SaveRuntime (env_Store env) r) u = (Inr (), v)" and rest: "?rest st v = (Inr x, t)"
    using assms(1) by (fastforce simp: publish_def Let_def andThen_success)
  have "map_of (fst (ag_w v)) ?path = Some (MustJSONRuntime codec r)"
    using save unfolding store
    by (auto simp: saving_always StateStore_def Save_storable [OF assms(2)] gomap_simps split: prod.splits)
  moreover have "obeys (keeps_file ?path) (world (env_Cancelled env))"
    by (intro keeps_world) (simp only: spared(1))
  then have "obeys (keeps_file ?path) (?rest st)"
    by (intro file_kept.obeys_andThen keeps_status keeps_proxy_state keeps_event file_kept.obeys_raise label assms(2))
  then have "keeps_file ?path v t" using rest by (rule obeysD_eq)
  ultimately show ?thesis
    using storable_parse [OF assms(2)] by (simp add: keeps_file_def stored_code [OF label])
qed

text \<open>The end of \<open>Remove\<close>: the files of the Runtime are gone and stay away.\<close>

lemma remove_erases:
  assumes "Remove env ns name s = (Inr x, t)" "label_key (runtimeKey ns name)"
  shows "stored codec root (fst (ag_w t)) (runtimeKey ns name) = None"
proof -
  let ?k = "runtimeKey ns name"
  let ?path = "specPath root (key_Namespace ?k) (key_Name ?k)"
  let ?rest = "andThen (writeProxyState env) (\<lambda>_.
      appendEvent env ?k ''Normal'' ''Deleted'' ''Runtime state, listeners, and owned containers removed'')"
  have "key_Name ?k \<noteq> []" using assms(1) by (auto simp: Remove_def fail_def)
  then obtain u v where delete: "saving (sto_DeleteRuntime (env_Store env) (key_Namespace ?k) (key_Name ?k)) u = (Inr (), v)"
    and rest: "?rest v = (Inr x, t)"
    using assms(1) unfolding Remove_def Let_def by (simp only: if_False) (elim andThen_successE; simp add: andThen_success)
  have "stored codec root (fst (ag_w v)) = (stored codec root (fst (ag_w u)))(?k := None)"
    using delete unfolding store
    by (auto simp: saving_always StateStore_def stored_delete [OF root_ne assms(2)] split: prod.splits)
  then have "stored codec root (fst (ag_w v)) ?k = None" by simp
  moreover have "obeys (keeps_file ?path) ?rest"
    by (intro file_kept.obeys_andThen keeps_proxy_state keeps_event assms(2))
  then have "keeps_file ?path v t" using rest by (rule obeysD_eq)
  ultimately show ?thesis by (simp add: keeps_file_def stored_code [OF assms(2)])
qed

text \<open>A manager that is started afterwards reads the store.\<close>

lemma fresh_manager_reads:
  assumes "label_key k" "m_specs (ag_m s) = []"
  shows "\<exists>status t. GetRuntime env (key_Namespace k) (key_Name k) s =
    (Inr (map_option (\<lambda>r. (r, status)) (stored codec root (fst (ag_w s)) k)), t)"
proof -
  let ?w = "ag_w s"
  have read: "sto_ReadRuntime (env_Store env) (key_Namespace k) (key_Name k) ?w =
      (ReadRuntime codec root (key_Namespace k) (key_Name k) (fst ?w), ?w)"
    by (simp add: store StateStore_def split: prod.split)
  show ?thesis
    by (cases "ReadRuntime codec root (key_Namespace k) (key_Name k) (fst ?w)")
       (auto simp: GetRuntime_def previousRuntimeState_def stored_runtime_def known_runtime_def assms stored_def
         andThen_eq manager_def world_def ret_def read split_beta)
qed

end

section \<open>The agent on its state directory\<close>

text \<open>
  Any outside world with the store on files at the default state root: the two proxy documents are
  written beside the Runtimes, as the text \<open>js\<close> gives for them.
\<close>

definition default_root :: string where
  "default_root = ''/var/lib/aifar-runtime''"

definition on_files :: "json_codec \<Rightarrow> (port_routes \<Rightarrow> string) \<Rightarrow> (int \<Rightarrow> string option) \<Rightarrow>
    (disk \<times> int) Env \<Rightarrow> (disk \<times> int) Env" where
  "on_files codec js cancelled base = base\<lparr>
     env_Store := StateStore codec default_root (env_Format base),
     env_WriteRoutes := (\<lambda>path routes (fs, t). (None, (map_set fs path (js routes), t))),
     env_Cancelled := (\<lambda>(fs, t). (cancelled t, (fs, t)))\<rparr>"

lemma default_root_segments:
  "default_root = CHR ''/'' # join_with ''/'' [''var'', ''lib'', ''aifar-runtime'']"
  "list_all plain_segment [''var'', ''lib'', ''aifar-runtime'']"
  by (simp_all add: default_root_def plain_segment_def)

lemma on_files_spares: "spares_store (on_files codec js cancelled base)"
  by (auto simp: spares_store_def on_files_def gomap_simps)

interpretation on_files: file_manager "on_files codec js cancelled base" codec default_root
    "[''var'', ''lib'', ''aifar-runtime'']" "env_Format base" for codec js cancelled base
proof
  show "env_Store (on_files codec js cancelled base) = StateStore codec default_root (env_Format base)"
    by (simp add: on_files_def)
qed (use default_root_segments on_files_spares in simp_all)



section \<open>Witnesses\<close>

text \<open>The idle Docker on an empty state directory, and a codec that reads the admitted Runtime back.\<close>

definition idle_admitted :: Runtime where
  "idle_admitted = (case AdmitRuntime (cfg_Node DefaultRuntimeConfig) []
       (numbered NewManager (NormalizeInPlace (NormalizeRuntime idle_runtime))) of
     Inr a \<Rightarrow> a | Inl _ \<Rightarrow> idle_runtime)"

definition idle_codec :: json_codec where
  "idle_codec = sample_codec\<lparr>js_yaml := sample_yaml\<lparr>yaml_runtime := (\<lambda>_. Some idle_admitted)\<rparr>\<rparr>"

definition idle_store :: "(disk \<times> int) RuntimeStateStore" where
  "idle_store = StateStore idle_codec default_root itoa"

definition write_file :: "string \<Rightarrow> port_routes \<Rightarrow> (disk \<times> int) fallible" where
  "write_file path routes = (\<lambda>(fs, t). (None, (map_set fs path ''{}'', t)))"

abbreviation filed_env :: "(disk \<times> int) Env" where
  "filed_env \<equiv> on_files idle_codec (\<lambda>_. ''{}'') (\<lambda>_. None) (idle_env idle_store write_file)"

lemma filed_env: "filed_env = idle_env idle_store write_file"
  by (simp add: on_files_def idle_env_def idle_store_def write_file_def fun_eq_iff split_beta)

lemma quiet_files: "quiet idle_store write_file"
  by (simp add: quiet_def idle_store_def StateStore_def write_file_def split_beta)

lemma idle_admitted_storable: "storable idle_codec idle_admitted"
proof -
  have "NormalizeRuntime idle_admitted = idle_admitted" "ValidateRuntime idle_admitted = None"
    "rtm_Status idle_admitted = None" by code_simp+
  moreover have "rejectRenderedRuntimeHazards (''spec: {}'' @ newline) = None" by code_simp
  ultimately show ?thesis
    by (simp add: storable_def MustJSONRuntime_def idle_codec_def sample_codec_def sample_yaml_def Let_def
        hasMapKey_def isLegacyRuntimeDocument_def)
qed


text \<open>A directory that holds the Runtime.\<close>

abbreviation filed_agent :: "(disk \<times> int) Agent" where
  "filed_agent \<equiv> fresh_agent (SaveRuntime idle_codec default_root idle_admitted [], 0)"


end
