(* ===== verification/AuditLog.thy ===== *)
theory AuditLog
  imports Config GoText
begin

text \<open>
  The audit log of \<open>audit.go\<close>: a file of JSON lines, rotated by size into numbered backups, and
  the query that reads backups and log in order. Files are a map from paths to contents; the
  JSON codec of an event is a parameter. I/O failures are not modelled. A time is an integer, 0
  for Go's zero time.
\<close>

section \<open>Events and queries\<close>

record AuditEvent =
  ae_Time :: int
  ae_RequestID :: string
  ae_Actor :: string
  ae_Role :: string
  ae_SourceIP :: string
  ae_Method :: string
  ae_Path :: string
  ae_Operation :: string
  ae_Namespace :: string
  ae_Name :: string
  ae_Result :: string
  ae_Reason :: string
  ae_StatusCode :: int
  ae_DurationMS :: int

record AuditQuery =
  aq_Tail :: int
  aq_Namespace :: string
  aq_Name :: string
  aq_Actor :: string
  aq_Operation :: string
  aq_Result :: string

definition normalizeAuditEvent :: "int \<Rightarrow> AuditEvent \<Rightarrow> AuditEvent" where
  "normalizeAuditEvent now event =
     \<lparr>ae_Time = (if ae_Time event = 0 then now else ae_Time event),
      ae_RequestID = trim_space (ae_RequestID event), ae_Actor = trim_space (ae_Actor event),
      ae_Role = trim_space (ae_Role event), ae_SourceIP = trim_space (ae_SourceIP event),
      ae_Method = trim_space (ae_Method event), ae_Path = trim_space (ae_Path event),
      ae_Operation = trim_space (ae_Operation event), ae_Namespace = trim_space (ae_Namespace event),
      ae_Name = trim_space (ae_Name event), ae_Result = trim_space (ae_Result event),
      ae_Reason = trim_space (ae_Reason event), ae_StatusCode = ae_StatusCode event,
      ae_DurationMS = ae_DurationMS event\<rparr>"

definition normalizeAuditQuery :: "AuditQuery \<Rightarrow> AuditQuery" where
  "normalizeAuditQuery q =
     \<lparr>aq_Tail = aq_Tail q, aq_Namespace = trim_space (aq_Namespace q), aq_Name = trim_space (aq_Name q),
      aq_Actor = trim_space (aq_Actor q), aq_Operation = trim_space (aq_Operation q),
      aq_Result = trim_space (aq_Result q)\<rparr>"

definition auditEventMatches :: "AuditEvent \<Rightarrow> AuditQuery \<Rightarrow> bool" where
  "auditEventMatches e q \<longleftrightarrow>
     (aq_Namespace q = [] \<or> ae_Namespace e = aq_Namespace q) \<and>
     (aq_Name q = [] \<or> ae_Name e = aq_Name q) \<and>
     (aq_Actor q = [] \<or> ae_Actor e = aq_Actor q) \<and>
     (aq_Operation q = [] \<or> ae_Operation e = aq_Operation q) \<and>
     (aq_Result q = [] \<or> ae_Result e = aq_Result q)"

section \<open>Rotation\<close>

text \<open>\<open>NewAuditLogger\<close>: no logger unless auditing is enabled.\<close>

definition NewAuditLogger :: "AuditConfig \<Rightarrow> AuditConfig option" where
  "NewAuditLogger config =
     (let config = normalizeAuditConfig config
      in if ac_Enabled config = Some True then Some config else None)"

definition auditBackupPath :: "string \<Rightarrow> int \<Rightarrow> string" where
  "auditBackupPath path index = path @ ''.'' @ itoa index"

type_synonym files = "string gomap"

definition removeIfExists :: "string \<Rightarrow> files \<Rightarrow> files" where
  "removeIfExists path fs = map_del fs path"

definition renameIfExists :: "string \<Rightarrow> string \<Rightarrow> files \<Rightarrow> files" where
  "renameIfExists source target fs =
     (case map_of fs source of
        None \<Rightarrow> fs
      | Some content \<Rightarrow> map_set (map_del (removeIfExists target fs) source) target content)"

text \<open>One turn of the loop over the backups, from the oldest down.\<close>

definition shift_backup :: "AuditConfig \<Rightarrow> int \<Rightarrow> files \<Rightarrow> files" where
  "shift_backup cfg i fs =
     (if i = ac_MaxBackups cfg then removeIfExists (auditBackupPath (ac_Path cfg) i) fs
      else renameIfExists (auditBackupPath (ac_Path cfg) i) (auditBackupPath (ac_Path cfg) (i + 1)) fs)"

definition rotateIfNeeded :: "AuditConfig \<Rightarrow> files \<Rightarrow> files" where
  "rotateIfNeeded cfg fs =
     (case map_of fs (ac_Path cfg) of
        None \<Rightarrow> fs
      | Some content \<Rightarrow>
          if int (length content) < ac_MaxFileSize cfg then fs
          else if ac_MaxBackups cfg \<le> 0 then map_set fs (ac_Path cfg) []
          else renameIfExists (ac_Path cfg) (auditBackupPath (ac_Path cfg) 1)
                 (fold (shift_backup cfg) (rev [1..ac_MaxBackups cfg]) fs))"

definition audit_Append :: "(AuditEvent \<Rightarrow> string) \<Rightarrow> AuditConfig \<Rightarrow> int \<Rightarrow> AuditEvent \<Rightarrow> files \<Rightarrow> files" where
  "audit_Append encode cfg now event fs =
     (let fs = rotateIfNeeded cfg fs
      in map_set fs (ac_Path cfg) (get_str fs (ac_Path cfg) @ encode (normalizeAuditEvent now event) @ newline))"

section \<open>Reading\<close>

definition readPaths :: "AuditConfig \<Rightarrow> string list" where
  "readPaths cfg = map (auditBackupPath (ac_Path cfg)) (rev [1..ac_MaxBackups cfg]) @ [ac_Path cfg]"

text \<open>
  The lines of a file. An undecodable line ends the query with an error, and so does a line that
  does not fit the scanner's buffer.
\<close>

definition audit_line_limit :: nat where
  "audit_line_limit = 4 * 1024 * 1024"

fun decode_lines :: "(string \<Rightarrow> AuditEvent option) \<Rightarrow> AuditQuery \<Rightarrow> string list \<Rightarrow> AuditEvent list option" where
  "decode_lines decode q [] = Some []"
| "decode_lines decode q (line # rest) =
     (if audit_line_limit \<le> length line then None
      else if is_blank line then decode_lines decode q rest
      else (case decode (trim_space line) of
              None \<Rightarrow> None
            | Some e \<Rightarrow>
                map_option (\<lambda>es. if auditEventMatches e q then e # es else es) (decode_lines decode q rest)))"

definition readAuditFile :: "(string \<Rightarrow> AuditEvent option) \<Rightarrow> AuditQuery \<Rightarrow> files \<Rightarrow> string \<Rightarrow> AuditEvent list option" where
  "readAuditFile decode q fs path =
     (case map_of fs path of
        None \<Rightarrow> Some []
      | Some content \<Rightarrow> decode_lines decode q (split_on (CHR 0x0A) content))"

fun read_files :: "(string \<Rightarrow> AuditEvent option) \<Rightarrow> AuditQuery \<Rightarrow> files \<Rightarrow> string list \<Rightarrow> AuditEvent list \<Rightarrow> AuditEvent list option" where
  "read_files decode q fs [] events = Some events"
| "read_files decode q fs (path # paths) events =
     (case readAuditFile decode q fs path of
        None \<Rightarrow> None
      | Some es \<Rightarrow> read_files decode q fs paths (take_tail (aq_Tail q) (events @ es)))"

definition audit_Read :: "(string \<Rightarrow> AuditEvent option) \<Rightarrow> AuditConfig \<Rightarrow> AuditQuery \<Rightarrow> files \<Rightarrow> AuditEvent list option" where
  "audit_Read decode cfg query fs = read_files decode (normalizeAuditQuery query) fs (readPaths cfg) []"

section \<open>The log as a ring of segments\<close>

text \<open>
  The abstract state: the contents of the backups from the oldest and of the log itself. A full
  log pushes the oldest segment out.
\<close>

definition segments :: "AuditConfig \<Rightarrow> files \<Rightarrow> string list" where
  "segments cfg fs = map (get_str fs) (readPaths cfg)"

definition push_line :: "AuditConfig \<Rightarrow> string \<Rightarrow> string list \<Rightarrow> string list" where
  "push_line cfg line segs =
     (if int (length (last segs)) < ac_MaxFileSize cfg then butlast segs @ [last segs @ line]
      else tl segs @ [line])"

lemma backup_path_inj [simp]: "auditBackupPath p i = auditBackupPath p j \<longleftrightarrow> i = j"
  by (auto simp: auditBackupPath_def dest: itoa_inj)

lemma backup_path_ne [simp]: "auditBackupPath p i \<noteq> p" "p \<noteq> auditBackupPath p i"
  by (simp_all add: auditBackupPath_def)

lemma get_str_del: "get_str (map_del m k) j = (if j = k then [] else get_str m j)"
  by (simp add: get_str_def map_of_del)

lemma rename_get:
  assumes "s \<noteq> t"
  shows "get_str fs t = [] \<Longrightarrow> get_str (renameIfExists s t fs) j =
     (if j = t then get_str fs s else if j = s then [] else get_str fs j)"
  using assms by (auto simp: renameIfExists_def removeIfExists_def get_str_def map_of_set map_of_del split: option.split)

lemma shift_fold:
  assumes "n = ac_MaxBackups cfg" "int m < n"
  shows "get_str (fold (shift_backup cfg) (rev [n - int m..n]) fs) (auditBackupPath (ac_Path cfg) j) =
      (if n - int m < j \<and> j \<le> n then get_str fs (auditBackupPath (ac_Path cfg) (j - 1))
       else if j = n - int m then [] else get_str fs (auditBackupPath (ac_Path cfg) j)) \<and>
    get_str (fold (shift_backup cfg) (rev [n - int m..n]) fs) (ac_Path cfg) = get_str fs (ac_Path cfg)"
  using assms(2)
proof (induction m arbitrary: j)
  case 0
  then show ?case
    by (auto simp: shift_backup_def assms(1) removeIfExists_def get_str_del)
next
  case (Suc m)
  define gs where "gs = fold (shift_backup cfg) (rev [n - int m..n]) fs"
  let ?k = "n - int (Suc m)"
  have split: "rev [?k..n] = rev [n - int m..n] @ [?k]"
    by (subst upto_rec1) (simp_all add: algebra_simps)
  have step: "fold (shift_backup cfg) (rev [?k..n]) fs =
      renameIfExists (auditBackupPath (ac_Path cfg) ?k) (auditBackupPath (ac_Path cfg) (?k + 1)) gs"
    unfolding split by (simp add: gs_def shift_backup_def assms(1))
  have IH: "get_str gs (auditBackupPath (ac_Path cfg) i) =
      (if n - int m < i \<and> i \<le> n then get_str fs (auditBackupPath (ac_Path cfg) (i - 1))
       else if i = n - int m then [] else get_str fs (auditBackupPath (ac_Path cfg) i))"
    "get_str gs (ac_Path cfg) = get_str fs (ac_Path cfg)" for i
    using Suc.IH [of i] Suc.prems unfolding gs_def by simp_all
  have empty: "get_str gs (auditBackupPath (ac_Path cfg) (?k + 1)) = []"
    using IH(1) [of "?k + 1"] by simp
  show ?case
    unfolding step
    by (subst rename_get [OF _ empty], simp, subst rename_get [OF _ empty], simp) (auto simp: IH diff_diff_eq add.commute)
qed

lemma rev_upto_shift:
  assumes "1 \<le> n"
  shows "map (\<lambda>i. if i = 1 then a else f (i - 1)) (rev [1..n]) = map f (rev [1..n - 1]) @ [a]"
proof -
  have "[2..n] = map (\<lambda>i. i + 1) [1..n - 1]" 
    by (rule nth_equalityI) (auto simp: nth_upto)
  then have "[1..n] = 1 # map (\<lambda>i. i + 1) [1..n - 1]" using assms upto_rec1 [of 1 n] by simp
  then show ?thesis by (simp add: rev_map [symmetric])
qed

lemma rotate_segments:
  assumes "1 \<le> ac_MaxBackups cfg" "0 < ac_MaxFileSize cfg"
  shows "segments cfg (rotateIfNeeded cfg fs) =
     (if int (length (last (segments cfg fs))) < ac_MaxFileSize cfg then segments cfg fs
      else tl (segments cfg fs) @ [[]])"
proof -
  let ?p = "ac_Path cfg" and ?n = "ac_MaxBackups cfg"
  have last: "last (segments cfg fs) = get_str fs ?p" by (simp add: segments_def readPaths_def)
  show ?thesis
  proof (cases "int (length (get_str fs ?p)) < ac_MaxFileSize cfg")
    case True
    then show ?thesis by (auto simp: last rotateIfNeeded_def get_str_def split: option.splits)
  next
    case False
    define gs where "gs = fold (shift_backup cfg) (rev [1..?n]) fs"
    from False assms(2) obtain content where content: "map_of fs ?p = Some content"
      by (cases "map_of fs ?p") (auto simp: get_str_def)
    then have rotated: "rotateIfNeeded cfg fs = renameIfExists ?p (auditBackupPath ?p 1) gs"
      using False assms(1) by (simp add: rotateIfNeeded_def gs_def get_str_def)
    have gs: "get_str gs (auditBackupPath ?p j) =
        (if 1 < j \<and> j \<le> ?n then get_str fs (auditBackupPath ?p (j - 1)) else if j = 1 then [] else get_str fs (auditBackupPath ?p j))"
      "get_str gs ?p = get_str fs ?p" for j
      using shift_fold [of ?n cfg "nat (?n - 1)" fs j] assms(1) unfolding gs_def by simp_all
    have empty: "get_str gs (auditBackupPath ?p 1) = []" by (simp add: gs)
    have new: "get_str (rotateIfNeeded cfg fs) q =
        (if q = auditBackupPath ?p 1 then get_str fs ?p else if q = ?p then [] else get_str gs q)" for q
      unfolding rotated by (subst rename_get [OF _ empty]) (simp_all add: gs)
    have "map (get_str (rotateIfNeeded cfg fs)) (map (auditBackupPath ?p) (rev [1..?n])) =
        map (\<lambda>i. if i = 1 then get_str fs ?p else get_str fs (auditBackupPath ?p (i - 1))) (rev [1..?n])"
      by (auto simp: new gs)
    also have "\<dots> = map (\<lambda>i. get_str fs (auditBackupPath ?p i)) (rev [1..?n - 1]) @ [get_str fs ?p]"
      using assms(1) by (rule rev_upto_shift)
    finally have "segments cfg (rotateIfNeeded cfg fs) =
        map (\<lambda>i. get_str fs (auditBackupPath ?p i)) (rev [1..?n - 1]) @ [get_str fs ?p, []]"
      by (simp add: segments_def readPaths_def new)
    moreover have "rev [1..?n] = ?n # rev [1..?n - 1]" using assms(1) upto_rec2 [of 1 ?n] by simp
    ultimately show ?thesis using False by (simp add: last) (simp add: segments_def readPaths_def comp_def)
  qed
qed

lemma set_last_segment:
  "segments cfg (map_set fs (ac_Path cfg) v) = butlast (segments cfg fs) @ [v]"
  by (simp add: segments_def readPaths_def get_str_set butlast_append)

lemma audit_append_ring:
  assumes "1 \<le> ac_MaxBackups cfg" "0 < ac_MaxFileSize cfg"
  shows "segments cfg (audit_Append encode cfg now event fs) =
     push_line cfg (encode (normalizeAuditEvent now event) @ newline) (segments cfg fs)"
proof -
  have "get_str gs (ac_Path cfg) = last (segments cfg gs)" for gs by (simp add: segments_def readPaths_def)
  then show ?thesis
    using assms by (simp add: audit_Append_def Let_def set_last_segment rotate_segments push_line_def butlast_append)
qed

text \<open>C19: appending to the rotated files refines appending to a ring of segments: the line goes
  to the end of the log, and a full log starts a new segment and drops the oldest one, no line
  of the others being lost or reordered.\<close>

theorem audit_append_refines:
  assumes "1 \<le> ac_MaxBackups cfg" "0 < ac_MaxFileSize cfg"
  shows "segments cfg (audit_Append encode cfg now event fs) =
     push_line cfg (encode (normalizeAuditEvent now event) @ newline) (segments cfg fs)"
  using assms by (rule audit_append_ring)

section \<open>What a query returns\<close>

lemma read_files_eq:
  "read_files decode q fs paths (take_tail (aq_Tail q) acc) =
     map_option (\<lambda>ess. take_tail (aq_Tail q) (acc @ concat ess)) (those (map (readAuditFile decode q fs) paths))"
proof (induction paths arbitrary: acc)
  case (Cons p paths)
  show ?case
  proof (cases "readAuditFile decode q fs p")
    case (Some es)
    have "read_files decode q fs (p # paths) (take_tail (aq_Tail q) acc) =
        read_files decode q fs paths (take_tail (aq_Tail q) (acc @ es))"
      by (simp add: Some take_tail_append)
    then show ?thesis unfolding Cons.IH by (simp add: Some option.map_comp comp_def)
  qed simp
qed simp

text \<open>The query reads all matching events of all files and then keeps the newest of them, although
  the code drops events after each file.\<close>

lemma audit_Read_eq:
  "audit_Read decode cfg query fs =
     map_option (\<lambda>ess. take_tail (aq_Tail query) (concat ess))
       (those (map (readAuditFile decode (normalizeAuditQuery query) fs) (readPaths cfg)))"
proof -
  have "take_tail n ([] :: AuditEvent list) = []" "aq_Tail (normalizeAuditQuery query) = aq_Tail query" for n
    by (simp_all add: take_tail_def normalizeAuditQuery_def)
  with read_files_eq [of decode "normalizeAuditQuery query" fs "readPaths cfg" "[]"]
  show ?thesis by (simp add: audit_Read_def)
qed

text \<open>One JSON text per line that decodes to the event.\<close>

definition json_line :: "(AuditEvent \<Rightarrow> string) \<Rightarrow> (string \<Rightarrow> AuditEvent option) \<Rightarrow> AuditEvent \<Rightarrow> bool" where
  "json_line encode decode e \<longleftrightarrow>
     decode (encode e) = Some e \<and> CHR 0x0A \<notin> set (encode e) \<and> trim_space (encode e) = encode e \<and>
     encode e \<noteq> [] \<and> length (encode e) < audit_line_limit"

definition render :: "(AuditEvent \<Rightarrow> string) \<Rightarrow> AuditEvent list \<Rightarrow> string" where
  "render encode es = concat (map (\<lambda>e. encode e @ newline) es)"

definition ring_append :: "AuditConfig \<Rightarrow> (AuditEvent \<Rightarrow> string) \<Rightarrow> AuditEvent list list \<Rightarrow> AuditEvent \<Rightarrow> AuditEvent list list" where
  "ring_append cfg encode segs e =
     (if int (length (render encode (last segs))) < ac_MaxFileSize cfg then butlast segs @ [last segs @ [e]]
      else tl segs @ [[e]])"

lemma push_render:
  "segs \<noteq> [] \<Longrightarrow> push_line cfg (encode e @ newline) (map (render encode) segs) =
     map (render encode) (ring_append cfg encode segs e)"
  by (simp add: push_line_def ring_append_def last_map map_butlast map_tl render_def)

lemma decode_rendered:
  assumes "\<forall>e \<in> set es. json_line encode decode e"
  shows "decode_lines decode q (split_on (CHR 0x0A) (render encode es)) =
    Some (filter (\<lambda>e. auditEventMatches e q) es)"
  using assms
proof (induction es)
  case Nil
  then show ?case by (simp add: render_def is_blank_def audit_line_limit_def)
next
  case (Cons e es)
  then have "split_on (CHR 0x0A) (render encode (e # es)) = encode e # split_on (CHR 0x0A) (render encode es)"
    by (simp add: render_def json_line_def split_on_line)
  then show ?case using Cons by (simp add: json_line_def is_blank_def)
qed

lemma read_segment:
  assumes "get_str fs p = render encode es" "\<forall>e \<in> set es. json_line encode decode e"
  shows "readAuditFile decode q fs p = Some (filter (\<lambda>e. auditEventMatches e q) es)"
proof (cases "map_of fs p")
  case None
  with assms(1) have "es = []" by (cases es) (auto simp: render_def get_str_def)
  with None show ?thesis by (simp add: readAuditFile_def)
next
  case (Some content)
  with assms(1) have "content = render encode es" by (simp add: get_str_def)
  with Some decode_rendered [OF assms(2)] show ?thesis by (simp add: readAuditFile_def)
qed

lemma read_ring:
  assumes "segments cfg fs = map (render encode) segs" "\<forall>e \<in> set (concat segs). json_line encode decode e"
  shows "audit_Read decode cfg query fs = Some (take_tail (aq_Tail query)
     (filter (\<lambda>e. auditEventMatches e (normalizeAuditQuery query)) (concat segs)))"
proof -
  let ?q = "normalizeAuditQuery query"
  have "map (readAuditFile decode ?q fs) paths = map (\<lambda>es. Some (filter (\<lambda>e. auditEventMatches e ?q) es)) segs"
    if "map (get_str fs) paths = map (render encode) segs" "\<forall>e \<in> set (concat segs). json_line encode decode e"
    for paths segs
    using that by (induction paths arbitrary: segs) (auto simp: map_eq_Cons_conv read_segment)
  then have "map (readAuditFile decode ?q fs) (readPaths cfg) = map (\<lambda>es. Some (filter (\<lambda>e. auditEventMatches e ?q) es)) segs"
    using assms by (simp add: segments_def)
  moreover have "those (map (\<lambda>x. Some (f x)) xs) = Some (map f xs)" for f :: "AuditEvent list \<Rightarrow> AuditEvent list" and xs
    by (induction xs) auto
  ultimately show ?thesis by (simp add: audit_Read_eq filter_concat comp_def)
qed

lemma ring_append_suffix:
  "segs \<noteq> [] \<Longrightarrow> \<exists>dropped. concat segs @ [e] = dropped @ concat (ring_append cfg encode segs e)"
proof (cases "int (length (render encode (last segs))) < ac_MaxFileSize cfg")
  case True
  assume "segs \<noteq> []"
  then have "concat segs = concat (butlast segs) @ last segs" by (metis append_butlast_last_id concat_append concat.simps append_Nil2)
  with True show ?thesis by (intro exI [of _ "[]"]) (simp add: ring_append_def)
next
  case False
  assume "segs \<noteq> []"
  then have "concat segs = hd segs @ concat (tl segs)" by (cases segs) auto
  with False show ?thesis by (intro exI [of _ "hd segs"]) (simp add: ring_append_def)
qed

definition append_all :: "(AuditEvent \<Rightarrow> string) \<Rightarrow> AuditConfig \<Rightarrow> (int \<times> AuditEvent) list \<Rightarrow> files" where
  "append_all encode cfg events = foldl (\<lambda>fs (now, e). audit_Append encode cfg now e fs) [] events"

definition appended :: "(int \<times> AuditEvent) list \<Rightarrow> AuditEvent list" where
  "appended events = map (\<lambda>(now, e). normalizeAuditEvent now e) events"

lemma append_all_ring:
  assumes "1 \<le> ac_MaxBackups cfg" "0 < ac_MaxFileSize cfg"
  shows "\<exists>segs dropped. segments cfg (append_all encode cfg events) = map (render encode) segs \<and> segs \<noteq> [] \<and>
     appended events = dropped @ concat segs \<and> (events = [] \<or> concat segs \<noteq> [])"
proof (induction events rule: rev_induct)
  case Nil
  have "segments cfg [] = map (render encode) (replicate (length (readPaths cfg)) [])"
    by (simp add: segments_def get_str_def render_def map_replicate_const) (rule nth_equalityI, simp_all add: get_str_def)
  moreover have "readPaths cfg \<noteq> []" by (simp add: readPaths_def)
  ultimately show ?case
    by (intro exI [of _ "replicate (length (readPaths cfg)) []"] exI [of _ "[]"])
       (simp add: append_all_def appended_def)
next
  case (snoc p events)
  obtain now e where p: "p = (now, e)" by (cases p)
  from snoc obtain segs dropped where IH: "segments cfg (append_all encode cfg events) = map (render encode) segs"
    "segs \<noteq> []" "appended events = dropped @ concat segs" by blast
  let ?e = "normalizeAuditEvent now e"
  have "append_all encode cfg (events @ [p]) = audit_Append encode cfg now e (append_all encode cfg events)"
    by (simp add: append_all_def p)
  then have seg: "segments cfg (append_all encode cfg (events @ [p])) = map (render encode) (ring_append cfg encode segs ?e)"
    by (simp add: audit_append_ring [OF assms] IH(1) push_render [OF IH(2)])
  obtain gone where gone: "concat segs @ [?e] = gone @ concat (ring_append cfg encode segs ?e)"
    using ring_append_suffix [OF IH(2)] by blast
  have "appended (events @ [p]) = (dropped @ gone) @ concat (ring_append cfg encode segs ?e)"
    using IH(3) gone by (simp add: appended_def p)
  moreover have "ring_append cfg encode segs ?e \<noteq> []" "concat (ring_append cfg encode segs ?e) \<noteq> []"
    by (simp_all add: ring_append_def)
  ultimately show ?case using seg by blast
qed

text \<open>C20: after any sequence of appends to an empty log a query returns the matching events of
  its newest part in their order, cut to the requested tail; only whole old segments are gone,
  never the event appended last.\<close>

theorem audit_query_returns_newest:
  assumes "1 \<le> ac_MaxBackups cfg" "0 < ac_MaxFileSize cfg"
    and "\<forall>e \<in> set (appended events). json_line encode decode e"
  shows "\<exists>dropped kept. appended events = dropped @ kept \<and> (events = [] \<or> kept \<noteq> []) \<and>
     audit_Read decode cfg query (append_all encode cfg events) =
       Some (take_tail (aq_Tail query) (filter (\<lambda>e. auditEventMatches e (normalizeAuditQuery query)) kept))"
proof -
  obtain segs dropped where ring: "segments cfg (append_all encode cfg events) = map (render encode) segs"
    "appended events = dropped @ concat segs" "events = [] \<or> concat segs \<noteq> []"
    using append_all_ring [OF assms(1,2), of encode events] by blast
  with assms(3) have "\<forall>e \<in> set (concat segs). json_line encode decode e" by simp
  with ring show ?thesis by (intro exI [of _ dropped] exI [of _ "concat segs"]) (simp add: read_ring)
qed

definition sample_event :: "string \<Rightarrow> AuditEvent" where
  "sample_event actor =
     \<lparr>ae_Time = 1, ae_RequestID = [], ae_Actor = actor, ae_Role = [], ae_SourceIP = [], ae_Method = [],
      ae_Path = [], ae_Operation = [], ae_Namespace = [], ae_Name = [], ae_Result = [], ae_Reason = [],
      ae_StatusCode = 200, ae_DurationMS = 0\<rparr>"

definition sample_audit :: AuditConfig where
  "sample_audit = \<lparr>ac_Enabled = Some True, ac_Path = ''/audit'', ac_MaxFileSize = 3, ac_MaxBackups = 2,
     ac_IncludeReadOnly = False\<rparr>"

theorem audit_append_refines_witness:
  "segments sample_audit (audit_Append ae_Actor sample_audit 1 (sample_event ''ann'') [(''/audit'', ''old'')]) =
     [[], ''old'', ''ann'' @ newline]"
  by (subst audit_append_refines) (simp_all add: sample_audit_def, code_simp)

theorem audit_query_returns_newest_witness:
  "\<exists>dropped kept. appended [(1, sample_event ''ann''), (1, sample_event ''bob'')] = dropped @ kept \<and> kept \<noteq> [] \<and>
     audit_Read (\<lambda>s. Some (sample_event s)) sample_audit
       \<lparr>aq_Tail = 0, aq_Namespace = [], aq_Name = [], aq_Actor = [], aq_Operation = [], aq_Result = []\<rparr>
       (append_all ae_Actor sample_audit [(1, sample_event ''ann''), (1, sample_event ''bob'')]) =
       Some (take_tail 0 (filter (\<lambda>e. auditEventMatches e (normalizeAuditQuery
         \<lparr>aq_Tail = 0, aq_Namespace = [], aq_Name = [], aq_Actor = [], aq_Operation = [], aq_Result = []\<rparr>)) kept))"
proof -
  have lines: "\<forall>e \<in> set (appended [(1, sample_event ''ann''), (1, sample_event ''bob'')]).
      json_line ae_Actor (\<lambda>s. Some (sample_event s)) e"
  proof -
    have "trim_space ''ann'' = ''ann''" "trim_space ''bob'' = ''bob''" "trim_space [] = []" by code_simp+
    then show ?thesis
      by (simp add: appended_def normalizeAuditEvent_def sample_event_def json_line_def audit_line_limit_def)
  qed
  show ?thesis
    using audit_query_returns_newest [OF _ _ lines, of sample_audit
        "\<lparr>aq_Tail = 0, aq_Namespace = [], aq_Name = [], aq_Actor = [], aq_Operation = [], aq_Result = []\<rparr>"]
    by (simp add: sample_audit_def)
qed

end
