(* ===== verification/Api.thy ===== *)
theory Api
  imports AuditLog Manager
begin

text \<open>
  The decisions of the HTTP API (\<open>cmd/aifar-runtime/main.go\<close>): resource paths, access policies,
  what an audit event says of a request, the metrics page, and the URLs the command line client
  builds. A request is a record; its headers are read by their canonical names.
\<close>

section \<open>Requests\<close>

record ApiRequest =
  rq_Method :: string
  rq_URLPath :: string
  rq_Query :: "string gomap"
  rq_Headers :: "string gomap"
  rq_Remote :: string
  rq_Body :: "string + string"

section \<open>Resource paths\<close>

definition api_prefix :: string where
  "api_prefix = ''/apis/aifar.io/v1/namespaces/''"

definition trim_prefix :: "string \<Rightarrow> string \<Rightarrow> string" where
  "trim_prefix s p = (if has_prefix s p then drop (length p) s else s)"

record ApiPath =
  ap_Namespace :: string
  ap_Name :: string
  ap_Subresource :: string
  ap_Validate :: bool

text \<open>A name with a colon is only accepted with the suffix \<open>validate\<close>.\<close>

definition parseRuntimeAPIPath :: "string \<Rightarrow> ApiPath option" where
  "parseRuntimeAPIPath path =
     (case split_on (CHR ''/'') (trim_set ''/'' (trim_prefix path api_prefix)) of
        namespace # kind # last_part # rest \<Rightarrow>
          if kind \<noteq> ''runtimes'' then None
          else
            (case cut (CHR '':'') last_part of (name, action, found) \<Rightarrow>
               if found \<and> action \<noteq> ''validate'' then None
               else if namespace = [] \<or> name = [] then None
               else Some \<lparr>ap_Namespace = namespace, ap_Name = name,
                      ap_Subresource = (case rest of [] \<Rightarrow> [] | sub # _ \<Rightarrow> sub), ap_Validate = found\<rparr>)
      | _ \<Rightarrow> None)"

definition apiBaseURL :: "string \<Rightarrow> string" where
  "apiBaseURL addr =
     (let addr = trim_right_set ''/'' (trim_space addr)
      in if has_prefix addr ''http://'' \<or> has_prefix addr ''https://'' then addr else ''http://'' @ addr)"

definition runtimeResourceURL :: "string \<Rightarrow> string \<Rightarrow> string \<Rightarrow> string \<Rightarrow> string" where
  "runtimeResourceURL addr namespace name subresource =
     apiBaseURL addr @ ''/apis/aifar.io/v1/namespaces/'' @ namespace @ ''/runtimes/'' @ name @
     (if is_blank subresource then [] else ''/'' @ subresource)"

text \<open>The error when a document names another Runtime than the path.\<close>

definition requirePathMatchesRuntime :: "string \<Rightarrow> string \<Rightarrow> Runtime \<Rightarrow> string option" where
  "requirePathMatchesRuntime namespace name runtime =
     (let key = KeyForRuntime runtime
      in if key_Namespace key \<noteq> namespace \<or> key_Name key \<noteq> name
         then Some (''request path '' @ namespace @ ''/'' @ name @ '' does not match runtime '' @ key_String key)
         else None)"

section \<open>Request bodies\<close>

definition DefaultAPIMaxRequestBytes :: int where
  "DefaultAPIMaxRequestBytes = 4 * 1024 * 1024"

text \<open>At most \<open>maxRequestBytes + 1\<close> bytes are read, the bound computed in int64.\<close>

definition decodeRuntimeRequest ::
    "yaml_library \<Rightarrow> (coded_error \<Rightarrow> string) \<Rightarrow> ApiRequest \<Rightarrow> int \<Rightarrow> string + Runtime" where
  "decodeRuntimeRequest yaml texts r maxRequestBytes =
     (let maxRequestBytes = (if maxRequestBytes \<le> 0 then DefaultAPIMaxRequestBytes else maxRequestBytes)
      in case rq_Body r of
           Inl e \<Rightarrow> Inl e
         | Inr body \<Rightarrow>
             let data = take (nat (wrap64 (maxRequestBytes + 1))) body
             in if int (length data) > maxRequestBytes
                then Inl (''request body exceeds api.maxRequestBytes ('' @ itoa maxRequestBytes @ '' bytes)'')
                else (case ParseRuntimeDocument yaml data of
                        Inl e \<Rightarrow> Inl (texts (BadDocument e))
                      | Inr runtime \<Rightarrow> Inr runtime))"

section \<open>Access policies\<close>

record accessPolicy =
  pol_Name :: string
  pol_Role :: string
  pol_Token :: string

definition default_admin :: "string \<Rightarrow> accessPolicy" where
  "default_admin token = \<lparr>pol_Name = ''default-admin'', pol_Role = ''admin'', pol_Token = token\<rparr>"

definition accessPoliciesForConfig :: "RuntimeConfig \<Rightarrow> accessPolicy list" where
  "accessPoliciesForConfig config =
     (let security = cfg_Security config
      in if rb_Enabled (sc_RBAC security) then
           map (\<lambda>t. \<lparr>pol_Name = at_Name t, pol_Role = at_Role t, pol_Token = at_Token t\<rparr>)
             (filter (\<lambda>t. \<not> is_blank (at_Token t)) (rb_Tokens (sc_RBAC security)))
         else if \<not> is_blank (sc_BearerToken security) then [default_admin (sc_BearerToken security)]
         else [])"

record runtimeHandlerOptions =
  ho_AuthToken :: string
  ho_AuthPolicies :: "accessPolicy list"
  ho_MetricsEnabled :: bool
  ho_MaxRequestBytes :: int
  ho_Audit :: "AuditConfig option"

definition accessPoliciesForOptions :: "runtimeHandlerOptions \<Rightarrow> accessPolicy list" where
  "accessPoliciesForOptions options =
     (if ho_AuthPolicies options = [] \<and> \<not> is_blank (ho_AuthToken options)
      then [default_admin (ho_AuthToken options)] else ho_AuthPolicies options)"

text \<open>The first policy whose token the header carries; the comparison is \<open>=\<close> in constant time.\<close>

definition carries_token :: "string \<Rightarrow> accessPolicy \<Rightarrow> bool" where
  "carries_token authorization policy \<longleftrightarrow>
     pol_Token policy \<noteq> [] \<and> trim_space authorization = ''Bearer '' @ pol_Token policy"

definition matchAccessPolicy :: "accessPolicy list \<Rightarrow> string \<Rightarrow> accessPolicy option" where
  "matchAccessPolicy policies authorization = find (carries_token authorization) policies"

definition policyAllowsRequest :: "accessPolicy \<Rightarrow> ApiRequest \<Rightarrow> bool" where
  "policyAllowsRequest policy r =
     (let role = to_lower (trim_space (pol_Role policy))
      in if role = ''admin'' then True
         else if role = ''operator'' then
           rq_URLPath r \<noteq> ''/audit'' \<and> (rq_Method r = ''GET'' \<or> rq_Method r = ''POST'' \<or> rq_Method r = ''PUT'')
         else if role = ''viewer'' then rq_URLPath r \<noteq> ''/audit'' \<and> rq_Method r = ''GET''
         else False)"

definition isPublicProbePath :: "string \<Rightarrow> bool" where
  "isPublicProbePath path \<longleftrightarrow> path = ''/healthz'' \<or> path = ''/readyz''"

record requestPrincipal =
  prin_Actor :: string
  prin_Role :: string

text \<open>The principal of the audit event, from the slot the security layer filled, if it did.\<close>

definition principalForRequest :: "requestPrincipal option \<Rightarrow> requestPrincipal" where
  "principalForRequest slot =
     (case slot of
        Some p \<Rightarrow> if prin_Actor p \<noteq> [] \<or> prin_Role p \<noteq> [] then p
                  else \<lparr>prin_Actor = ''unknown'', prin_Role = ''unknown''\<rparr>
      | None \<Rightarrow> \<lparr>prin_Actor = ''unknown'', prin_Role = ''unknown''\<rparr>)"

section \<open>Audit events of requests\<close>

definition shouldAuditRequest :: "ApiRequest \<Rightarrow> bool \<Rightarrow> bool" where
  "shouldAuditRequest r includeReadOnly \<longleftrightarrow>
     \<not> isPublicProbePath (rq_URLPath r) \<and>
     (includeReadOnly \<or>
      rq_Method r \<noteq> ''GET'' \<and> rq_Method r \<noteq> ''HEAD'' \<and> rq_Method r \<noteq> ''OPTIONS'')"

definition instance_of_path :: "string \<Rightarrow> string" where
  "instance_of_path path = trim_set ''/'' (trim_prefix path ''/runtime/instances/'')"

definition auditTargetForRequest :: "ApiRequest \<Rightarrow> string \<times> string \<times> string" where
  "auditTargetForRequest r =
     (let path = rq_URLPath r; method = rq_Method r
      in case parseRuntimeAPIPath path of
           Some p \<Rightarrow>
             ((if ap_Validate p then ''validate''
               else if method = ''PUT'' then ''apply''
               else if method = ''DELETE'' then ''delete''
               else if method = ''GET'' then
                 (if ap_Subresource p = ''status'' then ''status''
                  else if ap_Subresource p = ''events'' then ''events'' else ''get'')
               else to_lower method), ap_Namespace p, ap_Name p)
         | None \<Rightarrow>
             if path = ''/runtime/reconcile'' then (''legacy-reconcile'', [], [])
             else if has_prefix path ''/runtime/instances/'' then
               (''legacy-delete'', DefaultNamespace, instance_of_path path)
             else if path = ''/audit'' then (''audit'', [], [])
             else if path = ''/status'' then (''status'', [], [])
             else if path = ''/version'' then (''version'', [], [])
             else if path = ''/metrics'' then (''metrics'', [], [])
             else (''request'', [], []))"

definition auditResultForStatus :: "int \<Rightarrow> string" where
  "auditResultForStatus statusCode =
     (if statusCode = 401 \<or> statusCode = 403 then ''denied''
      else if statusCode \<ge> 400 then ''failed'' else ''succeeded'')"

text \<open>\<open>http.StatusText\<close> for the codes this server answers with.\<close>

definition StatusText :: "int \<Rightarrow> string" where
  "StatusText code =
     (if code = 200 then ''OK'' else if code = 301 then ''Moved Permanently''
      else if code = 400 then ''Bad Request'' else if code = 401 then ''Unauthorized''
      else if code = 403 then ''Forbidden'' else if code = 404 then ''Not Found''
      else if code = 405 then ''Method Not Allowed'' else if code = 500 then ''Internal Server Error''
      else if code = 503 then ''Service Unavailable'' else [])"

definition auditReasonForStatus :: "int \<Rightarrow> string \<Rightarrow> string" where
  "auditReasonForStatus statusCode body =
     (let body = trim_space body
      in if statusCode \<ge> 400 \<and> body \<noteq> [] then body
         else if StatusText statusCode \<noteq> [] then StatusText statusCode
         else ''status '' @ itoa statusCode)"

definition sourceIPForRequest :: "ApiRequest \<Rightarrow> string" where
  "sourceIPForRequest r =
     (let forwardedFor = trim_space (get_str (rq_Headers r) ''X-Forwarded-For'')
      in if forwardedFor \<noteq> [] then
           (case cut (CHR '','') forwardedFor of (first, _, found) \<Rightarrow>
              if found then trim_space first else forwardedFor)
         else
           (case SplitHostPort (trim_space (rq_Remote r)) of
              Some (host, _) \<Rightarrow> host
            | None \<Rightarrow> trim_space (rq_Remote r)))"

section \<open>The metrics page\<close>

record buildInfo =
  bi_Version :: string
  bi_Commit :: string
  bi_BuildDate :: string
  bi_RuntimeVersion :: string

definition currentBuildInfo :: "string \<Rightarrow> string \<Rightarrow> string \<Rightarrow> buildInfo" where
  "currentBuildInfo version commit buildDate =
     \<lparr>bi_Version = trim_space version, bi_Commit = trim_space commit, bi_BuildDate = trim_space buildDate,
      bi_RuntimeVersion = RuntimeVersion\<rparr>"

definition prom_char :: "char \<Rightarrow> string" where
  "prom_char c =
     (if c = CHR 0x5C then [CHR 0x5C, CHR 0x5C]
      else if c = CHR 0x0A then [CHR 0x5C, CHR ''n'']
      else if c = CHR 0x22 then [CHR 0x5C, CHR 0x22] else [c])"

definition promLabelValue :: "string \<Rightarrow> string" where
  "promLabelValue v = concat (map prom_char v)"

definition metric :: "string \<Rightarrow> string \<Rightarrow> string \<Rightarrow> int \<Rightarrow> string" where
  "metric name help kind v =
     ''# HELP aifar_runtime_'' @ name @ '' '' @ help @ newline @
     ''# TYPE aifar_runtime_'' @ name @ '' '' @ kind @ newline @
     ''aifar_runtime_'' @ name @ '' '' @ itoa v @ newline"

definition writeMetrics :: "RuntimeMetrics \<Rightarrow> buildInfo \<Rightarrow> string" where
  "writeMetrics m build =
     ''# HELP aifar_runtime_info Build and runtime contract information.'' @ newline @
     ''# TYPE aifar_runtime_info gauge'' @ newline @
     ''aifar_runtime_info{version=\"'' @ promLabelValue (bi_Version build) @
     ''\",commit=\"'' @ promLabelValue (bi_Commit build) @
     ''\",build_date=\"'' @ promLabelValue (bi_BuildDate build) @
     ''\",runtime_version=\"'' @ promLabelValue (rm_RuntimeVersion m) @ ''\"} 1'' @ newline @
     metric ''runtimes'' ''Number of rendered Runtime resources loaded.'' ''gauge'' (int (rm_RuntimeCount m)) @
     metric ''listeners'' ''Number of active Service and Ingress listeners.'' ''gauge'' (int (rm_ListenerCount m)) @
     metric ''desired_replicas'' ''Desired managed container replicas.'' ''gauge'' (rm_DesiredReplicas m) @
     metric ''ready_replicas'' ''Ready managed container replicas.'' ''gauge'' (rm_ReadyReplicas m) @
     metric ''failed_runtimes'' ''Number of Runtime resources in Failed phase.'' ''gauge'' (int (rm_FailedRuntimeCount m)) @
     metric ''degraded_runtimes'' ''Number of Runtime resources in Degraded phase.'' ''gauge'' (int (rm_DegradedRuntimeCount m)) @
     metric ''container_restarts'' ''Managed container restart attempts recorded by the runtime.'' ''counter'' (rm_ContainerRestarts m) @
     metric ''endpoints'' ''Number of cached upstream endpoints.'' ''gauge'' (int (rm_EndpointCount m))"

end
