(* ===== verification/Server.thy ===== *)
theory Server
  imports Api
begin

text \<open>
  The HTTP server of \<open>cmd/aifar-runtime/main.go\<close>: the handlers behind the multiplexer of
  \<open>newRuntimeHandlerWithOptions\<close> and the two layers around it, security and audit. The state is
  the agent and the files of the audit log. An answer keeps the value a handler encodes as JSON;
  an error keeps its text. Request paths are taken to need no escaping.
\<close>

section \<open>Answers\<close>

record NodeStatus =
  ns_Name :: string
  ns_Labels :: "string gomap"
  ns_Capacity :: ResourceSpec
  ns_Allocatable :: ResourceSpec
  ns_Ready :: bool
  ns_LastHeartbeatTime :: string

record ManagerReport =
  mr_StateDir :: string
  mr_Node :: NodeStatus
  mr_Scheduler :: ResourceSnapshot
  mr_Listeners :: "int list"
  mr_Runtimes :: "(Runtime \<times> RuntimeStatus) list"
  mr_Features :: "string list"

datatype answer =
    ErrorText string
  | StatusWord string
  | Report ManagerReport buildInfo
  | Build buildInfo
  | MetricsText string
  | AuditEvents "AuditEvent list"
  | Outcome string RuntimeKey
  | OneRuntime Runtime
  | OneStatus RuntimeStatus
  | Events "RuntimeEvent list"
  | MovedTo string

type_synonym response = "int \<times> answer"

definition http_error :: "string \<Rightarrow> int \<Rightarrow> response" where
  "http_error text code = (code, ErrorText text)"

definition not_found :: response where
  "not_found = http_error ''404 page not found'' 404"

definition method_not_allowed :: response where
  "method_not_allowed = http_error ''method not allowed'' 405"

text \<open>What the audit layer keeps of the bytes written: of an error its text and a newline.\<close>

definition recorded_body :: "answer \<Rightarrow> string" where
  "recorded_body a = (case a of ErrorText text \<Rightarrow> take 512 (text @ newline) | _ \<Rightarrow> [])"

section \<open>The report of the manager\<close>

definition nodeStatus :: "'w Env \<Rightarrow> (NodeStatus, 'w) act" where
  "nodeStatus env =
     (let node = cfg_Node (env_Config env)
      in andThen (time_now env) (\<lambda>now.
         ret \<lparr>ns_Name = nc_Name node, ns_Labels = nc_Labels node, ns_Capacity = nc_Capacity node,
              ns_Allocatable = nodeStatus_allocatable node, ns_Ready = True,
              ns_LastHeartbeatTime = env_Format env now\<rparr>))"

definition features :: "string list" where
  "features =
     [''runtime-v0.1'', ''rendered-runtime-yaml'', ''deployment'', ''service-listener'', ''builtin-ingress'',
      ''json-state-store'', ''events'', ''docker-owner-labels'', ''runtime-status-machine'', ''self-healing'',
      ''single-node-model'', ''scheduler-lite'', ''global-port-admission'', ''resource-capacity-admission'',
      ''rolling-update-rollback'', ''legacy-spec-read'']"

definition ManagerStatus :: "'w Env \<Rightarrow> (ManagerReport, 'w) act" where
  "ManagerStatus env =
     andThen (nodeStatus env) (\<lambda>node.
     andThen (manager id) (\<lambda>m.
       ret \<lparr>mr_StateDir = sto_Root (env_Store env), mr_Node = node,
            mr_Scheduler = ResourceSnapshotOf (cfg_Node (env_Config env)) (m_specs m),
            mr_Listeners = sort (m_servers m),
            mr_Runtimes = List.map_filter (\<lambda>key. map_option (\<lambda>runtime. (runtime, status_at m key))
               (map_of (m_specs m) key)) (sortedRuntimeKeys (m_specs m)),
            mr_Features = features\<rparr>))"

section \<open>The server\<close>

text \<open>The parameters: the JSON codec of audit events, the text of a failed query, fresh request ids.\<close>

record 'w Api =
  api_env :: "'w Env"
  api_yaml :: yaml_library
  api_options :: runtimeHandlerOptions
  api_build :: buildInfo
  api_encode :: "AuditEvent \<Rightarrow> string"
  api_decode :: "string \<Rightarrow> AuditEvent option"
  api_queryError :: "AuditQuery \<Rightarrow> files \<Rightarrow> string"
  api_newRequestID :: "'w \<Rightarrow> string \<times> 'w"

record 'w Server =
  sv_agent :: "'w Agent"
  sv_audit :: files

type_synonym 'w handler = "'w Server \<Rightarrow> response \<times> 'w Server"

definition on_agent :: "('a, 'w) act \<Rightarrow> (RuntimeError + 'a \<Rightarrow> response) \<Rightarrow> 'w handler" where
  "on_agent m answer sv = (case m (sv_agent sv) of (r, s) \<Rightarrow> (answer r, sv\<lparr>sv_agent := s\<rparr>))"

definition answer_with :: "response \<Rightarrow> 'w handler" where
  "answer_with r sv = (r, sv)"

text \<open>An error as a plain text answer with that code, else the given answer.\<close>

definition or_error :: "'w Api \<Rightarrow> int \<Rightarrow> ('a \<Rightarrow> response) \<Rightarrow> RuntimeError + 'a \<Rightarrow> response" where
  "or_error api code good r =
     (case r of Inl e \<Rightarrow> http_error (text_of (api_env api) e) code | Inr x \<Rightarrow> good x)"

definition max_request_bytes :: "'w Api \<Rightarrow> int" where
  "max_request_bytes api =
     (if ho_MaxRequestBytes (api_options api) \<le> 0 then DefaultAPIMaxRequestBytes
      else ho_MaxRequestBytes (api_options api))"

definition decode_request :: "'w Api \<Rightarrow> ApiRequest \<Rightarrow> string + Runtime" where
  "decode_request api r =
     decodeRuntimeRequest (api_yaml api) (env_Texts (api_env api)) r (max_request_bytes api)"

definition require_get :: "ApiRequest \<Rightarrow> 'w handler \<Rightarrow> 'w handler" where
  "require_get r h = (if rq_Method r \<noteq> ''GET'' then answer_with method_not_allowed else h)"

definition handleReady :: "'w Api \<Rightarrow> string \<Rightarrow> 'w handler" where
  "handleReady api word =
     on_agent (ReadyCheck (api_env api)) (or_error api 503 (\<lambda>_. (200, StatusWord word)))"

text \<open>The document of a request that must name the Runtime of the path.\<close>

definition named_runtime :: "'w Api \<Rightarrow> ApiRequest \<Rightarrow> ApiPath \<Rightarrow> string + Runtime" where
  "named_runtime api r p =
     (case decode_request api r of
        Inl e \<Rightarrow> Inl e
      | Inr runtime \<Rightarrow>
          (case requirePathMatchesRuntime (ap_Namespace p) (ap_Name p) runtime of
             Some e \<Rightarrow> Inl e
           | None \<Rightarrow> Inr runtime))"

definition handle_put :: "'w Api \<Rightarrow> ApiRequest \<Rightarrow> ApiPath \<Rightarrow> 'w handler" where
  "handle_put api r p =
     (case named_runtime api r p of
        Inl e \<Rightarrow> answer_with (http_error e 400)
      | Inr runtime \<Rightarrow>
          on_agent (Apply (api_env api) runtime)
            (or_error api 500 (\<lambda>_. (200, Outcome ''applied'' (KeyForRuntime runtime)))))"

definition handle_validate :: "'w Api \<Rightarrow> ApiRequest \<Rightarrow> ApiPath \<Rightarrow> 'w handler" where
  "handle_validate api r p =
     (if rq_Method r \<noteq> ''POST'' then answer_with method_not_allowed
      else case named_runtime api r p of
          Inl e \<Rightarrow> answer_with (http_error e 400)
        | Inr runtime \<Rightarrow> answer_with (200, Outcome ''valid'' (KeyForRuntime runtime)))"

definition handle_get ::
    "'w Api \<Rightarrow> ApiPath \<Rightarrow> (Runtime \<Rightarrow> RuntimeStatus \<Rightarrow> answer) \<Rightarrow> 'w handler" where
  "handle_get api p show =
     on_agent (GetRuntime (api_env api) (ap_Namespace p) (ap_Name p))
       (or_error api 500 (\<lambda>found. case found of
          None \<Rightarrow> not_found
        | Some (runtime, status) \<Rightarrow> (200, show runtime status)))"

definition handle_events :: "'w Api \<Rightarrow> ApiRequest \<Rightarrow> ApiPath \<Rightarrow> 'w handler" where
  "handle_events api r p =
     on_agent (andThen (world (sto_ReadEvents (env_Store (api_env api)) (ap_Namespace p) (ap_Name p)
                 (atoi_value (get_str (rq_Query r) ''tail'')))) lift_sum)
       (or_error api 500 (\<lambda>events. (200, Events events)))"

definition handleRuntimeAPI :: "'w Api \<Rightarrow> ApiRequest \<Rightarrow> 'w handler" where
  "handleRuntimeAPI api r =
     (case parseRuntimeAPIPath (rq_URLPath r) of
        None \<Rightarrow> answer_with not_found
      | Some p \<Rightarrow>
          let sub = ap_Subresource p; method = rq_Method r
          in if ap_Validate p then handle_validate api r p
             else if sub = [] \<and> method = ''PUT'' then handle_put api r p
             else if sub = [] \<and> method = ''GET'' then
               handle_get api p (\<lambda>runtime status. OneRuntime (runtime\<lparr>rtm_Status := Some status\<rparr>))
             else if sub = ''status'' \<and> method = ''GET'' then handle_get api p (\<lambda>_ status. OneStatus status)
             else if sub = ''events'' \<and> method = ''GET'' then handle_events api r p
             else if sub = [] \<and> method = ''DELETE'' then
               on_agent (Remove (api_env api) (ap_Namespace p) (ap_Name p))
                 (or_error api 500 (\<lambda>_. (200, StatusWord ''deleted'')))
             else answer_with method_not_allowed)"

text \<open>\<open>POST /runtime/reconcile\<close>: \<open>Reconciler.ReconcileRuntime\<close> applies the Runtime.\<close>

definition ReconcileRuntime :: "'w Env \<Rightarrow> Runtime \<Rightarrow> (unit, 'w) act" where
  "ReconcileRuntime env runtime = Apply env runtime"

definition handleReconcile :: "'w Api \<Rightarrow> ApiRequest \<Rightarrow> 'w handler" where
  "handleReconcile api r =
     (if rq_Method r \<noteq> ''POST'' then answer_with method_not_allowed
      else case decode_request api r of
          Inl e \<Rightarrow> answer_with (http_error e 400)
        | Inr runtime \<Rightarrow>
            on_agent (ReconcileRuntime (api_env api) runtime)
              (or_error api 500 (\<lambda>_. (200, Outcome ''reconciled'' (KeyForRuntime runtime)))))"

definition handleInstances :: "'w Api \<Rightarrow> ApiRequest \<Rightarrow> 'w handler" where
  "handleInstances api r =
     (if rq_Method r \<noteq> ''DELETE'' then answer_with method_not_allowed
      else let inst = instance_of_path (rq_URLPath r)
           in if inst = [] then answer_with (http_error ''instance is required'' 400)
              else on_agent (Remove (api_env api) DefaultNamespace inst)
                     (or_error api 500 (\<lambda>_. (200, StatusWord ''removed''))))"

definition audit_query :: "ApiRequest \<Rightarrow> AuditQuery" where
  "audit_query r =
     (let param = get_str (rq_Query r)
      in \<lparr>aq_Tail = atoi_value (param ''tail''), aq_Namespace = param ''namespace'', aq_Name = param ''name'',
          aq_Actor = param ''actor'', aq_Operation = param ''operation'', aq_Result = param ''result''\<rparr>)"

definition handleAuditAPI :: "'w Api \<Rightarrow> AuditConfig \<Rightarrow> ApiRequest \<Rightarrow> 'w handler" where
  "handleAuditAPI api cfg r sv =
     (if rq_Method r \<noteq> ''GET'' then (method_not_allowed, sv)
      else case audit_Read (api_decode api) cfg (audit_query r) (sv_audit sv) of
          None \<Rightarrow> (http_error (api_queryError api (audit_query r) (sv_audit sv)) 500, sv)
        | Some events \<Rightarrow> ((200, AuditEvents events), sv))"

section \<open>The multiplexer\<close>

text \<open>\<open>cleanPath\<close> of \<open>net/http\<close>: \<open>path.Clean\<close> of the rooted path, with its final slash kept.\<close>

definition cleanPath :: "string \<Rightarrow> string" where
  "cleanPath path =
     (let clean = CHR ''/'' # join_with ''/'' (clean_segments True [] (split_on (CHR ''/'') path))
      in if path \<noteq> [] \<and> last path = CHR ''/'' \<and> clean \<noteq> ''/'' then clean @ ''/'' else clean)"

definition instances_prefix :: string where
  "instances_prefix = ''/runtime/instances/''"

definition subtree :: "string \<Rightarrow> bool" where
  "subtree path \<longleftrightarrow> path = api_prefix \<or> path = instances_prefix"

text \<open>A path that is not clean, and a subtree without its slash, is redirected.\<close>

definition redirected :: "ApiRequest \<Rightarrow> string option" where
  "redirected r =
     (let path = (if rq_Method r = ''CONNECT'' then rq_URLPath r else cleanPath (rq_URLPath r))
      in if subtree (path @ ''/'') then Some (path @ ''/'')
         else if path \<noteq> rq_URLPath r then Some path else None)"

definition mux_handler :: "'w Api \<Rightarrow> ApiRequest \<Rightarrow> 'w handler" where
  "mux_handler api r =
     (let path = rq_URLPath r; options = api_options api
      in if path = ''/healthz'' then require_get r (answer_with (200, StatusWord ''ok''))
         else if path = ''/readyz'' then require_get r (handleReady api ''ready'')
         else if path = ''/health'' then require_get r (handleReady api ''ok'')
         else if path = ''/status'' then
           require_get r (on_agent (ManagerStatus (api_env api))
             (or_error api 500 (\<lambda>report. (200, Report report (api_build api)))))
         else if path = ''/version'' then require_get r (answer_with (200, Build (api_build api)))
         else if path = ''/metrics'' \<and> ho_MetricsEnabled options then
           require_get r (on_agent (manager Metrics)
             (or_error api 500 (\<lambda>m. (200, MetricsText (writeMetrics m (api_build api))))))
         else if path = ''/audit'' \<and> ho_Audit options \<noteq> None then
           handleAuditAPI api (the (ho_Audit options)) r
         else if has_prefix path api_prefix then handleRuntimeAPI api r
         else if path = ''/runtime/reconcile'' then handleReconcile api r
         else if has_prefix path instances_prefix then handleInstances api r
         else answer_with not_found)"

definition serve_mux :: "'w Api \<Rightarrow> ApiRequest \<Rightarrow> 'w handler" where
  "serve_mux api r =
     (case redirected r of
        Some path \<Rightarrow> answer_with (301, MovedTo path)
      | None \<Rightarrow> mux_handler api r)"

section \<open>Security and audit\<close>

text \<open>The principal that the layer leaves for the audit, and the answer.\<close>

definition withAPISecurity ::
    "'w Api \<Rightarrow> accessPolicy list \<Rightarrow> ApiRequest \<Rightarrow> 'w Server \<Rightarrow>
     (requestPrincipal option \<times> response) \<times> 'w Server" where
  "withAPISecurity api policies r sv =
     (let following = (\<lambda>prin. case serve_mux api r sv of (resp, sv') \<Rightarrow> ((prin, resp), sv'))
      in if policies = [] then following (Some \<lparr>prin_Actor = ''anonymous'', prin_Role = ''admin''\<rparr>)
         else if isPublicProbePath (rq_URLPath r) then following None
         else case matchAccessPolicy policies (get_str (rq_Headers r) ''Authorization'') of
             None \<Rightarrow> ((Some \<lparr>prin_Actor = ''unknown'', prin_Role = ''none''\<rparr>, http_error ''unauthorized'' 401), sv)
           | Some policy \<Rightarrow>
               let prin = Some \<lparr>prin_Actor = pol_Name policy, prin_Role = pol_Role policy\<rparr>
               in if \<not> policyAllowsRequest policy r then ((prin, http_error ''forbidden'' 403), sv)
                  else following prin)"

definition on_world :: "('w \<Rightarrow> 'a \<times> 'w) \<Rightarrow> 'w Server \<Rightarrow> 'a \<times> 'w Server" where
  "on_world f sv =
     (case f (ag_w (sv_agent sv)) of (x, w) \<Rightarrow> (x, sv\<lparr>sv_agent := (sv_agent sv)\<lparr>ag_w := w\<rparr>\<rparr>))"

definition requestIDForRequest :: "'w Api \<Rightarrow> ApiRequest \<Rightarrow> 'w Server \<Rightarrow> string \<times> 'w Server" where
  "requestIDForRequest api r sv =
     (let given = trim_space (get_str (rq_Headers r) ''X-Request-Id'')
      in if given \<noteq> [] then (given, sv) else on_world (api_newRequestID api) sv)"

definition millis :: "int \<Rightarrow> int" where
  "millis d = sgn d * (\<bar>d\<bar> div 1000000)"

definition audit_event ::
    "ApiRequest \<Rightarrow> string \<Rightarrow> requestPrincipal option \<Rightarrow> response \<Rightarrow> int \<Rightarrow> AuditEvent" where
  "audit_event r requestID prin resp elapsed =
     (let who = principalForRequest prin
      in case (auditTargetForRequest r, resp) of
           ((operation, namespace, name), (statusCode, body)) \<Rightarrow>
             \<lparr>ae_Time = 0, ae_RequestID = requestID, ae_Actor = prin_Actor who, ae_Role = prin_Role who,
              ae_SourceIP = sourceIPForRequest r, ae_Method = rq_Method r, ae_Path = rq_URLPath r,
              ae_Operation = operation, ae_Namespace = namespace, ae_Name = name,
              ae_Result = auditResultForStatus statusCode,
              ae_Reason = auditReasonForStatus statusCode (recorded_body body),
              ae_StatusCode = statusCode, ae_DurationMS = millis elapsed\<rparr>)"

text \<open>The clock is read when the request starts, when the event is made and when it is written.\<close>

definition withAPIAudit ::
    "'w Api \<Rightarrow> AuditConfig \<Rightarrow> ApiRequest \<Rightarrow>
     ('w Server \<Rightarrow> (requestPrincipal option \<times> response) \<times> 'w Server) \<Rightarrow> 'w handler" where
  "withAPIAudit api cfg r following sv =
     (case requestIDForRequest api r sv of (requestID, sv) \<Rightarrow>
      case on_world (env_Now (api_env api)) sv of (started, sv) \<Rightarrow>
      case following sv of ((prin, resp), sv) \<Rightarrow>
        if \<not> shouldAuditRequest r (ac_IncludeReadOnly cfg) then (resp, sv)
        else
          case on_world (env_Now (api_env api)) sv of (ended, sv) \<Rightarrow>
          case on_world (env_Now (api_env api)) sv of (now, sv) \<Rightarrow>
            (resp, sv\<lparr>sv_audit := audit_Append (api_encode api) cfg now
               (audit_event r requestID prin resp (ended - started)) (sv_audit sv)\<rparr>))"

definition serve_request :: "'w Api \<Rightarrow> ApiRequest \<Rightarrow> 'w handler" where
  "serve_request api r sv =
     (let secured = withAPISecurity api (accessPoliciesForOptions (api_options api)) r
      in case ho_Audit (api_options api) of
           None \<Rightarrow> (case secured sv of ((_, resp), sv') \<Rightarrow> (resp, sv'))
         | Some cfg \<Rightarrow> withAPIAudit api cfg r secured sv)"

text \<open>The options \<open>serve\<close> makes of a configuration.\<close>

definition options_for_config :: "RuntimeConfig \<Rightarrow> runtimeHandlerOptions" where
  "options_for_config config =
     \<lparr>ho_AuthToken = [], ho_AuthPolicies = accessPoliciesForConfig config,
      ho_MetricsEnabled = cfg_MetricsEnabled config,
      ho_MaxRequestBytes = api_MaxRequestBytes (cfg_API config),
      ho_Audit = NewAuditLogger (cfg_Audit config)\<rparr>"

end
