(* ===== verification/ServerProps.thy ===== *)
theory ServerProps
  imports Server SampleAgent
begin

text \<open>
  What the API guarantees: only a caller whose token belongs to a writing role changes the manager,
  and the audit log names that caller; the client's URLs denote the resource they were built for.
\<close>

section \<open>Reading requests\<close>

definition same_manager :: "'w Agent \<Rightarrow> 'w Agent \<Rightarrow> bool" where
  "same_manager s t \<longleftrightarrow> ag_m t = ag_m s"

interpretation looking: start_step same_manager env "\<lambda>_. True" "\<lambda>_. False" for env
  by unfold_locales (simp_all add: same_manager_def)

lemma reading_actions:
  "obeys same_manager (ReadyCheck env)" "obeys same_manager (GetRuntime env ns name)"
  "obeys same_manager (ManagerStatus env)"
  "obeys same_manager (andThen (world (sto_ReadEvents (env_Store env) ns name tail)) lift_sum)"
  unfolding ReadyCheck_def GetRuntime_def previousRuntimeState_def stored_runtime_def ManagerStatus_def
    nodeStatus_def Let_def
  by (intro step_rules looking.obeys_docker TrueI)+

text \<open>A handler that changes neither the manager nor the audit log.\<close>

definition quiet :: "'w handler \<Rightarrow> bool" where
  "quiet h \<longleftrightarrow> (\<forall>sv. ag_m (sv_agent (snd (h sv))) = ag_m (sv_agent sv))"

lemma quiet_answer [simp]: "quiet (answer_with a)"
  by (simp add: quiet_def answer_with_def)

lemma quiet_on_agent: "obeys same_manager m \<Longrightarrow> quiet (on_agent m a)"
  by (simp add: quiet_def on_agent_def obeys_def same_manager_def split_beta)

lemma quiet_reading [simp]:
  "quiet (handleReady api word)" "quiet (handle_get api p f)" "quiet (handle_events api r p)"
  "quiet (on_agent (ManagerStatus env) a)" "quiet (on_agent (manager g) b)"
  unfolding handleReady_def handle_get_def handle_events_def
  by (intro quiet_on_agent reading_actions step_rules)+

lemma quiet_if: "quiet h \<Longrightarrow> quiet h' \<Longrightarrow> quiet (if b then h else h')"
  by simp

lemma quiet_audit [simp]: "quiet (handleAuditAPI api cfg r)"
  by (auto simp: quiet_def handleAuditAPI_def split: option.split)

lemma quiet_require [simp]: "quiet h \<Longrightarrow> quiet (require_get r h)"
  by (simp add: require_get_def)

lemma quiet_validate [simp]: "quiet (handle_validate api r p)"
  by (simp add: handle_validate_def split: sum.split)

definition writing :: "string \<Rightarrow> bool" where
  "writing method \<longleftrightarrow> method = ''PUT'' \<or> method = ''POST'' \<or> method = ''DELETE''"

lemma quiet_mux:
  assumes "\<not> writing (rq_Method r) \<or> isPublicProbePath (rq_URLPath r)"
  shows "quiet (serve_mux api r)"
proof (cases "isPublicProbePath (rq_URLPath r)")
  case True
  then have "quiet (mux_handler api r)" by (auto simp: isPublicProbePath_def mux_handler_def Let_def)
  then show ?thesis by (simp add: serve_mux_def split: option.split)
next
  case False
  with assms have "rq_Method r \<noteq> ''PUT''" "rq_Method r \<noteq> ''POST''" "rq_Method r \<noteq> ''DELETE''"
    by (simp_all add: writing_def)
  then have "quiet (handleRuntimeAPI api r)" "quiet (handleReconcile api r)" "quiet (handleInstances api r)"
    by (simp_all add: handleRuntimeAPI_def handleReconcile_def handleInstances_def Let_def split: option.split)
  then have "quiet (mux_handler api r)" by (simp add: mux_handler_def Let_def)
  then show ?thesis by (simp add: serve_mux_def split: option.split)
qed

lemma on_agent_audit [simp]: "sv_audit (snd (on_agent m a sv)) = sv_audit sv"
  by (simp add: on_agent_def split: prod.split)

lemma mux_audit [simp]: "sv_audit (snd (serve_mux api r sv)) = sv_audit sv"
proof -
  have "sv_audit (snd (handleRuntimeAPI api r sv)) = sv_audit sv"
    by (simp add: handleRuntimeAPI_def handle_put_def handle_validate_def handle_get_def handle_events_def
        answer_with_def Let_def split: option.split sum.split)
  moreover have "sv_audit (snd (handleAuditAPI api cfg r sv)) = sv_audit sv" for cfg
    by (simp add: handleAuditAPI_def split: option.split)
  moreover have "sv_audit (snd (handleReconcile api r sv)) = sv_audit sv" "sv_audit (snd (handleInstances api r sv)) = sv_audit sv"
    by (simp_all add: handleReconcile_def handleInstances_def answer_with_def Let_def split: sum.split)
  ultimately show ?thesis
    by (simp add: serve_mux_def mux_handler_def require_get_def handleReady_def answer_with_def Let_def split: option.split)
qed

section \<open>Authorisation and accountability\<close>

text \<open>A policy that may change state with this request.\<close>

definition may_write :: "accessPolicy \<Rightarrow> ApiRequest \<Rightarrow> bool" where
  "may_write policy r \<longleftrightarrow>
     carries_token (get_str (rq_Headers r) ''Authorization'') policy \<and> writing (rq_Method r) \<and>
     (to_lower (trim_space (pol_Role policy)) = ''admin'' \<or>
      to_lower (trim_space (pol_Role policy)) = ''operator'' \<and> rq_Method r \<noteq> ''DELETE'')"

lemma security_cases:
  assumes "policies \<noteq> []"
  shows "ag_m (sv_agent (snd (withAPISecurity api policies r sv))) = ag_m (sv_agent sv) \<or>
    (\<exists>p \<in> set policies. may_write p r \<and> \<not> isPublicProbePath (rq_URLPath r) \<and>
       fst (fst (withAPISecurity api policies r sv)) = Some \<lparr>prin_Actor = pol_Name p, prin_Role = pol_Role p\<rparr>)"
proof (cases "\<not> writing (rq_Method r) \<or> isPublicProbePath (rq_URLPath r)")
  case True
  then have "quiet (serve_mux api r)" by (rule quiet_mux)
  then have "ag_m (sv_agent (snd (serve_mux api r sv))) = ag_m (sv_agent sv)" by (simp add: quiet_def)
  moreover obtain resp sv' where "serve_mux api r sv = (resp, sv')" by (cases "serve_mux api r sv")
  ultimately show ?thesis by (simp add: withAPISecurity_def Let_def split: option.split)
next
  case False
  show ?thesis
  proof (cases "matchAccessPolicy policies (get_str (rq_Headers r) ''Authorization'')")
    case None
    with False assms show ?thesis by (simp add: withAPISecurity_def Let_def)
  next
    case (Some p)
    then have p: "p \<in> set policies" "carries_token (get_str (rq_Headers r) ''Authorization'') p"
      by (auto simp: matchAccessPolicy_def find_Some_iff)
    show ?thesis
    proof (cases "policyAllowsRequest p r")
      case True
      then have "may_write p r"
        using p(2) False by (auto simp: policyAllowsRequest_def may_write_def writing_def Let_def split: if_splits)
      moreover have "fst (fst (withAPISecurity api policies r sv)) = Some \<lparr>prin_Actor = pol_Name p, prin_Role = pol_Role p\<rparr>"
        using Some False True assms by (simp add: withAPISecurity_def Let_def split: prod.split)
      ultimately show ?thesis using p(1) False by auto
    next
      case False
      with Some \<open>\<not> (\<not> writing (rq_Method r) \<or> isPublicProbePath (rq_URLPath r))\<close> assms
      show ?thesis by (simp add: withAPISecurity_def Let_def)
    qed
  qed
qed

lemma security_audit: "sv_audit (snd (withAPISecurity api policies r sv)) = sv_audit sv"
proof -
  obtain resp sv' where "serve_mux api r sv = (resp, sv')" by (cases "serve_mux api r sv")
  moreover from this have "sv_audit sv' = sv_audit sv" using mux_audit [of api r sv] by simp
  ultimately show ?thesis by (simp add: withAPISecurity_def Let_def split: option.split)
qed

lemma on_world_fields:
  "ag_m (sv_agent (snd (on_world f sv))) = ag_m (sv_agent sv)" "sv_audit (snd (on_world f sv)) = sv_audit sv"
  by (simp_all add: on_world_def split: prod.split)

lemma requestID_fields:
  "ag_m (sv_agent (snd (requestIDForRequest api r sv))) = ag_m (sv_agent sv)"
  "sv_audit (snd (requestIDForRequest api r sv)) = sv_audit sv"
  by (simp_all add: requestIDForRequest_def on_world_fields Let_def)

lemma writing_audited: "writing (rq_Method r) \<Longrightarrow> \<not> isPublicProbePath (rq_URLPath r) \<Longrightarrow> shouldAuditRequest r b"
  by (auto simp: writing_def shouldAuditRequest_def)

lemma audit_layer:
  assumes "shouldAuditRequest r (ac_IncludeReadOnly cfg)"
  shows "\<exists>sv1 id now elapsed. ag_m (sv_agent sv1) = ag_m (sv_agent sv) \<and> sv_audit sv1 = sv_audit sv \<and>
     fst (withAPIAudit api cfg r following sv) = snd (fst (following sv1)) \<and>
     ag_m (sv_agent (snd (withAPIAudit api cfg r following sv))) = ag_m (sv_agent (snd (following sv1))) \<and>
     sv_audit (snd (withAPIAudit api cfg r following sv)) =
       audit_Append (api_encode api) cfg now
         (audit_event r id (fst (fst (following sv1))) (snd (fst (following sv1))) elapsed) (sv_audit (snd (following sv1)))"
proof -
  obtain i sva where a: "requestIDForRequest api r sv = (i, sva)" by (cases "requestIDForRequest api r sv")
  obtain t0 sv1 where b: "on_world (env_Now (api_env api)) sva = (t0, sv1)" by (cases "on_world (env_Now (api_env api)) sva")
  obtain p resp sv2 where c: "following sv1 = ((p, resp), sv2)" by (cases "following sv1", cases "fst (following sv1)") auto
  obtain t1 sv3 where d: "on_world (env_Now (api_env api)) sv2 = (t1, sv3)" by (cases "on_world (env_Now (api_env api)) sv2")
  obtain t2 sv4 where e: "on_world (env_Now (api_env api)) sv3 = (t2, sv4)" by (cases "on_world (env_Now (api_env api)) sv3")
  have "ag_m (sv_agent sv1) = ag_m (sv_agent sv)" "sv_audit sv1 = sv_audit sv"
    using requestID_fields [of api r sv] on_world_fields [of "env_Now (api_env api)" sva] a b by simp_all
  moreover have "ag_m (sv_agent sv4) = ag_m (sv_agent sv2)" "sv_audit sv4 = sv_audit sv2"
    using on_world_fields [of "env_Now (api_env api)" sv2] on_world_fields [of "env_Now (api_env api)" sv3] d e by simp_all
  ultimately show ?thesis
    using assms
    by (intro exI [of _ sv1] exI [of _ i] exI [of _ t2] exI [of _ "t1 - t0"]) (simp add: withAPIAudit_def a b c d e)
qed

text \<open>What the log must say of a request that changed the manager.\<close>

definition accounted :: "'w Api \<Rightarrow> AuditConfig \<Rightarrow> accessPolicy list \<Rightarrow> ApiRequest \<Rightarrow> 'w Server \<Rightarrow> bool" where
  "accounted api cfg policies r sv \<longleftrightarrow>
     (\<exists>p \<in> set policies. \<exists>now e. may_write p r \<and>
        sv_audit (snd (serve_request api r sv)) = audit_Append (api_encode api) cfg now e (sv_audit sv) \<and>
        ae_Actor e = pol_Name p \<and> ae_Method e = rq_Method r \<and> ae_Path e = rq_URLPath r \<and>
        ae_StatusCode e = fst (fst (serve_request api r sv)) \<and>
        ae_Result e = auditResultForStatus (fst (fst (serve_request api r sv))))"

text \<open>C15: with access policies and an audit log a request leaves the manager as it was, or it
  carries the token of a policy whose role may write with that method and the log gains an event
  that names this policy, the method, the path and the outcome.\<close>

theorem changes_are_authorised_and_audited:
  assumes policies: "accessPoliciesForOptions (api_options api) = policies" "policies \<noteq> []"
    and named: "list_all (\<lambda>p. pol_Name p \<noteq> []) policies"
    and audit: "ho_Audit (api_options api) = Some cfg"
  shows "ag_m (sv_agent (snd (serve_request api r sv))) = ag_m (sv_agent sv) \<or> accounted api cfg policies r sv"
proof (cases "shouldAuditRequest r (ac_IncludeReadOnly cfg)")
  case False
  then have "\<not> writing (rq_Method r) \<or> isPublicProbePath (rq_URLPath r)" using writing_audited by blast
  then have unchanged: "ag_m (sv_agent (snd (withAPISecurity api policies r sv1))) = ag_m (sv_agent sv1)" for sv1
    using security_cases [OF policies(2), of api r sv1] by (auto simp: may_write_def)
  obtain i sva where a: "requestIDForRequest api r sv = (i, sva)" by (cases "requestIDForRequest api r sv")
  obtain t0 sv1 where b: "on_world (env_Now (api_env api)) sva = (t0, sv1)" by (cases "on_world (env_Now (api_env api)) sva")
  have "ag_m (sv_agent sv1) = ag_m (sv_agent sv)"
    using requestID_fields [of api r sv] on_world_fields [of "env_Now (api_env api)" sva] a b by simp
  then show ?thesis
    using False unchanged [of sv1] by (simp add: serve_request_def policies audit withAPIAudit_def a b split_beta Let_def)
next
  case True
  let ?secured = "withAPISecurity api policies r"
  have serve: "serve_request api r sv = withAPIAudit api cfg r ?secured sv"
    by (simp add: serve_request_def policies(1) audit Let_def)
  obtain sv1 i now elapsed where layer: "ag_m (sv_agent sv1) = ag_m (sv_agent sv)" "sv_audit sv1 = sv_audit sv"
    "fst (serve_request api r sv) = snd (fst (?secured sv1))"
    "ag_m (sv_agent (snd (serve_request api r sv))) = ag_m (sv_agent (snd (?secured sv1)))"
    "sv_audit (snd (serve_request api r sv)) = audit_Append (api_encode api) cfg now
        (audit_event r i (fst (fst (?secured sv1))) (snd (fst (?secured sv1))) elapsed) (sv_audit (snd (?secured sv1)))"
    using audit_layer [OF True, of sv api ?secured] unfolding serve by (elim exE conjE)
  consider "ag_m (sv_agent (snd (?secured sv1))) = ag_m (sv_agent sv1)"
    | p where "p \<in> set policies" "may_write p r"
        "fst (fst (?secured sv1)) = Some \<lparr>prin_Actor = pol_Name p, prin_Role = pol_Role p\<rparr>"
    using security_cases [OF policies(2), of api r sv1] by blast
  then show ?thesis
  proof cases
    case 1
    then show ?thesis using layer(1,4) by simp
  next
    case (2 p)
    let ?e = "audit_event r i (fst (fst (?secured sv1))) (snd (fst (?secured sv1))) elapsed"
    have "pol_Name p \<noteq> []" using named 2(1) by (simp add: list_all_iff)
    then have "ae_Actor ?e = pol_Name p \<and> ae_Method ?e = rq_Method r \<and> ae_Path ?e = rq_URLPath r \<and>
        ae_StatusCode ?e = fst (snd (fst (?secured sv1))) \<and>
        ae_Result ?e = auditResultForStatus (fst (snd (fst (?secured sv1))))"
      by (simp add: audit_event_def principalForRequest_def 2(3) Let_def split_beta)
    moreover have "sv_audit (snd (serve_request api r sv)) = audit_Append (api_encode api) cfg now ?e (sv_audit sv)"
      unfolding layer(5) security_audit layer(2) ..
    ultimately have "accounted api cfg policies r sv"
      unfolding accounted_def layer(3) by (intro bexI [OF _ 2(1)] exI [of _ now] exI [of _ ?e] conjI) (simp_all add: 2(2))
    then show ?thesis ..
  qed
qed

definition viewer :: accessPolicy where
  "viewer = \<lparr>pol_Name = ''dashboard'', pol_Role = ''viewer'', pol_Token = ''v''\<rparr>"

definition sample_api :: "sample_world Api" where
  "sample_api =
     \<lparr>api_env = sample_env 3, api_yaml = sample_yaml,
      api_options = \<lparr>ho_AuthToken = [], ho_AuthPolicies = [viewer], ho_MetricsEnabled = True,
        ho_MaxRequestBytes = 0, ho_Audit = Some sample_audit\<rparr>,
      api_build = currentBuildInfo ''dev'' ''unknown'' ''unknown'', api_encode = ae_Actor,
      api_decode = (\<lambda>s. Some (sample_event s)), api_queryError = (\<lambda>q fs. ''bad line''),
      api_newRequestID = (\<lambda>w. (''id'', w))\<rparr>"

definition sample_put :: ApiRequest where
  "sample_put =
     \<lparr>rq_Method = ''PUT'', rq_URLPath = ''/apis/aifar.io/v1/namespaces/default/runtimes/shop'', rq_Query = [],
      rq_Headers = [(''Authorization'', ''Bearer v'')], rq_Remote = ''10.0.0.1:5000'', rq_Body = Inr ''{}''\<rparr>"

theorem changes_are_authorised_and_audited_witness:
  "let sv = \<lparr>sv_agent = sample_agent False, sv_audit = []\<rparr>
   in ag_m (sv_agent (snd (serve_request sample_api sample_put sv))) = ag_m (sv_agent sv) \<or>
      accounted sample_api sample_audit [viewer] sample_put sv"
  unfolding Let_def
  by (rule changes_are_authorised_and_audited)
     (simp_all add: sample_api_def accessPoliciesForOptions_def viewer_def)

section \<open>Resource URLs\<close>

definition resource_segments :: "string \<Rightarrow> string \<Rightarrow> string \<Rightarrow> string list" where
  "resource_segments namespace name sub =
     [''apis'', ''aifar.io'', ''v1'', ''namespaces'', namespace, ''runtimes'', name] @ (if sub = [] then [] else [sub])"

definition resource_path :: "string \<Rightarrow> string \<Rightarrow> string \<Rightarrow> string" where
  "resource_path namespace name sub = CHR ''/'' # join_with ''/'' (resource_segments namespace name sub)"

lemma resource_path_clean:
  assumes "validDNSLabel namespace" "validDNSLabel name" "sub = [] \<or> sub = ''status'' \<or> sub = ''events''"
  shows "cleanPath (resource_path namespace name sub) = resource_path namespace name sub"
proof -
  note ns = label_chars [OF assms(1)] and nm = label_chars [OF assms(2)]
  let ?segs = "resource_segments namespace name sub"
  have plain: "list_all plain_segment ?segs"
    using assms(3) ns nm by (auto simp: resource_segments_def plain_segment_def)
  then have segs: "CHR ''/'' \<notin> set x" if "x \<in> set ?segs" for x
    using that by (auto simp: list_all_iff plain_segment_def)
  have "split_on (CHR ''/'') (join_with ''/'' ?segs) = ?segs"
    by (rule split_on_join) (simp_all add: segs, simp add: resource_segments_def)
  then have "split_on (CHR ''/'') (resource_path namespace name sub) = [] # ?segs"
    by (simp add: resource_path_def)
  then have "clean_segments True [] (split_on (CHR ''/'') (resource_path namespace name sub)) = ?segs"
    using plain by (simp add: clean_segments_plain)
  moreover have "last (resource_path namespace name sub) \<noteq> CHR ''/''"
    using assms(3) nm(1,6) by (auto simp: resource_path_def resource_segments_def)
  ultimately show ?thesis unfolding cleanPath_def resource_path_def by simp
qed

lemma resource_path_parsed:
  assumes "validDNSLabel namespace" "validDNSLabel name" "sub = [] \<or> sub = ''status'' \<or> sub = ''events''"
  shows "parseRuntimeAPIPath (resource_path namespace name sub) =
    Some \<lparr>ap_Namespace = namespace, ap_Name = name, ap_Subresource = sub, ap_Validate = False\<rparr>"
proof -
  note ns = label_chars [OF assms(1)] and nm = label_chars [OF assms(2)]
  let ?rest = "join_with ''/'' (drop 4 (resource_segments namespace name sub))"
  have path: "resource_path namespace name sub = api_prefix @ ?rest"
    by (simp add: resource_path_def resource_segments_def api_prefix_def)
  then have "trim_prefix (resource_path namespace name sub) api_prefix = ?rest"
    unfolding path by (simp add: trim_prefix_def has_prefix_def)
  moreover have "trim_set ''/'' ?rest = ?rest"
    by (rule trim_set_fix) (use assms(3) ns nm in \<open>auto simp: resource_segments_def\<close>)
  moreover have "split_on (CHR ''/'') ?rest = drop 4 (resource_segments namespace name sub)"
    by (rule split_on_join) (use assms(3) ns nm in \<open>auto simp: resource_segments_def\<close>)
  ultimately show ?thesis
    using assms(3) ns nm by (auto simp: parseRuntimeAPIPath_def resource_segments_def cut_def)
qed

text \<open>C21: the URL a client builds for a Runtime is the base address followed by a path that the
  server does not redirect and parses back to the same namespace, name and subresource.\<close>

theorem resource_url_roundtrip:
  assumes "validDNSLabel namespace" "validDNSLabel name" "sub = [] \<or> sub = ''status'' \<or> sub = ''events''"
  shows "\<exists>path. runtimeResourceURL addr namespace name sub = apiBaseURL addr @ path \<and>
     cleanPath path = path \<and>
     parseRuntimeAPIPath path =
       Some \<lparr>ap_Namespace = namespace, ap_Name = name, ap_Subresource = sub, ap_Validate = False\<rparr>"
proof (intro exI conjI)
  have "is_blank ''status'' = False" "is_blank ''events'' = False" by code_simp+
  then show "runtimeResourceURL addr namespace name sub = apiBaseURL addr @ resource_path namespace name sub"
    using assms(3) by (auto simp: runtimeResourceURL_def resource_path_def resource_segments_def is_blank_def)
qed (use assms in \<open>rule resource_path_clean resource_path_parsed; assumption\<close>)+

theorem resource_url_roundtrip_witness:
  "\<exists>path. runtimeResourceURL ''127.0.0.1:18081'' ''default'' ''shop'' ''events'' = apiBaseURL ''127.0.0.1:18081'' @ path \<and>
     cleanPath path = path \<and>
     parseRuntimeAPIPath path =
       Some \<lparr>ap_Namespace = ''default'', ap_Name = ''shop'', ap_Subresource = ''events'', ap_Validate = False\<rparr>"
  by (rule resource_url_roundtrip) (code_simp, code_simp, simp)

section \<open>An open API\<close>

definition rbac_without_tokens :: RuntimeConfig where
  "rbac_without_tokens =
     DefaultRuntimeConfig\<lparr>cfg_Security := (cfg_Security DefaultRuntimeConfig)\<lparr>
        sc_RBAC := \<lparr>rb_Enabled = True, rb_Tokens = []\<rparr>\<rparr>\<rparr>"

text \<open>A configuration that enables role-based access without any token passes validation and
  leaves the API open: every request is served as an anonymous administrator.\<close>

theorem rbac_without_tokens_is_open:
  "ValidateRuntimeConfig (NormalizeRuntimeConfig rbac_without_tokens) = None \<and>
   withAPISecurity api (accessPoliciesForOptions (options_for_config (NormalizeRuntimeConfig rbac_without_tokens))) r sv =
     ((Some \<lparr>prin_Actor = ''anonymous'', prin_Role = ''admin''\<rparr>, fst (serve_mux api r sv)), snd (serve_mux api r sv))"
proof (intro conjI)
  show "ValidateRuntimeConfig (NormalizeRuntimeConfig rbac_without_tokens) = None" by code_simp
  have "accessPoliciesForOptions (options_for_config (NormalizeRuntimeConfig rbac_without_tokens)) = []" by code_simp
  then show "withAPISecurity api (accessPoliciesForOptions (options_for_config (NormalizeRuntimeConfig rbac_without_tokens))) r sv =
     ((Some \<lparr>prin_Actor = ''anonymous'', prin_Role = ''admin''\<rparr>, fst (serve_mux api r sv)), snd (serve_mux api r sv))"
    by (simp add: withAPISecurity_def split_beta)
qed

end
