(* ===== verification/GoNet.thy ===== *)
theory GoNet
  imports GoText Validate
begin

text \<open>
  Parts of Go's standard library that the command line and the release tool use: the escapes and
  the query strings of \<open>net/url\<close>, \<open>strconv.ParseInt\<close> with base 0, and \<open>FlagSet.Parse\<close> of \<open>flag\<close>.
\<close>

section \<open>Escapes\<close>

definition unreserved :: "char \<Rightarrow> bool" where
  "unreserved c \<longleftrightarrow> dns_char c \<or> (65 \<le> (of_char c :: nat) \<and> (of_char c :: nat) \<le> 90) \<or> c \<in> set ''-_.~''"

definition hex_digit :: "nat \<Rightarrow> char" where
  "hex_digit n = (if n < 10 then char_of (48 + n) else char_of (55 + n))"

definition percent :: "char \<Rightarrow> string" where
  "percent c = [CHR ''%'', hex_digit (of_char c div 16), hex_digit (of_char c mod 16)]"

definition QueryEscape :: "string \<Rightarrow> string" where
  "QueryEscape s = concat (map (\<lambda>c. if unreserved c then [c] else if c = CHR '' '' then ''+'' else percent c) s)"

definition PathEscape :: "string \<Rightarrow> string" where
  "PathEscape s = concat (map (\<lambda>c. if unreserved c \<or> c \<in> set ''$&+:=@'' then [c] else percent c) s)"

definition hex_val :: "char \<Rightarrow> nat option" where
  "hex_val c = (let n = of_char c :: nat in
     if 48 \<le> n \<and> n \<le> 57 then Some (n - 48)
     else if 65 \<le> n \<and> n \<le> 70 then Some (n - 55)
     else if 97 \<le> n \<and> n \<le> 102 then Some (n - 87)
     else None)"

fun QueryUnescape :: "string \<Rightarrow> string option" where
  "QueryUnescape [] = Some []"
| "QueryUnescape (c # s) =
     (if c = CHR ''%'' then
        (case s of
           a # b # rest \<Rightarrow>
             (case (hex_val a, hex_val b) of
                (Some x, Some y) \<Rightarrow> map_option (\<lambda>t. char_of (16 * x + y) # t) (QueryUnescape rest)
              | _ \<Rightarrow> None)
         | _ \<Rightarrow> None)
      else map_option (\<lambda>t. (if c = CHR ''+'' then CHR '' '' else c) # t) (QueryUnescape s))"

text \<open>\<open>Values.Encode\<close> of a map with one value for each key.\<close>

definition values_encode :: "string gomap \<Rightarrow> string" where
  "values_encode values =
     join_with ''&'' (map (\<lambda>(k, v). QueryEscape k @ ''='' @ QueryEscape v) (sort_key fst values))"

text \<open>
  \<open>URL.Query\<close>: pairs with a semicolon or a broken escape are dropped; \<open>Get\<close> takes the first
  value of a key.
\<close>

definition parse_pair :: "string \<Rightarrow> (string \<times> string) option" where
  "parse_pair part =
     (if part = [] \<or> CHR '';'' \<in> set part then None
      else (case cut (CHR ''='') part of (k, v, _) \<Rightarrow>
        (case (QueryUnescape k, QueryUnescape v) of (Some k, Some v) \<Rightarrow> Some (k, v) | _ \<Rightarrow> None)))"

definition parse_query :: "string \<Rightarrow> string gomap" where
  "parse_query s = List.map_filter parse_pair (split_on (CHR ''&'') s)"

section \<open>Integers of any base\<close>

definition any_digit :: "char \<Rightarrow> nat option" where
  "any_digit c = (let n = of_char c :: nat in
     if 48 \<le> n \<and> n \<le> 57 then Some (n - 48)
     else if 97 \<le> n \<and> n \<le> 122 then Some (n - 87)
     else if 65 \<le> n \<and> n \<le> 90 then Some (n - 55)
     else None)"

definition base_prefix :: "string \<Rightarrow> nat option" where
  "base_prefix s =
     (case s of
        z # b # _ \<Rightarrow>
          if z \<noteq> CHR ''0'' then None
          else if b \<in> set ''bB'' then Some 2
          else if b \<in> set ''oO'' then Some 8
          else if b \<in> set ''xX'' then Some 16 else None
      | _ \<Rightarrow> None)"

text \<open>Underscores only between digits or after the base; \<open>i\<close> is the class of the last character.\<close>

fun underscores_from :: "bool \<Rightarrow> char \<Rightarrow> string \<Rightarrow> bool" where
  "underscores_from hex i [] \<longleftrightarrow> i \<noteq> CHR ''_''"
| "underscores_from hex i (c # s) \<longleftrightarrow>
     (if is_digit c \<or> hex \<and> hex_val c \<noteq> None then underscores_from hex (CHR ''0'') s
      else if c = CHR ''_'' then i = CHR ''0'' \<and> underscores_from hex c s
      else i \<noteq> CHR ''_'' \<and> underscores_from hex (CHR ''!'') s)"

definition underscoreOK :: "string \<Rightarrow> bool" where
  "underscoreOK s =
     (let s = (case s of c # rest \<Rightarrow> if c \<in> set ''+-'' then rest else s | [] \<Rightarrow> s)
      in case base_prefix s of
           None \<Rightarrow> underscores_from False (CHR ''^'') s
         | Some base \<Rightarrow> underscores_from (base = 16) (CHR ''0'') (drop 2 s))"

definition based_digits :: "string \<Rightarrow> nat \<times> string" where
  "based_digits s =
     (case s of
        c # rest \<Rightarrow>
          if c \<noteq> CHR ''0'' then (10, s)
          else (case base_prefix s of
                  Some base \<Rightarrow> if length s \<ge> 3 then (base, drop 2 s) else (8, rest)
                | None \<Rightarrow> (8, rest))
      | [] \<Rightarrow> (10, s))"

definition ParseInt0 :: "string \<Rightarrow> int option" where
  "ParseInt0 s =
     (let neg = (s \<noteq> [] \<and> hd s = CHR ''-'');
          body = (if s \<noteq> [] \<and> hd s \<in> set ''+-'' then tl s else s)
      in case based_digits body of (base, digits) \<Rightarrow>
           (case those (map any_digit (filter (\<lambda>c. c \<noteq> CHR ''_'') digits)) of
              None \<Rightarrow> None
            | Some ds \<Rightarrow>
                let v = int (foldl (\<lambda>n d. n * base + d) 0 ds); v = (if neg then - v else v)
                in if body = [] \<or> \<not> list_all (\<lambda>d. d < base) ds \<or> \<not> in_int64 v \<or>
                      (CHR ''_'' \<in> set digits \<and> \<not> underscoreOK body)
                   then None else Some v))"

section \<open>Flags\<close>

text \<open>A flag and its current value.\<close>

datatype flag_value = StrFlag string | IntFlag int | BoolFlag bool

definition ParseBool :: "string \<Rightarrow> bool option" where
  "ParseBool s =
     (if s \<in> {''1'', ''t'', ''T'', ''TRUE'', ''true'', ''True''} then Some True
      else if s \<in> {''0'', ''f'', ''F'', ''FALSE'', ''false'', ''False''} then Some False
      else None)"

definition set_flag :: "flag_value \<Rightarrow> string \<Rightarrow> flag_value option" where
  "set_flag old v =
     (case old of
        StrFlag _ \<Rightarrow> Some (StrFlag v)
      | IntFlag _ \<Rightarrow> map_option IntFlag (ParseInt0 v)
      | BoolFlag _ \<Rightarrow> map_option BoolFlag (ParseBool v))"

definition is_bool_flag :: "flag_value \<Rightarrow> bool" where
  "is_bool_flag f = (case f of BoolFlag _ \<Rightarrow> True | _ \<Rightarrow> False)"

text \<open>A boolean flag takes its value only from \<open>=\<close>. \<open>Inl\<close> is the code that \<open>flag.ExitOnError\<close> exits with: 0 after a request for help, else 2.\<close>

function parse_flags :: "flag_value gomap \<Rightarrow> string list \<Rightarrow> int + flag_value gomap" where
  "parse_flags flags [] = Inr flags"
| "parse_flags flags (s # args) =
     (if length s < 2 \<or> hd s \<noteq> CHR ''-'' \<or> s = ''--'' then Inr flags
      else
        let text = (if hd (tl s) = CHR ''-'' then drop 2 s else tl s)
        in if hd text \<in> set ''-='' then Inl 2
           else (case cut (CHR ''='') text of (name, v, found) \<Rightarrow>
             (case map_of flags name of
                None \<Rightarrow> Inl (if name \<in> {''help'', ''h''} then 0 else 2)
              | Some old \<Rightarrow>
                  if found then
                    (case set_flag old v of
                       None \<Rightarrow> Inl 2
                     | Some new \<Rightarrow> parse_flags (map_set flags name new) args)
                  else if is_bool_flag old then parse_flags (map_set flags name (BoolFlag True)) args
                  else (case args of
                      [] \<Rightarrow> Inl 2
                    | v # rest \<Rightarrow>
                        (case set_flag old v of
                           None \<Rightarrow> Inl 2
                         | Some new \<Rightarrow> parse_flags (map_set flags name new) rest)))))"
  by pat_completeness auto
termination by (relation "measure (\<lambda>(flags, args). length args)") auto

definition str_flag :: "flag_value gomap \<Rightarrow> string \<Rightarrow> string" where
  "str_flag flags name = (case map_of flags name of Some (StrFlag v) \<Rightarrow> v | _ \<Rightarrow> [])"

definition int_flag :: "flag_value gomap \<Rightarrow> string \<Rightarrow> int" where
  "int_flag flags name = (case map_of flags name of Some (IntFlag v) \<Rightarrow> v | _ \<Rightarrow> 0)"

definition bool_flag :: "flag_value gomap \<Rightarrow> string \<Rightarrow> bool" where
  "bool_flag flags name = (case map_of flags name of Some (BoolFlag v) \<Rightarrow> v | _ \<Rightarrow> False)"

section \<open>Escaping is undone\<close>

lemma hex_val_digit: "n < 16 \<Longrightarrow> hex_val (hex_digit n) = Some n"
  by (simp add: hex_val_def hex_digit_def Let_def)

lemma char_nibble: "of_char c div 16 < (16 :: nat)"
proof -
  have "of_char c < (16 * 16 :: nat)" by simp
  then show ?thesis by (rule less_mult_imp_div_less)
qed

lemma unescape_percent: "QueryUnescape (percent c @ s) = map_option ((#) c) (QueryUnescape s)"
proof -
  have "of_char c div 16 < (16 :: nat)" by (rule char_nibble)
  then show ?thesis by (simp add: percent_def hex_val_digit)
qed

lemma unreserved_plain: "unreserved c \<Longrightarrow> c \<notin> set ''%+&=; ?#''"
  by (auto simp: unreserved_def dns_char_def Let_def)

lemma QueryUnescape_Escape: "QueryUnescape (QueryEscape s) = Some s"
proof (induction s)
  case (Cons c s)
  have esc: "QueryEscape (c # s) =
      (if unreserved c then [c] else if c = CHR '' '' then ''+'' else percent c) @ QueryEscape s"
    by (simp add: QueryEscape_def)
  show ?case unfolding esc
    using Cons unreserved_plain [of c] by (simp add: unescape_percent)
qed (simp add: QueryEscape_def)

lemma hex_digit_plain: "n < 16 \<Longrightarrow> unreserved (hex_digit n)"
  by (auto simp: hex_digit_def unreserved_def dns_char_def Let_def)

lemma QueryEscape_plain: "c \<in> set (QueryEscape s) \<Longrightarrow> c \<notin> set ''&=; ?#''"
proof -
  assume "c \<in> set (QueryEscape s)"
  then obtain d where d: "c \<in> set (if unreserved d then [d] else if d = CHR '' '' then ''+'' else percent d)"
    unfolding QueryEscape_def set_concat set_map by blast
  have "unreserved (hex_digit (of_char d div 16))" "unreserved (hex_digit (of_char d mod 16))"
    by (simp_all add: hex_digit_plain char_nibble)
  with d show ?thesis
    by (auto simp: percent_def dest: unreserved_plain split: if_splits)
qed

lemma parse_pair_escaped: "parse_pair (QueryEscape k @ ''='' @ QueryEscape v) = Some (k, v)"
proof -
  have "CHR ''='' \<notin> set (QueryEscape k)" "CHR '';'' \<notin> set (QueryEscape k)" "CHR '';'' \<notin> set (QueryEscape v)"
    using QueryEscape_plain by fastforce+
  then show ?thesis
    by (simp add: parse_pair_def cut_def takeWhile_append dropWhile_append QueryUnescape_Escape)
qed

text \<open>A query string that was made of a map with non-empty parts is read back as that map.\<close>

lemma parse_query_encode: "values \<noteq> [] \<Longrightarrow> parse_query (values_encode values) = sort_key fst values"
proof -
  assume ne: "values \<noteq> []"
  let ?parts = "map (\<lambda>(k, v). QueryEscape k @ ''='' @ QueryEscape v) (sort_key fst values)"
  have "CHR ''&'' \<notin> set part" if "part \<in> set ?parts" for part
    using that QueryEscape_plain by fastforce
  moreover have "?parts \<noteq> []" using ne by (metis length_0_conv length_map length_sort)
  ultimately have "split_on (CHR ''&'') (values_encode values) = ?parts"
    unfolding values_encode_def by (intro split_on_join)
  moreover have "List.map_filter parse_pair (map (\<lambda>(k, v). QueryEscape k @ ''='' @ QueryEscape v) m) = m" for m
    by (induction m) (auto simp: map_filter_simps parse_pair_escaped [simplified])
  ultimately show ?thesis by (simp add: parse_query_def)
qed

end
