(* ===== verification/Serve.thy ===== *)
theory Serve
  imports Server Invariants RollbackProps
begin

text \<open>
  The life of the service: the two loops that resynchronise in the background
  (\<open>StartRuntimeResync\<close> of \<open>reconcile.go\<close> and \<open>docker_events.go\<close>) and \<open>serve\<close> of
  \<open>cmd/aifar-runtime/main.go\<close>, which loads the stored Runtimes, serves requests until a signal or a
  failed listener ends it, and shuts down. A loop has fuel; one that uses it up ends with
  \<open>OutOfFuel\<close>, which the code has not. Everything that works on the manager in parallel takes turns
  at \<open>reconcileMu\<close> or holds \<open>mu\<close>, so a run is a sequence of activities.
\<close>

section \<open>The periodic resync\<close>

text \<open>\<open>wa_Tick d\<close> is the select between \<open>ctx.Done()\<close> and a ticker of period \<open>d\<close>.\<close>

record 'w Watch =
  wa_Tick :: "int \<Rightarrow> 'w \<Rightarrow> string option \<times> 'w"
  wa_Start :: "string \<Rightarrow> string list \<Rightarrow> 'w \<Rightarrow> string option \<times> 'w"
  wa_Scan :: "'w \<Rightarrow> bool \<times> 'w"
  wa_ScanErr :: "'w \<Rightarrow> string option \<times> 'w"
  wa_Wait :: "'w \<Rightarrow> string option \<times> 'w"
  wa_Close :: "'w \<Rightarrow> unit \<times> 'w"

text \<open>A failed resync is logged; the loop goes on.\<close>

fun resync_loop :: "'w Env \<Rightarrow> 'w Watch \<Rightarrow> int \<Rightarrow> nat \<Rightarrow> (unit, 'w) act" where
  "resync_loop env wt interval 0 = fail OutOfFuel"
| "resync_loop env wt interval (Suc fuel) =
     andThen (world (wa_Tick wt interval)) (\<lambda>cancelled.
       if cancelled \<noteq> None then ret ()
       else andThen (attempt (Resync env)) (\<lambda>_. resync_loop env wt interval fuel))"

definition StartRuntimeResync :: "'w Env \<Rightarrow> 'w Watch \<Rightarrow> int \<Rightarrow> nat \<Rightarrow> (unit, 'w) act" where
  "StartRuntimeResync env wt interval fuel =
     resync_loop env wt (if interval \<le> 0 then 30000000000 else interval) fuel"

section \<open>The watcher of Docker's events\<close>

definition event_args :: "string list" where
  "event_args = [''events'', ''--filter'', ''type=container'', ''--filter'', ''label=aifar.runtime/managed=true'',
     ''--format'', ''{{.TimeNano}} {{.Action}} {{.Actor.Attributes.aifar.runtime/name}}'']"

definition defaultDockerEventWatcher :: "'w Env \<Rightarrow> 'w Watch \<Rightarrow> 'w \<Rightarrow> string option \<times> 'w" where
  "defaultDockerEventWatcher env wt = wa_Start wt (dc_Command (cfg_Docker (env_Config env))) event_args"

text \<open>One resync for each line, after a pause; lines that came meanwhile have their own.\<close>

fun scan_events :: "'w Env \<Rightarrow> 'w Watch \<Rightarrow> int \<Rightarrow> nat \<Rightarrow> (unit, 'w) act" where
  "scan_events env wt debounce 0 = fail OutOfFuel"
| "scan_events env wt debounce (Suc fuel) =
     andThen (world (wa_Scan wt)) (\<lambda>line.
       if line then
         andThen (world (env_Wait env debounce)) (\<lambda>cancelled. case cancelled of
            Some e \<Rightarrow> andThen (world (wa_Wait wt)) (\<lambda>_. fail (Text e))
          | None \<Rightarrow> andThen (attempt (Resync env)) (\<lambda>_. scan_events env wt debounce fuel))
       else
         andThen (world (wa_ScanErr wt)) (\<lambda>err. case err of
            Some e \<Rightarrow> andThen (world (wa_Wait wt)) (\<lambda>_. fail (Text e))
          | None \<Rightarrow> andThen (world (wa_Wait wt)) (\<lambda>err. raise id (map_option Text err))))"

definition watchDockerEvents :: "'w Env \<Rightarrow> 'w Watch \<Rightarrow> int \<Rightarrow> nat \<Rightarrow> (unit, 'w) act" where
  "watchDockerEvents env wt debounce fuel =
     andThen (world (defaultDockerEventWatcher env wt)) (\<lambda>err. case err of
        Some e \<Rightarrow> fail (Text e)
      | None \<Rightarrow> deferring (world (wa_Close wt)) (scan_events env wt debounce fuel))"

text \<open>Every run of the watcher has the same fuel for its lines.\<close>

fun event_sync :: "'w Env \<Rightarrow> 'w Watch \<Rightarrow> int \<Rightarrow> nat \<Rightarrow> nat \<Rightarrow> (unit, 'w) act" where
  "event_sync env wt debounce fuel 0 = fail OutOfFuel"
| "event_sync env wt debounce fuel (Suc runs) =
     andThen (world (env_Cancelled env)) (\<lambda>cancelled.
       if cancelled \<noteq> None then ret ()
       else andThen (attempt (watchDockerEvents env wt debounce fuel)) (\<lambda>r. case r of
          Inr _ \<Rightarrow> event_sync env wt debounce fuel runs
        | Inl e \<Rightarrow>
            if e = OutOfFuel then fail OutOfFuel
            else andThen (world (env_Cancelled env)) (\<lambda>cancelled.
              if cancelled \<noteq> None then event_sync env wt debounce fuel runs
              else andThen (world (env_Wait env (dc_EventBackoff (cfg_Docker (env_Config env))))) (\<lambda>done_err.
                if done_err \<noteq> None then ret () else event_sync env wt debounce fuel runs))))"

definition StartDockerEventSync :: "'w Env \<Rightarrow> 'w Watch \<Rightarrow> int \<Rightarrow> nat \<Rightarrow> nat \<Rightarrow> (unit, 'w) act" where
  "StartDockerEventSync env wt debounce fuel runs =
     event_sync env wt
       (if debounce \<le> 0 then dc_EventDebounce (cfg_Docker (env_Config env)) else debounce) fuel runs"

section \<open>A run of the service\<close>

text \<open>
  What happens while the server listens: API requests, requests to a proxy port, a turn of one of
  the two loops, and everything outside the program.
\<close>

datatype 'w activity =
    ApiCall ApiRequest
  | ProxyCall int http_request
  | PeriodicResync int nat
  | EventSync int nat nat
  | Outside "'w \<Rightarrow> 'w"

fun perform_activity :: "'w Api \<Rightarrow> 'w Watch \<Rightarrow> 'w activity \<Rightarrow> 'w Server \<Rightarrow> 'w Server" where
  "perform_activity api wt (ApiCall r) sv = snd (serve_request api r sv)"
| "perform_activity api wt (ProxyCall port rq) sv =
     sv\<lparr>sv_agent := (sv_agent sv)\<lparr>ag_m := snd (handleProxy (ag_m (sv_agent sv)) port rq)\<rparr>\<rparr>"
| "perform_activity api wt (PeriodicResync interval fuel) sv =
     sv\<lparr>sv_agent := snd (StartRuntimeResync (api_env api) wt interval fuel (sv_agent sv))\<rparr>"
| "perform_activity api wt (EventSync debounce fuel runs) sv =
     sv\<lparr>sv_agent := snd (StartDockerEventSync (api_env api) wt debounce fuel runs (sv_agent sv))\<rparr>"
| "perform_activity api wt (Outside f) sv =
     sv\<lparr>sv_agent := (sv_agent sv)\<lparr>ag_w := f (ag_w (sv_agent sv))\<rparr>\<rparr>"

text \<open>
  The run ends when the listener fails, or at a signal: then the server shuts down, the manager shuts
  down, and the listener's error is read.
\<close>

datatype ending =
    ListenerEnded "string option"
  | Signalled "string option" "string option"

definition serve_end :: "'w Api \<Rightarrow> ending \<Rightarrow> 'w Server \<Rightarrow> RuntimeError option \<times> 'w Server" where
  "serve_end api ending sv =
     (case ending of
        ListenerEnded err \<Rightarrow> (map_option Text err, sv)
      | Signalled (Some e) _ \<Rightarrow> (Some (Wrap ''shutdown runtime API'' (Text e)), sv)
      | Signalled None serverErr \<Rightarrow>
          (case Shutdown (api_env api) (sv_agent sv) of
             (Inl e, s) \<Rightarrow> (Some e, sv\<lparr>sv_agent := s\<rparr>)
           | (Inr _, s) \<Rightarrow> (map_option Text serverErr, sv\<lparr>sv_agent := s\<rparr>)))"

datatype serve_error = BadConfig config_error | ServeFailed RuntimeError

text \<open>\<open>wiring\<close> turns the configuration into the parameters of the server and its manager.\<close>

definition serve ::
    "(RuntimeConfig \<Rightarrow> 'w Api) \<Rightarrow> 'w Watch \<Rightarrow> RuntimeConfig \<Rightarrow> 'w activity list \<Rightarrow> ending \<Rightarrow> 'w \<Rightarrow> files \<Rightarrow>
     serve_error option \<times> 'w Server" where
  "serve wiring wt config activities ending w fs =
     (let config = NormalizeRuntimeConfig config; api = wiring config;
          sv = \<lparr>sv_agent = \<lparr>ag_m = NewManager, ag_w = w, ag_trace = []\<rparr>, sv_audit = fs\<rparr>
      in case ValidateRuntimeConfig config of
           Some e \<Rightarrow> (Some (BadConfig e), sv)
         | None \<Rightarrow>
             (case Load (api_env api) (sv_agent sv) of
                (Inl e, s) \<Rightarrow> (Some (ServeFailed e), sv\<lparr>sv_agent := s\<rparr>)
              | (Inr _, s) \<Rightarrow>
                  (case serve_end api ending (fold (perform_activity api wt) activities (sv\<lparr>sv_agent := s\<rparr>)) of
                     (err, sv') \<Rightarrow> (map_option ServeFailed err, sv'))))"

section \<open>Reachable states\<close>

text \<open>The states of the state machine of \<open>Operations\<close>, closed under what the service does.\<close>

definition stays_reachable :: "'w Env \<Rightarrow> 'w Agent \<Rightarrow> 'w Agent \<Rightarrow> bool" where
  "stays_reachable env s t \<longleftrightarrow> (reachable env s \<longrightarrow> reachable env t)"

interpretation reaching: agent_relation "stays_reachable env" for env
  by unfold_locales (simp_all add: stays_reachable_def)

lemma reaching_world [step_rules]: "obeys (stays_reachable env) (world f)"
  by (auto simp: obeys_def stays_reachable_def world_def intro: reachable.outside split: prod.split)

lemma reaching_perform: "stays_reachable env s (perform env op s)"
  by (simp add: stays_reachable_def reachable.step)

lemma reaching_operations [step_rules]:
  "obeys (stays_reachable env) (Apply env r)" "obeys (stays_reachable env) (Remove env ns name)"
  "obeys (stays_reachable env) (Load env)" "obeys (stays_reachable env) (Resync env)"
  "obeys (stays_reachable env) (Shutdown env)" "obeys (stays_reachable env) (ReadyCheck env)"
  using reaching_perform [of env _ "OpApply r"] reaching_perform [of env _ "OpRemove ns name"]
    reaching_perform [of env _ OpLoad] reaching_perform [of env _ OpResync]
    reaching_perform [of env _ OpShutdown] reaching_perform [of env _ OpReady]
  by (simp_all add: obeys_def)

lemma reaching_reads [step_rules]:
  "obeys (stays_reachable env) (GetRuntime env' ns name)" "obeys (stays_reachable env) (ManagerStatus env')"
  unfolding GetRuntime_def previousRuntimeState_def stored_runtime_def ManagerStatus_def nodeStatus_def
    time_now_def Let_def
  by (intro step_rules)+

lemma reaching_resync [step_rules]: "obeys (stays_reachable env) (StartRuntimeResync env wt interval fuel)"
proof -
  have "obeys (stays_reachable env) (resync_loop env wt d fuel)" for d
    by (induction fuel) (auto intro!: step_rules)
  then show ?thesis by (simp add: StartRuntimeResync_def)
qed

lemma reaching_events [step_rules]: "obeys (stays_reachable env) (StartDockerEventSync env wt debounce fuel runs)"
proof -
  have "obeys (stays_reachable env) (scan_events env wt d fuel)" for d
    by (induction fuel) (auto intro!: step_rules)
  then have "obeys (stays_reachable env) (watchDockerEvents env wt d fuel)" for d
    unfolding watchDockerEvents_def by (intro step_rules)
  then have "obeys (stays_reachable env) (event_sync env wt d fuel runs)" for d
    by (induction runs) (auto intro!: step_rules)
  then show ?thesis by (simp add: StartDockerEventSync_def)
qed

text \<open>The same for a handler of requests.\<close>

definition reaching_handler :: "'w Env \<Rightarrow> ('w Server \<Rightarrow> 'b \<times> 'w Server) \<Rightarrow> bool" where
  "reaching_handler env h \<longleftrightarrow> (\<forall>sv. stays_reachable env (sv_agent sv) (sv_agent (snd (h sv))))"

named_theorems handler_rules \<open>a handler that reaches only reachable states\<close>

lemma reaching_answer [handler_rules]: "reaching_handler env (answer_with a)"
  by (simp add: reaching_handler_def answer_with_def stays_reachable_def)

lemma reaching_on_agent [handler_rules]: "obeys (stays_reachable env) m \<Longrightarrow> reaching_handler env (on_agent m a)"
  by (auto simp: reaching_handler_def on_agent_def dest: obeysD split: prod.split)
     (metis obeysD snd_conv)

lemma reaching_if [handler_rules]:
  "reaching_handler env h \<Longrightarrow> reaching_handler env h' \<Longrightarrow> reaching_handler env (if b then h else h')"
  by simp

lemma reaching_option [handler_rules]:
  "reaching_handler env h \<Longrightarrow> (\<And>x. reaching_handler env (f x)) \<Longrightarrow>
   reaching_handler env (case v of None \<Rightarrow> h | Some x \<Rightarrow> f x)"
  by (cases v) auto

lemma reaching_sum [handler_rules]:
  "(\<And>e. reaching_handler env (f e)) \<Longrightarrow> (\<And>x. reaching_handler env (g x)) \<Longrightarrow>
   reaching_handler env (case v of Inl e \<Rightarrow> f e | Inr x \<Rightarrow> g x)"
  by (cases v) auto

lemma reaching_on_world [handler_rules]: "reaching_handler env (on_world f)"
  by (auto simp: reaching_handler_def on_world_def stays_reachable_def intro: reachable.outside split: prod.split)

lemma reaching_audit_api [handler_rules]: "reaching_handler env (handleAuditAPI api cfg r)"
  by (auto simp: reaching_handler_def handleAuditAPI_def stays_reachable_def split: option.split)

lemma reaching_mux [handler_rules]: "reaching_handler (api_env api) (serve_mux api r)"
proof -
  have "reaching_handler (api_env api) (handleRuntimeAPI api r)"
    unfolding handleRuntimeAPI_def handle_put_def handle_validate_def handle_get_def handle_events_def Let_def
    by (intro handler_rules step_rules)
  moreover have "reaching_handler (api_env api) (handleReconcile api r)"
    "reaching_handler (api_env api) (handleInstances api r)" "reaching_handler (api_env api) (handleReady api word)" for word
    unfolding handleReconcile_def ReconcileRuntime_def handleInstances_def handleReady_def Let_def
    by (intro handler_rules step_rules)+
  ultimately show ?thesis
    unfolding serve_mux_def mux_handler_def require_get_def Let_def by (intro handler_rules step_rules)
qed

lemma reaching_security: "reaching_handler (api_env api) (withAPISecurity api policies r)"
proof -
  have "stays_reachable (api_env api) (sv_agent sv) (sv_agent (snd (withAPISecurity api policies r sv)))" for sv
  proof -
    have "snd (withAPISecurity api policies r sv) \<in> {sv, snd (serve_mux api r sv)}"
      by (simp add: withAPISecurity_def Let_def split: option.split prod.split)
    moreover have "stays_reachable (api_env api) (sv_agent sv) (sv_agent (snd (serve_mux api r sv)))"
      using reaching_mux [of api r] by (simp add: reaching_handler_def)
    ultimately show ?thesis by (auto simp: reaching.R_refl)
  qed
  then show ?thesis by (simp add: reaching_handler_def)
qed

lemma reaching_audit:
  assumes "reaching_handler (api_env api) following"
  shows "reaching_handler (api_env api) (withAPIAudit api cfg r following)"
proof -
  have "reaching_handler (api_env api) (requestIDForRequest api r)"
    using reaching_on_world [of "api_env api" "api_newRequestID api"]
    by (auto simp: reaching_handler_def requestIDForRequest_def Let_def stays_reachable_def)
  moreover have "reaching_handler (api_env api) (on_world (env_Now (api_env api)))" by (rule reaching_on_world)
  ultimately have "stays_reachable (api_env api) (sv_agent sv) (sv_agent (snd (withAPIAudit api cfg r following sv)))" for sv
    using assms unfolding reaching_handler_def withAPIAudit_def
    by (clarsimp split: prod.splits) (metis (no_types, lifting) reaching.R_trans snd_conv)
  then show ?thesis by (simp add: reaching_handler_def)
qed

lemma reaching_request: "reaching_handler (api_env api) (serve_request api r)"
proof -
  let ?secured = "withAPISecurity api (accessPoliciesForOptions (api_options api)) r"
  have "reaching_handler (api_env api) ?secured" by (rule reaching_security)
  moreover from this have "reaching_handler (api_env api) (withAPIAudit api cfg r ?secured)" for cfg
    by (rule reaching_audit)
  ultimately show ?thesis
    by (auto simp: reaching_handler_def serve_request_def Let_def split: option.split prod.split dest: spec)
       (metis snd_conv)+
qed

lemma reaching_activity: "stays_reachable (api_env api) (sv_agent sv) (sv_agent (perform_activity api wt act sv))"
proof (cases act)
  case (ApiCall r)
  then show ?thesis using reaching_request [of api r] by (simp add: reaching_handler_def)
next
  case (ProxyCall port rq)
  then show ?thesis using reaching_perform [of "api_env api" "sv_agent sv" "OpRequest port rq"] by simp
qed (simp_all add: obeysD [OF reaching_resync] obeysD [OF reaching_events], simp add: stays_reachable_def reachable.outside)

lemma reaching_activities:
  "stays_reachable (api_env api) (sv_agent sv) (sv_agent (fold (perform_activity api wt) acts sv))"
proof (induction acts arbitrary: sv)
  case (Cons act acts)
  have "stays_reachable (api_env api) (sv_agent sv) (sv_agent (perform_activity api wt act sv))"
    by (rule reaching_activity)
  then show ?case using Cons by (auto intro: reaching.R_trans)
qed (simp add: reaching.R_refl)

section \<open>What a run guarantees\<close>

lemma serve_end_reaching: "stays_reachable (api_env api) (sv_agent sv) (sv_agent (snd (serve_end api ending sv)))"
proof -
  have "stays_reachable (api_env api) (sv_agent sv) (snd (Shutdown (api_env api) (sv_agent sv)))"
    by (rule obeysD) (rule reaching_operations)
  then show ?thesis
    by (auto simp: serve_end_def reaching.R_refl split: ending.split option.split prod.split sum.split)
qed

lemma Shutdown_empty:
  "m_servers (ag_m (snd (Shutdown env s))) = [] \<and> m_routes (ag_m (snd (Shutdown env s))) = []"
proof -
  let ?m = "(ag_m s)\<lparr>m_servers := [], m_routes := []\<rparr>"
  let ?rest = "\<lambda>ports. andThen (collect ports (\<lambda>port. andThen (world (env_Shutdown env port)) (\<lambda>err.
         ret (map_option (\<lambda>e. Wrap (''shutdown proxy port '' @ itoa port) (Text e)) err)))) (\<lambda>errs.
     andThen (attempt (writeProxyState env)) (\<lambda>written. raise id (join_errors (errs @ [error_of written]))))"
  have "Shutdown env s = ?rest (sort (m_servers (ag_m s))) (s\<lparr>ag_m := ?m\<rparr>)"
    by (simp add: Shutdown_def andThen_eq [of "exchange _"] exchange_def)
  moreover have "obeys same_resources (?rest ports)" for ports by (intro step_rules)
  ultimately have "same_resources (s\<lparr>ag_m := ?m\<rparr>) (snd (Shutdown env s))" using obeysD by fastforce
  then show ?thesis by (simp add: same_resources_def routing_of_def)
qed

lemma serve_cases:
  fixes w :: 'w
  defines "s \<equiv> \<lparr>ag_m = NewManager, ag_w = w, ag_trace = []\<rparr>"
  shows "let env = api_env (wiring (NormalizeRuntimeConfig config)); run = serve wiring wt config acts ending w fs
    in (\<exists>e. run = (Some e, \<lparr>sv_agent = s, sv_audit = fs\<rparr>)) \<or>
       (\<exists>e. run = (Some e, \<lparr>sv_agent = snd (Load env s), sv_audit = fs\<rparr>)) \<or>
       (run = apfst (map_option ServeFailed) (serve_end (wiring (NormalizeRuntimeConfig config)) ending
          (fold (perform_activity (wiring (NormalizeRuntimeConfig config)) wt) acts
            \<lparr>sv_agent = snd (Load env s), sv_audit = fs\<rparr>)))"
  unfolding s_def
  by (cases "Load (api_env (wiring (NormalizeRuntimeConfig config))) \<lparr>ag_m = NewManager, ag_w = w, ag_trace = []\<rparr>")
     (auto simp: serve_def Let_def apfst_def map_prod_def split: option.split sum.split prod.split)


end
