(* ===== verification/Client.thy ===== *)
theory Client
  imports GoNet Serve Store
begin

text \<open>
  The command line of \<open>cmd/aifar-runtime/main.go\<close>: the commands, their flags, the requests of the HTTP
  client, and backup and restore. A command acts on a machine: its files, its standard input, what it
  has printed, and the world \<open>'w\<close> behind the network and Docker. \<open>http.DefaultClient\<close>, the JSON
  encoders, the environment and the clock are parameters. Files fail only when they are missing.
\<close>

section \<open>The machine\<close>

record HttpCall =
  hc_Method :: string
  hc_URL :: string
  hc_Headers :: "string gomap"
  hc_Body :: "string option"

record HttpReply =
  hr_Code :: int
  hr_Status :: string
  hr_Body :: string

datatype cli_output =
    BuildJSON buildInfo
  | Line string
  | OutcomeJSON string ObjectMeta
  | DeletedJSON string string
  | Raw string

record 'w Machine =
  ma_disk :: disk
  ma_stdin :: string
  ma_out :: "cli_output list"
  ma_w :: 'w

text \<open>
  \<open>cli_badRequest\<close> is the error of \<open>http.NewRequestWithContext\<close>, \<open>cli_do\<close> sends a request and reads
  the whole answer, \<open>cli_marshal\<close> is \<open>json.Marshal\<close> of a Runtime, \<open>cli_backup\<close> and \<open>cli_readBackup\<close>
  encode and decode a backup.
\<close>

record 'w Cli =
  cli_yaml :: yaml_library
  cli_decodeConfig :: "string \<Rightarrow> RuntimeConfig \<Rightarrow> RuntimeConfig option"
  cli_codec :: json_codec
  cli_marshal :: "Runtime \<Rightarrow> string"
  cli_backup :: "StateBackup \<Rightarrow> string"
  cli_readBackup :: "string \<Rightarrow> string + StateBackup"
  cli_audit :: "AuditEvent \<Rightarrow> string"
  cli_texts :: "coded_error \<Rightarrow> string"
  cli_getenv :: "string \<Rightarrow> string"
  cli_badRequest :: "HttpCall \<Rightarrow> string option"
  cli_do :: "HttpCall \<Rightarrow> 'w \<Rightarrow> (string + HttpReply) \<times> 'w"
  cli_run :: "string \<Rightarrow> string list \<Rightarrow> 'w run"
  cli_now :: "'w \<Rightarrow> int \<times> 'w"
  cli_format :: "int \<Rightarrow> string"
  cli_build :: "string \<times> string \<times> string"

text \<open>How a command ends; \<open>Serving\<close> is the call of \<open>serve\<close>, which is modelled in \<open>Serve\<close>.\<close>

datatype cli_result =
    Succeeded
  | BadConfiguration config_error
  | CommandFailed RuntimeError
  | Exited int
  | Serving RuntimeConfig

type_synonym 'w command = "'w Machine \<Rightarrow> cli_result \<times> 'w Machine"

definition finish :: "cli_result \<Rightarrow> 'w command" where
  "finish r m = (r, m)"

definition failing :: "string \<Rightarrow> 'w command" where
  "failing text = finish (CommandFailed (Text text))"

definition printing :: "cli_output \<Rightarrow> 'w command" where
  "printing out m = (Succeeded, m\<lparr>ma_out := ma_out m @ [out]\<rparr>)"

definition reading_clock :: "'w Cli \<Rightarrow> 'w Machine \<Rightarrow> int \<times> 'w Machine" where
  "reading_clock cli m = (case cli_now cli (ma_w m) of (t, w) \<Rightarrow> (t, m\<lparr>ma_w := w\<rparr>))"

section \<open>The HTTP client\<close>

definition bearer :: "string \<Rightarrow> string gomap" where
  "bearer token =
     (let token = trim_space token in if token = [] then [] else [(''Authorization'', ''Bearer '' @ token)])"

definition defaultAPIToken :: "'w Cli \<Rightarrow> string" where
  "defaultAPIToken cli = trim_space (cli_getenv cli ''AIFAR_RUNTIME_TOKEN'')"

definition answer_limit :: nat where
  "answer_limit = 1048576"

text \<open>Send a request and read at most 1 MiB of its answer; a code of 300 or more is an error.\<close>

definition exchange_http :: "'w Cli \<Rightarrow> HttpCall \<Rightarrow> 'w Machine \<Rightarrow> (RuntimeError + string) \<times> 'w Machine" where
  "exchange_http cli call m =
     (case cli_badRequest cli call of
        Some e \<Rightarrow> (Inl (Text e), m)
      | None \<Rightarrow>
          (case cli_do cli call (ma_w m) of
             (Inl e, w) \<Rightarrow>
               (Inl (Wrap (''aifar-runtime service is not reachable on '' @ hc_URL call) (Text e)), m\<lparr>ma_w := w\<rparr>)
           | (Inr reply, w) \<Rightarrow>
               let data = take answer_limit (hr_Body reply)
               in (if hr_Code reply \<ge> 300
                   then Inl (Text (''aifar-runtime request failed: '' @ hr_Status reply @ '': '' @ trim_space data))
                   else Inr data, m\<lparr>ma_w := w\<rparr>)))"

text \<open>\<open>doJSON\<close> with no value to decode the answer into, as all its callers use it.\<close>

definition doJSON ::
    "'w Cli \<Rightarrow> string \<Rightarrow> string \<Rightarrow> string \<Rightarrow> Runtime option \<Rightarrow> 'w Machine \<Rightarrow> RuntimeError option \<times> 'w Machine" where
  "doJSON cli method url token runtime m =
     (case exchange_http cli
          \<lparr>hc_Method = method, hc_URL = url,
           hc_Headers = (if runtime = None then [] else [(''Content-Type'', ''application/json'')]) @ bearer token,
           hc_Body = map_option (cli_marshal cli) runtime\<rparr> m of
        (Inl e, m) \<Rightarrow> (Some e, m)
      | (Inr _, m) \<Rightarrow> (None, m))"

definition getURL :: "'w Cli \<Rightarrow> string \<Rightarrow> string \<Rightarrow> 'w Machine \<Rightarrow> (RuntimeError + string) \<times> 'w Machine" where
  "getURL cli url token =
     exchange_http cli \<lparr>hc_Method = ''GET'', hc_URL = url, hc_Headers = bearer token, hc_Body = None\<rparr>"

definition putRuntime :: "'w Cli \<Rightarrow> string \<Rightarrow> string \<Rightarrow> Runtime \<Rightarrow> 'w Machine \<Rightarrow> RuntimeError option \<times> 'w Machine" where
  "putRuntime cli addr token runtime =
     doJSON cli ''PUT''
       (runtimeResourceURL addr (om_Namespace (rtm_Metadata runtime)) (om_Name (rtm_Metadata runtime)) [])
       token (Some runtime)"

definition postLegacyReconcile :: "'w Cli \<Rightarrow> string \<Rightarrow> string \<Rightarrow> Runtime \<Rightarrow> 'w Machine \<Rightarrow> RuntimeError option \<times> 'w Machine" where
  "postLegacyReconcile cli addr token runtime =
     doJSON cli ''POST'' (apiBaseURL addr @ ''/runtime/reconcile'') token (Some runtime)"

definition deleteRuntime :: "'w Cli \<Rightarrow> string \<Rightarrow> string \<Rightarrow> string \<Rightarrow> string \<Rightarrow> 'w Machine \<Rightarrow> RuntimeError option \<times> 'w Machine" where
  "deleteRuntime cli addr token namespace name =
     doJSON cli ''DELETE'' (runtimeResourceURL addr namespace name []) token None"

definition getRuntimeStatus :: "'w Cli \<Rightarrow> string \<Rightarrow> string \<Rightarrow> 'w Machine \<Rightarrow> (RuntimeError + string) \<times> 'w Machine" where
  "getRuntimeStatus cli addr token = getURL cli (apiBaseURL addr @ ''/status'') token"

definition getRuntimeResource ::
    "'w Cli \<Rightarrow> string \<Rightarrow> string \<Rightarrow> string \<Rightarrow> string \<Rightarrow> string \<Rightarrow> 'w Machine \<Rightarrow> (RuntimeError + string) \<times> 'w Machine" where
  "getRuntimeResource cli addr token namespace name subresource =
     getURL cli (runtimeResourceURL addr namespace name subresource) token"

definition getRuntimeEvents ::
    "'w Cli \<Rightarrow> string \<Rightarrow> string \<Rightarrow> string \<Rightarrow> string \<Rightarrow> int \<Rightarrow> 'w Machine \<Rightarrow> (RuntimeError + string) \<times> 'w Machine" where
  "getRuntimeEvents cli addr token namespace name tail =
     getURL cli (runtimeResourceURL addr namespace name ''events'' @
       (if tail > 0 then ''?tail='' @ itoa tail else [])) token"

text \<open>The parameters of an audit query: those that are set, trimmed.\<close>

definition audit_values :: "AuditQuery \<Rightarrow> string gomap" where
  "audit_values q =
     (if aq_Tail q > 0 then [(''tail'', itoa (aq_Tail q))] else []) @
     filter (\<lambda>(_, v). v \<noteq> [])
       [(''namespace'', trim_space (aq_Namespace q)), (''name'', trim_space (aq_Name q)),
        (''actor'', trim_space (aq_Actor q)), (''operation'', trim_space (aq_Operation q)),
        (''result'', trim_space (aq_Result q))]"

definition audit_url :: "string \<Rightarrow> AuditQuery \<Rightarrow> string" where
  "audit_url addr q =
     apiBaseURL addr @ ''/audit'' @
     (let encoded = values_encode (audit_values q) in if encoded = [] then [] else ''?'' @ encoded)"

definition getAuditEvents :: "'w Cli \<Rightarrow> string \<Rightarrow> string \<Rightarrow> AuditQuery \<Rightarrow> 'w Machine \<Rightarrow> (RuntimeError + string) \<times> 'w Machine" where
  "getAuditEvents cli addr token q = getURL cli (audit_url addr q) token"

section \<open>Files\<close>

definition read_file :: "disk \<Rightarrow> string \<Rightarrow> RuntimeError + string" where
  "read_file fs path = (case map_of fs path of None \<Rightarrow> Inl (missing path) | Some data \<Rightarrow> Inr data)"

definition readRuntimeFile :: "'w Cli \<Rightarrow> disk \<Rightarrow> string \<Rightarrow> RuntimeError + Runtime" where
  "readRuntimeFile cli fs path =
     (case read_file fs path of
        Inl e \<Rightarrow> Inl e
      | Inr data \<Rightarrow>
          (case ParseRuntimeDocument (cli_yaml cli) data of
             Inl e \<Rightarrow> Inl (Coded (BadDocument e))
           | Inr runtime \<Rightarrow> Inr runtime))"

text \<open>The time of the event is set when it is written; the clock is read for the duration and again.\<close>

definition appendLocalAudit ::
    "'w Cli \<Rightarrow> RuntimeConfig \<Rightarrow> string \<Rightarrow> int \<Rightarrow> RuntimeError option \<Rightarrow> 'w Machine \<Rightarrow> 'w Machine" where
  "appendLocalAudit cli config operation started err m =
     (case NewAuditLogger (cfg_Audit config) of
        None \<Rightarrow> m
      | Some cfg \<Rightarrow>
          (case reading_clock cli m of (ended, m) \<Rightarrow>
          (case reading_clock cli m of (now, m) \<Rightarrow>
            m\<lparr>ma_disk := audit_Append (cli_audit cli) cfg now
               \<lparr>ae_Time = 0, ae_RequestID = [], ae_Actor = ''local-cli'', ae_Role = ''admin'', ae_SourceIP = [],
                ae_Method = [], ae_Path = [], ae_Operation = operation, ae_Namespace = [], ae_Name = [],
                ae_Result = (if err = None then ''succeeded'' else ''failed''),
                ae_Reason = (case err of None \<Rightarrow> [] | Some e \<Rightarrow> error_text (cli_texts cli) e),
                ae_StatusCode = 0, ae_DurationMS = millis (ended - started)\<rparr> (ma_disk m)\<rparr>)))"

definition is_std :: "string \<Rightarrow> bool" where
  "is_std path \<longleftrightarrow> path = [] \<or> path = ''-''"

text \<open>The output file is created, and so emptied, before the state is read.\<close>

definition write_backup :: "'w Cli \<Rightarrow> string \<Rightarrow> string \<Rightarrow> 'w Machine \<Rightarrow> RuntimeError option \<times> 'w Machine" where
  "write_backup cli root outPath m =
     (let m = (if is_std outPath then m else m\<lparr>ma_disk := map_set (ma_disk m) outPath []\<rparr>)
      in case LoadAll (cli_codec cli) root (ma_disk m) of
           Inl e \<Rightarrow> (Some e, m)
         | Inr _ \<Rightarrow>
             (case reading_clock cli m of (now, m) \<Rightarrow>
               (case BackupTo (cli_codec cli) root (cli_format cli now) (ma_disk m) of
                  Inl e \<Rightarrow> (Some e, m)
                | Inr backup \<Rightarrow>
                    (None, if is_std outPath then m\<lparr>ma_out := ma_out m @ [Raw (cli_backup cli backup)]\<rparr>
                           else m\<lparr>ma_disk := map_set (ma_disk m) outPath (cli_backup cli backup)\<rparr>))))"

definition read_backup :: "'w Cli \<Rightarrow> string \<Rightarrow> string \<Rightarrow> 'w Machine \<Rightarrow> RuntimeError option \<times> 'w Machine" where
  "read_backup cli root inPath m =
     (case (if is_std inPath then Inr (ma_stdin m) else read_file (ma_disk m) inPath) of
        Inl e \<Rightarrow> (Some e, m)
      | Inr data \<Rightarrow>
          (case RestoreFrom (cli_codec cli) root (cli_readBackup cli data) (ma_disk m) of
             (err, fs) \<Rightarrow> (err, m\<lparr>ma_disk := fs\<rparr>)))"

definition local_state_command ::
    "'w Cli \<Rightarrow> RuntimeConfig \<Rightarrow> string \<Rightarrow> (string \<Rightarrow> 'w Machine \<Rightarrow> RuntimeError option \<times> 'w Machine) \<Rightarrow>
     'w Machine \<Rightarrow> RuntimeError option \<times> 'w Machine" where
  "local_state_command cli config operation act m =
     (case reading_clock cli m of (started, m) \<Rightarrow>
      case (if stc_Backend (cfg_State config) \<noteq> ''file''
            then (Some (Text (operation @ '' is only supported for state.backend=file, got '' @
                    stc_Backend (cfg_State config))), m)
            else act (NewStateStore (stc_Dir (cfg_State config))) m) of
        (err, m) \<Rightarrow> (err, appendLocalAudit cli config operation started err m))"

definition backupState :: "'w Cli \<Rightarrow> RuntimeConfig \<Rightarrow> string \<Rightarrow> 'w Machine \<Rightarrow> RuntimeError option \<times> 'w Machine" where
  "backupState cli config outPath =
     local_state_command cli (NormalizeRuntimeConfig config) ''backup''
       (\<lambda>root. write_backup cli root (trim_space outPath))"

definition restoreState :: "'w Cli \<Rightarrow> RuntimeConfig \<Rightarrow> string \<Rightarrow> 'w Machine \<Rightarrow> RuntimeError option \<times> 'w Machine" where
  "restoreState cli config inPath =
     local_state_command cli (NormalizeRuntimeConfig config) ''restore''
       (\<lambda>root. read_backup cli root (trim_space inPath))"

text \<open>\<open>dockerHealth\<close>: \<open>docker info\<close> must succeed in time.\<close>

definition dockerHealth :: "'w Cli \<Rightarrow> RuntimeConfig \<Rightarrow> 'w command" where
  "dockerHealth cli config m =
     (let config = NormalizeRuntimeConfig config
      in case ValidateRuntimeConfig config of
           Some e \<Rightarrow> (BadConfiguration e, m)
         | None \<Rightarrow>
             (case cli_run cli (dc_Command (cfg_Docker config)) [''info''] (ma_w m) of
                ((_, err), w) \<Rightarrow>
                  (case err of
                     Some e \<Rightarrow> (CommandFailed (Text e), m\<lparr>ma_w := w\<rparr>)
                   | None \<Rightarrow> printing (Line ''{\"status\":\"ok\"}'') (m\<lparr>ma_w := w\<rparr>))))"

section \<open>Commands\<close>

definition with_flags :: "flag_value gomap \<Rightarrow> string list \<Rightarrow> (flag_value gomap \<Rightarrow> 'w command) \<Rightarrow> 'w command" where
  "with_flags formal args body =
     (case parse_flags formal args of Inl code \<Rightarrow> finish (Exited code) | Inr flags \<Rightarrow> body flags)"

text \<open>The end of a command: its error, or what it prints.\<close>

definition conclude :: "('w Machine \<Rightarrow> RuntimeError option \<times> 'w Machine) \<Rightarrow> 'w command \<Rightarrow> 'w command" where
  "conclude act success m =
     (case act m of (Some e, m) \<Rightarrow> (CommandFailed e, m) | (None, m) \<Rightarrow> success m)"

definition show_answer :: "('w Machine \<Rightarrow> (RuntimeError + string) \<times> 'w Machine) \<Rightarrow> 'w command" where
  "show_answer act m =
     (case act m of (Inl e, m) \<Rightarrow> (CommandFailed e, m) | (Inr data, m) \<Rightarrow> printing (Line data) m)"

definition with_config :: "'w Cli \<Rightarrow> string \<Rightarrow> (RuntimeConfig \<Rightarrow> 'w command) \<Rightarrow> 'w command" where
  "with_config cli path body m =
     (case LoadRuntimeConfig (map_of (ma_disk m)) (cli_decodeConfig cli) path of
        Inl e \<Rightarrow> (BadConfiguration e, m)
      | Inr config \<Rightarrow> body config m)"

definition with_runtime :: "'w Cli \<Rightarrow> string \<Rightarrow> string \<Rightarrow> (Runtime \<Rightarrow> 'w command) \<Rightarrow> 'w command" where
  "with_runtime cli flag path body m =
     (if is_blank path then failing (flag @ '' is required'') m
      else case readRuntimeFile cli (ma_disk m) path of
             Inl e \<Rightarrow> (CommandFailed e, m)
           | Inr runtime \<Rightarrow> body runtime m)"

definition DefaultAPIListen :: string where
  "DefaultAPIListen = ''127.0.0.1:18081''"

definition remote_flags :: "'w Cli \<Rightarrow> flag_value gomap" where
  "remote_flags cli = [(''addr'', StrFlag DefaultAPIListen), (''token'', StrFlag (defaultAPIToken cli))]"

definition config_flag :: "flag_value gomap" where
  "config_flag = [(''config'', StrFlag [])]"

definition health_command :: "'w Cli \<Rightarrow> string list \<Rightarrow> 'w command" where
  "health_command cli args =
     with_flags config_flag args (\<lambda>flags. with_config cli (str_flag flags ''config'') (dockerHealth cli))"

definition backup_command :: "'w Cli \<Rightarrow> string list \<Rightarrow> 'w command" where
  "backup_command cli args =
     with_flags (config_flag @ [(''out'', StrFlag [])]) args (\<lambda>flags.
       with_config cli (str_flag flags ''config'') (\<lambda>config.
         conclude (backupState cli config (str_flag flags ''out'')) (finish Succeeded)))"

definition restore_command :: "'w Cli \<Rightarrow> string list \<Rightarrow> 'w command" where
  "restore_command cli args =
     with_flags (config_flag @ [(''in'', StrFlag [])]) args (\<lambda>flags.
       with_config cli (str_flag flags ''config'') (\<lambda>config.
         conclude (restoreState cli config (str_flag flags ''in'')) (finish Succeeded)))"

definition validate_command :: "'w Cli \<Rightarrow> string list \<Rightarrow> 'w command" where
  "validate_command cli args =
     with_flags [(''f'', StrFlag [])] args (\<lambda>flags.
       with_runtime cli ''-f'' (str_flag flags ''f'') (\<lambda>runtime.
         printing (OutcomeJSON ''valid'' (rtm_Metadata runtime))))"

definition apply_command :: "'w Cli \<Rightarrow> string list \<Rightarrow> 'w command" where
  "apply_command cli args =
     with_flags ((''f'', StrFlag []) # remote_flags cli) args (\<lambda>flags.
       with_runtime cli ''-f'' (str_flag flags ''f'') (\<lambda>runtime.
         conclude (putRuntime cli (str_flag flags ''addr'') (str_flag flags ''token'') runtime)
           (printing (OutcomeJSON ''applied'' (rtm_Metadata runtime)))))"

definition resource_flags :: "'w Cli \<Rightarrow> flag_value gomap" where
  "resource_flags cli = [(''namespace'', StrFlag DefaultNamespace), (''name'', StrFlag [])] @ remote_flags cli"

definition status_command :: "'w Cli \<Rightarrow> string list \<Rightarrow> 'w command" where
  "status_command cli args =
     with_flags (resource_flags cli) args (\<lambda>flags.
       let addr = str_flag flags ''addr''; token = str_flag flags ''token''; name = str_flag flags ''name''
       in show_answer
            (if is_blank name then getRuntimeStatus cli addr token
             else getRuntimeResource cli addr token (str_flag flags ''namespace'') name ''status''))"

definition events_command :: "'w Cli \<Rightarrow> string list \<Rightarrow> 'w command" where
  "events_command cli args =
     with_flags ((''tail'', IntFlag 100) # resource_flags cli) args (\<lambda>flags.
       let name = str_flag flags ''name''
       in if is_blank name then failing ''--name is required''
          else show_answer (getRuntimeEvents cli (str_flag flags ''addr'') (str_flag flags ''token'')
                 (str_flag flags ''namespace'') name (int_flag flags ''tail'')))"

definition audit_command :: "'w Cli \<Rightarrow> string list \<Rightarrow> 'w command" where
  "audit_command cli args =
     with_flags ([(''tail'', IntFlag 100), (''namespace'', StrFlag []), (''name'', StrFlag []), (''actor'', StrFlag []),
         (''operation'', StrFlag []), (''result'', StrFlag [])] @ remote_flags cli) args (\<lambda>flags.
       show_answer (getAuditEvents cli (str_flag flags ''addr'') (str_flag flags ''token'')
         \<lparr>aq_Tail = int_flag flags ''tail'', aq_Namespace = str_flag flags ''namespace'',
          aq_Name = str_flag flags ''name'', aq_Actor = str_flag flags ''actor'',
          aq_Operation = str_flag flags ''operation'', aq_Result = str_flag flags ''result''\<rparr>))"

definition delete_command :: "'w Cli \<Rightarrow> string list \<Rightarrow> 'w command" where
  "delete_command cli args =
     with_flags (resource_flags cli) args (\<lambda>flags.
       let namespace = str_flag flags ''namespace''; name = str_flag flags ''name''
       in if is_blank name then failing ''--name is required''
          else conclude (deleteRuntime cli (str_flag flags ''addr'') (str_flag flags ''token'') namespace name)
                 (printing (DeletedJSON namespace name)))"

definition serve_command :: "'w Cli \<Rightarrow> string list \<Rightarrow> 'w command" where
  "serve_command cli args =
     with_flags (config_flag @ [(''listen'', StrFlag []), (''addr'', StrFlag []), (''state-dir'', StrFlag [])]) args (\<lambda>flags.
       with_config cli (str_flag flags ''config'') (\<lambda>config.
         let addr = str_flag flags ''addr'';
             listen = (if is_blank addr then str_flag flags ''listen'' else addr);
             dir = str_flag flags ''state-dir'';
             config = (if is_blank listen then config
                       else config\<lparr>cfg_API := (cfg_API config)\<lparr>api_Listen := trim_space listen\<rparr>\<rparr>);
             config = (if is_blank dir then config
                       else config\<lparr>cfg_State := (cfg_State config)\<lparr>stc_Dir := trim_space dir\<rparr>\<rparr>)
         in finish (Serving config)))"

definition reconcile_command :: "'w Cli \<Rightarrow> string list \<Rightarrow> 'w command" where
  "reconcile_command cli args =
     with_flags ((''spec'', StrFlag []) # remote_flags cli) args (\<lambda>flags.
       with_runtime cli ''--spec'' (str_flag flags ''spec'') (\<lambda>runtime.
         conclude (postLegacyReconcile cli (str_flag flags ''addr'') (str_flag flags ''token'') runtime)
           (printing (OutcomeJSON ''reconciled'' (rtm_Metadata runtime)))))"

definition remove_instance_command :: "'w Cli \<Rightarrow> string list \<Rightarrow> 'w command" where
  "remove_instance_command cli args =
     with_flags ((''instance'', StrFlag ''default'') # remote_flags cli) args (\<lambda>flags.
       conclude (deleteRuntime cli (str_flag flags ''addr'') (str_flag flags ''token'') DefaultNamespace
           (str_flag flags ''instance''))
         (finish Succeeded))"

text \<open>The switch of \<open>run\<close>.\<close>

definition run_command :: "'w Cli \<Rightarrow> string \<Rightarrow> string list \<Rightarrow> 'w command" where
  "run_command cli command args =
     (if command = ''version'' then
        (case cli_build cli of (version, commit, buildDate) \<Rightarrow>
          printing (BuildJSON (currentBuildInfo version commit buildDate)))
      else if command = ''health'' then health_command cli args
      else if command = ''backup'' then backup_command cli args
      else if command = ''restore'' then restore_command cli args
      else if command = ''validate'' then validate_command cli args
      else if command = ''apply'' then apply_command cli args
      else if command = ''status'' then status_command cli args
      else if command = ''events'' then events_command cli args
      else if command = ''audit'' then audit_command cli args
      else if command = ''delete'' then delete_command cli args
      else if command = ''serve'' then serve_command cli args
      else if command \<in> {''reconcile-runtime'', ''reconcile-ingress'', ''reconcile''} then reconcile_command cli args
      else if command = ''remove-instance'' then remove_instance_command cli args
      else if command \<in> {''register-nacos'', ''register-nacos-proxies'', ''deregister-nacos'', ''deregister-nacos-proxies''}
        then failing ''unsupported: AIFAR Runtime v0.1 does not register services into Nacos''
      else failing (''unknown command \"'' @ command @ ''\"''))"

text \<open>\<open>main\<close>: no command is a usage error, an error of the command gives code 1; \<open>None\<close> where \<open>serve\<close> decides.\<close>

definition exit_code :: "cli_result \<Rightarrow> int option" where
  "exit_code r = (case r of Succeeded \<Rightarrow> Some 0 | Serving _ \<Rightarrow> None | Exited code \<Rightarrow> Some code | _ \<Rightarrow> Some 1)"

definition main_program :: "'w Cli \<Rightarrow> string list \<Rightarrow> 'w Machine \<Rightarrow> int option \<times> 'w Machine" where
  "main_program cli argv m =
     (case argv of
        command # args \<Rightarrow> (case run_command cli command args m of (r, m) \<Rightarrow> (exit_code r, m))
      | [] \<Rightarrow> (Some 2, m))"

end
