(* ===== verification/ClientProps.thy ===== *)
theory ClientProps
  imports Client ServerProps StoreProps
begin

text \<open>
  The command line against the server: which requests its commands make and what becomes of them,
  and what a failed backup leaves.
\<close>

section \<open>A client connected to a server\<close>

text \<open>
  \<open>delivers\<close> says what the client needs of \<open>net/http\<close> on both sides: a request for a path below
  \<open>base\<close> is served once, and its answer is returned unless the connection breaks; a redirect is
  followed.
\<close>

definition api_request :: "HttpCall \<Rightarrow> string \<Rightarrow> string \<Rightarrow> ApiRequest" where
  "api_request call path remote =
     \<lparr>rq_Method = hc_Method call, rq_URLPath = path, rq_Query = [], rq_Headers = hc_Headers call,
      rq_Remote = remote, rq_Body = Inr (case hc_Body call of None \<Rightarrow> [] | Some body \<Rightarrow> body)\<rparr>"

definition delivers :: "'w Server Cli \<Rightarrow> 'w Api \<Rightarrow> string \<Rightarrow> bool" where
  "delivers cli api base \<longleftrightarrow>
     (\<forall>call path sv. hc_URL call = base @ path \<longrightarrow> CHR ''?'' \<notin> set path \<longrightarrow> prefix ''/'' path \<longrightarrow>
       (\<exists>remote. let out = serve_request api (api_request call path remote) sv
          in snd (cli_do cli call sv) = snd out \<and>
             (case fst (cli_do cli call sv) of
                Inl _ \<Rightarrow> True
              | Inr reply \<Rightarrow> fst (fst out) = 301 \<or> hr_Code reply = fst (fst out))))"

text \<open>\<open>json.Marshal\<close> writes no white space and \<open>spec\<close>, a struct, last: two closing braces.\<close>

definition compact_json :: "(Runtime \<Rightarrow> string) \<Rightarrow> bool" where
  "compact_json marshal \<longleftrightarrow> (\<forall>r. \<exists>text. marshal r = text @ ''}}'')"


lemma compact_body_refused:
  assumes "compact_json marshal"
  shows "\<exists>e. ParseRuntimeDocument yaml (marshal r) = Inl e"
proof -
  obtain pre where "marshal r = pre @ ''}}''" using assms by (auto simp: compact_json_def)
  moreover have "contains (pre @ ''}}'') ''}}''" by (auto simp: contains_sublist sublist_def)
  ultimately have "rejectRenderedRuntimeHazards (marshal r) \<noteq> None"
    by (auto simp: rejectRenderedRuntimeHazards_def first_error_Cons_None check_None)
  then show ?thesis by (auto simp: ParseRuntimeDocument_def)
qed

lemma compact_request_refused:
  assumes "compact_json marshal" "max_request_bytes api < max_int64" "rq_Body r = Inr (marshal runtime)"
  shows "\<exists>e. decode_request api r = Inl e"
proof -
  let ?max = "max_request_bytes api"
  have max: "?max > 0" by (simp add: max_request_bytes_def DefaultAPIMaxRequestBytes_def)
  then have wrap: "wrap64 (?max + 1) = ?max + 1"
    using assms(2) by (intro wrap64_id) (simp add: in_int64_def max_int64_def)
  show ?thesis
  proof (cases "int (length (marshal runtime)) > ?max")
    case True
    then show ?thesis using max wrap assms(3) by (simp add: decode_request_def decodeRuntimeRequest_def Let_def)
  next
    case False
    then have "take (nat (?max + 1)) (marshal runtime) = marshal runtime" by simp
    moreover obtain e where "ParseRuntimeDocument (api_yaml api) (marshal runtime) = Inl e"
      using compact_body_refused [OF assms(1)] by blast
    ultimately show ?thesis
      using max wrap assms(3) by (simp add: decode_request_def decodeRuntimeRequest_def Let_def)
  qed
qed

text \<open>A request that every handler behind the layers answers with 400 and nothing else.\<close>

definition refused :: "'w Api \<Rightarrow> ApiRequest \<Rightarrow> bool" where
  "refused api r \<longleftrightarrow> (\<forall>sv. \<exists>e. serve_mux api r sv = (http_error e 400, sv))"

lemma refused_served:
  assumes "refused api r" "writing (rq_Method r)" "\<not> isPublicProbePath (rq_URLPath r)"
  shows "fst (fst (serve_request api r sv)) \<in> {400, 401, 403} \<and>
    ag_m (sv_agent (snd (serve_request api r sv))) = ag_m (sv_agent sv)"
proof -
  let ?secured = "withAPISecurity api (accessPoliciesForOptions (api_options api)) r"
  have secured: "fst (snd (fst (?secured sv))) \<in> {400, 401, 403} \<and> snd (?secured sv) = sv" for sv
  proof -
    obtain e where "serve_mux api r sv = (http_error e 400, sv)" using assms(1) by (auto simp: refused_def)
    then show ?thesis by (simp add: withAPISecurity_def http_error_def Let_def split: option.split)
  qed
  show ?thesis
  proof (cases "ho_Audit (api_options api)")
    case None
    then show ?thesis using secured [of sv] by (simp add: serve_request_def split_beta Let_def)
  next
    case (Some cfg)
    obtain sv1 where "ag_m (sv_agent sv1) = ag_m (sv_agent sv)"
        "fst (withAPIAudit api cfg r ?secured sv) = snd (fst (?secured sv1))"
        "ag_m (sv_agent (snd (withAPIAudit api cfg r ?secured sv))) = ag_m (sv_agent (snd (?secured sv1)))"
      using audit_layer [OF writing_audited [OF assms(2,3), of "ac_IncludeReadOnly cfg"], of sv api ?secured] by blast
    then show ?thesis using secured [of sv1] Some by (simp add: serve_request_def Let_def)
  qed
qed


lemma put_refused:
  assumes body: "compact_json marshal" "max_request_bytes api < max_int64" "rq_Body r = Inr (marshal runtime)"
    and names: "validDNSLabel namespace" "validDNSLabel name"
    and request: "rq_Method r = ''PUT''" "rq_URLPath r = resource_path namespace name []"
  shows "refused api r"
proof -
  have path: "resource_path namespace name [] = api_prefix @ namespace @ ''/runtimes/'' @ name"
    by (simp add: resource_path_def resource_segments_def api_prefix_def)
  have clean: "cleanPath (resource_path namespace name []) = resource_path namespace name []"
    by (rule resource_path_clean) (use names in simp_all)
  have parsed: "parseRuntimeAPIPath (resource_path namespace name []) =
      Some \<lparr>ap_Namespace = namespace, ap_Name = name, ap_Subresource = [], ap_Validate = False\<rparr>"
    by (rule resource_path_parsed) (use names in simp_all)
  have "redirected r = None"
    using request clean by (simp add: redirected_def subtree_def path api_prefix_def instances_prefix_def)
  moreover have "mux_handler api r = handleRuntimeAPI api r"
    using request by (simp add: mux_handler_def path api_prefix_def has_prefix_def)
  moreover obtain e where "decode_request api r = Inl e" using compact_request_refused [OF body] by blast
  ultimately have "serve_mux api r = answer_with (http_error e 400)"
    using request parsed by (simp add: serve_mux_def handleRuntimeAPI_def handle_put_def named_runtime_def)
  then show ?thesis unfolding refused_def answer_with_def by auto
qed

lemma reconcile_refused:
  assumes body: "compact_json marshal" "max_request_bytes api < max_int64" "rq_Body r = Inr (marshal runtime)"
    and request: "rq_Method r = ''POST''" "rq_URLPath r = ''/runtime/reconcile''"
  shows "refused api r"
proof -
  have "cleanPath ''/runtime/reconcile'' = ''/runtime/reconcile''" by code_simp
  then have "redirected r = None"
    using request by (simp add: redirected_def subtree_def api_prefix_def instances_prefix_def)
  moreover have "mux_handler api r = handleReconcile api r"
    using request by (simp add: mux_handler_def api_prefix_def has_prefix_def)
  moreover obtain e where "decode_request api r = Inl e" using compact_request_refused [OF body] by blast
  ultimately have "serve_mux api r = answer_with (http_error e 400)"
    using request by (simp add: serve_mux_def handleReconcile_def)
  then show ?thesis unfolding refused_def answer_with_def by auto
qed

text \<open>What a client sees of a request that is refused.\<close>

lemma refused_exchange:
  assumes "delivers cli api base" "hc_URL call = base @ path" "CHR ''?'' \<notin> set path" "prefix ''/'' path"
    and refused: "\<And>remote. refused api (api_request call path remote)"
    and writing: "writing (hc_Method call)" "\<not> isPublicProbePath path"
  shows "(\<exists>e. fst (exchange_http cli call m) = Inl e) \<and>
    ag_m (sv_agent (ma_w (snd (exchange_http cli call m)))) = ag_m (sv_agent (ma_w m))"
proof -
  obtain remote where out: "snd (cli_do cli call (ma_w m)) = snd (serve_request api (api_request call path remote) (ma_w m))"
    "case fst (cli_do cli call (ma_w m)) of Inl _ \<Rightarrow> True
     | Inr reply \<Rightarrow> fst (fst (serve_request api (api_request call path remote) (ma_w m))) = 301 \<or>
         hr_Code reply = fst (fst (serve_request api (api_request call path remote) (ma_w m)))"
    using assms(1-4) unfolding delivers_def Let_def by blast
  have "fst (fst (serve_request api (api_request call path remote) (ma_w m))) \<in> {400, 401, 403} \<and>
      ag_m (sv_agent (snd (serve_request api (api_request call path remote) (ma_w m)))) = ag_m (sv_agent (ma_w m))"
    by (rule refused_served [OF refused]) (use writing in \<open>simp_all add: api_request_def\<close>)
  then show ?thesis
    using out by (auto simp: exchange_http_def Let_def split: option.split sum.splits prod.split)
qed


lemma put_fails:
  assumes "compact_json (cli_marshal cli)" "max_request_bytes api < max_int64" "delivers cli api (apiBaseURL addr)"
    and names: "validDNSLabel (om_Namespace (rtm_Metadata runtime))" "validDNSLabel (om_Name (rtm_Metadata runtime))"
  shows "(\<exists>e. fst (putRuntime cli addr token runtime m) = Some e) \<and>
    ag_m (sv_agent (ma_w (snd (putRuntime cli addr token runtime m)))) = ag_m (sv_agent (ma_w m))"
proof -
  let ?path = "resource_path (om_Namespace (rtm_Metadata runtime)) (om_Name (rtm_Metadata runtime)) []"
  let ?call = "\<lparr>hc_Method = ''PUT'', hc_URL = apiBaseURL addr @ ?path,
     hc_Headers = (''Content-Type'', ''application/json'') # bearer token, hc_Body = Some (cli_marshal cli runtime)\<rparr>"
  have "\<not> dns_char (CHR ''?'')" by (simp add: dns_char_def)
  then have plain: "CHR ''?'' \<notin> set ?path"
    using names by (auto simp: resource_path_def resource_segments_def validDNSLabel_def dnsLabelRE_def list_all_iff)
  have "runtimeResourceURL addr (om_Namespace (rtm_Metadata runtime)) (om_Name (rtm_Metadata runtime)) [] =
      apiBaseURL addr @ ?path"
    by (simp add: runtimeResourceURL_def resource_path_def resource_segments_def is_blank_def)
  then have "putRuntime cli addr token runtime m =
      (case exchange_http cli ?call m of (Inl e, m) \<Rightarrow> (Some e, m) | (Inr _, m) \<Rightarrow> (None, m))"
    by (simp add: putRuntime_def doJSON_def)
  moreover have "(\<exists>e. fst (exchange_http cli ?call m) = Inl e) \<and>
      ag_m (sv_agent (ma_w (snd (exchange_http cli ?call m)))) = ag_m (sv_agent (ma_w m))"
  proof (rule refused_exchange [OF assms(3), where path = ?path])
    show "refused api (api_request ?call ?path remote)" for remote
      by (rule put_refused [OF assms(1,2) _ names]) (simp_all add: api_request_def)
    show "\<not> isPublicProbePath ?path"
      by (simp add: isPublicProbePath_def resource_path_def resource_segments_def)
  qed (use plain in \<open>simp_all add: writing_def resource_path_def\<close>)
  ultimately show ?thesis by (auto split: prod.split sum.split)
qed

lemma post_fails:
  assumes "compact_json (cli_marshal cli)" "max_request_bytes api < max_int64" "delivers cli api (apiBaseURL addr)"
  shows "(\<exists>e. fst (postLegacyReconcile cli addr token runtime m) = Some e) \<and>
    ag_m (sv_agent (ma_w (snd (postLegacyReconcile cli addr token runtime m)))) = ag_m (sv_agent (ma_w m))"
proof -
  let ?path = "''/runtime/reconcile''"
  let ?call = "\<lparr>hc_Method = ''POST'', hc_URL = apiBaseURL addr @ ?path,
     hc_Headers = (''Content-Type'', ''application/json'') # bearer token, hc_Body = Some (cli_marshal cli runtime)\<rparr>"
  have "postLegacyReconcile cli addr token runtime m =
      (case exchange_http cli ?call m of (Inl e, m) \<Rightarrow> (Some e, m) | (Inr _, m) \<Rightarrow> (None, m))"
    by (simp add: postLegacyReconcile_def doJSON_def)
  moreover have "(\<exists>e. fst (exchange_http cli ?call m) = Inl e) \<and>
      ag_m (sv_agent (ma_w (snd (exchange_http cli ?call m)))) = ag_m (sv_agent (ma_w m))"
  proof (rule refused_exchange [OF assms(3), where path = ?path])
    show "refused api (api_request ?call ?path remote)" for remote
      by (rule reconcile_refused [OF assms(1,2)]) (simp_all add: api_request_def)
  qed (simp_all add: writing_def isPublicProbePath_def)
  ultimately show ?thesis by (auto split: prod.split sum.split)
qed

section \<open>The commands that send a Runtime\<close>

text \<open>C16: whatever Runtime its file holds, \<open>apply\<close> and \<open>reconcile\<close> of the command line fail and the
  manager of the server they reach stays as it is: the JSON they send ends in two closing braces,
  and the server refuses a document with \<open>}}\<close> as one with an unresolved template token.\<close>

theorem client_apply_is_refused:
  assumes "compact_json (cli_marshal cli)" "max_request_bytes api < max_int64"
    and "command = ''apply'' \<and> flag = ''f'' \<or> command = ''reconcile'' \<and> flag = ''spec''"
    and "parse_flags ((flag, StrFlag []) # remote_flags cli) args = Inr flags"
    and "delivers cli api (apiBaseURL (str_flag flags ''addr''))"
  shows "(\<exists>e. fst (run_command cli command args m) = CommandFailed e) \<and>
    ag_m (sv_agent (ma_w (snd (run_command cli command args m)))) = ag_m (sv_agent (ma_w m))"
proof -
  let ?send = "if flag = ''f'' then putRuntime cli else postLegacyReconcile cli"
  let ?addr = "str_flag flags ''addr''" and ?token = "str_flag flags ''token''"
  have sent: "(\<exists>e. fst (?send ?addr ?token runtime m) = Some e) \<and>
      ag_m (sv_agent (ma_w (snd (?send ?addr ?token runtime m)))) = ag_m (sv_agent (ma_w m))"
    if read: "readRuntimeFile cli fs path = Inr runtime" for fs path runtime
  proof -
    obtain data where "ParseRuntimeDocument (cli_yaml cli) data = Inr runtime"
      using read by (cases "read_file fs path") (auto simp: readRuntimeFile_def split: sum.splits)
    then have "validDNSLabel (om_Namespace (rtm_Metadata runtime))" "validDNSLabel (om_Name (rtm_Metadata runtime))"
      using parsed_normal_valid by (auto simp: runtime_ok_def)
    then show ?thesis using put_fails [OF assms(1,2,5)] post_fails [OF assms(1,2,5)] by simp
  qed
  have "(\<exists>e. fst (with_runtime cli shown (str_flag flags flag) (\<lambda>runtime.
        conclude (?send ?addr ?token runtime) (printing (out runtime))) m) = CommandFailed e) \<and>
      ag_m (sv_agent (ma_w (snd (with_runtime cli shown (str_flag flags flag) (\<lambda>runtime.
        conclude (?send ?addr ?token runtime) (printing (out runtime))) m)))) = ag_m (sv_agent (ma_w m))" for shown out
    using sent [of "ma_disk m" "str_flag flags flag"]
    by (cases "readRuntimeFile cli (ma_disk m) (str_flag flags flag)")
       (auto simp: with_runtime_def failing_def finish_def conclude_def split: prod.split option.split)
  note command = this
  from assms(3) show ?thesis
  proof (elim disjE conjE)
    assume c: "command = ''apply''" "flag = ''f''"
    then have "run_command cli command args m = with_runtime cli ''-f'' (str_flag flags flag) (\<lambda>runtime.
        conclude (?send ?addr ?token runtime) (printing (OutcomeJSON ''applied'' (rtm_Metadata runtime)))) m"
      using assms(4) by (simp add: run_command_def apply_command_def with_flags_def)
    then show ?thesis using command by simp
  next
    assume c: "command = ''reconcile''" "flag = ''spec''"
    then have "run_command cli command args m = with_runtime cli ''--spec'' (str_flag flags flag) (\<lambda>runtime.
        conclude (?send ?addr ?token runtime) (printing (OutcomeJSON ''reconciled'' (rtm_Metadata runtime)))) m"
      using assms(4) by (simp add: run_command_def reconcile_command_def with_flags_def)
    then show ?thesis using command by simp
  qed
qed

text \<open>A client whose requests reach a server in the same process.\<close>

definition local_cli :: "'w Api \<Rightarrow> string \<Rightarrow> 'w Server Cli" where
  "local_cli api base =
     \<lparr>cli_yaml = api_yaml api, cli_decodeConfig = (\<lambda>_ _. None), cli_codec = sample_codec,
      cli_marshal = (\<lambda>_. ''{\"apiVersion\":\"aifar.io/v1\",\"spec\":{}}''), cli_backup = (\<lambda>_. []),
      cli_readBackup = (\<lambda>_. Inl ''no backup''), cli_audit = ae_Actor, cli_texts = env_Texts (api_env api),
      cli_getenv = (\<lambda>_. []), cli_badRequest = (\<lambda>_. None),
      cli_do = (\<lambda>call sv.
        case serve_request api (api_request call (drop (length base) (hc_URL call)) ''127.0.0.1:5000'') sv of
          ((code, _), sv') \<Rightarrow> (Inr \<lparr>hr_Code = code, hr_Status = StatusText code, hr_Body = []\<rparr>, sv')),
      cli_run = (\<lambda>_ _ sv. ((\<lparr>cr_Stdout = [], cr_Stderr = []\<rparr>, None), sv)), cli_now = (\<lambda>sv. (0, sv)), cli_format = itoa,
      cli_build = (''dev'', ''unknown'', ''unknown'')\<rparr>"

lemma local_cli_delivers: "delivers (local_cli api base) api base"
  by (auto simp: delivers_def local_cli_def Let_def split: prod.split intro!: exI [of _ "''127.0.0.1:5000''"])

definition local_machine :: "disk \<Rightarrow> sample_world Server Machine" where
  "local_machine fs =
     \<lparr>ma_disk = fs, ma_stdin = [], ma_out = [], ma_w = \<lparr>sv_agent = sample_agent False, sv_audit = []\<rparr>\<rparr>"

theorem client_apply_is_refused_witness:
  "let cli = local_cli sample_api (apiBaseURL DefaultAPIListen); m = local_machine [(''shop.yaml'', ''spec: {}'')]
   in (\<exists>e. fst (run_command cli ''apply'' [''-f'', ''shop.yaml''] m) = CommandFailed e) \<and>
      ag_m (sv_agent (ma_w (snd (run_command cli ''apply'' [''-f'', ''shop.yaml''] m)))) =
        ag_m (sv_agent (ma_w m))"
  unfolding Let_def
proof (rule client_apply_is_refused [where api = sample_api and flag = "''f''" and
      flags = "(''f'', StrFlag ''shop.yaml'') # remote_flags (local_cli sample_api (apiBaseURL DefaultAPIListen))"])
  show "compact_json (cli_marshal (local_cli sample_api (apiBaseURL DefaultAPIListen)))"
    by (auto simp: compact_json_def local_cli_def intro: exI [of _ "''{\"apiVersion\":\"aifar.io/v1\",\"spec\":{''"])
  show "max_request_bytes sample_api < max_int64"
    by (simp add: max_request_bytes_def sample_api_def DefaultAPIMaxRequestBytes_def max_int64_def)
  show "delivers (local_cli sample_api (apiBaseURL DefaultAPIListen)) sample_api
      (apiBaseURL (str_flag ((''f'', StrFlag ''shop.yaml'') #
         remote_flags (local_cli sample_api (apiBaseURL DefaultAPIListen))) ''addr''))"
    by (simp add: str_flag_def remote_flags_def local_cli_delivers)
qed (simp_all add: cut_def set_flag_def is_bool_flag_def Let_def)


section \<open>Queries of the audit log\<close>

lemma map_of_filter_None: "map_of m k = None \<Longrightarrow> map_of (filter P m) k = None"
  by (induction m) (auto split: if_splits)

lemma get_str_set_values: "distinct (map fst m) \<Longrightarrow> get_str (filter (\<lambda>(_, v). v \<noteq> []) m) k = get_str m k"
proof (induction m)
  case (Cons p m)
  then have "map_of m k = None" if "k = fst p" using that by (simp add: map_of_eq_None_iff)
  with Cons show ?case by (cases p) (auto simp: get_str_def map_of_filter_None)
qed simp

lemma get_str_sorted: "distinct (map fst m) \<Longrightarrow> get_str (sort_key fst m) k = get_str m k"
proof -
  assume d: "distinct (map fst m)"
  have "mset (map fst (sort_key fst m)) = mset (map fst m)" by simp
  with d have "distinct (map fst (sort_key fst m))" using mset_eq_imp_distinct_iff by blast
  with d have "map_of (sort_key fst m) = map_of m" by (intro map_of_inject_set [THEN iffD2]) simp_all
  then show ?thesis by (simp add: get_str_def)
qed

lemma audit_values_keys: "distinct (map fst (audit_values q))"
  unfolding audit_values_def map_append distinct_append by simp

lemma audit_values_read:
  "get_str (audit_values q) ''tail'' = (if aq_Tail q > 0 then itoa (aq_Tail q) else [])"
  "get_str (audit_values q) ''namespace'' = trim_space (aq_Namespace q)"
  "get_str (audit_values q) ''name'' = trim_space (aq_Name q)"
  "get_str (audit_values q) ''actor'' = trim_space (aq_Actor q)"
  "get_str (audit_values q) ''operation'' = trim_space (aq_Operation q)"
  "get_str (audit_values q) ''result'' = trim_space (aq_Result q)"
  by (simp_all add: audit_values_def get_str_def)

text \<open>C22: the server reads from the URL of an audit query the query that the client was asked for,
  with its texts trimmed and a negative number of lines taken as none.\<close>

theorem audit_url_roundtrip:
  assumes "in_int64 (aq_Tail q)"
  shows "\<exists>query. audit_url addr q = apiBaseURL addr @ ''/audit'' @ (if query = [] then [] else ''?'' @ query) \<and>
    (\<forall>r. rq_Query r = parse_query query \<longrightarrow>
       audit_query r = \<lparr>aq_Tail = max 0 (aq_Tail q), aq_Namespace = trim_space (aq_Namespace q),
         aq_Name = trim_space (aq_Name q), aq_Actor = trim_space (aq_Actor q),
         aq_Operation = trim_space (aq_Operation q), aq_Result = trim_space (aq_Result q)\<rparr>)"
proof (intro exI conjI allI impI)
  let ?query = "values_encode (audit_values q)"
  show "audit_url addr q = apiBaseURL addr @ ''/audit'' @ (if ?query = [] then [] else ''?'' @ ?query)"
    by (simp add: audit_url_def Let_def)
  have "parse_query (values_encode []) = []" by code_simp
  then have "parse_query ?query = sort_key fst (audit_values q)"
    by (cases "audit_values q = []") (simp_all add: parse_query_encode)
  then have read: "get_str (parse_query ?query) k = get_str (audit_values q) k" for k
    by (simp add: get_str_sorted audit_values_keys)
  have "atoi_value [] = 0" by code_simp
  then have "atoi_value (get_str (audit_values q) ''tail'') = max 0 (aq_Tail q)"
    by (simp add: audit_values_read atoi_value_ok [OF atoi_itoa [OF assms]])
  then show "audit_query r = \<lparr>aq_Tail = max 0 (aq_Tail q), aq_Namespace = trim_space (aq_Namespace q),
      aq_Name = trim_space (aq_Name q), aq_Actor = trim_space (aq_Actor q),
      aq_Operation = trim_space (aq_Operation q), aq_Result = trim_space (aq_Result q)\<rparr>"
    if "rq_Query r = parse_query ?query" for r
    using that by (simp add: audit_query_def read audit_values_read Let_def)
qed

theorem audit_url_roundtrip_witness:
  "let q = \<lparr>aq_Tail = 5, aq_Namespace = '' a&b=c '', aq_Name = [], aq_Actor = ''bob'', aq_Operation = [], aq_Result = []\<rparr>
   in \<exists>query. audit_url DefaultAPIListen q = ''http://127.0.0.1:18081/audit'' @ (if query = [] then [] else ''?'' @ query) \<and>
     (\<forall>r. rq_Query r = parse_query query \<longrightarrow>
       audit_query r = q\<lparr>aq_Namespace := ''a&b=c''\<rparr>)"
proof -
  have "apiBaseURL DefaultAPIListen = ''http://127.0.0.1:18081''" "trim_space '' a&b=c '' = ''a&b=c''"
    "trim_space [] = []" "trim_space ''bob'' = ''bob''" by code_simp+
  then show ?thesis
    using audit_url_roundtrip [of "\<lparr>aq_Tail = 5, aq_Namespace = '' a&b=c '', aq_Name = [], aq_Actor = ''bob'',
        aq_Operation = [], aq_Result = []\<rparr>" DefaultAPIListen]
    by (simp add: in_int64_def max_int64_def)
qed

section \<open>A failed backup\<close>

text \<open>A backup that cannot read the state fails after it has emptied its output file, so the
  previous backup of that name is lost.\<close>

theorem failed_backup_empties_file:
  assumes "stc_Backend (cfg_State (NormalizeRuntimeConfig config)) = ''file''"
    and "NewAuditLogger (cfg_Audit (NormalizeRuntimeConfig config)) = None"
    and "\<not> is_std (trim_space outPath)"
    and "LoadAll (cli_codec cli) (NewStateStore (stc_Dir (cfg_State (NormalizeRuntimeConfig config))))
           (map_set (ma_disk m) (trim_space outPath) []) = Inl e"
  shows "fst (backupState cli config outPath m) = Some e \<and>
    map_of (ma_disk (snd (backupState cli config outPath m))) (trim_space outPath) = Some []"
  using assms
  by (simp add: backupState_def local_state_command_def write_backup_def appendLocalAudit_def reading_clock_def
      gomap_simps split_beta Let_def)

definition quiet_config :: RuntimeConfig where
  "quiet_config = DefaultRuntimeConfig\<lparr>cfg_Audit := (cfg_Audit DefaultRuntimeConfig)\<lparr>ac_Enabled := Some False\<rparr>\<rparr>"

definition damaged_disk :: disk where
  "damaged_disk = [(''/var/lib/aifar-runtime/specs/default/shop.json'', ''{{''), (''/backup.json'', ''the last good one'')]"

theorem failed_backup_empties_file_witness:
  "let cli = local_cli sample_api []; out = backupState cli quiet_config ''/backup.json'' (local_machine damaged_disk)
   in fst out \<noteq> None \<and> map_of (ma_disk (snd out)) ''/backup.json'' = Some []"
proof -
  let ?cli = "local_cli sample_api []"
  have trim: "trim_space ''/backup.json'' = ''/backup.json''" by code_simp
  have disk: "ma_disk (local_machine damaged_disk) = damaged_disk" by (simp add: local_machine_def)
  have codec: "cli_codec ?cli = sample_codec" by (simp add: local_cli_def)
  have "isl (LoadAll sample_codec (NewStateStore (stc_Dir (cfg_State (NormalizeRuntimeConfig quiet_config))))
      (map_set damaged_disk ''/backup.json'' []))" by code_simp
  then obtain e where "LoadAll sample_codec (NewStateStore (stc_Dir (cfg_State (NormalizeRuntimeConfig quiet_config))))
      (map_set damaged_disk ''/backup.json'' []) = Inl e" by (auto simp: isl_def)
  moreover have "stc_Backend (cfg_State (NormalizeRuntimeConfig quiet_config)) = ''file''" by code_simp
  moreover have "NewAuditLogger (cfg_Audit (NormalizeRuntimeConfig quiet_config)) = None" by code_simp
  moreover have "\<not> is_std ''/backup.json''" by (simp add: is_std_def)
  ultimately show ?thesis
    using failed_backup_empties_file [of quiet_config "''/backup.json''" ?cli "local_machine damaged_disk"]
    unfolding trim disk codec by (simp add: Let_def)
qed

end
