(* ===== verification/Release.thy ===== *)
theory Release
  imports GoNet Store
begin

text \<open>
  The release tool \<open>tools/release/main.go\<close>: it lists the modules of the program, writes them as an
  SPDX document, builds and packs one archive for each target, and records hashes. The state is the
  tree of files and directories by clean path. The \<open>go\<close> command, SHA-256, the JSON encoders and the
  archive formats are parameters; permissions, times and symbolic links are left out, and files fail
  only when they are missing, exist as the wrong kind of entry, or lie below a file.
\<close>

section \<open>Files and directories\<close>

datatype node = Dir | File string

type_synonym tree = "node gomap"

text \<open>A step fails with a text or returns a value; what it did before it failed stays done.\<close>

type_synonym 'a job = "tree \<Rightarrow> (string + 'a) \<times> tree"

definition finished :: "'a \<Rightarrow> 'a job" where
  "finished x t = (Inr x, t)"

definition stopped :: "string \<Rightarrow> 'a job" where
  "stopped e t = (Inl e, t)"

definition chain :: "'a job \<Rightarrow> ('a \<Rightarrow> 'b job) \<Rightarrow> 'b job" where
  "chain job f t = (case job t of (Inl e, t') \<Rightarrow> (Inl e, t') | (Inr x, t') \<Rightarrow> f x t')"

fun each :: "('a \<Rightarrow> unit job) \<Rightarrow> 'a list \<Rightarrow> unit job" where
  "each f [] = finished ()"
| "each f (x # xs) = chain (f x) (\<lambda>_. each f xs)"

definition path_Dir :: "string \<Rightarrow> string" where
  "path_Dir path = path_Clean (rev (dropWhile (\<lambda>c. c \<noteq> CHR ''/'') (rev path)))"

definition path_Base :: "string \<Rightarrow> string" where
  "path_Base path =
     (if path = [] then ''.''
      else let base = rev (takeWhile (\<lambda>c. c \<noteq> CHR ''/'') (rev (trim_right_set ''/'' path)))
           in if base = [] then ''/'' else base)"

definition path_segments :: "string \<Rightarrow> string list" where
  "path_segments path = (if path = ''.'' then [] else filter (\<lambda>s. s \<noteq> []) (split_on (CHR ''/'') path))"

definition path_Rel :: "string \<Rightarrow> string \<Rightarrow> string option" where
  "path_Rel base target =
     (let base = path_Clean base; target = path_Clean target; bs = path_segments base; ts = path_segments target;
          n = length (longest_common_prefix bs ts)
      in if base = target then Some ''.''
         else if prefix ''/'' base \<noteq> prefix ''/'' target then None
         else if drop n bs \<noteq> [] \<and> hd (drop n bs) = ''..'' then None
         else Some (join_with ''/'' (replicate (length (drop n bs)) ''..'' @ drop n ts)))"

text \<open>The directories that \<open>os.MkdirAll\<close> makes, outermost first.\<close>

definition ancestors :: "string \<Rightarrow> string list" where
  "ancestors path =
     filter (\<lambda>a. a \<noteq> [] \<and> a \<noteq> ''.'') (map (join_with ''/'') (prefixes (split_on (CHR ''/'') path)))"

definition make_dir :: "string \<Rightarrow> unit job" where
  "make_dir path t =
     (case map_of t path of
        None \<Rightarrow> (Inr (), map_set t path Dir)
      | Some Dir \<Rightarrow> (Inr (), t)
      | Some (File _) \<Rightarrow> (Inl (''mkdir '' @ path @ '': not a directory''), t))"

definition MkdirAll :: "string \<Rightarrow> unit job" where
  "MkdirAll path =
     (if path = [] then stopped ''mkdir : no such file or directory''
      else each make_dir (ancestors (path_Clean path)))"

definition RemoveAll :: "string \<Rightarrow> unit job" where
  "RemoveAll path t = (Inr (), filter (\<lambda>(p, _). p \<noteq> path \<and> \<not> prefix (path @ ''/'') p) t)"

text \<open>\<open>os.Remove\<close>, for which a missing file is no error here.\<close>

definition remove_file :: "string \<Rightarrow> unit job" where
  "remove_file path t =
     (if \<exists>(p, _) \<in> set t. prefix (path @ ''/'') p then (Inl (''remove '' @ path @ '': directory not empty''), t)
      else (Inr (), map_del t path))"

text \<open>Open a file for writing, which empties it, and write it.\<close>

definition put_file :: "string \<Rightarrow> string \<Rightarrow> unit job" where
  "put_file path data t =
     (if map_of t path = Some Dir then (Inl (''open '' @ path @ '': is a directory''), t)
      else (Inr (), map_set t path (File data)))"

definition get_file :: "string \<Rightarrow> string job" where
  "get_file path t =
     (case map_of t path of
        None \<Rightarrow> (Inl (''open '' @ path @ '': no such file or directory''), t)
      | Some Dir \<Rightarrow> (Inl (''read '' @ path @ '': is a directory''), t)
      | Some (File data) \<Rightarrow> (Inr data, t))"

definition writeFile :: "string \<Rightarrow> string \<Rightarrow> unit job" where
  "writeFile path data = chain (MkdirAll (path_Dir path)) (\<lambda>_. put_file path data)"

text \<open>\<open>json.MarshalIndent\<close> and a newline.\<close>

definition writeJSONFile :: "string \<Rightarrow> string \<Rightarrow> unit job" where
  "writeJSONFile path json = writeFile path (json @ newline)"

text \<open>The source is read after the target was emptied.\<close>

definition copyFile :: "string \<Rightarrow> string \<Rightarrow> unit job" where
  "copyFile source target t =
     (if map_of t source = None then stopped (''open '' @ source @ '': no such file or directory'') t
      else chain (MkdirAll (path_Dir target)) (\<lambda>_.
           chain (put_file target []) (\<lambda>_.
           chain (get_file source) (put_file target))) t)"

text \<open>What \<open>WalkDir\<close> visits: the root and everything below it, by path segments.\<close>

definition WalkDir :: "string \<Rightarrow> string list job" where
  "WalkDir root t =
     (if map_of t root = None then (Inl (''lstat '' @ root @ '': no such file or directory''), t)
      else (Inr (sort_key (split_on (CHR ''/''))
              (filter (\<lambda>p. p = root \<or> below root p \<noteq> None) (map_keys t))), t))"

definition relative :: "string \<Rightarrow> string \<Rightarrow> string job" where
  "relative base path =
     (case path_Rel base path of
        None \<Rightarrow> stopped (''Rel: can't make '' @ path @ '' relative to '' @ base)
      | Some rel \<Rightarrow> finished rel)"

definition copy_entry :: "string \<Rightarrow> string \<Rightarrow> string \<Rightarrow> unit job" where
  "copy_entry source target path t =
     chain (relative source path) (\<lambda>rel.
       if rel = ''.'' then finished ()
       else let targetPath = path_Join [target, rel]
            in if map_of t path = Some Dir then MkdirAll targetPath else copyFile path targetPath) t"

definition copyDir :: "string \<Rightarrow> string \<Rightarrow> unit job" where
  "copyDir source target = chain (WalkDir source) (each (copy_entry source target))"

text \<open>The names of the files directly in a directory that end in \<open>.md\<close>, sorted.\<close>

definition markdown_names :: "string \<Rightarrow> tree \<Rightarrow> string list" where
  "markdown_names dir t =
     sort (List.map_filter (\<lambda>(p, n). case below dir p of
         Some name \<Rightarrow> if CHR ''/'' \<in> set name \<or> n = Dir \<or> \<not> has_suffix name ''.md'' then None else Some name
       | None \<Rightarrow> None) t)"

definition copyMarkdownFiles :: "string \<Rightarrow> string \<Rightarrow> unit job" where
  "copyMarkdownFiles source target t =
     (case map_of t source of
        None \<Rightarrow> stopped (''open '' @ source @ '': no such file or directory'') t
      | Some (File _) \<Rightarrow> stopped (''readdirent '' @ source @ '': not a directory'') t
      | Some Dir \<Rightarrow>
          each (\<lambda>name. copyFile (path_Join [source, name]) (path_Join [target, name])) (markdown_names source t) t)"

section \<open>Configuration\<close>

record releaseTarget =
  tg_OS :: string
  tg_Arch :: string

record releaseConfig =
  rc_App :: string
  rc_Package :: string
  rc_Version :: string
  rc_Commit :: string
  rc_BuildDate :: string
  rc_DistDir :: string
  rc_Targets :: "releaseTarget list"
  rc_GoCommand :: string
  rc_SBOMOnly :: bool

record releaseArtifact =
  ar_Name :: string
  ar_OS :: string
  ar_Arch :: string
  ar_Archive :: string
  ar_SHA256 :: string
  ar_Binary :: string
  ar_BinaryHash :: string

record releaseManifest =
  mf_App :: string
  mf_Version :: string
  mf_Commit :: string
  mf_BuildDate :: string
  mf_Artifacts :: "releaseArtifact list"

datatype goModule =
  Module (mod_Path: string) (mod_Version: string) (mod_Main: bool) (mod_Replace: "goModule option")

record spdxCreationInfo =
  ci_Created :: string
  ci_Creators :: "string list"

record spdxExternalRef =
  er_ReferenceCategory :: string
  er_ReferenceType :: string
  er_ReferenceLocator :: string

record spdxPackage =
  pk_Name :: string
  pk_SPDXID :: string
  pk_VersionInfo :: string
  pk_DownloadLocation :: string
  pk_FilesAnalyzed :: bool
  pk_Supplier :: string
  pk_ExternalRefs :: "spdxExternalRef list"

record spdxRelationship =
  rl_Element :: string
  rl_Type :: string
  rl_Related :: string

record spdxDocument =
  sd_SPDXVersion :: string
  sd_DataLicense :: string
  sd_SPDXID :: string
  sd_Name :: string
  sd_DocumentNamespace :: string
  sd_CreationInfo :: spdxCreationInfo
  sd_Packages :: "spdxPackage list"
  sd_Relationships :: "spdxRelationship list"

text \<open>
  How \<open>Cmd.Output\<close> fails: with a process that exited, whose standard error is kept, or otherwise.
\<close>

datatype exec_error = ExitError string | NotRun string

text \<open>\<open>tl_Decode\<close> gives the values that a JSON decoder reads until the end of its input.\<close>

record release_tool =
  tl_Exec :: "string list \<Rightarrow> string list \<Rightarrow> tree \<Rightarrow> string option \<times> tree"
  tl_Output :: "string list \<Rightarrow> exec_error + string"
  tl_Decode :: "string \<Rightarrow> (string + goModule) list"
  tl_sbom :: "spdxDocument \<Rightarrow> string"
  tl_manifest :: "releaseManifest \<Rightarrow> string"
  tl_buildInfo :: "string gomap \<Rightarrow> string"
  tl_sha256 :: "string \<Rightarrow> string"
  tl_tar :: "(string \<times> node) list \<Rightarrow> string"
  tl_zip :: "(string \<times> node) list \<Rightarrow> string"
  tl_now :: string

fun parse_target_fields :: "string list \<Rightarrow> string + releaseTarget list" where
  "parse_target_fields [] = Inr []"
| "parse_target_fields (field # rest) =
     (case cut (CHR ''/'') (trim_space field) of (osName, arch, ok) \<Rightarrow>
        if \<not> ok \<or> osName = [] \<or> arch = []
        then Inl (''invalid release target \"'' @ field @ ''\", expected GOOS/GOARCH'')
        else (case parse_target_fields rest of
                Inl e \<Rightarrow> Inl e
              | Inr targets \<Rightarrow> Inr (\<lparr>tg_OS = osName, tg_Arch = arch\<rparr> # targets)))"

definition parseTargets :: "string \<Rightarrow> string + releaseTarget list" where
  "parseTargets raw =
     (let parts = string_fields (replace_all '','' '' '' raw)
      in if parts = [] then Inl ''at least one release target is required'' else parse_target_fields parts)"

definition release_flags :: "flag_value gomap" where
  "release_flags =
     [(''app'', StrFlag ''aifar-runtime''), (''pkg'', StrFlag ''./cmd/aifar-runtime''), (''version'', StrFlag ''dev''),
      (''commit'', StrFlag ''unknown''), (''build-date'', StrFlag []), (''dist'', StrFlag ''dist''),
      (''targets'', StrFlag ''linux/amd64''), (''go'', StrFlag ''go''), (''sbom-only'', BoolFlag False)]"

text \<open>The outer \<open>Inl\<close> is an exit of the flag package.\<close>

definition parseFlags :: "release_tool \<Rightarrow> string list \<Rightarrow> int + string + releaseConfig" where
  "parseFlags tool args =
     (case parse_flags release_flags args of
        Inl code \<Rightarrow> Inl code
      | Inr flags \<Rightarrow>
          Inr (case parseTargets (str_flag flags ''targets'') of
                 Inl e \<Rightarrow> Inl e
               | Inr targets \<Rightarrow>
                   let date = str_flag flags ''build-date''
                   in Inr \<lparr>rc_App = str_flag flags ''app'', rc_Package = str_flag flags ''pkg'',
                        rc_Version = str_flag flags ''version'', rc_Commit = str_flag flags ''commit'',
                        rc_BuildDate = (if is_blank date then tl_now tool else date),
                        rc_DistDir = str_flag flags ''dist'', rc_Targets = targets,
                        rc_GoCommand = str_flag flags ''go'', rc_SBOMOnly = bool_flag flags ''sbom-only''\<rparr>))"


section \<open>The SPDX document\<close>

definition spdx_rune :: "char \<Rightarrow> char" where
  "spdx_rune c = (if c \<in> set ''/_:@+ '' then CHR ''-'' else c)"

definition spdxIDForModule :: "string \<Rightarrow> string" where
  "spdxIDForModule name =
     (let v = trim_set ''-.'' (map spdx_rune name) in ''SPDXRef-'' @ (if v = [] then ''package'' else v))"

definition purlForGoModule :: "string \<Rightarrow> string \<Rightarrow> string" where
  "purlForGoModule path version =
     ''pkg:golang/'' @ replace_all ''%2F'' ''/'' (PathEscape path) @ ''@'' @ QueryEscape version"

fun collect_modules :: "(string + goModule) list \<Rightarrow> string + goModule list" where
  "collect_modules [] = Inr []"
| "collect_modules (Inl e # _) = Inl e"
| "collect_modules (Inr m # rest) =
     (case collect_modules rest of Inl e \<Rightarrow> Inl e | Inr ms \<Rightarrow> Inr (m # ms))"

text \<open>A module with a purl is the target of a dependency.\<close>

definition has_purl :: "goModule \<Rightarrow> bool" where
  "has_purl m \<longleftrightarrow> \<not> mod_Main m \<and> mod_Version m \<noteq> []"

definition module_package :: "releaseConfig \<Rightarrow> goModule \<Rightarrow> spdxPackage" where
  "module_package config m =
     (let name = (if mod_Main m then rc_App config else mod_Path m)
      in \<lparr>pk_Name = name, pk_SPDXID = spdxIDForModule name,
          pk_VersionInfo = (if mod_Main m then rc_Version config else mod_Version m),
          pk_DownloadLocation = ''NOASSERTION'', pk_FilesAnalyzed = False, pk_Supplier = ''NOASSERTION'',
          pk_ExternalRefs =
            (if has_purl m
             then [\<lparr>er_ReferenceCategory = ''PACKAGE-MANAGER'', er_ReferenceType = ''purl'',
                     er_ReferenceLocator = purlForGoModule (mod_Path m) (mod_Version m)\<rparr>] else [])\<rparr>)"

definition add_module :: "releaseConfig \<Rightarrow> goModule \<Rightarrow> spdxDocument \<Rightarrow> spdxDocument" where
  "add_module config m doc =
     (let pkg = module_package config m;
          doc = (if has_purl m
                 then doc\<lparr>sd_Relationships := sd_Relationships doc @
                        [\<lparr>rl_Element = spdxIDForModule (rc_App config), rl_Type = ''DEPENDS_ON'', rl_Related = pk_SPDXID pkg\<rparr>]\<rparr>
                 else doc)
      in doc\<lparr>sd_Packages := sd_Packages doc @ [pkg]\<rparr>)"

definition sbom_document :: "releaseConfig \<Rightarrow> goModule list \<Rightarrow> spdxDocument" where
  "sbom_document config modules =
     fold (add_module config) (sort_key mod_Path modules)
       \<lparr>sd_SPDXVersion = ''SPDX-2.3'', sd_DataLicense = ''CC0-1.0'', sd_SPDXID = ''SPDXRef-DOCUMENT'',
        sd_Name = rc_App config @ ''-'' @ rc_Version config,
        sd_DocumentNamespace =
          ''https://aifar.local/spdx/'' @ rc_App config @ ''/'' @ rc_Version config @ ''/'' @ rc_Commit config,
        sd_CreationInfo = \<lparr>ci_Created = rc_BuildDate config, ci_Creators = [''Tool: aifar-runtime release tool'']\<rparr>,
        sd_Packages = [],
        sd_Relationships =
          [\<lparr>rl_Element = ''SPDXRef-DOCUMENT'', rl_Type = ''DESCRIBES'',
            rl_Related = spdxIDForModule (rc_App config)\<rparr>]\<rparr>"

definition generateSBOM :: "release_tool \<Rightarrow> releaseConfig \<Rightarrow> string + string" where
  "generateSBOM tool config =
     (case tl_Output tool [rc_GoCommand config, ''list'', ''-m'', ''-json'', ''all''] of
        Inl (ExitError stderr) \<Rightarrow> Inl (''generate module list: '' @ trim_space stderr)
      | Inl (NotRun e) \<Rightarrow> Inl e
      | Inr out \<Rightarrow>
          (case collect_modules (tl_Decode tool out) of
             Inl e \<Rightarrow> Inl e
           | Inr modules \<Rightarrow> Inr (tl_sbom tool (sbom_document config modules))))"

section \<open>Archives\<close>

definition binaryNameForTarget :: "string \<Rightarrow> string \<Rightarrow> string" where
  "binaryNameForTarget app osName = (if osName = ''windows'' then app @ ''.exe'' else app)"

definition archiveNameForTarget :: "string \<Rightarrow> string \<Rightarrow> string" where
  "archiveNameForTarget releaseName osName =
     (if osName = ''windows'' then releaseName @ ''.zip'' else releaseName @ ''.tar.gz'')"

text \<open>The entries of an archive under their names, up to the first path without a relative name.\<close>

fun archive_entries :: "(string \<Rightarrow> node \<Rightarrow> string) \<Rightarrow> string \<Rightarrow> tree \<Rightarrow> string list \<Rightarrow> (string \<times> node) list \<times> string option" where
  "archive_entries name base t [] = ([], None)"
| "archive_entries name base t (path # paths) =
     (case path_Rel base path of
        None \<Rightarrow> ([], Some (''Rel: can't make '' @ path @ '' relative to '' @ base))
      | Some rel \<Rightarrow>
          let entry = (case map_of t path of Some (File data) \<Rightarrow> File data | _ \<Rightarrow> Dir)
          in apfst ((#) (name rel entry, entry)) (archive_entries name base t paths))"

text \<open>The archive file is created first; one that was broken off holds the entries written so far.\<close>

definition create_archive ::
    "((string \<times> node) list \<Rightarrow> string) \<Rightarrow> (string \<Rightarrow> node \<Rightarrow> string) \<Rightarrow> string \<Rightarrow> string \<Rightarrow> string \<Rightarrow> unit job" where
  "create_archive encode name baseDir sourceDir targetPath =
     chain (put_file targetPath (encode [])) (\<lambda>_.
     chain (WalkDir sourceDir) (\<lambda>paths t.
       case archive_entries name baseDir t paths of
         (entries, err) \<Rightarrow>
           chain (put_file targetPath (encode entries)) (\<lambda>_. case err of None \<Rightarrow> finished () | Some e \<Rightarrow> stopped e) t))"

definition createTarGzArchive :: "release_tool \<Rightarrow> string \<Rightarrow> string \<Rightarrow> string \<Rightarrow> unit job" where
  "createTarGzArchive tool = create_archive (tl_tar tool) (\<lambda>rel _. rel)"

definition createZipArchive :: "release_tool \<Rightarrow> string \<Rightarrow> string \<Rightarrow> string \<Rightarrow> unit job" where
  "createZipArchive tool = create_archive (tl_zip tool) (\<lambda>rel n. if n = Dir then rel @ ''/'' else rel)"

definition sha256File :: "release_tool \<Rightarrow> string \<Rightarrow> string job" where
  "sha256File tool path = chain (get_file path) (\<lambda>data. finished (tl_sha256 tool data))"

section \<open>One target\<close>

definition buildBinary :: "release_tool \<Rightarrow> releaseConfig \<Rightarrow> releaseTarget \<Rightarrow> string \<Rightarrow> unit job" where
  "buildBinary tool config target out t =
     (let ldflags = ''-s -w -X main.version='' @ rc_Version config @ '' -X main.commit='' @ rc_Commit config @
            '' -X main.buildDate='' @ rc_BuildDate config
      in case tl_Exec tool
           [rc_GoCommand config, ''build'', ''-buildvcs=false'', ''-trimpath'', ''-ldflags'', ldflags, ''-o'', out,
            rc_Package config]
           [''CGO_ENABLED=0'', ''GOOS='' @ tg_OS target, ''GOARCH='' @ tg_Arch target] t of
           (Some e, t) \<Rightarrow> (Inl e, t)
         | (None, t) \<Rightarrow> (Inr (), t))"

definition copyReleaseFiles :: "string \<Rightarrow> unit job" where
  "copyReleaseFiles stageDir =
     chain (each (\<lambda>name. copyFile name (path_Join [stageDir, name])) [''README.md'', ''SKILL.md'']) (\<lambda>_.
     chain (copyDir ''deploy/systemd'' (path_Join [stageDir, ''deploy'', ''systemd''])) (\<lambda>_.
     chain (copyDir ''runtimes'' (path_Join [stageDir, ''runtimes''])) (\<lambda>_.
       copyMarkdownFiles ''docs'' (path_Join [stageDir, ''docs'']))))"

definition releaseName :: "releaseConfig \<Rightarrow> releaseTarget \<Rightarrow> string" where
  "releaseName config target =
     rc_App config @ ''-'' @ rc_Version config @ ''-'' @ tg_OS target @ ''-'' @ tg_Arch target"

definition build_info :: "releaseConfig \<Rightarrow> releaseTarget \<Rightarrow> string gomap" where
  "build_info config target =
     [(''app'', rc_App config), (''version'', rc_Version config), (''commit'', rc_Commit config),
      (''buildDate'', rc_BuildDate config), (''goos'', tg_OS target), (''goarch'', tg_Arch target)]"

text \<open>The files of a target in its staging directory.\<close>

definition stage_target :: "release_tool \<Rightarrow> releaseConfig \<Rightarrow> releaseTarget \<Rightarrow> string \<Rightarrow> string \<Rightarrow> unit job" where
  "stage_target tool config target sbom stageDir =
     chain (RemoveAll stageDir) (\<lambda>_.
     chain (each (\<lambda>sub. MkdirAll (path_Join (stageDir # sub)))
              [[''deploy'', ''systemd''], [''docs''], [''runtimes''], [''release'']]) (\<lambda>_.
     chain (buildBinary tool config target (path_Join [stageDir, binaryNameForTarget (rc_App config) (tg_OS target)])) (\<lambda>_.
     chain (copyReleaseFiles stageDir) (\<lambda>_.
     chain (writeJSONFile (path_Join [stageDir, ''release'', ''build.json'']) (tl_buildInfo tool (build_info config target))) (\<lambda>_.
       writeFile (path_Join [stageDir, ''release'', ''sbom.spdx.json'']) sbom)))))"

definition buildReleaseTarget :: "release_tool \<Rightarrow> releaseConfig \<Rightarrow> string \<Rightarrow> releaseTarget \<Rightarrow> releaseArtifact job" where
  "buildReleaseTarget tool config sbom target =
     (let name = releaseName config target; stageDir = path_Join [rc_DistDir config, name];
          binaryName = binaryNameForTarget (rc_App config) (tg_OS target);
          archivePath = path_Join [rc_DistDir config, archiveNameForTarget name (tg_OS target)]
      in chain (stage_target tool config target sbom stageDir) (\<lambda>_.
         chain (sha256File tool (path_Join [stageDir, binaryName])) (\<lambda>binaryHash.
         chain (remove_file archivePath) (\<lambda>_.
         chain ((if tg_OS target = ''windows'' then createZipArchive tool else createTarGzArchive tool)
                  (rc_DistDir config) stageDir archivePath) (\<lambda>_.
         chain (sha256File tool archivePath) (\<lambda>archiveHash.
           finished \<lparr>ar_Name = name, ar_OS = tg_OS target, ar_Arch = tg_Arch target, ar_Archive = path_Base archivePath,
             ar_SHA256 = archiveHash, ar_Binary = binaryName, ar_BinaryHash = binaryHash\<rparr>))))))"

section \<open>The release\<close>

fun build_targets :: "release_tool \<Rightarrow> releaseConfig \<Rightarrow> string \<Rightarrow> releaseTarget list \<Rightarrow> releaseArtifact list job" where
  "build_targets tool config sbom [] = finished []"
| "build_targets tool config sbom (target # targets) =
     chain (buildReleaseTarget tool config sbom target) (\<lambda>artifact.
     chain (build_targets tool config sbom targets) (\<lambda>artifacts. finished (artifact # artifacts)))"

definition checksum_line :: "releaseArtifact \<Rightarrow> string" where
  "checksum_line a = ar_SHA256 a @ ''  '' @ ar_Archive a"

definition writeChecksums :: "string \<Rightarrow> releaseArtifact list \<Rightarrow> unit job" where
  "writeChecksums path artifacts =
     writeFile path (join_with newline (sort (map checksum_line artifacts)) @ newline)"

definition run_release :: "release_tool \<Rightarrow> releaseConfig \<Rightarrow> unit job" where
  "run_release tool config =
     (let dist = (\<lambda>name. path_Join [rc_DistDir config, name])
      in chain (MkdirAll (rc_DistDir config)) (\<lambda>_.
         case generateSBOM tool config of
           Inl e \<Rightarrow> stopped e
         | Inr sbom \<Rightarrow>
             if rc_SBOMOnly config then writeFile (dist ''sbom.spdx.json'') sbom
             else chain (build_targets tool config sbom (rc_Targets config)) (\<lambda>artifacts.
               let artifacts = sort_key ar_Archive artifacts;
                   manifest = \<lparr>mf_App = rc_App config, mf_Version = rc_Version config, mf_Commit = rc_Commit config,
                     mf_BuildDate = rc_BuildDate config, mf_Artifacts = artifacts\<rparr>
               in chain (writeJSONFile (dist ''manifest.json'') (tl_manifest tool manifest)) (\<lambda>_.
                  chain (writeFile (dist ''sbom.spdx.json'') sbom) (\<lambda>_.
                    writeChecksums (dist ''checksums.txt'') artifacts)))))"

text \<open>The exit code of the tool.\<close>

definition release_main :: "release_tool \<Rightarrow> string list \<Rightarrow> tree \<Rightarrow> int \<times> tree" where
  "release_main tool args t =
     (case parseFlags tool args of
        Inl code \<Rightarrow> (code, t)
      | Inr (Inl e) \<Rightarrow> (1, t)
      | Inr (Inr config) \<Rightarrow> (case run_release tool config t of (r, t) \<Rightarrow> (if isl r then 1 else 0, t)))"

end
