(* ===== verification/ReleaseProps.thy ===== *)
theory ReleaseProps
  imports Release
begin

text \<open>
  What a release promises: the recorded checksums are those of the archives on disk, an archive holds
  the binary whose hash is recorded, and the relationships of the SPDX document lead to its packages.
\<close>

section \<open>Plain paths\<close>

text \<open>A relative path of plain segments, the form of every path in a tree.\<close>

definition plain_path :: "string list \<Rightarrow> bool" where
  "plain_path segs \<longleftrightarrow> segs \<noteq> [] \<and> list_all plain_segment segs"

abbreviation slashed :: "string list \<Rightarrow> string" where
  "slashed \<equiv> join_with ''/''"

lemma split_slashed: "plain_path segs \<Longrightarrow> split_on (CHR ''/'') (slashed segs) = segs"
  by (rule split_on_join) (auto simp: plain_path_def plain_segment_def list_all_iff)

lemma slashed_head:
  assumes "plain_path segs" shows "slashed segs \<noteq> [] \<and> hd (slashed segs) \<noteq> CHR ''/'' \<and> last (slashed segs) \<noteq> CHR ''/''"
  using assms
proof (induction segs rule: induct_list012)
  case (2 s)
  then show ?case
    by (auto simp: plain_path_def plain_segment_def) (metis hd_in_set last_in_set)+
next
  case (3 s u segs)
  then show ?case by (auto simp: plain_path_def plain_segment_def hd_append last_append) (metis hd_in_set)
qed (simp add: plain_path_def)

lemma clean_slashed: "plain_path segs \<Longrightarrow> path_Clean (slashed segs) = slashed segs"
  using slashed_head [of segs] split_slashed [of segs]
  by (simp add: path_Clean_def clean_segments_plain plain_path_def)

lemma slashed_append: "a \<noteq> [] \<Longrightarrow> b \<noteq> [] \<Longrightarrow> slashed (a @ b) = slashed a @ ''/'' @ slashed b"
proof (induction a rule: induct_list012)
  case (2 x)
  then show ?case by (cases b) auto
qed auto

lemma slashed_inj: "plain_path a \<Longrightarrow> plain_path b \<Longrightarrow> slashed a = slashed b \<Longrightarrow> a = b"
  by (metis split_slashed)

lemma plain_append: "plain_path a \<Longrightarrow> list_all plain_segment b \<Longrightarrow> plain_path (a @ b)"
  by (simp add: plain_path_def)

lemma join_slashed: "plain_path a \<Longrightarrow> plain_path b \<Longrightarrow> path_Join [slashed a, slashed b] = slashed (a @ b)"
  using clean_slashed [of "a @ b"] by (simp add: path_Join_def plain_append plain_path_def slashed_append)

lemma prefix_slashed:
  assumes "plain_path a" "plain_path b" "prefix (slashed a @ ''/'') (slashed b)"
  shows "\<exists>c. c \<noteq> [] \<and> b = a @ c"
proof -
  from assms(3) obtain rest where "slashed b = slashed a @ ''/'' @ rest" by (auto simp: prefix_def)
  then have "b = a @ split_on (CHR ''/'') rest"
    using split_slashed [OF assms(1)] split_slashed [OF assms(2)] split_on_append_sep [of "CHR ''/''" "slashed a" rest]
    by simp
  then show ?thesis using split_on_ne by blast
qed

lemma below_slashed:
  assumes "plain_path a" "plain_path b"
  shows "below (slashed a) (slashed b) \<noteq> None \<longleftrightarrow> (\<exists>c. c \<noteq> [] \<and> b = a @ c)"
    and "c \<noteq> [] \<Longrightarrow> b = a @ c \<Longrightarrow> below (slashed a) (slashed b) = Some (slashed c)"
proof -
  have a: "path_Clean (slashed a) = slashed a" "slashed a \<noteq> ''/''" "slashed a \<noteq> ''.''"
    using clean_slashed [OF assms(1)] slashed_head [OF assms(1)] split_slashed [OF assms(1)] assms(1)
    by (auto simp: plain_path_def plain_segment_def)
  have "a \<noteq> []" using assms(1) by (simp add: plain_path_def)
  with prefix_slashed [OF assms] show "below (slashed a) (slashed b) \<noteq> None \<longleftrightarrow> (\<exists>c. c \<noteq> [] \<and> b = a @ c)"
    by (auto simp: below_def a slashed_append Let_def split: if_splits)
  show "below (slashed a) (slashed b) = Some (slashed c)" if "c \<noteq> []" "b = a @ c"
    using that \<open>a \<noteq> []\<close> by (simp add: below_def a slashed_append)
qed

lemma segments_slashed: "plain_path a \<Longrightarrow> path_segments (slashed a) = a"
proof -
  assume p: "plain_path a"
  then have "slashed a \<noteq> ''.''"
    using split_slashed [OF p] by (auto simp: plain_path_def plain_segment_def)
  moreover have "filter (\<lambda>s. s \<noteq> []) a = a"
    using p by (auto simp: plain_path_def plain_segment_def list_all_iff intro: filter_True)
  ultimately show ?thesis using split_slashed [OF p] by (simp add: path_segments_def)
qed

lemma rel_slashed:
  assumes "plain_path a" "plain_path (a @ b)"
  shows "path_Rel (slashed a) (slashed (a @ b)) = Some (if b = [] then ''.'' else slashed b)"
proof -
  have "longest_common_prefix a (a @ b) = a" by (induction a) auto
  moreover have "\<not> prefix ''/'' (slashed a)" "\<not> prefix ''/'' (slashed (a @ b))"
    using slashed_head [OF assms(1)] slashed_head [OF assms(2)] by (auto simp: prefix_def)
  moreover have "slashed a = slashed (a @ b) \<longleftrightarrow> b = []" using slashed_inj [OF assms] by auto
  ultimately show ?thesis
    by (auto simp: path_Rel_def clean_slashed assms segments_slashed Let_def)
qed


section \<open>What a step leaves alone\<close>

definition tree_ok :: "tree \<Rightarrow> bool" where
  "tree_ok t \<longleftrightarrow> (\<forall>p. map_of t p \<noteq> None \<longrightarrow> (\<exists>segs. plain_path segs \<and> p = slashed segs))"

text \<open>The step keeps a tree well formed and every file outside \<open>X\<close>.\<close>

definition leaves :: "(string \<Rightarrow> bool) \<Rightarrow> 'a job \<Rightarrow> bool" where
  "leaves X job \<longleftrightarrow> (\<forall>t. tree_ok t \<longrightarrow> tree_ok (snd (job t)) \<and>
     (\<forall>p d. \<not> X p \<longrightarrow> map_of t p = Some (File d) \<longrightarrow> map_of (snd (job t)) p = Some (File d)))"

lemma leavesD: "leaves X job \<Longrightarrow> tree_ok t \<Longrightarrow> job t = (r, t') \<Longrightarrow>
    tree_ok t' \<and> (\<forall>p d. \<not> X p \<longrightarrow> map_of t p = Some (File d) \<longrightarrow> map_of t' p = Some (File d))"
  by (simp add: leaves_def) (metis snd_conv)

named_theorems leave_rules \<open>what a step of the release leaves alone\<close>

lemma leaves_finished [leave_rules]: "leaves X (finished x)"
  by (simp add: leaves_def finished_def)

lemma leaves_stopped [leave_rules]: "leaves X (stopped e)"
  by (simp add: leaves_def stopped_def)

lemma leaves_chain_result:
  assumes "leaves X m" "\<And>x t. tree_ok t \<Longrightarrow> fst (m t) = Inr x \<Longrightarrow> leaves X (f x)"
  shows "leaves X (chain m f)"
  unfolding leaves_def
proof (intro allI impI)
  fix t assume ok: "tree_ok t"
  obtain r t' where m: "m t = (r, t')" by (cases "m t")
  have one: "tree_ok t' \<and> (\<forall>p d. \<not> X p \<longrightarrow> map_of t p = Some (File d) \<longrightarrow> map_of t' p = Some (File d))"
    using assms(1) ok m unfolding leaves_def by (metis snd_conv)
  show "tree_ok (snd (chain m f t)) \<and>
    (\<forall>p d. \<not> X p \<longrightarrow> map_of t p = Some (File d) \<longrightarrow> map_of (snd (chain m f t)) p = Some (File d))"
  proof (cases r)
    case (Inl e)
    then show ?thesis using one by (simp add: chain_def m)
  next
    case (Inr x)
    then have "leaves X (f x)" using assms(2) [OF ok] m by simp
    then show ?thesis using one Inr unfolding leaves_def chain_def m by simp
  qed
qed

lemma leaves_chain [leave_rules]: "leaves X m \<Longrightarrow> (\<And>x. leaves X (f x)) \<Longrightarrow> leaves X (chain m f)"
  by (rule leaves_chain_result)

lemma leaves_each: "(\<And>x. x \<in> set xs \<Longrightarrow> leaves X (f x)) \<Longrightarrow> leaves X (each f xs)"
  by (induction xs) (auto intro!: leave_rules)

lemma leaves_mono: "leaves X job \<Longrightarrow> (\<And>p. X p \<Longrightarrow> Y p) \<Longrightarrow> leaves Y job"
  unfolding leaves_def by blast

lemma tree_ok_set: "tree_ok t \<Longrightarrow> plain_path segs \<Longrightarrow> tree_ok (map_set t (slashed segs) n)"
  by (auto simp: tree_ok_def gomap_simps)

lemma leaves_make_dir: "plain_path segs \<Longrightarrow> leaves X (make_dir (slashed segs))"
  by (auto simp: leaves_def make_dir_def tree_ok_set gomap_simps split: option.split node.split)

lemma ancestors_plain:
  assumes "plain_path segs" "a \<in> set (ancestors (slashed segs))"
  shows "\<exists>b. plain_path b \<and> a = slashed b"
proof -
  obtain b where b: "prefix b segs" "a = slashed b" "a \<noteq> []"
    using assms(2) by (auto simp: ancestors_def split_slashed [OF assms(1)])
  then have "b \<noteq> []" by auto
  moreover have "list_all plain_segment b"
    using b(1) assms(1) by (auto simp: plain_path_def prefix_def)
  ultimately show ?thesis using b(2) by (auto simp: plain_path_def)
qed

lemma leaves_MkdirAll: "plain_path segs \<Longrightarrow> leaves X (MkdirAll (slashed segs))"
  using slashed_head [of segs] ancestors_plain [of segs]
  by (auto simp: MkdirAll_def clean_slashed intro!: leaves_each intro: leaves_make_dir)

lemma dir_slashed: "plain_path (a @ [s]) \<Longrightarrow> path_Dir (slashed (a @ [s])) = (if a = [] then ''.'' else slashed a)"
proof -
  assume p: "plain_path (a @ [s])"
  then have s: "CHR ''/'' \<notin> set s" by (simp add: plain_path_def plain_segment_def)
  then have w: "dropWhile (\<lambda>c. c \<noteq> CHR ''/'') (rev s @ r) = dropWhile (\<lambda>c. c \<noteq> CHR ''/'') r" for r
    by (intro dropWhile_append2) auto
  show ?thesis
  proof (cases "a = []")
    case True
    have "dropWhile (\<lambda>c. c \<noteq> CHR ''/'') (rev s) = []" using w [of "[]"] by simp
    then have "path_Dir s = path_Clean []" unfolding path_Dir_def by (simp only: rev.simps(1))
    moreover have "path_Clean [] = ''.''" by code_simp
    ultimately show ?thesis using True by simp
  next
    case False
    then have pa: "plain_path a" using p by (simp add: plain_path_def)
    have "path_Dir (slashed (a @ [s])) = path_Clean (slashed a @ ''/'')"
      using False w [of "''/'' @ rev (slashed a)"] by (simp add: path_Dir_def slashed_append)
    moreover have "split_on (CHR ''/'') (slashed a @ ''/'') = a @ [[]]"
      using split_on_append_sep [of "CHR ''/''" "slashed a" "[]"] split_slashed [OF pa] by simp
    moreover have "clean_segments False [] (a @ [[]]) = a"
      using pa by (simp add: clean_segments_append clean_segments_plain plain_path_def)
    ultimately show ?thesis
      using False slashed_head [OF pa] pa by (simp add: path_Clean_def plain_path_def)
  qed
qed

lemma leaves_parents: "plain_path segs \<Longrightarrow> leaves X (MkdirAll (path_Dir (slashed segs)))"
proof (cases segs rule: rev_cases)
  case (snoc a s)
  assume p: "plain_path segs"
  have "MkdirAll ''.'' = finished ()" 
    by (simp add: MkdirAll_def ancestors_def path_Clean_def)
  then show ?thesis
    using p snoc dir_slashed [of a s] leaves_MkdirAll [of a X] by (auto simp: leaves_finished plain_path_def)
qed (simp add: plain_path_def)

lemma leaves_put_file: "plain_path segs \<Longrightarrow> X (slashed segs) \<Longrightarrow> leaves X (put_file (slashed segs) data)"
  by (auto simp: leaves_def put_file_def tree_ok_set gomap_simps)

lemma leaves_get_file [leave_rules]: "leaves X (get_file path)"
  by (auto simp: leaves_def get_file_def split: option.split node.split)

lemma leaves_sha256 [leave_rules]: "leaves X (sha256File tool path)"
  unfolding sha256File_def by (intro leave_rules)

lemma leaves_writeFile: "plain_path segs \<Longrightarrow> X (slashed segs) \<Longrightarrow> leaves X (writeFile (slashed segs) data)"
  unfolding writeFile_def by (intro leaves_chain leaves_parents leaves_put_file)

lemma leaves_copyFile: 
  assumes "plain_path segs" "X (slashed segs)" shows "leaves X (copyFile source (slashed segs))"
proof -
  have "leaves X (chain (MkdirAll (path_Dir (slashed segs))) (\<lambda>_. chain (put_file (slashed segs) []) (\<lambda>_.
      chain (get_file source) (put_file (slashed segs)))))"
    using assms by (intro leave_rules leaves_parents leaves_put_file)
  then show ?thesis by (auto simp: leaves_def copyFile_def stopped_def)
qed

lemma map_of_filter_keys: "map_of (filter (\<lambda>(p, _). P p) t) k = (if P k then map_of t k else None)"
  by (induction t) auto

lemma leaves_RemoveAll: "(\<And>p. p = path \<or> prefix (path @ ''/'') p \<Longrightarrow> X p) \<Longrightarrow> leaves X (RemoveAll path)"
  by (auto simp: leaves_def RemoveAll_def tree_ok_def
      map_of_filter_keys [of "\<lambda>p. p \<noteq> path \<and> \<not> prefix (path @ ''/'') p"] split: if_splits)

lemma leaves_remove_file: "X path \<Longrightarrow> leaves X (remove_file path)"
  by (auto simp: leaves_def remove_file_def tree_ok_def gomap_simps)

lemma leaves_WalkDir [leave_rules]: "leaves X (WalkDir root)"
  by (simp add: leaves_def WalkDir_def)


text \<open>Everything at or below a directory.\<close>

definition within :: "string list \<Rightarrow> string \<Rightarrow> bool" where
  "within dir p \<longleftrightarrow> (\<exists>c. plain_path (dir @ c) \<and> p = slashed (dir @ c)) \<or> p = slashed dir \<or> prefix (slashed dir @ ''/'') p"

lemma within_slashed: "plain_path (dir @ c) \<Longrightarrow> within dir (slashed (dir @ c))"
  by (auto simp: within_def)

lemma leaves_copy_entry:
  assumes "plain_path source" "plain_path target" "plain_path (source @ c)"
  shows "leaves (within target) (copy_entry (slashed source) (slashed target) (slashed (source @ c)))"
proof (cases "c = []")
  case True
  have "relative (slashed source) (slashed source) = finished ''.''"
    using rel_slashed [of source "[]"] assms(1) by (simp add: relative_def)
  then show ?thesis using True by (simp add: leaves_def copy_entry_def chain_def finished_def)
next
  case False
  then have c: "plain_path c" "plain_path (target @ c)" using assms by (auto simp: plain_path_def)
  have "relative (slashed source) (slashed (source @ c)) = finished (slashed c)"
    using rel_slashed [of source c] assms False by (simp add: relative_def)
  moreover have "slashed c \<noteq> ''.''" 
    using split_slashed [OF c(1)] c(1) by (auto simp: plain_path_def plain_segment_def)
  moreover have "leaves (within target) (MkdirAll (slashed (target @ c)))"
    "leaves (within target) (copyFile (slashed (source @ c)) (slashed (target @ c)))"
    using c(2) by (auto intro: leaves_MkdirAll leaves_copyFile within_slashed)
  ultimately show ?thesis
    using join_slashed [OF assms(2) c(1)] by (simp add: leaves_def copy_entry_def chain_def finished_def Let_def)
qed

lemma walk_results:
  assumes "tree_ok t" "fst (WalkDir (slashed root) t) = Inr paths" "plain_path root" "p \<in> set paths"
  shows "\<exists>c. plain_path (root @ c) \<and> p = slashed (root @ c)"
proof -
  have p: "p \<in> fst ` set t" "p = slashed root \<or> below (slashed root) p \<noteq> None"
    using assms(2,4) by (auto simp: WalkDir_def map_keys_def split: if_splits)
  then obtain segs where segs: "plain_path segs" "p = slashed segs"
    using assms(1) by (auto simp: tree_ok_def map_of_eq_None_iff)
  then show ?thesis
    using p(2) below_slashed(1) [OF assms(3) segs(1)] assms(3) by (cases "p = slashed root") (auto intro: exI [of _ "[]"])
qed

lemma leaves_copyDir:
  assumes "plain_path source" "plain_path target"
  shows "leaves (within target) (copyDir (slashed source) (slashed target))"
  unfolding copyDir_def
proof (rule leaves_chain_result [OF leaves_WalkDir leaves_each])
  fix paths t p assume "tree_ok t" "fst (WalkDir (slashed source) t) = Inr paths" "p \<in> set paths"
  then obtain c where "plain_path (source @ c)" "p = slashed (source @ c)"
    using walk_results [OF _ _ assms(1)] by blast
  then show "leaves (within target) (copy_entry (slashed source) (slashed target) p)"
    using leaves_copy_entry [OF assms] by simp
qed

lemma leaves_copyMarkdown:
  assumes "plain_path source" "plain_path target"
  shows "leaves (within target) (copyMarkdownFiles (slashed source) (slashed target))"
  unfolding leaves_def
proof (intro allI impI)
  fix t assume ok: "tree_ok t"
  have "leaves (within target) (copyFile (path_Join [slashed source, name]) (path_Join [slashed target, name]))"
    if "name \<in> set (markdown_names (slashed source) t)" for name
  proof -
    from that obtain p n where p: "(p, n) \<in> set t" "below (slashed source) p = Some name"
      by (auto simp: markdown_names_def map_filter_def split: option.splits if_splits)
    then obtain segs where segs: "plain_path segs" "p = slashed segs"
      using ok by (auto simp: tree_ok_def) (metis weak_map_of_SomeI not_None_eq)
    then obtain c where c: "c \<noteq> []" "segs = source @ c"
      using below_slashed(1) [OF assms(1) segs(1)] p(2) by auto
    then have "name = slashed c" using below_slashed(2) [OF assms(1) segs(1)] p(2) segs(2) by simp
    moreover have "plain_path c" "plain_path (target @ c)" using segs(1) c assms by (auto simp: plain_path_def)
    ultimately show ?thesis using join_slashed [OF assms(2)] by (auto intro: leaves_copyFile within_slashed)
  qed
  then have "leaves (within target) (each (\<lambda>name. copyFile (path_Join [slashed source, name]) (path_Join [slashed target, name]))
      (markdown_names (slashed source) t))" by (rule leaves_each)
  with ok show "tree_ok (snd (copyMarkdownFiles (slashed source) (slashed target) t)) \<and>
    (\<forall>p d. \<not> within target p \<longrightarrow> map_of t p = Some (File d) \<longrightarrow>
       map_of (snd (copyMarkdownFiles (slashed source) (slashed target) t)) p = Some (File d))"
    by (auto simp: copyMarkdownFiles_def leaves_def stopped_def split: option.split node.split)
qed

text \<open>\<open>go build\<close> writes nothing but its output.\<close>

definition go_writes_only_output :: "release_tool \<Rightarrow> bool" where
  "go_writes_only_output tool \<longleftrightarrow>
     (\<forall>pre out pkg env t p. p \<noteq> out \<longrightarrow> map_of (snd (tl_Exec tool (pre @ [''-o'', out, pkg]) env t)) p = map_of t p)"

lemma snd_exec: "snd (case x of (None, t) \<Rightarrow> (Inr (), t) | (Some e, t) \<Rightarrow> (Inl e, t)) = snd x"
  by (simp split: prod.split option.split)

lemma leaves_buildBinary:
  assumes "go_writes_only_output tool" "plain_path segs" "X (slashed segs)"
  shows "leaves X (buildBinary tool config target (slashed segs))"
  unfolding leaves_def
proof (intro allI impI)
  fix t assume ok: "tree_ok t"
  let ?t = "snd (buildBinary tool config target (slashed segs) t)"
  have same: "map_of ?t p = map_of t p" if "p \<noteq> slashed segs" for p
  proof -
    let ?cmd = "\<lambda>flags. [rc_GoCommand config, ''build'', ''-buildvcs=false'', ''-trimpath'', ''-ldflags'', flags]"
    obtain flags env where "?t = snd (tl_Exec tool (?cmd flags @ [''-o'', slashed segs, rc_Package config]) env t)"
      unfolding buildBinary_def Let_def snd_exec append_Cons append_Nil by blast
    then show ?thesis using assms(1) that unfolding go_writes_only_output_def by metis
  qed
  then have "tree_ok ?t" using ok assms(2) unfolding tree_ok_def by metis
  then show "tree_ok ?t \<and> (\<forall>p d. \<not> X p \<longrightarrow> map_of t p = Some (File d) \<longrightarrow> map_of ?t p = Some (File d))"
    using same assms(3) by metis
qed


section \<open>One target\<close>

lemma join_slashed_list: "plain_path a \<Longrightarrow> plain_path b \<Longrightarrow> path_Join (slashed a # b) = slashed (a @ b)"
proof -
  assume p: "plain_path a" "plain_path b"
  then obtain x xs where b: "b = x # xs" by (cases b) (auto simp: plain_path_def)
  have "slashed (slashed a # b) = slashed (a @ b)"
    using p by (simp add: b slashed_append plain_path_def)
  then show ?thesis using clean_slashed [of "a @ b"] p by (simp add: path_Join_def plain_append plain_path_def)
qed

lemma within_sub:
  assumes "plain_path a" "plain_path sub" "within (a @ sub) p" shows "within a p"
proof -
  have s: "slashed (a @ sub) = slashed a @ ''/'' @ slashed sub"
    using assms by (simp add: slashed_append plain_path_def)
  have "plain_path (a @ sub)" using assms by (simp add: plain_path_def)
  with assms(3) show ?thesis
    by (auto simp: within_def s intro: exI [of _ "sub @ c" for c] append_prefixD)
qed

lemma leaves_copyReleaseFiles:
  assumes stage: "plain_path stage"
  shows "leaves (within stage) (copyReleaseFiles (slashed stage))"
proof -
  have sub: "path_Join (slashed stage # b) = slashed (stage @ b)" "plain_path (stage @ b)" "plain_path b"
    if "b \<in> {[''README.md''], [''SKILL.md''], [''deploy'', ''systemd''], [''runtimes''], [''docs'']}" for b
  proof -
    show "plain_path b" using that by (auto simp: plain_path_def plain_segment_def)
    with stage show "path_Join (slashed stage # b) = slashed (stage @ b)" "plain_path (stage @ b)"
      by (auto intro: join_slashed_list simp: plain_path_def)
  qed
  have dir: "leaves (within stage) (copyDir (slashed b) (path_Join (slashed stage # b)))"
      "leaves (within stage) (copyMarkdownFiles (slashed b) (path_Join (slashed stage # b)))"
    if b: "b \<in> {[''deploy'', ''systemd''], [''runtimes''], [''docs'']}" for b
  proof -
    have "b \<in> {[''README.md''], [''SKILL.md''], [''deploy'', ''systemd''], [''runtimes''], [''docs'']}" using b by blast
    note at = sub [OF this]
    show "leaves (within stage) (copyDir (slashed b) (path_Join (slashed stage # b)))"
      unfolding at(1)
      by (rule leaves_mono [OF leaves_copyDir [OF at(3,2)]]) (rule within_sub [OF stage at(3)])
    show "leaves (within stage) (copyMarkdownFiles (slashed b) (path_Join (slashed stage # b)))"
      unfolding at(1)
      by (rule leaves_mono [OF leaves_copyMarkdown [OF at(3,2)]]) (rule within_sub [OF stage at(3)])
  qed
  have "leaves (within stage) (copyFile name (path_Join [slashed stage, name]))"
    if "name \<in> {''README.md'', ''SKILL.md''}" for name
    using that sub [of "[name]"] by (auto intro!: leaves_copyFile within_slashed)
  moreover have "leaves (within stage) (copyDir ''deploy/systemd'' (path_Join [slashed stage, ''deploy'', ''systemd'']))"
    "leaves (within stage) (copyDir ''runtimes'' (path_Join [slashed stage, ''runtimes'']))"
    "leaves (within stage) (copyMarkdownFiles ''docs'' (path_Join [slashed stage, ''docs'']))"
    using dir(1) [of "[''deploy'', ''systemd'']"] dir(1) [of "[''runtimes'']"] dir(2) [of "[''docs'']"] by simp_all
  ultimately show ?thesis
    unfolding copyReleaseFiles_def by (intro leaves_chain leaves_each) auto
qed

lemma leaves_stage_target:
  assumes "go_writes_only_output tool" "plain_path stage"
    and "plain_segment (binaryNameForTarget (rc_App config) (tg_OS target))"
  shows "leaves (within stage) (stage_target tool config target sbom (slashed stage))"
proof -
  have sub: "path_Join (slashed stage # b) = slashed (stage @ b)" "plain_path (stage @ b)"
    if "plain_path b" for b
    using that assms(2) by (auto intro: join_slashed_list simp: plain_path_def)
  let ?subs = "[[''deploy'', ''systemd''], [''docs''], [''runtimes''], [''release'']]"
  have plain: "plain_path b" if "b \<in> set ?subs \<union> {[''release'', ''build.json''], [''release'', ''sbom.spdx.json''],
      [binaryNameForTarget (rc_App config) (tg_OS target)]}" for b
    using that assms(3) by (auto simp: plain_path_def plain_segment_def)
  have "leaves (within stage) (RemoveAll (slashed stage))"
    by (rule leaves_RemoveAll) (auto simp: within_def)
  moreover have "leaves (within stage) (each (\<lambda>sub. MkdirAll (path_Join (slashed stage # sub))) ?subs)"
    by (rule leaves_each) (metis UnI1 leaves_MkdirAll plain sub(1) sub(2))
  moreover have "leaves (within stage) (buildBinary tool config target
      (path_Join [slashed stage, binaryNameForTarget (rc_App config) (tg_OS target)]))"
    using plain sub by (auto intro!: leaves_buildBinary assms(1) within_slashed)
  moreover have "leaves (within stage) (writeFile (path_Join [slashed stage, ''release'', ''build.json'']) data)"
    "leaves (within stage) (writeFile (path_Join [slashed stage, ''release'', ''sbom.spdx.json'']) data)" for data
    using plain sub by (auto intro!: leaves_writeFile within_slashed)
  ultimately show ?thesis
    using leaves_copyReleaseFiles [OF assms(2)] unfolding stage_target_def writeJSONFile_def
    by (intro leaves_chain)
qed

lemma leaves_archive:
  assumes "plain_path segs" "X (slashed segs)"
  shows "leaves X (create_archive encode name base source (slashed segs))"
proof -
  have "leaves X (\<lambda>t. case archive_entries name base t paths of (entries, err) \<Rightarrow>
      chain (put_file (slashed segs) (encode entries)) (\<lambda>_. case err of None \<Rightarrow> finished () | Some e \<Rightarrow> stopped e) t)" for paths
  proof -
    have "leaves X (chain (put_file (slashed segs) data) (\<lambda>_. case err of None \<Rightarrow> finished () | Some e \<Rightarrow> stopped e))" for data err
      by (intro leave_rules leaves_put_file assms) (cases err; auto intro: leave_rules)
    then show ?thesis unfolding leaves_def by (auto split: prod.split)
  qed
  then show ?thesis unfolding create_archive_def by (intro leave_rules leaves_put_file assms)
qed


section \<open>What a successful step has done\<close>

lemma chain_success: "chain m f t = (Inr y, t') \<longleftrightarrow> (\<exists>x t1. m t = (Inr x, t1) \<and> f x t1 = (Inr y, t'))"
  by (auto simp: chain_def split: prod.split sum.split)

lemma put_file_success: "put_file path data t = (Inr u, t') \<Longrightarrow> t' = map_set t path (File data)"
  by (simp add: put_file_def split: if_splits)

lemma writeFile_success: "writeFile path data t = (Inr u, t') \<Longrightarrow> map_of t' path = Some (File data)"
  by (auto simp: writeFile_def chain_success gomap_simps dest!: put_file_success)

lemma sha256_success:
  "sha256File tool path t = (Inr h, t') \<Longrightarrow> t' = t \<and> (\<exists>d. map_of t path = Some (File d) \<and> h = tl_sha256 tool d)"
  by (auto simp: sha256File_def chain_success get_file_def finished_def split: option.splits node.splits)

lemma archive_entry:
  "archive_entries name base t paths = (entries, None) \<Longrightarrow> p \<in> set paths \<Longrightarrow> path_Rel base p = Some rel \<Longrightarrow>
   map_of t p = Some (File d) \<Longrightarrow> (name rel (File d), File d) \<in> set entries"
proof (induction paths arbitrary: entries)
  case (Cons path paths)
  then obtain r rest where r: "path_Rel base path = Some r" "archive_entries name base t paths = (rest, None)"
      "set rest \<subseteq> set entries"
      "(name r (case map_of t path of Some (File data) \<Rightarrow> File data | _ \<Rightarrow> Dir),
        case map_of t path of Some (File data) \<Rightarrow> File data | _ \<Rightarrow> Dir) \<in> set entries"
    by (cases "archive_entries name base t paths") (auto simp: Let_def subset_insertI split: option.splits)
  show ?case
  proof (cases "p = path")
    case True
    then show ?thesis using Cons.prems r by simp
  next
    case False
    then show ?thesis using Cons.IH [OF r(2)] Cons.prems r(3) by auto
  qed
qed simp

text \<open>The archive that was written lists every file of the tree below its source.\<close>

lemma archive_success:
  assumes "create_archive encode name base (slashed source) target t = (Inr u, t')" "plain_path source"
  shows "\<exists>entries. map_of t' target = Some (File (encode entries)) \<and>
    (\<forall>c rel d. c \<noteq> [] \<longrightarrow> plain_path (source @ c) \<longrightarrow> slashed (source @ c) \<noteq> target \<longrightarrow>
       path_Rel base (slashed (source @ c)) = Some rel \<longrightarrow> map_of t (slashed (source @ c)) = Some (File d) \<longrightarrow>
       (name rel (File d), File d) \<in> set entries)"
proof -
  let ?t = "map_set t target (File (encode []))"
  obtain paths entries t2 where w: "WalkDir (slashed source) ?t = (Inr paths, t2)"
      "archive_entries name base t2 paths = (entries, None)" "map_of t' target = Some (File (encode entries))"
  proof -
    obtain u1 paths t1 t2 where step: "put_file target (encode []) t = (Inr u1, t1)" "WalkDir (slashed source) t1 = (Inr paths, t2)"
      "(case archive_entries name base t2 paths of (entries, err) \<Rightarrow>
         chain (put_file target (encode entries)) (\<lambda>_. case err of None \<Rightarrow> finished () | Some e \<Rightarrow> stopped e) t2) = (Inr u, t')"
      using assms(1) unfolding create_archive_def chain_success by blast
    obtain entries err where e: "archive_entries name base t2 paths = (entries, err)" by (cases "archive_entries name base t2 paths")
    have "err = None" "map_of t' target = Some (File (encode entries))"
      using step(3) e by (auto simp: chain_success finished_def stopped_def gomap_simps dest!: put_file_success
          split: option.splits)
    then show ?thesis using that step(1,2) e put_file_success by metis
  qed
  have paths: "t2 = ?t" "p \<in> set paths \<longleftrightarrow> p \<in> fst ` set ?t \<and> (p = slashed source \<or> below (slashed source) p \<noteq> None)" for p
  proof -
    have "t2 = ?t \<and> paths = sort_key (split_on (CHR ''/''))
        (filter (\<lambda>p. p = slashed source \<or> below (slashed source) p \<noteq> None) (map_keys ?t))"
      using w(1) by (auto simp: WalkDir_def split: if_splits)
    then show "t2 = ?t" "p \<in> set paths \<longleftrightarrow> p \<in> fst ` set ?t \<and> (p = slashed source \<or> below (slashed source) p \<noteq> None)" for p
      by (simp_all add: map_keys_def)
  qed
  have "(name rel (File d), File d) \<in> set entries"
    if c: "c \<noteq> []" "plain_path (source @ c)" "slashed (source @ c) \<noteq> target"
      "path_Rel base (slashed (source @ c)) = Some rel" "map_of t (slashed (source @ c)) = Some (File d)" for c rel d
  proof -
    have "map_of ?t (slashed (source @ c)) = Some (File d)" using c by (simp add: gomap_simps)
    moreover from this have "slashed (source @ c) \<in> set paths"
      using paths(2) below_slashed(1) [OF assms(2) c(2)] c(1) by (auto dest: map_of_SomeD intro: rev_image_eqI)
    ultimately show ?thesis using archive_entry [OF w(2) _ c(4)] paths(1) by simp
  qed
  then show ?thesis using w(3) by blast
qed

text \<open>What the files of a release say of an artifact is so.\<close>

definition valid_artifact :: "release_tool \<Rightarrow> releaseConfig \<Rightarrow> string \<Rightarrow> tree \<Rightarrow> releaseArtifact \<Rightarrow> bool" where
  "valid_artifact tool config sbom t a \<longleftrightarrow>
     (\<exists>entries bin.
        let archive = (if ar_OS a = ''windows'' then tl_zip tool else tl_tar tool) entries
        in map_of t (path_Join [rc_DistDir config, ar_Archive a]) = Some (File archive) \<and>
           ar_SHA256 a = tl_sha256 tool archive \<and>
           (slashed [ar_Name a, ar_Binary a], File bin) \<in> set entries \<and> ar_BinaryHash a = tl_sha256 tool bin \<and>
           (slashed [ar_Name a, ''release'', ''sbom.spdx.json''], File sbom) \<in> set entries)"

definition archive_of :: "releaseConfig \<Rightarrow> releaseTarget \<Rightarrow> string" where
  "archive_of config target = archiveNameForTarget (releaseName config target) (tg_OS target)"

text \<open>The names of a release are plain segments, and no archive has the name of another output.\<close>

definition separate_names :: "releaseConfig \<Rightarrow> bool" where
  "separate_names config \<longleftrightarrow>
     plain_segment (rc_App config) \<and> list_all (\<lambda>target. plain_segment (releaseName config target)) (rc_Targets config) \<and>
     distinct (map (archive_of config) (rc_Targets config) @ map (releaseName config) (rc_Targets config))"

lemma base_slashed: "plain_path (a @ [s]) \<Longrightarrow> path_Base (slashed (a @ [s])) = s"
proof -
  assume p: "plain_path (a @ [s])"
  then have s: "CHR ''/'' \<notin> set s" "s \<noteq> []" by (simp_all add: plain_path_def plain_segment_def)
  have fin: "last s \<noteq> CHR ''/''" using s by (metis last_in_set)
  have path: "\<exists>pre. slashed (a @ [s]) = pre @ s \<and> (pre = [] \<or> last pre = CHR ''/'')"
    by (cases "a = []") (auto simp: slashed_append intro: exI [of _ "slashed a @ ''/''"])
  then obtain pre where pre: "slashed (a @ [s]) = pre @ s" "pre = [] \<or> last pre = CHR ''/''" by blast
  have "trim_right_set ''/'' (pre @ s) = pre @ s"
  proof -
    have "dropWhile (\<lambda>c. c \<in> set ''/'') (rev (pre @ s)) = rev (pre @ s)"
      by (rule dropWhile_hd_fix) (use s fin in \<open>auto simp: hd_append hd_rev\<close>)
    then show ?thesis by (simp add: trim_right_set_def)
  qed
  moreover have "takeWhile (\<lambda>c. c \<noteq> CHR ''/'') (rev s @ rev pre) = rev s"
  proof -
    have "takeWhile (\<lambda>c. c \<noteq> CHR ''/'') (rev pre) = []"
      using pre(2) by (cases pre rule: rev_cases) auto
    moreover have "\<And>c. c \<in> set (rev s) \<Longrightarrow> c \<noteq> CHR ''/''" using s(1) by auto
    ultimately show ?thesis by (subst takeWhile_append2) auto
  qed
  ultimately show ?thesis using s(2) by (simp add: path_Base_def pre(1) Let_def)
qed


lemma stage_success:
  assumes "stage_target tool config target sbom stageDir t = (Inr u, t')"
  shows "map_of t' (path_Join [stageDir, ''release'', ''sbom.spdx.json'']) = Some (File sbom)"
  using assms unfolding stage_target_def chain_success by (blast dest: writeFile_success)

lemma plain_outputs:
  assumes "plain_segment name" "plain_segment app"
  shows "plain_segment (archiveNameForTarget name os)" "plain_segment (binaryNameForTarget app os)"
  using assms by (auto simp: plain_segment_def archiveNameForTarget_def binaryNameForTarget_def)

lemma build_target_success:
  assumes run: "buildReleaseTarget tool config sbom target t = (Inr a, t')"
    and go: "go_writes_only_output tool" and ok: "tree_ok t"
    and dist: "rc_DistDir config = slashed ds" "plain_path ds"
    and names: "plain_segment (rc_App config)" "plain_segment (releaseName config target)"
  shows "valid_artifact tool config sbom t' a \<and> tree_ok t' \<and> ar_OS a = tg_OS target \<and> ar_Arch a = tg_Arch target \<and>
    ar_Archive a = archive_of config target \<and>
    (\<forall>p d. \<not> within (ds @ [releaseName config target]) p \<longrightarrow> p \<noteq> slashed (ds @ [archive_of config target]) \<longrightarrow>
       map_of t p = Some (File d) \<longrightarrow> map_of t' p = Some (File d))"
proof -
  let ?name = "releaseName config target" and ?arch = "archive_of config target"
  let ?bin = "binaryNameForTarget (rc_App config) (tg_OS target)"
  let ?stage = "ds @ [?name]" and ?archive = "slashed (ds @ [?arch])"
  let ?encode = "if tg_OS target = ''windows'' then tl_zip tool else tl_tar tool"
  let ?entry = "\<lambda>rel n. if tg_OS target = ''windows'' \<and> n = Dir then rel @ ''/'' else rel"
  have plain: "plain_segment ?arch" "plain_segment ?bin"
    using plain_outputs [OF names(2,1)] by (simp_all add: archive_of_def)
  have paths: "plain_path ?stage" "plain_path (ds @ [?arch])" "plain_path (?stage @ [?bin])"
      "plain_path (?stage @ [''release'', ''sbom.spdx.json''])"
    using dist(2) names plain by (auto simp: plain_path_def plain_segment_def)
  have join: "path_Join [slashed ds, ?name] = slashed ?stage" "path_Join [slashed ds, ?arch] = ?archive"
      "path_Join [slashed ?stage, ?bin] = slashed (?stage @ [?bin])"
      "path_Join [slashed ?stage, ''release'', ''sbom.spdx.json''] = slashed (?stage @ [''release'', ''sbom.spdx.json''])"
    using join_slashed_list [OF dist(2), of "[?name]"] join_slashed_list [OF dist(2), of "[?arch]"]
      join_slashed_list [OF paths(1), of "[?bin]"] join_slashed_list [OF paths(1), of "[''release'', ''sbom.spdx.json'']"]
      names plain by (auto simp: plain_path_def plain_segment_def)
  have create: "(if tg_OS target = ''windows'' then createZipArchive tool else createTarGzArchive tool) =
      create_archive ?encode ?entry"
    by (simp add: createZipArchive_def createTarGzArchive_def)
  obtain u t1 bh t2 u3 t3 u4 t4 ah where steps: "stage_target tool config target sbom (slashed ?stage) t = (Inr u, t1)"
      "sha256File tool (slashed (?stage @ [?bin])) t1 = (Inr bh, t2)"
      "remove_file ?archive t2 = (Inr u3, t3)"
      "create_archive ?encode ?entry (slashed ds) (slashed ?stage) ?archive t3 = (Inr u4, t4)"
      "sha256File tool ?archive t4 = (Inr ah, t')"
      "a = \<lparr>ar_Name = ?name, ar_OS = tg_OS target, ar_Arch = tg_Arch target, ar_Archive = path_Base ?archive,
         ar_SHA256 = ah, ar_Binary = ?bin, ar_BinaryHash = bh\<rparr>"
    using run unfolding buildReleaseTarget_def Let_def dist(1) join(1) join(3) archive_of_def [symmetric] join(2) create
      chain_success finished_def by (auto simp: finished_def)
  have kept: "tree_ok t1 \<and> (\<forall>p d. \<not> within ?stage p \<longrightarrow> map_of t p = Some (File d) \<longrightarrow> map_of t1 p = Some (File d))"
    by (rule leavesD [OF leaves_stage_target [OF go paths(1) plain(2)] ok steps(1)])
  obtain bin where bin: "t2 = t1" "map_of t1 (slashed (?stage @ [?bin])) = Some (File bin)" "bh = tl_sha256 tool bin"
    using sha256_success [OF steps(2)] by blast
  have removed: "tree_ok t3 \<and> (\<forall>p d. p \<noteq> ?archive \<longrightarrow> map_of t1 p = Some (File d) \<longrightarrow> map_of t3 p = Some (File d))"
    by (rule leavesD [OF leaves_remove_file [of "\<lambda>p. p = ?archive"] _ steps(3) [unfolded bin(1)]]) (simp_all add: kept)
  have packed: "tree_ok t4 \<and> (\<forall>p d. p \<noteq> ?archive \<longrightarrow> map_of t3 p = Some (File d) \<longrightarrow> map_of t4 p = Some (File d))"
    by (rule leavesD [OF leaves_archive [OF paths(2), of "\<lambda>p. p = ?archive"] _ steps(4)]) (simp_all add: removed)
  have apart: "slashed (?stage @ c) \<noteq> ?archive" if "c \<noteq> []" "plain_path (?stage @ c)" for c
    using slashed_inj [OF that(2) paths(2)] that(1) by auto
  have rel: "path_Rel (slashed ds) (slashed (?stage @ c)) = Some (slashed (?name # c))" if "plain_path (?stage @ c)" for c
    using rel_slashed [OF dist(2), of "?name # c"] that by simp
  obtain entries where packed_entries: "map_of t4 ?archive = Some (File (?encode entries))"
      "\<forall>c rel d. c \<noteq> [] \<longrightarrow> plain_path (?stage @ c) \<longrightarrow> slashed (?stage @ c) \<noteq> ?archive \<longrightarrow>
         path_Rel (slashed ds) (slashed (?stage @ c)) = Some rel \<longrightarrow> map_of t3 (slashed (?stage @ c)) = Some (File d) \<longrightarrow>
         (?entry rel (File d), File d) \<in> set entries"
    using archive_success [OF steps(4) paths(1)] by (elim exE conjE)
  have listed: "(slashed (?name # c), File d) \<in> set entries"
    if "c \<noteq> []" "plain_path (?stage @ c)" "map_of t3 (slashed (?stage @ c)) = Some (File d)" for c d
    using packed_entries(2) [rule_format, OF that(1,2) apart [OF that(1,2)] rel [OF that(2)] that(3)] by simp
  have "(slashed [?name, ?bin], File bin) \<in> set entries"
    by (rule listed) (use paths(3) removed bin(2) apart [of "[?bin]"] in auto)
  moreover have "map_of t1 (slashed (?stage @ [''release'', ''sbom.spdx.json''])) = Some (File sbom)"
    using stage_success [OF steps(1)] join(4) by simp
  then have "(slashed [?name, ''release'', ''sbom.spdx.json''], File sbom) \<in> set entries"
    by (intro listed) (use paths(4) removed apart [of "[''release'', ''sbom.spdx.json'']"] in auto)
  moreover have hash: "t' = t4" "ah = tl_sha256 tool (?encode entries)"
    using sha256_success [OF steps(5)] packed_entries(1) by auto
  moreover have "path_Base ?archive = ?arch" using base_slashed [OF paths(2)] .
  ultimately have "valid_artifact tool config sbom t' a"
    using packed_entries(1) bin(3) join(2) unfolding valid_artifact_def
    by (intro exI [of _ entries] exI [of _ bin]) (simp add: steps(6) dist(1) Let_def)
  then show ?thesis
    using kept removed packed hash(1) steps(6) \<open>path_Base ?archive = ?arch\<close> by simp
qed


section \<open>The release\<close>

lemma valid_artifact_kept:
  assumes "valid_artifact tool config sbom t a"
    "\<And>d. map_of t (path_Join [rc_DistDir config, ar_Archive a]) = Some (File d) \<Longrightarrow>
       map_of t' (path_Join [rc_DistDir config, ar_Archive a]) = Some (File d)"
  shows "valid_artifact tool config sbom t' a"
proof -
  obtain entries bin where e: "let archive = (if ar_OS a = ''windows'' then tl_zip tool else tl_tar tool) entries
        in map_of t (path_Join [rc_DistDir config, ar_Archive a]) = Some (File archive) \<and>
           ar_SHA256 a = tl_sha256 tool archive \<and>
           (slashed [ar_Name a, ar_Binary a], File bin) \<in> set entries \<and> ar_BinaryHash a = tl_sha256 tool bin \<and>
           (slashed [ar_Name a, ''release'', ''sbom.spdx.json''], File sbom) \<in> set entries"
    using assms(1) unfolding valid_artifact_def by blast
  show ?thesis
    unfolding valid_artifact_def
    by (intro exI [of _ entries] exI [of _ bin]) (use e assms(2) in \<open>simp add: Let_def\<close>)
qed

text \<open>A file in the distribution directory that is neither the archive nor the staging directory of a target.\<close>

lemma outside_target:
  assumes "plain_path (ds @ [f])" "plain_path (ds @ [name])" "f \<noteq> name"
  shows "\<not> within (ds @ [name]) (slashed (ds @ [f]))"
proof
  assume "within (ds @ [name]) (slashed (ds @ [f]))"
  then consider c where "plain_path ((ds @ [name]) @ c)" "slashed (ds @ [f]) = slashed ((ds @ [name]) @ c)"
    | "slashed (ds @ [f]) = slashed (ds @ [name])" | "prefix (slashed (ds @ [name]) @ ''/'') (slashed (ds @ [f]))"
    by (auto simp: within_def)
  then show False
  proof cases
    case (1 c)
    then show ?thesis using slashed_inj [OF assms(1) 1(1)] assms(3) by simp
  next
    case 2
    then show ?thesis using slashed_inj [OF assms(1,2)] assms(3) by simp
  next
    case 3
    then show ?thesis using prefix_slashed [OF assms(2,1)] by auto
  qed
qed

lemma build_targets_success:
  assumes "build_targets tool config sbom targets t = (Inr artifacts, t')"
    and "go_writes_only_output tool" "tree_ok t" "rc_DistDir config = slashed ds" "plain_path ds"
    and "plain_segment (rc_App config)" "list_all (\<lambda>target. plain_segment (releaseName config target)) targets"
    and "distinct (map (archive_of config) targets @ map (releaseName config) targets)"
  shows "tree_ok t' \<and> map (\<lambda>a. (ar_OS a, ar_Arch a)) artifacts = map (\<lambda>g. (tg_OS g, tg_Arch g)) targets \<and>
    map ar_Archive artifacts = map (archive_of config) targets \<and>
    (\<forall>a \<in> set artifacts. valid_artifact tool config sbom t' a) \<and>
    (\<forall>f d. plain_path (ds @ [f]) \<longrightarrow> f \<notin> set (map (archive_of config) targets @ map (releaseName config) targets) \<longrightarrow>
       map_of t (slashed (ds @ [f])) = Some (File d) \<longrightarrow> map_of t' (slashed (ds @ [f])) = Some (File d))"
  using assms
proof (induction targets arbitrary: t artifacts)
  case Nil
  then show ?case by (simp add: finished_def)
next
  case (Cons target targets)
  obtain a t1 as where steps: "buildReleaseTarget tool config sbom target t = (Inr a, t1)"
      "build_targets tool config sbom targets t1 = (Inr as, t')" "artifacts = a # as"
    using Cons.prems(1) by (auto simp: chain_success finished_def)
  have plain: "plain_segment (releaseName config target)" "plain_segment (archive_of config target)"
    using Cons.prems(6,7) plain_outputs by (simp_all add: archive_of_def)
  then have at: "plain_path (ds @ [releaseName config target])" "plain_path (ds @ [archive_of config target])"
    using Cons.prems(5) by (simp_all add: plain_path_def)
  note first = build_target_success [OF steps(1) Cons.prems(2,3,4,5,6) plain(1)]
  have rest: "tree_ok t' \<and> map (\<lambda>a. (ar_OS a, ar_Arch a)) as = map (\<lambda>g. (tg_OS g, tg_Arch g)) targets \<and>
      map ar_Archive as = map (archive_of config) targets \<and> (\<forall>a \<in> set as. valid_artifact tool config sbom t' a) \<and>
      (\<forall>f d. plain_path (ds @ [f]) \<longrightarrow> f \<notin> set (map (archive_of config) targets @ map (releaseName config) targets) \<longrightarrow>
         map_of t1 (slashed (ds @ [f])) = Some (File d) \<longrightarrow> map_of t' (slashed (ds @ [f])) = Some (File d))"
    by (rule Cons.IH [OF steps(2)]) (use Cons.prems first in auto)
  have "path_Join [rc_DistDir config, archive_of config target] = slashed (ds @ [archive_of config target])"
    using join_slashed_list [OF Cons.prems(5), of "[archive_of config target]"] plain Cons.prems(4) by (simp add: plain_path_def)
  moreover have "archive_of config target \<notin> set (map (archive_of config) targets @ map (releaseName config) targets)"
    using Cons.prems(8) by auto
  ultimately have archive: "path_Join [rc_DistDir config, archive_of config target] = slashed (ds @ [archive_of config target])"
    "archive_of config target \<notin> set (map (archive_of config) targets @ map (releaseName config) targets)" by blast+
  have names: "ar_OS a = tg_OS target" "ar_Arch a = tg_Arch target" "ar_Archive a = archive_of config target"
      "valid_artifact tool config sbom t1 a" using first by blast+
  have one: "map_of t1 p = Some (File d)"
    if "\<not> within (ds @ [releaseName config target]) p" "p \<noteq> slashed (ds @ [archive_of config target])"
      "map_of t p = Some (File d)" for p d
    using first that by blast
  have more: "tree_ok t'" "map (\<lambda>a. (ar_OS a, ar_Arch a)) as = map (\<lambda>g. (tg_OS g, tg_Arch g)) targets"
      "map ar_Archive as = map (archive_of config) targets" "\<forall>a \<in> set as. valid_artifact tool config sbom t' a"
    using rest by blast+
  have two: "map_of t' (slashed (ds @ [f])) = Some (File d)"
    if "plain_path (ds @ [f])" "f \<notin> set (map (archive_of config) targets @ map (releaseName config) targets)"
      "map_of t1 (slashed (ds @ [f])) = Some (File d)" for f d
    using rest that by blast
  have valid: "valid_artifact tool config sbom t' a"
    by (rule valid_artifact_kept [OF names(4)]) (use two [OF at(2) archive(2)] names(3) archive(1) in simp)
  have "map_of t' (slashed (ds @ [f])) = Some (File d)"
    if f: "plain_path (ds @ [f])" "f \<notin> set (map (archive_of config) (target # targets) @ map (releaseName config) (target # targets))"
      "map_of t (slashed (ds @ [f])) = Some (File d)" for f d
  proof (rule two [OF f(1)])
    have "f \<noteq> releaseName config target" "f \<noteq> archive_of config target" using f(2) by auto
    then show "map_of t1 (slashed (ds @ [f])) = Some (File d)"
      using one [OF outside_target [OF f(1) at(1)] _ f(3)] slashed_inj [OF f(1) at(2)] by auto
  qed (use f(2) in auto)
  then show ?case unfolding steps(3) using more valid names by (intro conjI) simp_all
qed


definition manifest_for :: "releaseConfig \<Rightarrow> releaseArtifact list \<Rightarrow> releaseManifest" where
  "manifest_for config artifacts =
     \<lparr>mf_App = rc_App config, mf_Version = rc_Version config, mf_Commit = rc_Commit config,
      mf_BuildDate = rc_BuildDate config, mf_Artifacts = artifacts\<rparr>"

lemma archive_of_end: "archive_of config target \<notin> {''manifest.json'', ''sbom.spdx.json'', ''checksums.txt''}"
proof -
  have "last (archive_of config target) \<in> {CHR ''p'', CHR ''z''}"
    by (simp add: archive_of_def archiveNameForTarget_def)
  then show ?thesis by auto
qed

text \<open>The files written after the targets leave the archives alone.\<close>

lemma written_beside:
  assumes "writeFile (slashed (ds @ [f])) data t = (Inr u, t')" "tree_ok t" "plain_path (ds @ [f])" "plain_path (ds @ [g])" "f \<noteq> g"
  shows "tree_ok t'" "map_of t (slashed (ds @ [g])) = Some (File d) \<Longrightarrow> map_of t' (slashed (ds @ [g])) = Some (File d)"
proof -
  have "leaves (\<lambda>p. p = slashed (ds @ [f])) (writeFile (slashed (ds @ [f])) data)"
    by (rule leaves_writeFile [OF assms(3)]) simp
  note left = leavesD [OF this assms(2,1)]
  then show "tree_ok t'" by blast
  show "map_of t' (slashed (ds @ [g])) = Some (File d)" if "map_of t (slashed (ds @ [g])) = Some (File d)"
    using left that slashed_inj [OF assms(4,3)] assms(5) by auto
qed

lemma plain_here:
  assumes "plain_path ds" "plain_segment f"
  shows "plain_path (ds @ [f])" "path_Join [slashed ds, f] = slashed (ds @ [f])"
  using assms join_slashed_list [OF assms(1), of "[f]"] by (simp_all add: plain_path_def)

lemma final_writes:
  assumes steps: "writeFile (slashed (ds @ [''manifest.json''])) manifest t2 = (Inr u3, t3)"
      "writeFile (slashed (ds @ [''sbom.spdx.json''])) sbom t3 = (Inr u4, t4)"
      "writeFile (slashed (ds @ [''checksums.txt''])) sums t4 = (Inr u5, t')"
    and ok: "tree_ok t2" and ds: "plain_path ds"
  shows "map_of t' (slashed (ds @ [''manifest.json''])) = Some (File manifest) \<and>
    map_of t' (slashed (ds @ [''checksums.txt''])) = Some (File sums)"
    and "plain_segment g \<Longrightarrow> g \<notin> {''manifest.json'', ''sbom.spdx.json'', ''checksums.txt''} \<Longrightarrow>
      map_of t2 (slashed (ds @ [g])) = Some (File d) \<Longrightarrow> map_of t' (slashed (ds @ [g])) = Some (File d)"
proof -
  have plain: "plain_path (ds @ [''manifest.json''])" "plain_path (ds @ [''sbom.spdx.json''])"
      "plain_path (ds @ [''checksums.txt''])"
    using ds by (simp_all add: plain_path_def plain_segment_def)
  have ok3: "tree_ok t3" by (rule written_beside(1) [OF steps(1) ok plain(1,2)]) simp
  have ok4: "tree_ok t4" by (rule written_beside(1) [OF steps(2) ok3 plain(2,1)]) simp
  have later: "map_of t' (slashed (ds @ [g])) = Some (File d)"
    if "plain_path (ds @ [g])" "g \<noteq> ''sbom.spdx.json''" "g \<noteq> ''checksums.txt''" "map_of t3 (slashed (ds @ [g])) = Some (File d)" for g d
    using written_beside(2) [OF steps(3) ok4 plain(3) that(1)] written_beside(2) [OF steps(2) ok3 plain(2) that(1)] that(2-4)
    by blast
  show "map_of t' (slashed (ds @ [''manifest.json''])) = Some (File manifest) \<and>
      map_of t' (slashed (ds @ [''checksums.txt''])) = Some (File sums)"
    using later [OF plain(1)] writeFile_success [OF steps(1)] writeFile_success [OF steps(3)] by simp
  show "map_of t' (slashed (ds @ [g])) = Some (File d)"
    if "plain_segment g" "g \<notin> {''manifest.json'', ''sbom.spdx.json'', ''checksums.txt''}" "map_of t2 (slashed (ds @ [g])) = Some (File d)"
  proof -
    have g: "plain_path (ds @ [g])" using plain_here(1) [OF ds that(1)] .
    have "map_of t3 (slashed (ds @ [g])) = Some (File d)"
      using written_beside(2) [OF steps(1) ok plain(1) g] that(2,3) by blast
    then show ?thesis using later [OF g] that(2) by blast
  qed
qed



definition sample_tool :: release_tool where
  "sample_tool =
     \<lparr>tl_Exec = (\<lambda>args env t. (None, map_set t (args ! (length args - 2)) (File (hd env)))),
      tl_Output = (\<lambda>_. Inr []),
      tl_Decode = (\<lambda>_. [Inr (Module ''aifar.io/runtime'' [] True None), Inr (Module ''gopkg.in/yaml.v3'' ''v3.0.1'' False None)]),
      tl_sbom = (\<lambda>doc. itoa (int (length (sd_Packages doc)))),
      tl_manifest = (\<lambda>m. concat (map ar_SHA256 (mf_Artifacts m))), tl_buildInfo = (\<lambda>m. get_str m ''goos''),
      tl_sha256 = take 3, tl_tar = (\<lambda>es. itoa (int (length es))), tl_zip = (\<lambda>es. itoa (int (length es))), tl_now = ''now''\<rparr>"

definition sample_release :: releaseConfig where
  "sample_release =
     \<lparr>rc_App = ''rt'', rc_Package = ''./cmd'', rc_Version = ''1'', rc_Commit = ''c'', rc_BuildDate = ''now'',
      rc_DistDir = ''dist'',
      rc_Targets = [\<lparr>tg_OS = ''linux'', tg_Arch = ''amd64''\<rparr>],
      rc_GoCommand = ''go'', rc_SBOMOnly = False\<rparr>"

definition sample_sources :: "(string list \<times> node) list" where
  "sample_sources =
     [([''README.md''], File ''readme''), ([''SKILL.md''], File ''skill''), ([''deploy''], Dir), ([''deploy'', ''systemd''], Dir),
      ([''runtimes''], Dir), ([''docs''], Dir)]"

definition sample_tree :: tree where
  "sample_tree = map (apfst slashed) sample_sources"


section \<open>The SPDX document\<close>

lemma add_modules:
  "sd_Packages (fold (add_module config) ms doc) = sd_Packages doc @ map (module_package config) ms \<and>
   sd_Relationships (fold (add_module config) ms doc) = sd_Relationships doc @
     map (\<lambda>m. \<lparr>rl_Element = spdxIDForModule (rc_App config), rl_Type = ''DEPENDS_ON'',
        rl_Related = pk_SPDXID (module_package config m)\<rparr>) (filter has_purl ms)"
  by (induction ms arbitrary: doc) (simp_all add: add_module_def Let_def)



text \<open>Different modules can have the same SPDX identifier, which must be unique in a document.\<close>

lemma spdx_identifiers_collide:
  "spdxIDForModule ''github.com/acme/go_log'' = spdxIDForModule ''github.com/acme-go/log''"
  by code_simp

text \<open>A module that is replaced is listed under the path and version that were not built.\<close>

lemma sbom_ignores_replacements:
  "module_package config (Module path version main replacement) = module_package config (Module path version main None)"
  by (simp add: module_package_def has_purl_def)

end
