(* ===== verification/Logging.thy ===== *)
theory Logging
  imports GoText
begin

text \<open>
  The structured log writer of \<open>logging.go\<close>: every line of the text that the logger writes becomes a
  JSON object on a line of its own. The clock, \<open>json.Marshal\<close> of a string map and the writer behind
  are parameters over a world \<open>'w\<close>. The lock makes a write one step.
\<close>

record 'w LogSink =
  lg_Now :: "'w \<Rightarrow> string \<times> 'w"
  lg_Marshal :: "string gomap \<Rightarrow> string"
  lg_Write :: "string \<Rightarrow> 'w \<Rightarrow> string option \<times> 'w"

definition log_entry :: "string \<Rightarrow> string \<Rightarrow> string gomap" where
  "log_entry ts message = [(''ts'', ts), (''level'', ''info''), (''message'', message)]"

fun log_lines :: "'w LogSink \<Rightarrow> string list \<Rightarrow> 'w \<Rightarrow> string option \<times> 'w" where
  "log_lines out [] w = (None, w)"
| "log_lines out (line # lines) w =
     (let message = trim_space line
      in if message = [] then log_lines out lines w
         else case lg_Now out w of (ts, w) \<Rightarrow>
              (case lg_Write out (lg_Marshal out (log_entry ts message) @ newline) w of
                 (Some e, w) \<Rightarrow> (Some e, w)
               | (None, w) \<Rightarrow> log_lines out lines w))"

text \<open>The number of bytes taken, or the error of the writer behind.\<close>

definition log_write :: "'w LogSink \<Rightarrow> string \<Rightarrow> 'w \<Rightarrow> (string + nat) \<times> 'w" where
  "log_write out data w =
     (case log_lines out (split_on (CHR 0x0A) data) w of
        (Some e, w) \<Rightarrow> (Inl e, w)
      | (None, w) \<Rightarrow> (Inr (length data), w))"

text \<open>\<open>io.Discard\<close> takes everything.\<close>

definition NewStructuredLogWriter :: "'w LogSink option \<Rightarrow> string \<Rightarrow> 'w \<Rightarrow> (string + nat) \<times> 'w" where
  "NewStructuredLogWriter sink data w = (case sink of None \<Rightarrow> (Inr (length data), w) | Some out \<Rightarrow> log_write out data w)"

section \<open>What is written\<close>

text \<open>A writer that keeps what it takes and fails, if at all, at a given number of entries.\<close>

definition memory_sink :: "(string gomap \<Rightarrow> string) \<Rightarrow> (nat \<Rightarrow> string option) \<Rightarrow> string list LogSink" where
  "memory_sink marshal fails =
     \<lparr>lg_Now = (\<lambda>w. (itoa (int (length w)), w)), lg_Marshal = marshal,
      lg_Write = (\<lambda>text w. case fails (length w) of Some e \<Rightarrow> (Some e, w) | None \<Rightarrow> (None, w @ [text]))\<rparr>"

definition messages :: "string \<Rightarrow> string list" where
  "messages data = filter (\<lambda>m. m \<noteq> []) (map trim_space (split_on (CHR 0x0A) data))"

definition stamped :: "(string gomap \<Rightarrow> string) \<Rightarrow> nat \<Rightarrow> string list \<Rightarrow> string list" where
  "stamped marshal n ms = map (\<lambda>(i, m). marshal (log_entry (itoa (int i)) m) @ newline) (enumerate n ms)"

lemma log_lines_memory:
  "\<exists>k. snd (log_lines (memory_sink marshal fails) lines w) =
       w @ stamped marshal (length w) (take k (filter (\<lambda>m. m \<noteq> []) (map trim_space lines))) \<and>
     (case fst (log_lines (memory_sink marshal fails) lines w) of
        None \<Rightarrow> k = length (filter (\<lambda>m. m \<noteq> []) (map trim_space lines))
      | Some e \<Rightarrow> k < length (filter (\<lambda>m. m \<noteq> []) (map trim_space lines)) \<and> fails (length w + k) = Some e)"
proof (induction lines arbitrary: w)
  case Nil
  then show ?case by (simp add: stamped_def)
next
  case (Cons line lines)
  let ?ms = "filter (\<lambda>m. m \<noteq> []) (map trim_space lines)"
  show ?case
  proof (cases "trim_space line = []")
    case True
    then show ?thesis using Cons.IH [of w] by (simp cong: option.case_cong)
  next
    case False
    let ?entry = "marshal (log_entry (itoa (int (length w))) (trim_space line)) @ newline"
    show ?thesis
    proof (cases "fails (length w)")
      case None
      then have step: "log_lines (memory_sink marshal fails) (line # lines) w =
          log_lines (memory_sink marshal fails) lines (w @ [?entry])"
        using False by (simp add: memory_sink_def)
      obtain k where k: "snd (log_lines (memory_sink marshal fails) lines (w @ [?entry])) =
            (w @ [?entry]) @ stamped marshal (Suc (length w)) (take k ?ms)"
          "case fst (log_lines (memory_sink marshal fails) lines (w @ [?entry])) of
             None \<Rightarrow> k = length ?ms | Some e \<Rightarrow> k < length ?ms \<and> fails (Suc (length w) + k) = Some e"
        using Cons.IH [of "w @ [?entry]"] unfolding length_append_singleton by blast
      show ?thesis
        unfolding step by (rule exI [of _ "Suc k"]) (use False k in \<open>auto simp: stamped_def split: option.splits\<close>)
    next
      case (Some e)
      then show ?thesis using False by (intro exI [of _ 0]) (simp add: memory_sink_def stamped_def)
    qed
  qed
qed

text \<open>C25: the log writer writes the JSON of every line that is not blank, in order and each on its own line; it
  reports the whole text as written, or the error of the first entry that the writer behind refused, after
  exactly the entries before it.\<close>

theorem log_write_exact:
  "\<exists>k. snd (NewStructuredLogWriter (Some (memory_sink marshal fails)) data w) =
         w @ stamped marshal (length w) (take k (messages data)) \<and>
     (case fst (NewStructuredLogWriter (Some (memory_sink marshal fails)) data w) of
        Inr n \<Rightarrow> k = length (messages data) \<and> n = length data
      | Inl e \<Rightarrow> k < length (messages data) \<and> fails (length w + k) = Some e)"
  using log_lines_memory [of marshal fails "split_on (CHR 0x0A) data" w]
  by (auto simp: NewStructuredLogWriter_def log_write_def messages_def split: prod.splits option.splits)

end
