(* ===== verification/Spec2Isabelle.thy ===== *)
theory Spec2Isabelle
  imports Contract Durable ServerProps ClientProps ReleaseProps Logging
begin

text \<open>
  \<^bold>\<open>The program.\<close> \<open>aifar-runtime\<close> is an agent for one node. A client sends it Runtime resources over
  HTTP; the agent normalises, validates and admits a Runtime, drives Docker until the wanted
  containers run, publishes their endpoints behind its own HTTP proxy, writes the resource, its
  status and its events to disk, and restarts containers that fail. \<open>internal/runtimeagent\<close> is the
  library of the agent, \<open>cmd/aifar-runtime/main.go\<close> the server and the command line around it,
  \<open>tools/release\<close> the tool that builds its archives.

  \<^bold>\<open>Pure parts.\<close>
  \<^item> \<open>Prelude\<close>, \<open>GoCodec\<close>, \<open>GoText\<close>: what the sources use of Go's standard library. A string is a
    list of bytes, a map an association list, an \<open>int64\<close> an integer with wrap-around written out.
  \<^item> \<open>RuntimeTypes\<close>, \<open>Normalize\<close>, \<open>Validate\<close>, \<open>Parse\<close>: the resource contract of \<open>spec.go\<close>, in the
    order of that file. A struct is a record whose fields carry a prefix, an error a constructor.
    \<open>Samples\<close> holds the resources that witnesses evaluate; \<open>Contract\<close> the theorems.
  \<^item> \<open>Config\<close>: \<open>config.go\<close>. \<open>Scheduler\<close>: \<open>scheduler.go\<close> and the node of \<open>node.go\<close>, with its theorems.
    \<open>Status\<close>: \<open>status.go\<close>. \<open>Routing\<close>: \<open>ingress.go\<close>, \<open>route_state.go\<close>, the request path of
    \<open>proxy.go\<close> and the endpoint choice of \<open>service.go\<close>, over the record \<open>ManagerState\<close>, which holds
    the maps of the \<open>Manager\<close> struct.

  \<^bold>\<open>The manager.\<close> Its operations act on the state \<open>Agent\<close>: the \<open>ManagerState\<close>, a world of a type the
  model leaves open, and a ghost list of the Docker commands run. \<open>Env\<close> is a record of what an
  operation takes from outside: the command runner, the state store, the clock, the listeners,
  the texts. An operation is an \<open>act\<close>, a function from an agent to an error or a value and the
  agent it leaves, so every early return keeps what was done before it.
  \<^item> \<open>Agent\<close>: the state, the errors, the store and runner interfaces, \<open>runner.go\<close>.
  \<^item> \<open>Restarts\<close>: the records of self-healing and the updates of a status (\<open>self_heal.go\<close>, \<open>manager.go\<close>).
  \<^item> \<open>Container\<close>: \<open>container.go\<close>. \<open>Reconcile\<close>: \<open>self_heal.go\<close>, \<open>deployment.go\<close>, the discovery of
    \<open>service.go\<close>.
  \<^item> \<open>Manager\<close>: \<open>manager.go\<close>, \<open>rollback.go\<close>, \<open>reconcile.go\<close>, \<open>metrics.go\<close>, the listeners of \<open>proxy.go\<close>.
  \<^item> \<open>AuditLog\<close>: \<open>audit.go\<close>. \<open>Store\<close>: \<open>store.go\<close>. Both act on a map from paths to contents.
  \<^item> \<open>Api\<close>, \<open>Server\<close>: \<open>main.go\<close>: paths, policies, audit events, metrics, the handlers, and the two
    layers around them. The state \<open>Server\<close> is an agent and the files of the audit log.
  \<^item> \<open>Serve\<close>: \<open>serve\<close> of \<open>main.go\<close>, the periodic resync of \<open>reconcile.go\<close> and \<open>docker_events.go\<close>. A run
    is a list of activities (requests, proxied requests, turns of the two loops, changes outside).

  \<^bold>\<open>Around the server.\<close>
  \<^item> \<open>GoNet\<close>: escapes and query strings of \<open>net/url\<close>, integers of any base, the flags of \<open>flag\<close>.
  \<^item> \<open>Client\<close>: the commands of \<open>main.go\<close> over a \<open>Machine\<close> (files, standard input, what is printed, the
    world behind \<open>net/http\<close> and Docker). \<open>ClientProps\<close>: the client connected to the server of \<open>Server\<close>.
  \<^item> \<open>Logging\<close>: \<open>logging.go\<close>.
  \<^item> \<open>Release\<close>: \<open>tools/release/main.go\<close> over a tree of files and directories; a step is a \<open>job\<close>, which
    fails or returns and leaves a tree. \<open>ReleaseProps\<close>: what a release promises.

  \<^bold>\<open>How the proofs are organised.\<close> \<open>Steps\<close> and \<open>Operations\<close> prove once what an action can do. The
  locale \<open>agent_relation\<close> takes a reflexive and transitive relation on agents and shows that
  sequencing respects it; \<open>start_step\<close> adds the elementary effects of starting a container,
  \<open>reconcile_step\<close> those of a reconciliation, \<open>operation_step\<close> those of the operations, and
  \<open>manager_step\<close> concludes for each operation and for \<open>reachable\<close>, the state machine that performs
  operations in any order while the outside changes at will. An invariant is one interpretation:
  \<open>wf\<close> and \<open>streaks\<close> in \<open>Invariants\<close>, \<open>stores\<close> in \<open>ApplyProps\<close>, \<open>safe\<close>, \<open>traced\<close>, \<open>unrecorded\<close> in
  \<open>ContainerProps\<close> (properties of the Docker commands), \<open>untouched\<close> in \<open>RollbackProps\<close>, \<open>looking\<close> in
  \<open>ServerProps\<close>, \<open>reaching\<close> in \<open>Serve\<close>. \<open>Outcomes\<close> follows an \<open>Apply\<close> and a \<open>Remove\<close> that succeed; the
  locale \<open>file_manager\<close> of \<open>Durable\<close> composes them with the store of \<open>Store\<close>. \<open>leaves\<close> in \<open>ReleaseProps\<close>
  is a postcondition calculus for the jobs of a release. The locale \<open>keyed_steps\<close> of \<open>StoreProps\<close> is the contract of copying resources key
  by key, interpreted for Runtimes, statuses and events. \<open>idempotent_op\<close>, \<open>request_field\<close> and
  \<open>runtime_scheduler\<close> are the interfaces of the pure parts: a string clean-up, one of the three
  resources of a node, and a scheduler that admits Runtimes one after the other.

  \<^bold>\<open>What is shown.\<close>
  \<^item> State: every run of the service, however its activities interleave, passes through reachable
    states only; every reachable state is well formed; no failure streak passes the configured limit; the
    known Runtimes stay free of port conflicts through success, failure and rollback of \<open>Apply\<close>.
  \<^item> Errors: a refused Runtime changes nothing and runs no command; a rollback restores the previous
    record; one long event makes an event log unreadable, and one escaped template token the state.
  \<^item> Docker: a rolling update removes the old container after the new one is ready; self-healing
    obeys its limit and its backoff; waiting ends; a container that is started is found again.
  \<^item> Server: only an authorised caller changes the manager and the audit log names that caller; a
    client's URL denotes the resource it was built for, an audit query the same filters. The
    commands \<open>apply\<close> and \<open>reconcile\<close> are always refused, whatever Runtime they send.
  \<^item> Outcomes: a successful \<open>Apply\<close> serves exactly the new routes beside those of the others, a successful
    \<open>Remove\<close> forgets everything; both survive a restart on the same files.
  \<^item> Files: the store refines a map from keys, the audit log a ring of segments; a backup restores.
  \<^item> Contract: validation, configuration and port conflicts decide exactly their declarative
    specifications; quantities are exact; normalisation settles in two passes; codecs round-trip.
  \<^item> Proxy: the most specific route wins; forwarding stays within the service.
  \<^item> Release: recorded hashes are those of the archives on disk, which hold the recorded binary and the
    SPDX document; the relationships of that document lead to its packages. The log writer writes
    one object for each line.

  \<^bold>\<open>Bounds and fuel.\<close> \<open>env_Fuel\<close> bounds the rounds of the polling loop of \<open>waitContainerReady\<close>, which ends
  with \<open>OutOfFuel\<close> when they are used up; the code has no such error. \<open>wait_terminates\<close> shows that
  timeout / interval + 2 rounds are enough when the clock advances by an interval a round. The two
  background loops of \<open>Serve\<close> run until their context is cancelled and have fuel of their own;
  what is shown of a run holds for every amount of it, so for every prefix of a loop. Every other
  recursion is structural or has a measure.

  \<^bold>\<open>Not modelled.\<close>
  \<^item> Outside: Docker, the YAML and JSON libraries, SHA-256 over JSON, \<open>fmt\<close> with numbers and times, and
    the operating system are parameters. Properties that need something of them assume it by name.
  \<^item> Concurrency: an operation is one action, as \<open>reconcileMu\<close> makes it, and the loops and requests of a
    run take turns; queries between two critical sections of an operation, and the locks themselves,
    are left out. So are deadlines of a context.
  \<^item> Identity: \<open>cloneRuntime\<close> and the copies of \<open>copy.go\<close> are the identity; what the first
    normalisation writes into the caller's shared slices is in \<open>Normalize\<close>.
  \<^item> Order: \<open>sort.Slice\<close> is a stable sort; a map is visited in the order of its list.
  \<^item> Text: \<open>ToLower\<close> and \<open>EqualFold\<close> are exact on ASCII; \<open>%q\<close> adds plain quotes; request paths need no
    escaping; answers keep the value that is encoded and not its bytes or its headers.
  \<^item> Files: the audit log and the store fail only for missing or undecodable content, the files of the
    release tool only for missing entries or entries of the wrong kind.
  \<^item> Left out: the process runner (a call of the operating system), the usage text, the listener of the
    API with its TLS set-up and timeouts, and the log messages of the loops.
\<close>

end
